(* ===== verification/Prelude.thy ===== *)
theory Prelude
  imports Main "HOL-Library.Word"
begin

text \<open>
  What the components share: the actions that thread a state and may raise, the character
  classes of the regular expressions in the sources, and list lemmas.

  A method of the program that mutates an object (or a transaction that mutates the
  database) and may throw is an \<open>act\<close>: it maps the state before to an outcome and the state
  after, so that what a throw leaves behind is part of the model. \<open>Inl\<close> carries the
  error thrown, \<open>Inr\<close> the value returned.
\<close>

subsection \<open>Actions: a state and an exception\<close>

type_synonym ('e, 'a, 's) act = "'s \<Rightarrow> ('e + 'a) \<times> 's"

definition returnM :: "'a \<Rightarrow> ('e, 'a, 's) act" where
  "returnM a s = (Inr a, s)"

definition throwM :: "'e \<Rightarrow> ('e, 'a, 's) act" where
  "throwM e s = (Inl e, s)"

definition modifyM :: "('s \<Rightarrow> 's) \<Rightarrow> ('e, unit, 's) act" where
  "modifyM f s = (Inr (), f s)"

text \<open>\<open>guardM c e\<close> is \<open>if (!c) throw e\<close>.\<close>

definition guardM :: "bool \<Rightarrow> 'e \<Rightarrow> ('e, unit, 's) act" where
  "guardM c e s = (if c then (Inr (), s) else (Inl e, s))"

definition whenM :: "bool \<Rightarrow> ('e, unit, 's) act \<Rightarrow> ('e, unit, 's) act" where
  "whenM c m s = (if c then m s else (Inr (), s))"

definition seqM :: "('e, 'a, 's) act \<Rightarrow> ('a \<Rightarrow> ('e, 'b, 's) act) \<Rightarrow> ('e, 'b, 's) act" where
  "seqM m k s = (case m s of (Inl e, t) \<Rightarrow> (Inl e, t) | (Inr a, t) \<Rightarrow> k a t)"

text \<open>A block of statements, run in order until one throws.\<close>

fun block :: "('e, unit, 's) act list \<Rightarrow> ('e, unit, 's) act" where
  "block [] s = (Inr (), s)"
| "block (m # ms) s = (case m s of (Inl e, t) \<Rightarrow> (Inl e, t) | (Inr _, t) \<Rightarrow> block ms t)"

text \<open>
  The simplifier reads an action by its two outcomes: the rules below turn
  \<open>m s = (Inr a, t)\<close> and \<open>m s = (Inl e, t)\<close> into conditions on its parts, so that no proof
  splits the case expressions of \<open>seqM\<close> and \<open>block\<close> itself.
\<close>

lemma returnM_ok [simp]: "returnM a s = (Inr b, t) \<longleftrightarrow> b = a \<and> t = s"
  and returnM_err [simp]: "returnM a s \<noteq> (Inl e, t)"
  by (auto simp: returnM_def)

lemma throwM_ok [simp]: "throwM e s \<noteq> (Inr b, t)"
  and throwM_err [simp]: "throwM e s = (Inl e', t) \<longleftrightarrow> e' = e \<and> t = s"
  by (auto simp: throwM_def)

lemma modifyM_ok [simp]: "modifyM f s = (Inr u, t) \<longleftrightarrow> t = f s"
  and modifyM_err [simp]: "modifyM f s \<noteq> (Inl e, t)"
  by (auto simp: modifyM_def)

lemma guardM_ok [simp]: "guardM c e s = (Inr u, t) \<longleftrightarrow> c \<and> t = s"
  and guardM_err [simp]: "guardM c e s = (Inl e', t) \<longleftrightarrow> \<not> c \<and> e' = e \<and> t = s"
  by (auto simp: guardM_def)

lemma whenM_ok [simp]:
    "whenM c m s = (Inr u, t) \<longleftrightarrow> c \<and> m s = (Inr u, t) \<or> \<not> c \<and> t = s"
  and whenM_err [simp]: "whenM c m s = (Inl e, t) \<longleftrightarrow> c \<and> m s = (Inl e, t)"
  by (auto simp: whenM_def)

lemma seqM_ok [simp]:
    "seqM m k s = (Inr b, t) \<longleftrightarrow> (\<exists>a s'. m s = (Inr a, s') \<and> k a s' = (Inr b, t))"
  and seqM_err [simp]:
    "seqM m k s = (Inl e, t) \<longleftrightarrow>
       m s = (Inl e, t) \<or> (\<exists>a s'. m s = (Inr a, s') \<and> k a s' = (Inl e, t))"
  by (auto simp: seqM_def split: prod.splits sum.splits)

lemma block_Nil_ok [simp]: "block [] s = (Inr u, t) \<longleftrightarrow> t = s"
  and block_Nil_err [simp]: "block [] s \<noteq> (Inl e, t)"
  by auto

lemma block_ok [simp]:
    "block (m # ms) s = (Inr u, t) \<longleftrightarrow> (\<exists>s'. m s = (Inr (), s') \<and> block ms s' = (Inr u, t))"
  and block_err [simp]:
    "block (m # ms) s = (Inl e, t) \<longleftrightarrow>
       m s = (Inl e, t) \<or> (\<exists>s'. m s = (Inr (), s') \<and> block ms s' = (Inl e, t))"
  by (auto split: prod.splits sum.splits)

declare block.simps(2) [simp del]

text \<open>Collections: the encoders with their decoders, and the evaluation of a concrete action, for the witnesses.\<close>

named_theorems codec "what the checks and decoders make of an encoded value"

lemmas act_eval = returnM_def throwM_def modifyM_def guardM_def whenM_def seqM_def block.simps

subsection \<open>Character classes\<close>

definition digits :: string where "digits = ''0123456789''"
definition lower :: string where "lower = ''abcdefghijklmnopqrstuvwxyz''"
definition upper :: string where "upper = ''ABCDEFGHIJKLMNOPQRSTUVWXYZ''"

definition hex_digits :: string where "hex_digits = ''0123456789abcdef''"

text \<open>
  \<open>class_match f r n s\<close> is the test of \<open>/^[f][r]{0,n}$/\<close>, the shape of most of the
  regular expressions in the sources.
\<close>

fun class_match :: "string \<Rightarrow> string \<Rightarrow> nat \<Rightarrow> string \<Rightarrow> bool" where
  "class_match f r n [] = False"
| "class_match f r n (c # cs) = (c \<in> set f \<and> length cs \<le> n \<and> list_all (\<lambda>d. d \<in> set r) cs)"

lemma class_match_length: "class_match f r n s \<Longrightarrow> s \<noteq> [] \<and> length s \<le> Suc n"
  by (cases s) auto

subsection \<open>Lists\<close>

lemma distinct_key:
  "distinct (map f xs) \<Longrightarrow> x \<in> set xs \<Longrightarrow> y \<in> set xs \<Longrightarrow> f x = f y \<Longrightarrow> x = y"
  unfolding distinct_map by (blast dest: inj_onD)

lemma find_distinct_key:
  assumes "distinct (map f xs)" and "x \<in> set xs"
  shows "find (\<lambda>y. f y = f x) xs = Some x"
  using assms by (induction xs) auto

lemma find_None_key: "find (\<lambda>y. f y = k) xs = None \<longleftrightarrow> k \<notin> f ` set xs"
  by (auto simp: find_None_iff)

lemma find_Some_mem: "find P xs = Some x \<Longrightarrow> x \<in> set xs \<and> P x"
  by (auto simp: find_Some_iff)

lemma map_key_update:
  assumes "\<And>x. f (g x) = f x"
  shows "map f (map (\<lambda>x. if P x then g x else x) xs) = map f xs"
  using assms by simp

lemma find_map_other:
  "(\<And>x. P (g x) = P x) \<Longrightarrow> find P (map g xs) = map_option g (find P xs)"
  by (induction xs) auto

lemma find_append:
  "find P (xs @ ys) = (case find P xs of None \<Rightarrow> find P ys | Some x \<Rightarrow> Some x)"
  by (induction xs) auto

lemma find_unique:
  "x \<in> set xs \<Longrightarrow> P x \<Longrightarrow> (\<And>y. y \<in> set xs \<Longrightarrow> P y \<Longrightarrow> y = x) \<Longrightarrow> find P xs = Some x"
proof (induction xs)
  case (Cons a xs)
  show ?case
  proof (cases "P a")
    case True
    with Cons.prems(3) [of a] show ?thesis by simp
  next
    case False
    with Cons.prems(1,2) have "x \<in> set xs" by auto
    then have "find P xs = Some x"
      by (rule Cons.IH) (use Cons.prems(2,3) list.set_intros(2) in metis)+
    with False show ?thesis by simp
  qed
qed simp

end
