(* ===== verification/Privacy_Request.thy ===== *)
theory Privacy_Request
  imports Prelude
begin

text \<open>
  The privacy-request aggregate of \<^verbatim>\<open>packages/domain/src/privacy-request\<close>: its status
  table, its commands, and the events and execution attempts they record. Every method is an
  action on the aggregate, with the guards in the order of the code; time stamps are the ISO
  strings the clock returns, and a clock reading is an argument of the methods that take one.
\<close>

subsection \<open>Data\<close>

datatype privacy_request_status =
    Created | IdentityVerificationPending | IdentityVerified | Planning | AwaitingApproval
  | ExecutionAuthorized | Executing | NeedsReview | Completed | PartiallyCompleted | Failed
  | Cancelled

datatype privacy_request_type = Delete | Export

datatype privacy_request_source = Admin | PrivacyPortal | Api

fun transitions :: "privacy_request_status \<Rightarrow> privacy_request_status list" where
  "transitions Created = [IdentityVerificationPending, IdentityVerified, Cancelled]"
| "transitions IdentityVerificationPending = [IdentityVerified, Failed, Cancelled]"
| "transitions IdentityVerified = [Planning, Cancelled]"
| "transitions Planning = [AwaitingApproval, ExecutionAuthorized, Failed, Cancelled]"
| "transitions AwaitingApproval = [ExecutionAuthorized, Planning, Cancelled]"
| "transitions ExecutionAuthorized = [Executing, AwaitingApproval, Cancelled]"
| "transitions Executing = [Completed, PartiallyCompleted, Failed, NeedsReview]"
| "transitions Completed = []"
| "transitions PartiallyCompleted = [Planning, ExecutionAuthorized, NeedsReview, Completed]"
| "transitions Failed = [Planning, ExecutionAuthorized, NeedsReview, Cancelled]"
| "transitions NeedsReview =
     [Planning, ExecutionAuthorized, PartiallyCompleted, Completed, Cancelled]"
| "transitions Cancelled = []"

datatype event_value =
    EStr string | ENum int | EBool bool | ENull | EStrs "string list"

record domain_event =
  ev_type :: string
  ev_payload :: "(string \<times> event_value) list"

record plan_binding =
  planId :: string
  planVersion :: int
  planFingerprint :: string

record attached_plan = plan_binding +
  requiresApproval :: bool

record plan_approval = plan_binding +
  decidedBy :: string

record execution_authorization = plan_binding +
  agentId :: string
  attemptId :: string
  allowedStepIds :: "string list"

datatype attempt_kind = Initial | Retry

datatype execution_attempt_status =
    APlanned | AAwaitingApproval | AAuthorized | ARunning | ASucceeded | APartiallySucceeded
  | AFailed | ANeedsReview | ACancelled

record execution_attempt =
  att_id :: string
  att_requestId :: string
  att_attemptNumber :: nat
  att_kind :: attempt_kind
  att_planId :: string
  att_planVersion :: int
  att_planFingerprint :: string
  att_allowedStepIds :: "string list"
  att_status :: execution_attempt_status
  att_createdAt :: string
  att_completedAt :: "string option"

datatype domain_error =
    StateConflictError privacy_request_status privacy_request_status
  | PlanVersionMismatchError
  | RangeError string

record create_privacy_request =
  cr_id :: string
  cr_environmentId :: string
  cr_type :: privacy_request_type
  cr_source :: privacy_request_source
  cr_policyVersion :: int
  cr_createdByActorId :: string
  cr_deadlineAt :: string

record aggregate =
  pr_id :: string
  pr_environmentId :: string
  pr_type :: privacy_request_type
  pr_source :: privacy_request_source
  pr_policyVersion :: int
  pr_createdByActorId :: string
  pr_deadlineAt :: string
  pr_status :: privacy_request_status
  pr_version :: int
  pr_currentAttemptId :: "string option"
  pr_plan :: "attached_plan option"
  pr_approval :: "plan_approval option"
  pr_latestPlanVersion :: int
  pr_attempts :: "execution_attempt list"
  pr_events :: "domain_event list"

record privacy_request_snapshot =
  sn_id :: string
  sn_environmentId :: string
  sn_type :: privacy_request_type
  sn_source :: privacy_request_source
  sn_status :: privacy_request_status
  sn_policyVersion :: int
  sn_createdByActorId :: string
  sn_deadlineAt :: string
  sn_version :: int
  sn_currentAttemptId :: "string option"
  sn_plan :: "attached_plan option"
  sn_approval :: "plan_approval option"

type_synonym 'a request_act = "(domain_error, 'a, aggregate) act"

text \<open>The values of the two unions as the strings the events carry.\<close>

fun type_value :: "privacy_request_type \<Rightarrow> string" where
  "type_value Delete = ''delete''"
| "type_value Export = ''export''"

fun source_value :: "privacy_request_source \<Rightarrow> string" where
  "source_value Admin = ''admin''"
| "source_value PrivacyPortal = ''privacy_portal''"
| "source_value Api = ''api''"

subsection \<open>Normalisers\<close>

definition event :: "string \<Rightarrow> (string \<times> event_value) list \<Rightarrow> domain_event" where
  "event ty payload = \<lparr>ev_type = ty, ev_payload = payload\<rparr>"

definition normalizeAllowedStepIds :: "string list \<Rightarrow> string list request_act" where
  "normalizeAllowedStepIds steps =
     (if steps = [] \<or> (\<exists>x \<in> set steps. x = []) \<or> \<not> distinct steps
      then throwM (RangeError ''EXECUTION_ATTEMPT_STEP_SCOPE_INVALID'')
      else returnM steps)"

definition audit_reason_ok :: "string \<Rightarrow> bool" where
  "audit_reason_ok reason = class_match (lower @ digits) (lower @ digits @ ''_:-'') 63 reason"

definition normalizeAuditReason :: "string \<Rightarrow> string request_act" where
  "normalizeAuditReason reason =
     (if \<not> audit_reason_ok reason then throwM (RangeError ''AUDIT_REASON_INVALID'')
      else returnM reason)"

definition normalizeAuthorization ::
  "execution_authorization \<Rightarrow> execution_authorization request_act" where
  "normalizeAuthorization input =
     seqM (normalizeAllowedStepIds (allowedStepIds input))
       (\<lambda>steps. returnM (input\<lparr>allowedStepIds := steps\<rparr>))"

subsection \<open>Private helpers of the class\<close>

definition assertStatus ::
  "privacy_request_status \<Rightarrow> privacy_request_status \<Rightarrow> unit request_act" where
  "assertStatus expected target s =
     guardM (pr_status s = expected) (StateConflictError (pr_status s) target) s"

definition assertCanTransition :: "privacy_request_status \<Rightarrow> unit request_act" where
  "assertCanTransition nxt s =
     guardM (nxt \<in> set (transitions (pr_status s))) (StateConflictError (pr_status s) nxt) s"

definition binds :: "'a plan_binding_scheme \<Rightarrow> 'b plan_binding_scheme \<Rightarrow> bool" where
  "binds p b \<longleftrightarrow> planId p = planId b \<and> planVersion p = planVersion b \<and>
                 planFingerprint p = planFingerprint b"

definition assertPlanBinding :: "'a plan_binding_scheme \<Rightarrow> unit request_act" where
  "assertPlanBinding b s =
     guardM (case pr_plan s of None \<Rightarrow> False | Some p \<Rightarrow> binds p b) PlanVersionMismatchError s"

definition record_event :: "domain_event \<Rightarrow> unit request_act" where
  "record_event e = modifyM (\<lambda>s. s\<lparr>pr_version := pr_version s + 1, pr_events := pr_events s @ [e]\<rparr>)"

definition transition :: "privacy_request_status \<Rightarrow> domain_event \<Rightarrow> unit request_act" where
  "transition nxt e = block
     [assertCanTransition nxt, modifyM (\<lambda>s. s\<lparr>pr_status := nxt\<rparr>), record_event e]"

definition buildAttempt ::
  "string \<Rightarrow> attempt_kind \<Rightarrow> 'a plan_binding_scheme \<Rightarrow> string list \<Rightarrow>
   execution_attempt_status \<Rightarrow> string \<Rightarrow> execution_attempt request_act" where
  "buildAttempt aid kind b steps st now s =
     (if aid = [] \<or> (\<exists>a \<in> set (pr_attempts s). att_id a = aid)
      then throwM (RangeError ''EXECUTION_ATTEMPT_ID_INVALID'') s
      else returnM
        \<lparr>att_id = aid, att_requestId = pr_id s,
         att_attemptNumber = length (pr_attempts s) + 1, att_kind = kind,
         att_planId = planId b, att_planVersion = planVersion b,
         att_planFingerprint = planFingerprint b, att_allowedStepIds = steps,
         att_status = st, att_createdAt = now, att_completedAt = None\<rparr> s)"

definition appendAttempt :: "execution_attempt \<Rightarrow> unit request_act" where
  "appendAttempt a = modifyM
     (\<lambda>s. s\<lparr>pr_attempts := pr_attempts s @ [a], pr_currentAttemptId := Some (att_id a)\<rparr>)"

definition requiredCurrentAttempt :: "execution_attempt request_act" where
  "requiredCurrentAttempt s =
     (case find (\<lambda>a. Some (att_id a) = pr_currentAttemptId s) (pr_attempts s) of
        None \<Rightarrow> throwM (RangeError ''EXECUTION_ATTEMPT_NOT_FOUND'') s
      | Some a \<Rightarrow> returnM a s)"

definition updatedCurrentAttempt ::
  "execution_attempt_status \<Rightarrow> string option \<Rightarrow> execution_attempt request_act" where
  "updatedCurrentAttempt st completedAt =
     seqM requiredCurrentAttempt
       (\<lambda>a. returnM (a\<lparr>att_status := st, att_completedAt := completedAt\<rparr>))"

definition applyAttemptUpdate :: "execution_attempt \<Rightarrow> unit request_act" where
  "applyAttemptUpdate u = modifyM (\<lambda>s. s\<lparr>pr_attempts :=
     map (\<lambda>a. if att_id a = att_id u then u else a) (pr_attempts s)\<rparr>)"

subsection \<open>Construction\<close>

definition create :: "create_privacy_request \<Rightarrow> aggregate" where
  "create i =
     \<lparr>pr_id = cr_id i, pr_environmentId = cr_environmentId i, pr_type = cr_type i,
      pr_source = cr_source i, pr_policyVersion = cr_policyVersion i,
      pr_createdByActorId = cr_createdByActorId i, pr_deadlineAt = cr_deadlineAt i,
      pr_status = Created, pr_version = 1, pr_currentAttemptId = None, pr_plan = None,
      pr_approval = None, pr_latestPlanVersion = 0, pr_attempts = [],
      pr_events = [event ''PrivacyRequestCreated''
        [(''requestId'', EStr (cr_id i)), (''environmentId'', EStr (cr_environmentId i)),
         (''type'', EStr (type_value (cr_type i))), (''source'', EStr (source_value (cr_source i))),
         (''policyVersion'', ENum (cr_policyVersion i))]]\<rparr>"

subsection \<open>Commands\<close>

definition beginIdentityVerification :: "string \<Rightarrow> unit request_act" where
  "beginIdentityVerification actorId s =
     transition IdentityVerificationPending
       (event ''IdentityVerificationRequested''
         [(''requestId'', EStr (pr_id s)), (''actorId'', EStr actorId)]) s"

definition markIdentityVerified :: "string \<Rightarrow> unit request_act" where
  "markIdentityVerified actorId s =
     transition IdentityVerified
       (event ''IdentityVerified''
         [(''requestId'', EStr (pr_id s)), (''actorId'', EStr actorId)]) s"

definition beginPlanning :: "string \<Rightarrow> unit request_act" where
  "beginPlanning agent s = block
     [assertStatus IdentityVerified Planning,
      transition Planning
        (event ''PlanningRequested''
          [(''requestId'', EStr (pr_id s)), (''agentId'', EStr agent)])] s"

definition attachPlan :: "attached_plan \<Rightarrow> unit request_act" where
  "attachPlan p s = block
     [assertStatus Planning AwaitingApproval,
      guardM (\<not> planVersion p \<le> pr_latestPlanVersion s) PlanVersionMismatchError,
      modifyM (\<lambda>s. s\<lparr>pr_plan := Some p, pr_approval := None,
                      pr_latestPlanVersion := planVersion p\<rparr>),
      whenM (requiresApproval p) (modifyM (\<lambda>s. s\<lparr>pr_status := AwaitingApproval\<rparr>)),
      record_event (event ''ExecutionPlanCreated''
        [(''requestId'', EStr (pr_id s)), (''planId'', EStr (planId p)),
         (''planVersion'', ENum (planVersion p)), (''planFingerprint'', EStr (planFingerprint p)),
         (''requiresApproval'', EBool (requiresApproval p))])] s"

definition approvePlan :: "plan_approval \<Rightarrow> unit request_act" where
  "approvePlan a s = block
     [assertStatus AwaitingApproval AwaitingApproval,
      assertPlanBinding a,
      modifyM (\<lambda>s. s\<lparr>pr_approval := Some a\<rparr>),
      record_event (event ''ExecutionPlanApproved''
        [(''requestId'', EStr (pr_id s)), (''planId'', EStr (planId a)),
         (''planVersion'', ENum (planVersion a)), (''planFingerprint'', EStr (planFingerprint a)),
         (''decidedBy'', EStr (decidedBy a))])] s"

datatype disposition = ChangesRequested | PlanRejected

fun disposition_value :: "disposition \<Rightarrow> string" where
  "disposition_value ChangesRequested = ''changes_requested''"
| "disposition_value PlanRejected = ''plan_rejected''"

definition rejectPlan :: "string \<Rightarrow> disposition \<Rightarrow> unit request_act" where
  "rejectPlan by d s =
     (let planRejected = event ''ExecutionPlanRejected''
            [(''requestId'', EStr (pr_id s)), (''decidedBy'', EStr by),
             (''disposition'', EStr (disposition_value d))]
      in block
        [assertStatus AwaitingApproval (if d = ChangesRequested then Planning else Cancelled),
         modifyM (\<lambda>s. s\<lparr>pr_approval := None\<rparr>),
         if d = ChangesRequested
         then block [modifyM (\<lambda>s. s\<lparr>pr_plan := None\<rparr>), transition Planning planRejected]
         else transition Cancelled planRejected] s)"

definition authorizeExecution :: "execution_authorization \<Rightarrow> string \<Rightarrow> unit request_act" where
  "authorizeExecution i now s = block
     [assertCanTransition ExecutionAuthorized,
      guardM (pr_status s = Planning \<or> pr_status s = AwaitingApproval)
        (StateConflictError (pr_status s) ExecutionAuthorized),
      guardM (pr_plan s \<noteq> None) (StateConflictError (pr_status s) ExecutionAuthorized),
      seqM (normalizeAuthorization i) (\<lambda>auth. block
        [assertPlanBinding auth,
         guardM (\<not> ((pr_status s = Planning \<and>
                      (case pr_plan s of None \<Rightarrow> False | Some p \<Rightarrow> requiresApproval p)) \<or>
                    (pr_status s = AwaitingApproval \<and> pr_approval s = None)))
           (StateConflictError (pr_status s) ExecutionAuthorized),
         seqM (buildAttempt (attemptId auth) Initial auth (allowedStepIds auth) AAuthorized now)
           (\<lambda>attempt. block
             [appendAttempt attempt,
              transition ExecutionAuthorized (event ''ExecutionAuthorized''
                [(''requestId'', EStr (pr_id s)), (''planId'', EStr (planId auth)),
                 (''planVersion'', ENum (planVersion auth)),
                 (''planFingerprint'', EStr (planFingerprint auth)),
                 (''agentId'', EStr (agentId auth)), (''attemptId'', EStr (attemptId auth)),
                 (''authorizationKind'', EStr ''initial''),
                 (''allowedStepIds'', EStrs (allowedStepIds auth))])])])] s"

definition markExecuting :: "string \<Rightarrow> unit request_act" where
  "markExecuting agent s = block
     [assertStatus ExecutionAuthorized Executing,
      seqM (updatedCurrentAttempt ARunning None) (\<lambda>u. block
        [applyAttemptUpdate u,
         transition Executing (event ''ExecutionStarted''
           [(''requestId'', EStr (pr_id s)), (''agentId'', EStr agent),
            (''attemptId'', EStr (att_id u))])])] s"

definition complete :: "int \<Rightarrow> string \<Rightarrow> unit request_act" where
  "complete affected now s = block
     [assertStatus Executing Completed,
      seqM (updatedCurrentAttempt ASucceeded (Some now)) (\<lambda>u. block
        [applyAttemptUpdate u,
         transition Completed (event ''PrivacyRequestCompleted''
           [(''requestId'', EStr (pr_id s)), (''affectedCount'', ENum affected),
            (''attemptId'', EStr (att_id u))])])] s"

text \<open>
  The methods that close the current attempt only from one status share the shape
  \<^verbatim>\<open>const attemptUpdate = status === S ? this.updatedCurrentAttempt(...) : null\<close> and, after the
  event is built, \<^verbatim>\<open>if (attemptUpdate) this.applyAttemptUpdate(attemptUpdate)\<close>.
\<close>

definition closing ::
  "bool \<Rightarrow> execution_attempt_status \<Rightarrow> string \<Rightarrow> unit request_act \<Rightarrow> unit request_act" where
  "closing c st now rest =
     (if c then seqM (updatedCurrentAttempt st (Some now)) (\<lambda>u. block [applyAttemptUpdate u, rest])
      else rest)"

definition attempt_value :: "string option \<Rightarrow> event_value" where
  "attempt_value a = (case a of None \<Rightarrow> ENull | Some x \<Rightarrow> EStr x)"

definition markPartial :: "int \<Rightarrow> int \<Rightarrow> string \<Rightarrow> unit request_act" where
  "markPartial affected failed now s = block
     [assertCanTransition PartiallyCompleted,
      closing (pr_status s = Executing) APartiallySucceeded now
        (transition PartiallyCompleted (event ''PrivacyRequestPartiallyCompleted''
          [(''requestId'', EStr (pr_id s)), (''affectedCount'', ENum affected),
           (''failedCount'', ENum failed),
           (''attemptId'', attempt_value (pr_currentAttemptId s))]))] s"

definition fail :: "string \<Rightarrow> string \<Rightarrow> unit request_act" where
  "fail category now s = block
     [assertCanTransition Failed,
      closing (pr_status s = Executing) AFailed now
        (transition Failed (event ''PrivacyRequestFailed''
          [(''requestId'', EStr (pr_id s)),
           (''attemptId'', attempt_value (pr_currentAttemptId s))]))] s"

definition markNeedsReview :: "string \<Rightarrow> string \<Rightarrow> unit request_act" where
  "markNeedsReview category now s = block
     [assertCanTransition NeedsReview,
      closing (pr_status s = Executing) ANeedsReview now
        (transition NeedsReview (event ''PrivacyRequestNeedsReview''
          [(''requestId'', EStr (pr_id s)),
           (''attemptId'', attempt_value (pr_currentAttemptId s))]))] s"

definition requestReplan :: "string \<Rightarrow> string \<Rightarrow> unit request_act" where
  "requestReplan actorId reason s = block
     [assertCanTransition Planning,
      guardM (pr_status s \<in> {PartiallyCompleted, Failed, NeedsReview})
        (StateConflictError (pr_status s) Planning),
      seqM (normalizeAuditReason reason) (\<lambda>reason. block
        [modifyM (\<lambda>s. s\<lparr>pr_plan := None, pr_approval := None\<rparr>),
         transition Planning (event ''ReplanRequested''
           [(''requestId'', EStr (pr_id s)), (''actorId'', EStr actorId),
            (''reason'', EStr reason)])])] s"

definition beginRetry :: "string \<Rightarrow> string list \<Rightarrow> int \<Rightarrow> string \<Rightarrow> unit request_act" where
  "beginRetry attempt steps expectedVersion now s = block
     [assertCanTransition ExecutionAuthorized,
      guardM (pr_status s \<in> {PartiallyCompleted, Failed, NeedsReview})
        (StateConflictError (pr_status s) ExecutionAuthorized),
      guardM (expectedVersion = pr_version s) (RangeError ''REQUEST_VERSION_MISMATCH''),
      (case pr_plan s of
         None \<Rightarrow> throwM (StateConflictError (pr_status s) ExecutionAuthorized)
       | Some p \<Rightarrow>
           seqM (normalizeAllowedStepIds steps) (\<lambda>steps.
             seqM (buildAttempt attempt Retry p steps AAuthorized now) (\<lambda>a. block
               [appendAttempt a,
                transition ExecutionAuthorized (event ''ExecutionAuthorized''
                  [(''requestId'', EStr (pr_id s)), (''planId'', EStr (att_planId a)),
                   (''planVersion'', ENum (att_planVersion a)),
                   (''planFingerprint'', EStr (att_planFingerprint a)),
                   (''attemptId'', EStr (att_id a)), (''authorizationKind'', EStr ''retry''),
                   (''allowedStepIds'', EStrs (att_allowedStepIds a))])])))] s"

definition invalidateAuthorization :: "string \<Rightarrow> string \<Rightarrow> string \<Rightarrow> unit request_act" where
  "invalidateAuthorization actorId reason now s = block
     [assertStatus ExecutionAuthorized AwaitingApproval,
      seqM (normalizeAuditReason reason) (\<lambda>reason.
        seqM (updatedCurrentAttempt ACancelled (Some now)) (\<lambda>u. block
          [applyAttemptUpdate u,
           modifyM (\<lambda>s. s\<lparr>pr_approval := None\<rparr>),
           transition AwaitingApproval (event ''ExecutionAuthorizationInvalidated''
             [(''requestId'', EStr (pr_id s)), (''actorId'', EStr actorId),
              (''reason'', EStr reason),
              (''attemptId'', attempt_value (pr_currentAttemptId s))])]))] s"

definition acceptRetainedOutcome :: "string \<Rightarrow> string \<Rightarrow> unit request_act" where
  "acceptRetainedOutcome actorId reason s = block
     [guardM (pr_status s \<in> {PartiallyCompleted, NeedsReview})
        (StateConflictError (pr_status s) Completed),
      seqM (normalizeAuditReason reason) (\<lambda>reason.
        transition Completed (event ''RetainedOutcomeAccepted''
          [(''requestId'', EStr (pr_id s)), (''actorId'', EStr actorId),
           (''reason'', EStr reason),
           (''attemptId'', attempt_value (pr_currentAttemptId s))]))] s"

definition cancel :: "string \<Rightarrow> string \<Rightarrow> string \<Rightarrow> unit request_act" where
  "cancel actorId reason now s = block
     [assertCanTransition Cancelled,
      seqM (normalizeAuditReason reason) (\<lambda>reason.
        closing (pr_status s = ExecutionAuthorized) ACancelled now
          (transition Cancelled (event ''PrivacyRequestCancelled''
            [(''requestId'', EStr (pr_id s)), (''actorId'', EStr actorId),
             (''reason'', EStr reason),
             (''attemptId'', attempt_value (pr_currentAttemptId s))])))] s"

subsection \<open>Queries and the event buffer\<close>

definition snapshot :: "aggregate \<Rightarrow> privacy_request_snapshot" where
  "snapshot s =
     \<lparr>sn_id = pr_id s, sn_environmentId = pr_environmentId s, sn_type = pr_type s,
      sn_source = pr_source s, sn_status = pr_status s, sn_policyVersion = pr_policyVersion s,
      sn_createdByActorId = pr_createdByActorId s, sn_deadlineAt = pr_deadlineAt s,
      sn_version = pr_version s, sn_currentAttemptId = pr_currentAttemptId s,
      sn_plan = pr_plan s, sn_approval = pr_approval s\<rparr>"

definition pullEvents :: "domain_event list request_act" where
  "pullEvents s = (Inr (pr_events s), s\<lparr>pr_events := []\<rparr>)"

definition markEventsCommitted :: "int \<Rightarrow> unit request_act" where
  "markEventsCommitted n s = block
     [guardM (0 \<le> n \<and> n \<le> int (length (pr_events s))) (RangeError ''INVALID_COMMITTED_EVENT_COUNT''),
      modifyM (\<lambda>s. s\<lparr>pr_events := drop (nat n) (pr_events s)\<rparr>)] s"

subsection \<open>The commands as data, and the states they reach\<close>

datatype command =
    BeginIdentityVerification string
  | MarkIdentityVerified string
  | BeginPlanning string
  | AttachPlan attached_plan
  | ApprovePlan plan_approval
  | RejectPlan string disposition
  | AuthorizeExecution execution_authorization
  | MarkExecuting string
  | Complete int
  | MarkPartial int int
  | Fail string
  | MarkNeedsReview string
  | RequestReplan string string
  | BeginRetry string "string list" int
  | InvalidateAuthorization string string
  | AcceptRetainedOutcome string string
  | Cancel string string

fun exec :: "string \<Rightarrow> command \<Rightarrow> unit request_act" where
  "exec now (BeginIdentityVerification a) = beginIdentityVerification a"
| "exec now (MarkIdentityVerified a) = markIdentityVerified a"
| "exec now (BeginPlanning a) = beginPlanning a"
| "exec now (AttachPlan p) = attachPlan p"
| "exec now (ApprovePlan a) = approvePlan a"
| "exec now (RejectPlan by d) = rejectPlan by d"
| "exec now (AuthorizeExecution i) = authorizeExecution i now"
| "exec now (MarkExecuting a) = markExecuting a"
| "exec now (Complete n) = complete n now"
| "exec now (MarkPartial n m) = markPartial n m now"
| "exec now (Fail c) = fail c now"
| "exec now (MarkNeedsReview c) = markNeedsReview c now"
| "exec now (RequestReplan a r) = requestReplan a r"
| "exec now (BeginRetry t steps v) = beginRetry t steps v now"
| "exec now (InvalidateAuthorization a r) = invalidateAuthorization a r now"
| "exec now (AcceptRetainedOutcome a r) = acceptRetainedOutcome a r"
| "exec now (Cancel a r) = cancel a r now"

text \<open>
  \<open>reachable s h\<close>: some run of the commands from \<open>create\<close> leads to \<open>s\<close>, commands that throw
  included (their caller may catch the error and go on), and \<open>h\<close> is every event the aggregate
  has recorded since, also those already taken out of its buffer.
\<close>

inductive reachable :: "aggregate \<Rightarrow> domain_event list \<Rightarrow> bool" where
  created: "reachable (create i) (pr_events (create i))"
| command: "reachable s h \<Longrightarrow> exec now c s = (r, t) \<Longrightarrow>
    reachable t (h @ drop (length (pr_events s)) (pr_events t))"
| pulled: "reachable s h \<Longrightarrow> pullEvents s = (Inr es, t) \<Longrightarrow> reachable t h"
| committed: "reachable s h \<Longrightarrow> markEventsCommitted n s = (r, t) \<Longrightarrow> reachable t h"

subsection \<open>Updates of the aggregate\<close>

definition moved ::
  "privacy_request_status \<Rightarrow> domain_event \<Rightarrow> aggregate \<Rightarrow> aggregate" where
  "moved q ev s =
     s\<lparr>pr_status := q, pr_version := pr_version s + 1, pr_events := pr_events s @ [ev]\<rparr>"

lemma moved_simps [simp]:
  "pr_status (moved q ev s) = q" "pr_version (moved q ev s) = pr_version s + 1"
  "pr_events (moved q ev s) = pr_events s @ [ev]" "pr_id (moved q ev s) = pr_id s"
  "pr_currentAttemptId (moved q ev s) = pr_currentAttemptId s"
  "pr_plan (moved q ev s) = pr_plan s" "pr_approval (moved q ev s) = pr_approval s"
  "pr_latestPlanVersion (moved q ev s) = pr_latestPlanVersion s"
  "pr_attempts (moved q ev s) = pr_attempts s"
  by (simp_all add: moved_def)

lemma moved_status [simp]: "moved q ev (s\<lparr>pr_status := q'\<rparr>) = moved q ev s"
  by (simp add: moved_def)

definition with_current ::
  "execution_attempt \<Rightarrow> execution_attempt_status \<Rightarrow> string option \<Rightarrow> aggregate \<Rightarrow> aggregate" where
  "with_current a st c s = s\<lparr>pr_attempts := map (\<lambda>b. if att_id b = att_id a
      then a\<lparr>att_status := st, att_completedAt := c\<rparr> else b) (pr_attempts s)\<rparr>"

lemma with_current_simps [simp]:
  "pr_status (with_current a st c s) = pr_status s" "pr_version (with_current a st c s) = pr_version s"
  "pr_events (with_current a st c s) = pr_events s" "pr_id (with_current a st c s) = pr_id s"
  "pr_currentAttemptId (with_current a st c s) = pr_currentAttemptId s"
  "pr_plan (with_current a st c s) = pr_plan s" "pr_approval (with_current a st c s) = pr_approval s"
  "pr_latestPlanVersion (with_current a st c s) = pr_latestPlanVersion s"
  "pr_attempts (with_current a st c s) = map (\<lambda>b. if att_id b = att_id a
      then a\<lparr>att_status := st, att_completedAt := c\<rparr> else b) (pr_attempts s)"
  by (simp_all add: with_current_def)

definition with_attempt :: "execution_attempt \<Rightarrow> aggregate \<Rightarrow> aggregate" where
  "with_attempt a s =
     s\<lparr>pr_attempts := pr_attempts s @ [a], pr_currentAttemptId := Some (att_id a)\<rparr>"

lemma with_attempt_simps [simp]:
  "pr_status (with_attempt a s) = pr_status s" "pr_version (with_attempt a s) = pr_version s"
  "pr_events (with_attempt a s) = pr_events s" "pr_id (with_attempt a s) = pr_id s"
  "pr_currentAttemptId (with_attempt a s) = Some (att_id a)"
  "pr_plan (with_attempt a s) = pr_plan s" "pr_approval (with_attempt a s) = pr_approval s"
  "pr_latestPlanVersion (with_attempt a s) = pr_latestPlanVersion s"
  "pr_attempts (with_attempt a s) = pr_attempts s @ [a]"
  by (simp_all add: with_attempt_def)

lemma discard_plan [simp]:
  "s\<lparr>pr_approval := None, pr_plan := None\<rparr> = s\<lparr>pr_plan := None, pr_approval := None\<rparr>"
  by simp

subsection \<open>The helpers by their outcomes\<close>

lemma assertStatus_ok [simp]:
    "assertStatus st target s = (Inr u, t) \<longleftrightarrow> pr_status s = st \<and> t = s"
  and assertStatus_err [simp]:
    "assertStatus st target s = (Inl e, t) \<longleftrightarrow>
       pr_status s \<noteq> st \<and> e = StateConflictError (pr_status s) target \<and> t = s"
  by (auto simp: assertStatus_def)

lemma assertCanTransition_ok [simp]:
    "assertCanTransition nxt s = (Inr u, t) \<longleftrightarrow> nxt \<in> set (transitions (pr_status s)) \<and> t = s"
  and assertCanTransition_err [simp]:
    "assertCanTransition nxt s = (Inl e, t) \<longleftrightarrow>
       nxt \<notin> set (transitions (pr_status s)) \<and> e = StateConflictError (pr_status s) nxt \<and> t = s"
  by (auto simp: assertCanTransition_def)

lemma assertPlanBinding_ok [simp]:
    "assertPlanBinding b s = (Inr u, t) \<longleftrightarrow> (\<exists>p. pr_plan s = Some p \<and> binds p b) \<and> t = s"
  and assertPlanBinding_err [simp]:
    "assertPlanBinding b s = (Inl e, t) \<longleftrightarrow>
       \<not> (\<exists>p. pr_plan s = Some p \<and> binds p b) \<and> e = PlanVersionMismatchError \<and> t = s"
  by (auto simp: assertPlanBinding_def split: option.splits)

lemma record_event_ok [simp]:
    "record_event e s = (Inr u, t) \<longleftrightarrow> t = moved (pr_status s) e s"
  and record_event_err [simp]: "record_event e s \<noteq> (Inl e', t)"
  by (auto simp: record_event_def moved_def)

lemma transition_ok [simp]:
    "transition nxt e s = (Inr u, t) \<longleftrightarrow>
       nxt \<in> set (transitions (pr_status s)) \<and> t = moved nxt e s"
  and transition_err [simp]:
    "transition nxt e s = (Inl e', t) \<longleftrightarrow>
       nxt \<notin> set (transitions (pr_status s)) \<and> e' = StateConflictError (pr_status s) nxt \<and> t = s"
  by (auto simp: transition_def moved_def)

definition steps_ok :: "string list \<Rightarrow> bool" where
  "steps_ok steps \<longleftrightarrow> steps \<noteq> [] \<and> [] \<notin> set steps \<and> distinct steps"

lemma normalizeAllowedStepIds_ok [simp]:
    "normalizeAllowedStepIds xs s = (Inr ys, t) \<longleftrightarrow> steps_ok xs \<and> ys = xs \<and> t = s"
  and normalizeAllowedStepIds_err [simp]:
    "normalizeAllowedStepIds xs s = (Inl e, t) \<longleftrightarrow>
       \<not> steps_ok xs \<and> e = RangeError ''EXECUTION_ATTEMPT_STEP_SCOPE_INVALID'' \<and> t = s"
  by (auto simp: normalizeAllowedStepIds_def steps_ok_def)

lemma normalizeAuditReason_ok [simp]:
    "normalizeAuditReason r s = (Inr r', t) \<longleftrightarrow> audit_reason_ok r \<and> r' = r \<and> t = s"
  and normalizeAuditReason_err [simp]:
    "normalizeAuditReason r s = (Inl e, t) \<longleftrightarrow>
       \<not> audit_reason_ok r \<and> e = RangeError ''AUDIT_REASON_INVALID'' \<and> t = s"
  by (auto simp: normalizeAuditReason_def)

lemma normalizeAuthorization_ok [simp]:
    "normalizeAuthorization i s = (Inr j, t) \<longleftrightarrow> steps_ok (allowedStepIds i) \<and> j = i \<and> t = s"
  and normalizeAuthorization_err [simp]:
    "normalizeAuthorization i s = (Inl e, t) \<longleftrightarrow> \<not> steps_ok (allowedStepIds i) \<and>
       e = RangeError ''EXECUTION_ATTEMPT_STEP_SCOPE_INVALID'' \<and> t = s"
  by (auto simp: normalizeAuthorization_def)

definition new_attempt ::
  "aggregate \<Rightarrow> string \<Rightarrow> attempt_kind \<Rightarrow> 'a plan_binding_scheme \<Rightarrow> string list \<Rightarrow> string \<Rightarrow>
   execution_attempt" where
  "new_attempt s aid kind b steps now =
     \<lparr>att_id = aid, att_requestId = pr_id s, att_attemptNumber = length (pr_attempts s) + 1,
      att_kind = kind, att_planId = planId b, att_planVersion = planVersion b,
      att_planFingerprint = planFingerprint b, att_allowedStepIds = steps,
      att_status = AAuthorized, att_createdAt = now, att_completedAt = None\<rparr>"

definition fresh_attempt :: "aggregate \<Rightarrow> string \<Rightarrow> bool" where
  "fresh_attempt s aid \<longleftrightarrow> aid \<noteq> [] \<and> aid \<notin> att_id ` set (pr_attempts s)"

lemma buildAttempt_ok [simp]:
    "buildAttempt aid kind b steps AAuthorized now s = (Inr a, t) \<longleftrightarrow>
       fresh_attempt s aid \<and> a = new_attempt s aid kind b steps now \<and> t = s"
  and buildAttempt_err [simp]:
    "buildAttempt aid kind b steps st now s = (Inl e, t) \<longleftrightarrow>
       \<not> fresh_attempt s aid \<and> e = RangeError ''EXECUTION_ATTEMPT_ID_INVALID'' \<and> t = s"
  by (auto simp: buildAttempt_def fresh_attempt_def new_attempt_def)

lemma appendAttempt_ok [simp]:
    "appendAttempt a s = (Inr u, t) \<longleftrightarrow>
       t = with_attempt a s"
  and appendAttempt_err [simp]: "appendAttempt a s \<noteq> (Inl e, t)"
  by (auto simp: appendAttempt_def with_attempt_def)

definition current_attempt :: "aggregate \<Rightarrow> execution_attempt option" where
  "current_attempt s = find (\<lambda>a. Some (att_id a) = pr_currentAttemptId s) (pr_attempts s)"

lemma updatedCurrentAttempt_ok [simp]:
    "updatedCurrentAttempt st c s = (Inr u, t) \<longleftrightarrow>
       (\<exists>a. current_attempt s = Some a \<and> u = a\<lparr>att_status := st, att_completedAt := c\<rparr>) \<and> t = s"
  and updatedCurrentAttempt_err [simp]:
    "updatedCurrentAttempt st c s = (Inl e, t) \<longleftrightarrow>
       current_attempt s = None \<and> e = RangeError ''EXECUTION_ATTEMPT_NOT_FOUND'' \<and> t = s"
  by (auto simp: updatedCurrentAttempt_def requiredCurrentAttempt_def current_attempt_def
      split: option.splits)

lemma applyAttemptUpdate_ok [simp]:
    "applyAttemptUpdate (a\<lparr>att_status := st, att_completedAt := c\<rparr>) s = (Inr v, t) \<longleftrightarrow>
       t = with_current a st c s"
  and applyAttemptUpdate_err [simp]: "applyAttemptUpdate u s \<noteq> (Inl e, t)"
  by (auto simp: applyAttemptUpdate_def with_current_def)

text \<open>A transition after a change of the attempts only is still guarded by the status.\<close>

lemma closing_ok [simp]:
    "closing c st now rest s = (Inr u, t) \<longleftrightarrow>
       (if c then \<exists>a. current_attempt s = Some a \<and>
          rest (with_current a st (Some now) s) = (Inr (), t)
        else rest s = (Inr u, t))"
  and closing_err [simp]:
    "closing c st now rest s = (Inl e, t) \<longleftrightarrow>
       (if c then (current_attempt s = None \<and> e = RangeError ''EXECUTION_ATTEMPT_NOT_FOUND'' \<and> t = s) \<or>
          (\<exists>a. current_attempt s = Some a \<and>
          rest (with_current a st (Some now) s) = (Inl e, t))
        else rest s = (Inl e, t))"
  by (auto simp: closing_def)

lemmas command_defs =
  beginIdentityVerification_def markIdentityVerified_def beginPlanning_def attachPlan_def
  approvePlan_def rejectPlan_def authorizeExecution_def markExecuting_def complete_def
  markPartial_def fail_def markNeedsReview_def requestReplan_def beginRetry_def
  invalidateAuthorization_def acceptRetainedOutcome_def cancel_def

text \<open>The status table read backwards.\<close>

lemma can_go [simp]:
  "IdentityVerificationPending \<in> set (transitions st) \<longleftrightarrow> st = Created"
  "IdentityVerified \<in> set (transitions st) \<longleftrightarrow> st = Created \<or> st = IdentityVerificationPending"
  "Planning \<in> set (transitions st) \<longleftrightarrow> st = IdentityVerified \<or> st = AwaitingApproval \<or>
     st = PartiallyCompleted \<or> st = Failed \<or> st = NeedsReview"
  "AwaitingApproval \<in> set (transitions st) \<longleftrightarrow> st = Planning \<or> st = ExecutionAuthorized"
  "ExecutionAuthorized \<in> set (transitions st) \<longleftrightarrow> st = Planning \<or> st = AwaitingApproval \<or>
     st = PartiallyCompleted \<or> st = Failed \<or> st = NeedsReview"
  "Executing \<in> set (transitions st) \<longleftrightarrow> st = ExecutionAuthorized"
  "Completed \<in> set (transitions st) \<longleftrightarrow> st = Executing \<or> st = PartiallyCompleted \<or> st = NeedsReview"
  "PartiallyCompleted \<in> set (transitions st) \<longleftrightarrow> st = Executing \<or> st = NeedsReview"
  "Failed \<in> set (transitions st) \<longleftrightarrow> st = IdentityVerificationPending \<or> st = Planning \<or> st = Executing"
  "NeedsReview \<in> set (transitions st) \<longleftrightarrow> st = Executing \<or> st = PartiallyCompleted \<or> st = Failed"
  "Cancelled \<in> set (transitions st) \<longleftrightarrow> st \<notin> {Executing, Completed, PartiallyCompleted, Cancelled}"
  "Created \<notin> set (transitions st)"
  by (cases st; simp)+

lemma binds_refl [simp]: "binds p p"
  by (simp add: binds_def)

lemma new_attempt_binds:
  "binds p b \<Longrightarrow> new_attempt s aid kind b steps now = new_attempt s aid kind p steps now"
  by (simp add: new_attempt_def binds_def)

subsection \<open>The lifecycle: an abstract specification of the commands\<close>

text \<open>
  What the aggregate promises, without events' contents, error order or input normalisation:
  twelve kinds of step, each with the condition under which it may happen. \<open>moved\<close> is the part
  they share (new status, version plus one, one event), \<open>with_current\<close> replaces the status and
  completion time of the current attempt, \<open>with_attempt\<close> adds an attempt and makes it current.
\<close>

inductive lifecycle_step :: "aggregate \<Rightarrow> aggregate \<Rightarrow> bool" where
  move: "pr_status s \<notin> {ExecutionAuthorized, Executing} \<Longrightarrow> q \<in> set (transitions (pr_status s)) \<Longrightarrow>
    q \<notin> {AwaitingApproval, ExecutionAuthorized} \<Longrightarrow>
    (q = Planning \<longrightarrow> pr_status s = IdentityVerified) \<Longrightarrow> lifecycle_step s (moved q ev s)"
| attach: "pr_status s = Planning \<Longrightarrow> pr_latestPlanVersion s < planVersion p \<Longrightarrow>
    lifecycle_step s (moved (if requiresApproval p then AwaitingApproval else Planning) ev
      (s\<lparr>pr_plan := Some p, pr_approval := None, pr_latestPlanVersion := planVersion p\<rparr>))"
| approve: "pr_status s = AwaitingApproval \<Longrightarrow> pr_plan s = Some p \<Longrightarrow> binds p a \<Longrightarrow>
    lifecycle_step s (moved AwaitingApproval ev (s\<lparr>pr_approval := Some a\<rparr>))"
| discard: "pr_status s \<in> {AwaitingApproval, PartiallyCompleted, Failed, NeedsReview} \<Longrightarrow>
    lifecycle_step s (moved Planning ev (s\<lparr>pr_plan := None, pr_approval := None\<rparr>))"
| reject: "pr_status s = AwaitingApproval \<Longrightarrow>
    lifecycle_step s (moved Cancelled ev (s\<lparr>pr_approval := None\<rparr>))"
| authorize: "pr_plan s = Some p \<Longrightarrow>
    pr_status s = Planning \<and> \<not> requiresApproval p \<or>
      pr_status s = AwaitingApproval \<and> pr_approval s \<noteq> None \<Longrightarrow>
    steps_ok steps \<Longrightarrow> fresh_attempt s aid \<Longrightarrow>
    lifecycle_step s (moved ExecutionAuthorized ev
      (with_attempt (new_attempt s aid Initial p steps now) s))"
| retry: "pr_plan s = Some p \<Longrightarrow> pr_status s \<in> {PartiallyCompleted, Failed, NeedsReview} \<Longrightarrow>
    steps_ok steps \<Longrightarrow> fresh_attempt s aid \<Longrightarrow>
    lifecycle_step s (moved ExecutionAuthorized ev
      (with_attempt (new_attempt s aid Retry p steps now) s))"
| run: "pr_status s = ExecutionAuthorized \<Longrightarrow> current_attempt s = Some a \<Longrightarrow>
    lifecycle_step s (moved Executing ev (with_current a ARunning None s))"
| close: "pr_status s = Executing \<Longrightarrow> current_attempt s = Some a \<Longrightarrow>
    (st, q) \<in> {(ASucceeded, Completed), (APartiallySucceeded, PartiallyCompleted),
               (AFailed, Failed), (ANeedsReview, NeedsReview)} \<Longrightarrow>
    lifecycle_step s (moved q ev (with_current a st (Some now) s))"
| cancel_authorized: "pr_status s = ExecutionAuthorized \<Longrightarrow> current_attempt s = Some a \<Longrightarrow>
    lifecycle_step s (moved Cancelled ev (with_current a ACancelled (Some now) s))"
| invalidate: "pr_status s = ExecutionAuthorized \<Longrightarrow> current_attempt s = Some a \<Longrightarrow>
    lifecycle_step s (moved AwaitingApproval ev
      ((with_current a ACancelled (Some now) s)\<lparr>pr_approval := None\<rparr>))"

end
