(* ===== verification/Privacy_Request_Invariants.thy ===== *)
theory Privacy_Request_Invariants
  imports Privacy_Request
begin

text \<open>
  The correctness of the aggregate: the commands refine the lifecycle of the previous theory,
  and the lifecycle keeps the invariants of plan, approval, attempts and events.
\<close>


subsection \<open>The execution attempts: invariant\<close>

definition closed :: "execution_attempt \<Rightarrow> bool" where
  "closed a \<longleftrightarrow> att_status a \<in> {ASucceeded, APartiallySucceeded, AFailed, ANeedsReview, ACancelled}"

definition att_ok :: "string \<Rightarrow> execution_attempt \<Rightarrow> bool" where
  "att_ok rid a \<longleftrightarrow> att_id a \<noteq> [] \<and> att_requestId a = rid \<and> steps_ok (att_allowedStepIds a) \<and>
     (closed a \<longleftrightarrow> att_completedAt a \<noteq> None) \<and>
     (closed a \<or> att_status a \<in> {AAuthorized, ARunning})"

definition numbered :: "execution_attempt list \<Rightarrow> bool" where
  "numbered as \<longleftrightarrow> map att_attemptNumber as = [1..<Suc (length as)]"

lemma numbered_snoc: "numbered (as @ [a]) \<longleftrightarrow> numbered as \<and> att_attemptNumber a = Suc (length as)"
  by (simp add: numbered_def)

text \<open>
  The attempts are numbered from one, their ids are distinct and not empty, each has a valid
  step scope and a completion time exactly when it is closed; all but the last are closed, the
  last is the current one, and it is authorized or running exactly when the request is.
\<close>

definition att_inv ::
  "privacy_request_status \<Rightarrow> string \<Rightarrow> string option \<Rightarrow> execution_attempt list \<Rightarrow> bool" where
  "att_inv st rid cur as \<longleftrightarrow>
     distinct (map att_id as) \<and> numbered as \<and>
     (\<forall>a \<in> set as. att_ok rid a) \<and>
     (\<forall>a \<in> set (butlast as). closed a) \<and>
     cur = (if as = [] then None else Some (att_id (last as))) \<and>
     (st = ExecutionAuthorized \<longleftrightarrow> as \<noteq> [] \<and> att_status (last as) = AAuthorized) \<and>
     (st = Executing \<longleftrightarrow> as \<noteq> [] \<and> att_status (last as) = ARunning)"

lemma att_inv_snoc:
  "att_inv st rid cur (bs @ [b]) \<longleftrightarrow>
     distinct (map att_id bs) \<and> att_id b \<notin> att_id ` set bs \<and> numbered bs \<and>
     att_attemptNumber b = Suc (length bs) \<and> (\<forall>a \<in> set bs. att_ok rid a \<and> closed a) \<and>
     att_ok rid b \<and> cur = Some (att_id b) \<and>
     (st = ExecutionAuthorized \<longleftrightarrow> att_status b = AAuthorized) \<and>
     (st = Executing \<longleftrightarrow> att_status b = ARunning)"
  by (auto simp: att_inv_def numbered_snoc)

abbreviation attempts_inv :: "aggregate \<Rightarrow> bool" where
  "attempts_inv s \<equiv> att_inv (pr_status s) (pr_id s) (pr_currentAttemptId s) (pr_attempts s)"

lemma update_last:
  assumes "distinct (map att_id as)" and "as \<noteq> []"
  shows "map (\<lambda>b. if att_id b = att_id (last as) then u else b) as = butlast as @ [u]"
proof -
  obtain bs b where as: "as = bs @ [b]" using assms(2) by (cases as rule: rev_cases) auto
  have "map (\<lambda>c. if att_id c = att_id b then u else c) bs = bs"
    using assms(1) by (intro map_idI) (auto simp: as image_iff)
  then show ?thesis by (simp add: as)
qed

lemma att_inv_active: "att_inv st rid cur as \<Longrightarrow> st \<in> {ExecutionAuthorized, Executing} \<Longrightarrow> as \<noteq> []"
  by (auto simp: att_inv_def)

lemma att_inv_current:
  assumes "attempts_inv s" and "pr_attempts s \<noteq> []"
  shows "current_attempt s = Some (last (pr_attempts s))"
  using assms find_distinct_key [of att_id "pr_attempts s" "last (pr_attempts s)"]
  by (auto simp: current_attempt_def att_inv_def)

lemma att_inv_map:
  "attempts_inv s \<Longrightarrow> current_attempt s = Some a \<Longrightarrow>
     map (\<lambda>b. if att_id b = att_id a then u else b) (pr_attempts s) = butlast (pr_attempts s) @ [u]"
  using att_inv_current [of s] update_last [of "pr_attempts s" u]
  by (cases "pr_attempts s = []") (auto simp: att_inv_def current_attempt_def)

text \<open>The three ways a command changes the attempts.\<close>

lemma att_inv_status:
  "att_inv st rid cur as \<Longrightarrow> st \<notin> {ExecutionAuthorized, Executing} \<Longrightarrow>
   st' \<notin> {ExecutionAuthorized, Executing} \<Longrightarrow> att_inv st' rid cur as"
  by (auto simp: att_inv_def)

lemma att_inv_append:
  assumes inv: "att_inv st rid cur (pr_attempts s)" and st: "st \<notin> {ExecutionAuthorized, Executing}"
    and fresh: "fresh_attempt s aid" and steps: "steps_ok steps" and rid: "rid = pr_id s"
  shows "att_inv ExecutionAuthorized rid (Some aid)
    (pr_attempts s @ [new_attempt s aid kind b steps now])"
proof -
  let ?a = "new_attempt s aid kind b steps now"
  have all: "\<forall>a \<in> set (pr_attempts s). closed a"
    using inv st by (cases "pr_attempts s" rule: rev_cases) (auto simp: att_inv_snoc att_ok_def)
  have "\<not> closed ?a" "att_status ?a = AAuthorized" "att_completedAt ?a = None" "att_id ?a = aid"
    "att_attemptNumber ?a = Suc (length (pr_attempts s))" "att_requestId ?a = pr_id s"
    "att_allowedStepIds ?a = steps"
    by (simp_all add: closed_def new_attempt_def)
  then have "att_ok rid ?a" using fresh steps rid by (simp add: att_ok_def fresh_attempt_def)
  moreover have "distinct (map att_id (pr_attempts s))" "numbered (pr_attempts s)"
    "\<forall>a \<in> set (pr_attempts s). att_ok rid a"
    using inv by (simp_all add: att_inv_def)
  ultimately show ?thesis
    using fresh all unfolding att_inv_snoc fresh_attempt_def by (simp add: new_attempt_def)
qed

lemma att_inv_update:
  assumes inv: "att_inv st rid cur as" and ne: "as \<noteq> []"
    and u: "att_id u = att_id (last as)" "att_requestId u = att_requestId (last as)"
      "att_attemptNumber u = att_attemptNumber (last as)"
      "att_allowedStepIds u = att_allowedStepIds (last as)"
    and ok: "(closed u \<and> att_completedAt u \<noteq> None \<and> st' \<notin> {ExecutionAuthorized, Executing}) \<or>
             (att_status u = ARunning \<and> att_completedAt u = None \<and> st' = Executing)"
  shows "att_inv st' rid cur (butlast as @ [u])"
proof -
  obtain bs b where as: "as = bs @ [b]" using ne by (cases as rule: rev_cases) auto
  have "closed u \<longleftrightarrow> att_completedAt u \<noteq> None" and "closed u \<or> att_status u = ARunning"
    using ok by (auto simp: closed_def)
  moreover have "att_ok rid b" using inv by (simp add: as att_inv_snoc)
  ultimately have "att_ok rid u" using u by (auto simp: as att_ok_def)
  moreover have "st' = ExecutionAuthorized \<longleftrightarrow> att_status u = AAuthorized"
    and "st' = Executing \<longleftrightarrow> att_status u = ARunning"
    using ok by (auto simp: closed_def)
  ultimately show ?thesis using inv u by (simp add: as att_inv_snoc)
qed

subsection \<open>The commands refine the lifecycle\<close>

lemma authorizeExecution_step:
  assumes "authorizeExecution i now s = (Inr u, t)"
  shows "lifecycle_step s t"
proof (cases "pr_plan s")
  case None
  with assms show ?thesis by (simp add: authorizeExecution_def)
next
  case (Some p)
  with assms have "binds p i" by (simp add: authorizeExecution_def)
  from new_attempt_binds [OF this] assms Some show ?thesis
    by (auto simp: authorizeExecution_def intro: lifecycle_step.authorize)
qed

lemma attachPlan_step: "attachPlan p s = (Inr u, t) \<Longrightarrow> lifecycle_step s t"
  using lifecycle_step.attach [of s p]
  by (cases "requiresApproval p") (auto simp: attachPlan_def)

lemma rejectPlan_step: "rejectPlan by d s = (Inr u, t) \<Longrightarrow> lifecycle_step s t"
  by (cases d) (auto simp: rejectPlan_def intro: lifecycle_step.discard lifecycle_step.reject)

lemma exec_refines_lifecycle:
  assumes "exec now c s = (Inr u, t)"
  shows "lifecycle_step s t"
proof (cases c)
  case (BeginIdentityVerification x1)
  with assms show ?thesis by (auto simp: beginIdentityVerification_def intro: lifecycle_step.move)
next
  case (MarkIdentityVerified x1)
  with assms show ?thesis by (auto simp: markIdentityVerified_def intro: lifecycle_step.move)
next
  case (BeginPlanning x1)
  with assms show ?thesis by (auto simp: beginPlanning_def intro: lifecycle_step.move)
next
  case (AttachPlan p)
  with assms show ?thesis by (simp add: attachPlan_step)
next
  case (ApprovePlan a)
  with assms show ?thesis by (auto simp: approvePlan_def intro: lifecycle_step.approve)
next
  case (RejectPlan x d)
  with assms show ?thesis by (simp add: rejectPlan_step)
next
  case (AuthorizeExecution i)
  with assms show ?thesis by (simp add: authorizeExecution_step)
next
  case (MarkExecuting x)
  with assms show ?thesis by (auto simp: markExecuting_def intro: lifecycle_step.run)
next
  case (Complete x)
  with assms show ?thesis by (auto simp: complete_def intro: lifecycle_step.close)
next
  case (MarkPartial x y)
  with assms show ?thesis
    by (auto simp: markPartial_def split: if_splits intro: lifecycle_step.close lifecycle_step.move)
next
  case (Fail x)
  with assms show ?thesis
    by (auto simp: fail_def split: if_splits intro: lifecycle_step.close lifecycle_step.move)
next
  case (MarkNeedsReview x)
  with assms show ?thesis
    by (auto simp: markNeedsReview_def split: if_splits
        intro: lifecycle_step.close lifecycle_step.move)
next
  case (RequestReplan x y)
  with assms show ?thesis by (auto simp: requestReplan_def intro: lifecycle_step.discard)
next
  case (BeginRetry x y z)
  with assms show ?thesis
    by (auto simp: beginRetry_def split: option.splits intro: lifecycle_step.retry)
next
  case (InvalidateAuthorization x y)
  with assms show ?thesis
    by (auto simp: invalidateAuthorization_def intro: lifecycle_step.invalidate)
next
  case (AcceptRetainedOutcome x y)
  with assms show ?thesis by (auto simp: acceptRetainedOutcome_def intro: lifecycle_step.move)
next
  case (Cancel x y)
  with assms show ?thesis
    by (auto simp: cancel_def split: if_splits
        intro: lifecycle_step.cancel_authorized lifecycle_step.move)
qed

lemma exec_atomic: "exec now c s = (Inl e, t) \<Longrightarrow> t = s"
  by (cases c) (auto simp: command_defs Let_def split: if_splits option.splits)

lemma lifecycle_attempts_inv:
  assumes "lifecycle_step s t" and inv: "attempts_inv s"
  shows "attempts_inv t"
  using assms(1)
proof cases
  case (move q ev)
  with inv show ?thesis using att_inv_status [OF inv, of q] by (cases "q = Executing") auto
next
  case (attach p ev)
  with inv show ?thesis using att_inv_status [OF inv] by auto
next
  case (approve p a ev)
  with inv show ?thesis by simp
next
  case (discard ev)
  with inv show ?thesis using att_inv_status [OF inv, of Planning] by auto
next
  case (reject ev)
  with inv show ?thesis using att_inv_status [OF inv, of Cancelled] by auto
next
  case (authorize p steps aid ev now)
  then show ?thesis using att_inv_append [OF inv _ authorize(5,4) refl, of Initial p now]
    by (auto simp: with_attempt_def new_attempt_def)
next
  case (retry p steps aid ev now)
  then show ?thesis using att_inv_append [OF inv _ retry(5,4) refl, of Retry p now]
    by (auto simp: with_attempt_def new_attempt_def)
next
  case (run a ev)
  then show ?thesis using att_inv_map [OF inv run(3)] att_inv_update [OF inv att_inv_active [OF inv]]
      att_inv_current [OF inv att_inv_active [OF inv]] by auto
next
  case (close a st q ev now)
  then show ?thesis using att_inv_map [OF inv close(3)] att_inv_update [OF inv att_inv_active [OF inv]]
      att_inv_current [OF inv att_inv_active [OF inv]] by (auto simp: closed_def)
next
  case (cancel_authorized a ev now)
  then show ?thesis using att_inv_map [OF inv cancel_authorized(3)] att_inv_update [OF inv att_inv_active [OF inv]]
      att_inv_current [OF inv att_inv_active [OF inv]] by (auto simp: closed_def)
next
  case (invalidate a ev now)
  then show ?thesis using att_inv_map [OF inv invalidate(3)] att_inv_update [OF inv att_inv_active [OF inv]]
      att_inv_current [OF inv att_inv_active [OF inv]] by (auto simp: closed_def)
qed

subsection \<open>Plan and approval: invariant\<close>

definition plan_inv :: "aggregate \<Rightarrow> bool" where
  "plan_inv s \<longleftrightarrow>
     0 \<le> pr_latestPlanVersion s \<and>
     (\<forall>p. pr_plan s = Some p \<longrightarrow> 0 < planVersion p \<and> planVersion p \<le> pr_latestPlanVersion s) \<and>
     (\<forall>a. pr_approval s = Some a \<longrightarrow> (\<exists>p. pr_plan s = Some p \<and> binds p a)) \<and>
     (pr_status s \<in> {Created, IdentityVerificationPending, IdentityVerified} \<longrightarrow> pr_plan s = None) \<and>
     (pr_status s = Planning \<longrightarrow> (\<forall>p. pr_plan s = Some p \<longrightarrow> \<not> requiresApproval p)) \<and>
     (pr_status s \<in> {AwaitingApproval, ExecutionAuthorized, Executing} \<longrightarrow> pr_plan s \<noteq> None) \<and>
     (pr_status s \<in> {ExecutionAuthorized, Executing, Completed, PartiallyCompleted, Failed, NeedsReview} \<longrightarrow>
        (\<forall>p. pr_plan s = Some p \<longrightarrow> requiresApproval p \<longrightarrow> pr_approval s \<noteq> None))"

lemma plan_inv_moved [simp]:
  "plan_inv (moved q ev s) \<longleftrightarrow> plan_inv (s\<lparr>pr_status := q\<rparr>)"
  by (simp add: plan_inv_def)

lemma lifecycle_plan_inv:
  assumes "lifecycle_step s t" and inv: "plan_inv s"
  shows "plan_inv t"
  using assms(1)
proof cases
  case (move q ev)
  with inv show ?thesis by (cases "pr_status s") (auto simp: plan_inv_def)
qed (use inv in \<open>auto simp: plan_inv_def\<close>)

text \<open>What an update of the current attempt leaves alone: its scope and every closed attempt.\<close>

definition scope :: "execution_attempt \<Rightarrow> execution_attempt" where
  "scope a = a\<lparr>att_status := APlanned, att_completedAt := None\<rparr>"

lemma scope_simps [simp]:
  "scope (a\<lparr>att_status := st, att_completedAt := c\<rparr>) = scope a"
  "att_id (scope a) = att_id a" "att_planVersion (scope a) = att_planVersion a"
  by (simp_all add: scope_def)

lemma with_current_attempts:
  assumes "attempts_inv s" and "current_attempt s = Some a"
  shows "pr_attempts s = butlast (pr_attempts s) @ [a]"
    and "pr_attempts (with_current a st c s) =
      butlast (pr_attempts s) @ [a\<lparr>att_status := st, att_completedAt := c\<rparr>]"
proof -
  have ne: "pr_attempts s \<noteq> []" using assms(2) by (auto simp: current_attempt_def)
  then have "a = last (pr_attempts s)" using att_inv_current [OF assms(1) ne] assms(2) by simp
  with ne show "pr_attempts s = butlast (pr_attempts s) @ [a]" by simp
  show "pr_attempts (with_current a st c s) =
      butlast (pr_attempts s) @ [a\<lparr>att_status := st, att_completedAt := c\<rparr>]"
    using att_inv_map [OF assms] by simp
qed

lemma with_current_scope:
  assumes "attempts_inv s" and "current_attempt s = Some a"
  shows "map scope (pr_attempts (with_current a st c s)) = map scope (pr_attempts s)"
proof -
  have "map scope (pr_attempts s) = map scope (butlast (pr_attempts s) @ [a])"
    using with_current_attempts(1) [OF assms] by (rule arg_cong)
  then show ?thesis by (simp only: with_current_attempts(2) [OF assms] map_append list.map scope_simps)
qed

lemma versions_of_scope: "map att_planVersion as = map att_planVersion (map scope as)"
  by simp

text \<open>Every attempt is bound to a plan version the request has had, in order.\<close>

definition versions_inv :: "aggregate \<Rightarrow> bool" where
  "versions_inv s \<longleftrightarrow> sorted (map att_planVersion (pr_attempts s)) \<and>
     (\<forall>v \<in> set (map att_planVersion (pr_attempts s)). 0 < v \<and> v \<le> pr_latestPlanVersion s \<and>
        (\<forall>p. pr_plan s = Some p \<longrightarrow> v \<le> planVersion p))"

lemma versions_inv_current:
  assumes "attempts_inv s" and "current_attempt s = Some a" and "versions_inv s"
  shows "versions_inv (with_current a st c s)"
proof -
  have "map att_planVersion (pr_attempts (with_current a st c s)) = map att_planVersion (pr_attempts s)"
    using with_current_scope [OF assms(1,2)] by (metis versions_of_scope)
  with assms(3) show ?thesis
    by (simp add: versions_inv_def del: with_current_simps(9))
qed

lemma versions_inv_moved [simp]:
  "versions_inv (moved q ev s) \<longleftrightarrow> versions_inv s"
  "versions_inv (s\<lparr>pr_approval := x\<rparr>) \<longleftrightarrow> versions_inv s"
  by (simp_all add: versions_inv_def)

lemma lifecycle_versions_inv:
  assumes "lifecycle_step s t" and "plan_inv s" and att: "attempts_inv s" and ver: "versions_inv s"
  shows "versions_inv t"
  using assms(1)
proof cases
  case (attach p ev)
  then show ?thesis using assms by (fastforce simp: versions_inv_def plan_inv_def)
next
  case (discard ev)
  then show ?thesis using ver by (simp add: versions_inv_def)
next
  case (authorize p steps aid ev now)
  then show ?thesis using assms
    by (auto simp: versions_inv_def plan_inv_def sorted_append new_attempt_def)
next
  case (retry p steps aid ev now)
  then show ?thesis using assms
    by (auto simp: versions_inv_def plan_inv_def sorted_append new_attempt_def)
qed (use versions_inv_current [OF att _ ver] ver in auto)

text \<open>The history of the attempts: scopes are append-only, closed attempts never change.\<close>

definition history_extends :: "execution_attempt list \<Rightarrow> execution_attempt list \<Rightarrow> bool" where
  "history_extends as bs \<longleftrightarrow> length as \<le> length bs \<and> length bs \<le> Suc (length as) \<and>
     (\<forall>i < length as. scope (bs ! i) = scope (as ! i) \<and> (closed (as ! i) \<longrightarrow> bs ! i = as ! i))"

lemma history_refl [simp]: "history_extends as as"
  and history_append [simp]: "history_extends as (as @ [a])"
  by (simp_all add: history_extends_def nth_append)

lemma history_snoc:
  "as = bs @ [a] \<Longrightarrow> cs = bs @ [b] \<Longrightarrow> scope b = scope a \<Longrightarrow> \<not> closed a \<Longrightarrow>
   history_extends as cs"
  by (simp add: history_extends_def nth_append less_Suc_eq)

lemma history_current:
  assumes "attempts_inv s" and "current_attempt s = Some a" and "\<not> closed a"
  shows "history_extends (pr_attempts s) (pr_attempts (with_current a st c s))"
  by (rule history_snoc [OF with_current_attempts [OF assms(1,2)] scope_simps(1) assms(3)])

lemma current_open:
  assumes inv: "attempts_inv s" and st: "pr_status s \<in> {ExecutionAuthorized, Executing}"
    and cur: "current_attempt s = Some a"
  shows "\<not> closed a"
proof -
  have "a = last (pr_attempts s)"
    using att_inv_current [OF inv att_inv_active [OF inv st]] cur by simp
  moreover have "att_status (last (pr_attempts s)) \<in> {AAuthorized, ARunning}"
    using inv st unfolding att_inv_def by blast
  ultimately show ?thesis by (auto simp: closed_def)
qed

lemma lifecycle_history:
  assumes "lifecycle_step s t" and inv: "attempts_inv s"
  shows "history_extends (pr_attempts s) (pr_attempts t)"
proof -
  have upd: "history_extends (pr_attempts s) (pr_attempts (with_current a st c s))"
    if "pr_status s \<in> {ExecutionAuthorized, Executing}" "current_attempt s = Some a" for a st c
    by (rule history_current [OF inv that(2) current_open [OF inv that]])
  show ?thesis
    using assms(1)
  proof cases
    case (run a ev)
    then show ?thesis using upd [of a ARunning None] by simp
  next
    case (close a st q ev now)
    then show ?thesis using upd [of a st "Some now"] by simp
  next
    case (cancel_authorized a ev now)
    then show ?thesis using upd [of a ACancelled "Some now"] by simp
  next
    case (invalidate a ev now)
    then show ?thesis using upd [of a ACancelled "Some now"] by simp
  qed simp_all
qed

end
