(* ===== verification/Privacy_Request_Properties.thy ===== *)
theory Privacy_Request_Properties
  imports Privacy_Request_Invariants
begin

text \<open>
  The invariants over all runs of the commands, and what they give: the properties of the
  aggregate that the rest of the system relies on.
\<close>

subsection \<open>Reachable requests\<close>

lemma lifecycle_events:
  "lifecycle_step s t \<Longrightarrow>
     pr_version t = pr_version s + 1 \<and> pr_id t = pr_id s \<and> (\<exists>ev. pr_events t = pr_events s @ [ev])"
  by (induction rule: lifecycle_step.induct) simp_all

lemma exec_cases [consumes 1, case_names threw stepped]:
  assumes "exec now c s = (r, t)"
  obtains e where "r = Inl e" "t = s" | "r = Inr ()" "lifecycle_step s t"
proof (cases r)
  case (Inl e)
  then show ?thesis using assms exec_atomic that(1) by blast
next
  case (Inr u)
  then show ?thesis using assms exec_refines_lifecycle that(2) by auto
qed

definition request_inv :: "aggregate \<Rightarrow> bool" where
  "request_inv s \<longleftrightarrow> attempts_inv s \<and> plan_inv s \<and> versions_inv s"

lemma lifecycle_request_inv: "lifecycle_step s t \<Longrightarrow> request_inv s \<Longrightarrow> request_inv t"
  using lifecycle_attempts_inv lifecycle_plan_inv lifecycle_versions_inv
  unfolding request_inv_def by blast

lemma buffer_inv [simp]: "request_inv (s\<lparr>pr_events := es\<rparr>) \<longleftrightarrow> request_inv s"
  by (simp add: request_inv_def plan_inv_def versions_inv_def)

lemma create_inv: "request_inv (create i)"
  by (simp add: request_inv_def create_def plan_inv_def versions_inv_def att_inv_def numbered_def)

lemma reachable_inv: "reachable s h \<Longrightarrow> request_inv s"
proof (induction rule: reachable.induct)
  case (created i)
  show ?case by (rule create_inv)
next
  case (command s h now c r t)
  from command(2) show ?case
    by (cases rule: exec_cases) (auto intro: lifecycle_request_inv command)
next
  case (pulled s h es t)
  then show ?case by (auto simp: pullEvents_def)
next
  case (committed s h n r t)
  then show ?case by (cases r) (auto simp: markEventsCommitted_def)
qed

text \<open>The buffer is what is left of the recorded events; the version counts all of them.\<close>

definition events_inv :: "aggregate \<Rightarrow> domain_event list \<Rightarrow> bool" where
  "events_inv s h \<longleftrightarrow> pr_version s = int (length h) \<and> (\<exists>k \<le> length h. pr_events s = drop k h)"

lemma events_inv_step:
  assumes "events_inv s h" and "lifecycle_step s t"
  shows "events_inv t (h @ drop (length (pr_events s)) (pr_events t))"
proof -
  obtain k where k: "k \<le> length h" "pr_events s = drop k h"
    using assms(1) by (auto simp: events_inv_def)
  obtain ev where ev: "pr_events t = pr_events s @ [ev]" and v: "pr_version t = pr_version s + 1"
    using lifecycle_events [OF assms(2)] by blast
  have "pr_events t = drop k (h @ [ev])" using k ev by simp
  moreover have "drop (length (pr_events s)) (pr_events t) = [ev]" by (simp add: ev)
  ultimately show ?thesis using assms(1) k v by (auto simp: events_inv_def intro!: exI [of _ k])
qed

lemma reachable_events: "reachable s h \<Longrightarrow> events_inv s h"
proof (induction rule: reachable.induct)
  case (created i)
  show ?case by (auto simp: events_inv_def create_def intro!: exI [of _ 0])
next
  case (command s h now c r t)
  from command(2) show ?case
  proof (cases rule: exec_cases)
    case (threw e)
    then show ?thesis using command by simp
  next
    case stepped
    then show ?thesis using events_inv_step [OF command(3)] by simp
  qed
next
  case (pulled s h es t)
  then show ?case by (auto simp: pullEvents_def events_inv_def intro!: exI [of _ "length h"])
next
  case (committed s h n r t)
  then obtain k where "k \<le> length h" "pr_events s = drop k h" by (auto simp: events_inv_def)
  with committed show ?case
    by (cases r)
      (auto simp: markEventsCommitted_def events_inv_def add.commute intro!: exI [of _ "k + nat n"])
qed


lemma step_appends:
  assumes "request_inv s" and "lifecycle_step s t" and app: "pr_attempts t = pr_attempts s @ [a]"
  shows "\<exists>p. pr_plan s = Some p \<and> att_planId a = planId p \<and> att_planVersion a = planVersion p \<and>
     att_planFingerprint a = planFingerprint p \<and>
     (requiresApproval p \<longrightarrow> (\<exists>ap. pr_approval s = Some ap \<and> binds p ap))"
proof -
  from assms(1) have plan: "plan_inv s" by (simp add: request_inv_def)
  have bound: "\<exists>ap. pr_approval s = Some ap \<and> binds p ap"
    if "pr_plan s = Some p" "pr_approval s \<noteq> None" for p
    using plan that by (auto simp: plan_inv_def)
  show ?thesis
    using assms(2)
  proof cases
    case (authorize p steps aid ev now)
    then show ?thesis using app bound [of p] by (auto simp: new_attempt_def)
  next
    case (retry p steps aid ev now)
    then show ?thesis using app bound [of p] plan by (auto simp: new_attempt_def plan_inv_def)
  qed (use app in \<open>auto dest: arg_cong [of _ _ length]\<close>)
qed

lemma terminal_no_step:
  "pr_status s \<in> {Completed, Cancelled} \<Longrightarrow> \<not> lifecycle_step s t"
  by (auto elim: lifecycle_step.cases)

lemma cancel_possible:
  assumes "request_inv s" and "Cancelled \<in> set (transitions (pr_status s))"
  shows "\<exists>t. exec now (Cancel a ''x'') s = (Inr (), t) \<and> pr_status t = Cancelled"
proof -
  have "\<exists>a. current_attempt s = Some a" if "pr_status s = ExecutionAuthorized"
    using assms(1) that att_inv_current [of s] att_inv_active [of "pr_status s"]
    by (auto simp: request_inv_def)
  moreover have "audit_reason_ok ''x''" by code_simp
  ultimately show ?thesis using assms(2) by (cases "pr_status s") (auto simp: cancel_def)
qed

lemma complete_possible:
  assumes "request_inv s" and "pr_status s = Executing"
  shows "\<exists>t. exec now (Complete n) s = (Inr (), t) \<and> pr_status t = Completed"
proof -
  have "\<exists>a. current_attempt s = Some a"
    using assms att_inv_current [of s] att_inv_active [of "pr_status s"]
    by (auto simp: request_inv_def)
  then show ?thesis using assms(2) by (auto simp: complete_def)
qed

lemma accept_possible:
  assumes "pr_status s = PartiallyCompleted"
  shows "\<exists>t. exec now (AcceptRetainedOutcome a ''x'') s = (Inr (), t) \<and> pr_status t = Completed"
proof -
  have "audit_reason_ok ''x''" by code_simp
  then show ?thesis using assms by (auto simp: acceptRetainedOutcome_def)
qed

subsection \<open>Runs of commands\<close>

fun run_commands :: "(string \<times> command) list \<Rightarrow> aggregate \<Rightarrow> aggregate" where
  "run_commands [] s = s"
| "run_commands ((now, c) # cs) s = run_commands cs (snd (exec now c s))"

lemma reachable_run: "reachable s h \<Longrightarrow> \<exists>h'. reachable (run_commands cs s) h'"
proof (induction cs arbitrary: s h)
  case Nil
  then show ?case by auto
next
  case (Cons c cs)
  obtain now k where c: "c = (now, k)" by (cases c)
  obtain r t where rt: "exec now k s = (r, t)" by (cases "exec now k s")
  from Cons.IH [OF reachable.command [OF Cons.prems rt]] show ?case by (simp add: c rt)
qed

definition example_request :: create_privacy_request where
  "example_request = \<lparr>cr_id = ''req_1'', cr_environmentId = ''env_1'', cr_type = Delete,
     cr_source = Admin, cr_policyVersion = 1, cr_createdByActorId = ''usr_1'',
     cr_deadlineAt = ''2026-08-01T00:00:00.000Z''\<rparr>"

definition example_plan :: attached_plan where
  "example_plan = \<lparr>planId = ''pln_1'', planVersion = 1, planFingerprint = ''sha256:a'',
     requiresApproval = True\<rparr>"

definition example_run :: "(string \<times> command) list" where
  "example_run =
     [(''t1'', MarkIdentityVerified ''agt_1''), (''t2'', BeginPlanning ''agt_1''),
      (''t3'', AttachPlan example_plan),
      (''t4'', ApprovePlan \<lparr>planId = ''pln_1'', planVersion = 1, planFingerprint = ''sha256:a'',
                           decidedBy = ''usr_2''\<rparr>)]"

definition example_auth :: command where
  "example_auth = AuthorizeExecution
     \<lparr>planId = ''pln_1'', planVersion = 1, planFingerprint = ''sha256:a'', agentId = ''agt_1'',
      attemptId = ''att_1'', allowedStepIds = [''s1'', ''s2'']\<rparr>"

definition example_state :: aggregate where
  "example_state = run_commands example_run (create example_request)"

lemma example_reachable: "\<exists>h. reachable example_state h"
  unfolding example_state_def by (rule reachable_run) (rule reachable.created)

lemmas example_defs =
  example_request_def example_plan_def example_run_def example_auth_def example_state_def

text \<open>Evaluation of the commands on a concrete request, for the witnesses.\<close>

lemmas request_eval =
  command_defs act_eval create_def assertStatus_def assertCanTransition_def
  assertPlanBinding_def transition_def record_event_def buildAttempt_def appendAttempt_def
  requiredCurrentAttempt_def updatedCurrentAttempt_def applyAttemptUpdate_def closing_def
  normalizeAllowedStepIds_def normalizeAuditReason_def normalizeAuthorization_def binds_def
  event_def Let_def example_defs

text \<open>The example waits for its authorization: planned, sent to approval and approved.\<close>

lemma example_waiting:
  "pr_status example_state = AwaitingApproval" "pr_plan example_state = Some example_plan"
  "pr_attempts example_state = []"
  by (simp_all add: request_eval)

definition example_next :: aggregate where
  "example_next = snd (exec ''t5'' example_auth example_state)"

lemma example_authorized:
  "exec ''t5'' example_auth example_state = (Inr (), example_next)"
  "\<exists>a. pr_attempts example_next = pr_attempts example_state @ [a]"
  by (simp_all add: request_eval example_next_def)

lemma example_authorized_reachable: "\<exists>h. reachable example_next h"
  using example_reachable example_authorized(1) reachable.command by blast

subsection \<open>Properties\<close>

text \<open>C1. Every command of the aggregate either throws and leaves the aggregate exactly as it
was (status, version, plan, approval, attempts and event buffer), or it returns and has made one
step of the abstract lifecycle, under that step's condition.\<close>

theorem commands_refine_lifecycle:
  "case exec now c s of (Inl e, t) \<Rightarrow> t = s | (Inr u, t) \<Rightarrow> lifecycle_step s t"
  using exec_atomic [of now c s] exec_refines_lifecycle [of now c s]
  by (cases "exec now c s") (auto split: sum.splits)

text \<open>C2. In every state a request can reach, an attempt is created only for the plan attached to
the request, and when that plan requires approval, only while an approval of exactly that plan
(same id, version and fingerprint) stands. So nothing unapproved is ever authorized to run, by the
first authorization or by a retry.\<close>

theorem no_unapproved_execution:
  assumes "reachable s h" and "exec now c s = (Inr (), t)"
    and "pr_attempts t = pr_attempts s @ [a]"
  shows "\<exists>p. pr_plan s = Some p \<and> att_planId a = planId p \<and> att_planVersion a = planVersion p \<and>
    att_planFingerprint a = planFingerprint p \<and>
    (requiresApproval p \<longrightarrow> (\<exists>ap. pr_approval s = Some ap \<and> binds p ap))"
  using step_appends [OF reachable_inv [OF assms(1)] exec_refines_lifecycle [OF assms(2)] assms(3)] .

theorem no_unapproved_execution_witness:
  "\<exists>p ap. pr_plan example_state = Some p \<and> requiresApproval p \<and>
     pr_approval example_state = Some ap \<and> binds p ap"
proof -
  obtain h a where "reachable example_state h"
    and a: "pr_attempts example_next = pr_attempts example_state @ [a]"
    using example_reachable example_authorized(2) by blast
  from no_unapproved_execution [OF this(1) example_authorized(1) a] example_waiting(2)
  show ?thesis by (auto simp: example_plan_def)
qed

text \<open>C3. The attempts of a reachable request are numbered 1, 2, ... without gaps, have distinct
non-empty ids and valid step scopes and belong to the request; each has a completion time exactly
when it is closed; all but the last are closed, the last one is the current attempt, and it is
authorized (running) exactly when the request is execution_authorized (executing).\<close>

theorem attempts_well_formed:
  assumes "reachable s h"
  shows "map att_attemptNumber (pr_attempts s) = [1..<Suc (length (pr_attempts s))]
    \<and> distinct (map att_id (pr_attempts s))
    \<and> list_all (att_ok (pr_id s)) (pr_attempts s)
    \<and> list_all closed (butlast (pr_attempts s))
    \<and> pr_currentAttemptId s =
        (if pr_attempts s = [] then None else Some (att_id (last (pr_attempts s))))
    \<and> (pr_status s = ExecutionAuthorized \<longleftrightarrow>
        pr_attempts s \<noteq> [] \<and> att_status (last (pr_attempts s)) = AAuthorized)
    \<and> (pr_status s = Executing \<longleftrightarrow>
        pr_attempts s \<noteq> [] \<and> att_status (last (pr_attempts s)) = ARunning)"
  using reachable_inv [OF assms]
  unfolding request_inv_def att_inv_def numbered_def list_all_iff by blast

theorem attempts_well_formed_witness:
  "map att_attemptNumber (pr_attempts example_next) = [1] \<and> pr_status example_next = ExecutionAuthorized"
proof -
  obtain h where "reachable example_next h" using example_authorized_reachable by blast
  from attempts_well_formed [OF this] show ?thesis
    by (simp add: request_eval example_next_def)
qed

text \<open>No command rewrites history: a command keeps every attempt's id, number, plan binding,
step scope and creation time, never touches an attempt that is closed, and adds at most one
attempt, at the end.\<close>

theorem attempt_history_append_only:
  assumes "reachable s h" and "exec now c s = (r, t)"
  shows "history_extends (pr_attempts s) (pr_attempts t)"
  using assms(2)
proof (cases rule: exec_cases)
  case stepped
  then show ?thesis
    using lifecycle_history reachable_inv [OF assms(1)] by (simp add: request_inv_def)
qed simp

theorem attempt_history_append_only_witness:
  "history_extends (pr_attempts example_state) (pr_attempts example_next)"
proof -
  obtain h where "reachable example_state h" using example_reachable by blast
  from attempt_history_append_only [OF this example_authorized(1)] show ?thesis .
qed

text \<open>C4. The version of a request is the number of events it has recorded in its whole life, and
the event buffer is the suffix of them that has not been handed over: taking events out of the
buffer or committing a prefix of it loses and reorders nothing.\<close>

theorem version_counts_events:
  assumes "reachable s h"
  shows "pr_version s = int (length h) \<and> (\<exists>k \<le> length h. pr_events s = drop k h)"
  using reachable_events [OF assms] by (simp add: events_inv_def)

theorem version_counts_events_witness:
  "\<exists>h. reachable example_state h \<and> pr_version example_state = int (length h)"
proof -
  obtain h where "reachable example_state h" using example_reachable by blast
  with version_counts_events [OF this] show ?thesis by blast
qed

text \<open>C5. A completed or cancelled request is final: whatever commands are tried on it, and at
whatever times, it stays as it is.\<close>

theorem terminal_is_final:
  assumes "pr_status s \<in> {Completed, Cancelled}"
  shows "run_commands cs s = s"
proof (induction cs)
  case (Cons c cs)
  obtain now k where c: "c = (now, k)" by (cases c)
  obtain r t where rt: "exec now k s = (r, t)" by (cases "exec now k s")
  then have "t = s" using terminal_no_step [OF assms] by (cases rule: exec_cases) auto
  with Cons rt show ?case by (simp add: c)
qed simp

theorem terminal_is_final_witness:
  "pr_status (run_commands [(''t'', Cancel ''usr_1'' ''duplicate'')] (create example_request)) = Cancelled \<and>
   run_commands [(''u'', BeginPlanning ''agt_1''), (''v'', Fail ''x'')]
     (run_commands [(''t'', Cancel ''usr_1'' ''duplicate'')] (create example_request)) =
   run_commands [(''t'', Cancel ''usr_1'' ''duplicate'')] (create example_request)"
proof -
  have "audit_reason_ok ''duplicate''" by code_simp
  then have "pr_status (run_commands [(''t'', Cancel ''usr_1'' ''duplicate'')] (create example_request))
      = Cancelled"
    by (simp add: request_eval)
  with terminal_is_final show ?thesis by blast
qed

text \<open>No request is stuck: from every reachable state that is not final yet, one command ends
the request at once (cancellation, completion of a running execution, or acceptance of a partial
outcome); a running or authorized request always has the current attempt those commands need.\<close>

theorem every_request_can_end:
  assumes "reachable s h"
  shows "pr_status s \<in> {Completed, Cancelled} \<or>
    (\<exists>c t. exec now c s = (Inr (), t) \<and> pr_status t \<in> {Completed, Cancelled})"
proof -
  note inv = reachable_inv [OF assms]
  consider "pr_status s \<in> {Completed, Cancelled}" | "Cancelled \<in> set (transitions (pr_status s))"
    | "pr_status s = Executing" | "pr_status s = PartiallyCompleted"
    by (cases "pr_status s") auto
  then show ?thesis
    by cases (use cancel_possible [OF inv] complete_possible [OF inv] accept_possible in blast)+
qed

theorem every_request_can_end_witness:
  "\<exists>c t. exec ''t5'' c example_state = (Inr (), t) \<and> pr_status t \<in> {Completed, Cancelled}"
proof -
  obtain h where "reachable example_state h" using example_reachable by blast
  from every_request_can_end [OF this] example_waiting(1) show ?thesis by auto
qed

text \<open>A superseded plan is never authorized again: the plan versions of the attempts never
decrease, none exceeds the version of the plan that is attached, and in every reachable state
attaching a plan whose version any attempt already has is refused.\<close>

theorem superseded_plans_stay_out:
  assumes "reachable s h"
  shows "sorted (map att_planVersion (pr_attempts s))
    \<and> (case pr_plan s of None \<Rightarrow> True
       | Some p \<Rightarrow> list_all (\<lambda>a. att_planVersion a \<le> planVersion p) (pr_attempts s))
    \<and> list_all (\<lambda>a. \<forall>p. planVersion p = att_planVersion a \<longrightarrow> isl (fst (exec now (AttachPlan p) s)))
        (pr_attempts s)"
proof -
  have inv: "versions_inv s" using reachable_inv [OF assms] by (simp add: request_inv_def)
  have refused: "isl (fst (exec now (AttachPlan p) s))"
    if "planVersion p \<le> pr_latestPlanVersion s" for p
    using that by (cases "exec now (AttachPlan p) s") (auto simp: attachPlan_def isl_def block.simps guardM_def assertStatus_def split: if_splits)
  show ?thesis using inv refused
    by (auto simp: versions_inv_def list_all_iff simp del: exec.simps split: option.splits)
qed

theorem superseded_plans_stay_out_witness:
  "isl (fst (exec ''t6'' (AttachPlan example_plan) example_next))"
proof -
  obtain h where "reachable example_next h" using example_authorized_reachable by blast
  from superseded_plans_stay_out [OF this] show ?thesis
    by (simp add: request_eval example_next_def)
qed

end
