(* ===== verification/Bytes.thy ===== *)
theory Bytes
  imports Prelude
begin

text \<open>
  Buffers and their text encodings: UTF-8, the \<^verbatim>\<open>hex\<close> and \<^verbatim>\<open>base64url\<close>
  conversions of Node's \<open>Buffer\<close>, and the canonical base64url decoders that the pairing service,
  the agent gateway and the adapter SDK put before every key and signature they accept.
  A character is one of the 256 code units HOL has; \<open>utf8\<close> is exact on them.
\<close>

unbundle bit_operations_syntax

type_synonym byte = "8 word"
type_synonym bytes = "byte list"

subsection \<open>UTF-8\<close>

definition utf8_char :: "char \<Rightarrow> bytes" where
  "utf8_char c = (let n = (of_char c :: nat) in
     if n < 128 then [of_nat n] else [of_nat (192 + n div 64), of_nat (128 + n mod 64)])"

definition utf8 :: "string \<Rightarrow> bytes" where
  "utf8 s = concat (map utf8_char s)"

lemma utf8_simps [simp]:
  "utf8 [] = []" "utf8 (c # cs) = utf8_char c @ utf8 cs" "utf8 (s @ t) = utf8 s @ utf8 t"
  by (simp_all add: utf8_def)

lemma unat_byte [simp]: "n < 256 \<Longrightarrow> unat (of_nat n :: byte) = n"
  by (simp add: unat_of_nat)

lemma utf8_char_unat:
  "map unat (utf8_char c) = (let n = (of_char c :: nat) in
     if n < 128 then [n] else [192 + n div 64, 128 + n mod 64])"
proof -
  have "192 + k div 64 < (256::nat) \<and> 128 + k mod 64 < (256::nat)" if "k < 256" for k :: nat
    using that by auto
  from this [of "of_char c"] show ?thesis
    unfolding utf8_char_def Let_def by (simp del: of_nat_add add: unat_byte)
qed

lemma div_mod_eq: "m div k = n div k \<Longrightarrow> m mod k = n mod k \<Longrightarrow> m = (n::nat)"
  by (metis div_mult_mod_eq)

lemma utf8_char_cancel:
  "utf8_char c @ xs = utf8_char d @ ys \<longleftrightarrow> c = d \<and> xs = ys"
proof
  let ?m = "of_char c :: nat" and ?n = "of_char d :: nat"
  assume eq: "utf8_char c @ xs = utf8_char d @ ys"
  then have "map unat (utf8_char c) @ map unat xs = map unat (utf8_char d) @ map unat ys"
    by (metis map_append)
  then have "?m = ?n"
    unfolding utf8_char_unat Let_def
    by (auto simp del: of_char_eq_iff split: if_splits intro: div_mod_eq [of _ 64])
  then have "c = d" by simp
  with eq show "c = d \<and> xs = ys" by simp
qed simp

lemma utf8_char_nonempty [simp]: "utf8_char c \<noteq> []"
  by (simp add: utf8_char_def Let_def)

lemma utf8_inj: "utf8 s = utf8 t \<longleftrightarrow> s = t"
proof
  assume "utf8 s = utf8 t"
  then show "s = t"
  proof (induction s arbitrary: t)
    case Nil
    then show ?case by (cases t) auto
  next
    case (Cons c cs)
    then show ?case by (cases t) (auto simp: utf8_char_cancel)
  qed
qed simp

subsection \<open>Hexadecimal\<close>

definition hex_char :: "nat \<Rightarrow> char" where
  "hex_char n = hex_digits ! n"

definition hex_encode :: "bytes \<Rightarrow> string" where
  "hex_encode bs = concat (map (\<lambda>b. [hex_char (unat b div 16), hex_char (unat b mod 16)]) bs)"

definition hex_val :: "char \<Rightarrow> nat option" where
  "hex_val c =
     (if c \<in> set hex_digits then Some (length (takeWhile (\<lambda>d. d \<noteq> c) hex_digits))
      else if c \<in> set ''ABCDEF'' then Some (10 + length (takeWhile (\<lambda>d. d \<noteq> c) ''ABCDEF''))
      else None)"

text \<open>\<^verbatim>\<open>Buffer.from(s, "hex")\<close> stops at the first pair that is not hexadecimal.\<close>

fun hex_decode :: "string \<Rightarrow> bytes" where
  "hex_decode (c # d # cs) =
     (case (hex_val c, hex_val d) of
        (Some h, Some l) \<Rightarrow> of_nat (16 * h + l) # hex_decode cs
      | _ \<Rightarrow> [])"
| "hex_decode _ = []"

lemma hex_val_char: "n < 16 \<Longrightarrow> hex_val (hex_char n) = Some n"
proof -
  have "list_all (\<lambda>n. hex_val (hex_char n) = Some n) [0..<16]" by code_simp
  then show "n < 16 \<Longrightarrow> hex_val (hex_char n) = Some n" by (simp add: list_all_iff)
qed

lemma hex_encode_simps [simp]:
  "hex_encode [] = []"
  "hex_encode (b # bs) = hex_char (unat b div 16) # hex_char (unat b mod 16) # hex_encode bs"
  by (simp_all add: hex_encode_def)

lemma byte_bound [simp]: "unat (b :: byte) < 256"
  using unsigned_less [of b, where ?'a = nat] by simp

lemma hex_round_trip [simp]: "hex_decode (hex_encode bs) = bs"
proof (induction bs)
  case (Cons b bs)
  have "unat b div 16 < 16" by (rule less_mult_imp_div_less) (use byte_bound [of b] in linarith)
  with Cons show ?case by (simp add: hex_val_char del: of_nat_add of_nat_mult)
qed simp

lemma hex_encode_length [simp]: "length (hex_encode bs) = 2 * length bs"
  by (induction bs) auto

lemma hex_encode_inj: "hex_encode as = hex_encode bs \<longleftrightarrow> as = bs"
  by (metis hex_round_trip)

subsection \<open>Base64url\<close>

definition b64_alphabet :: string where
  "b64_alphabet = upper @ lower @ digits @ ''-_''"

definition b64_char :: "nat \<Rightarrow> char" where
  "b64_char n = b64_alphabet ! n"

definition b64_val :: "char \<Rightarrow> nat" where
  "b64_val c = length (takeWhile (\<lambda>d. d \<noteq> c) b64_alphabet)"

text \<open>Three bytes are a number below \<open>2 ^ 24\<close>, written with four digits of six bits.\<close>

definition b64_num :: "nat \<Rightarrow> nat \<Rightarrow> nat \<Rightarrow> nat" where
  "b64_num x y z = 65536 * x + 256 * y + z"

definition b64_digits :: "nat \<Rightarrow> string" where
  "b64_digits n = [b64_char (n div 262144), b64_char (n div 4096 mod 64),
                   b64_char (n div 64 mod 64), b64_char (n mod 64)]"

definition b64_value :: "char \<Rightarrow> char \<Rightarrow> char \<Rightarrow> char \<Rightarrow> nat" where
  "b64_value a b c d = 262144 * b64_val a + 4096 * b64_val b + 64 * b64_val c + b64_val d"

definition b64_bytes :: "nat \<Rightarrow> bytes" where
  "b64_bytes n = [of_nat (n div 65536), of_nat (n div 256 mod 256), of_nat (n mod 256)]"

text \<open>\<^verbatim>\<open>buffer.toString("base64url")\<close> writes no padding.\<close>

fun b64_encode :: "bytes \<Rightarrow> string" where
  "b64_encode (x # y # z # bs) = b64_digits (b64_num (unat x) (unat y) (unat z)) @ b64_encode bs"
| "b64_encode [x, y] = take 3 (b64_digits (b64_num (unat x) (unat y) 0))"
| "b64_encode [x] = take 2 (b64_digits (b64_num (unat x) 0 0))"
| "b64_encode [] = []"

text \<open>
  \<^verbatim>\<open>Buffer.from(s, "base64url")\<close> on a text of the alphabet: bits that do not fill a byte are
  dropped.
\<close>

fun b64_decode :: "string \<Rightarrow> bytes" where
  "b64_decode (a # b # c # d # cs) = b64_bytes (b64_value a b c d) @ b64_decode cs"
| "b64_decode [a, b, c] = take 2 (b64_bytes (b64_value a b c (CHR ''A'')))"
| "b64_decode [a, b] = take 1 (b64_bytes (b64_value a b (CHR ''A'') (CHR ''A'')))"
| "b64_decode _ = []"

lemma b64_val_char: "n < 64 \<Longrightarrow> b64_val (b64_char n) = n"
proof -
  have "list_all (\<lambda>n. b64_val (b64_char n) = n) [0..<64]" by code_simp
  then show "n < 64 \<Longrightarrow> b64_val (b64_char n) = n" by (simp add: list_all_iff)
qed

lemma b64_val_A [simp]: "b64_val (CHR ''A'') = 0"
  by code_simp

lemma b64_char_mem: "n < 64 \<Longrightarrow> b64_char n \<in> set b64_alphabet"
proof -
  have "length b64_alphabet = 64" by code_simp
  then show "n < 64 \<Longrightarrow> b64_char n \<in> set b64_alphabet" by (simp add: b64_char_def)
qed

lemma div_num: "r < k \<Longrightarrow> (k * x + r) div k = (x :: nat)"
  and mod_num: "r < k \<Longrightarrow> (k * x + r) mod k = (r :: nat)"
  by simp_all

lemma six_bits:
  assumes "n < 16777216"
  shows "n div 262144 < (64::nat)" "n div 4096 mod 64 < 64" "n div 64 mod 64 < 64" "n mod 64 < 64"
    and "262144 * (n div 262144) + 4096 * (n div 4096 mod 64) + 64 * (n div 64 mod 64) + n mod 64 = n"
proof -
  show "n div 262144 < (64::nat)" by (rule less_mult_imp_div_less) (use assms in simp)
  have "n div 64 div 64 = n div 4096" "n div 4096 div 64 = n div 262144"
    by (simp_all flip: div_mult2_eq)
  then have "64 * (n div 262144) + n div 4096 mod 64 = n div 4096"
    "64 * (n div 4096) + n div 64 mod 64 = n div 64" "64 * (n div 64) + n mod 64 = n"
    by (metis mult_div_mod_eq)+
  then show "262144 * (n div 262144) + 4096 * (n div 4096 mod 64) + 64 * (n div 64 mod 64) + n mod 64 = n"
    by linarith
qed simp_all

lemma b64_num_bound: "b64_num (unat x) (unat y) (unat z) < 16777216"
  and b64_num_bytes [simp]: "b64_bytes (b64_num (unat x) (unat y) (unat z)) = [x, y, z]"
  for x y z :: byte
proof -
  let ?n = "b64_num (unat x) (unat y) (unat z)"
  note b = byte_bound [of x] byte_bound [of y] byte_bound [of z]
  show "?n < 16777216" unfolding b64_num_def using b by linarith
  have n: "?n = 65536 * unat x + (256 * unat y + unat z)"
    "?n = 256 * (256 * unat x + unat y) + unat z" by (simp_all add: b64_num_def)
  have "256 * unat y + unat z < 65536" using b by linarith
  then have "?n div 65536 = unat x" by (simp only: n(1) div_num)
  moreover have "?n div 256 = 256 * unat x + unat y" "?n mod 256 = unat z"
    using b(3) by (simp_all only: n(2) div_num mod_num)
  moreover have "(256 * unat x + unat y) mod 256 = unat y" using b(2) by (rule mod_num)
  ultimately show "b64_bytes ?n = [x, y, z]" by (simp add: b64_bytes_def)
qed

lemma b64_value_digits:
  "n < 16777216 \<Longrightarrow> b64_value (b64_char (n div 262144)) (b64_char (n div 4096 mod 64))
     (b64_char (n div 64 mod 64)) (b64_char (n mod 64)) = n"
  by (simp add: b64_value_def b64_val_char six_bits)

lemma b64_char_0: "b64_char 0 = CHR ''A''"
  by code_simp

text \<open>The digits that \<open>take\<close> drops are zero.\<close>

lemma short_digits:
  "b64_num x y 0 mod 64 = 0" "b64_num x 0 0 mod 64 = 0" "b64_num x 0 0 div 64 mod 64 = 0"
proof -
  have n: "b64_num x y 0 = 64 * (1024 * x + 4 * y)" "b64_num x 0 0 = 64 * (64 * (16 * x))"
    by (simp_all add: b64_num_def)
  then show "b64_num x y 0 mod 64 = 0" "b64_num x 0 0 mod 64 = 0" by (simp_all only: mod_mult_self1_is_0)
  show "b64_num x 0 0 div 64 mod 64 = 0" unfolding n(2) by simp
qed

lemma b64_value_num:
  fixes x y z :: byte
  defines "n \<equiv> b64_num (unat x) (unat y) (unat z)"
  shows "b64_bytes (b64_value (b64_char (n div 262144)) (b64_char (n div 4096 mod 64))
     (b64_char (n div 64 mod 64)) (b64_char (n mod 64))) = [x, y, z]"
  by (simp add: n_def b64_value_digits b64_num_bound)

theorem b64_decode_encode [simp]: "b64_decode (b64_encode bs) = bs"
proof (induction bs rule: b64_encode.induct)
  case (1 x y z bs)
  then show ?case using b64_value_num [of x y z] by (simp add: b64_digits_def)
next
  case (2 x y)
  then show ?case using b64_value_num [of x y 0] by (simp add: b64_digits_def short_digits b64_char_0)
next
  case (3 x)
  then show ?case using b64_value_num [of x 0 0] by (simp add: b64_digits_def short_digits b64_char_0)
qed simp

lemma b64_encode_alphabet: "set (b64_encode bs) \<subseteq> set b64_alphabet"
proof -
  have d: "set (b64_digits (b64_num (unat x) (unat y) (unat z))) \<subseteq> set b64_alphabet" for x y z :: byte
    using six_bits [OF b64_num_bound [of x y z]] by (simp add: b64_digits_def b64_char_mem)
  show ?thesis
  proof (induction bs rule: b64_encode.induct)
    case (2 x y)
    then show ?case using set_take_subset d [of x y 0] by fastforce
  next
    case (3 x)
    then show ?case using set_take_subset d [of x 0 0] by fastforce
  qed (use d in auto)
qed

lemma b64_encode_eq_Nil [simp]: "b64_encode bs = [] \<longleftrightarrow> bs = []"
  and Nil_eq_b64_encode [simp]: "[] = b64_encode bs \<longleftrightarrow> bs = []"
  by (metis b64_decode.simps(4) b64_decode_encode b64_encode.simps(4))+

lemma b64_encode_length: "length bs \<le> length (b64_encode bs)"
  by (induction bs rule: b64_encode.induct) (auto simp: b64_digits_def)

lemma hex_encode_eq_Nil [simp]: "hex_encode bs = [] \<longleftrightarrow> bs = []"
  by (cases bs) auto

text \<open>
  \<^verbatim>\<open>Buffer.from(s, "base64url")\<close> on any text: the letters of both alphabets are read, all other characters
  skipped.
\<close>

definition url_char :: "char \<Rightarrow> char" where
  "url_char c = (if c = CHR ''+'' then CHR ''-'' else if c = CHR ''/'' then CHR ''_'' else c)"

definition buffer_base64url :: "string \<Rightarrow> bytes" where
  "buffer_base64url s = b64_decode (map url_char (filter (\<lambda>c. c \<in> set (b64_alphabet @ ''+/'')) s))"

lemma buffer_alphabet:
  assumes "set s \<subseteq> set b64_alphabet"
  shows "buffer_base64url s = b64_decode s"
proof -
  have "list_all (\<lambda>c. url_char c = c) b64_alphabet" by code_simp
  with assms have "map url_char s = s" by (intro map_idI) (auto simp: list_all_iff)
  moreover have "filter (\<lambda>c. c \<in> set (b64_alphabet @ ''+/'')) s = s" using assms by (auto simp: filter_id_conv)
  ultimately show ?thesis by (simp only: buffer_base64url_def)
qed

lemma buffer_encode [simp]: "buffer_base64url (b64_encode bs) = bs"
  using buffer_alphabet [OF b64_encode_alphabet] by simp

subsection \<open>The canonical decoders\<close>

definition b64_text :: "string \<Rightarrow> bool" where
  "b64_text s \<longleftrightarrow> s \<noteq> [] \<and> list_all (\<lambda>c. c \<in> set b64_alphabet) s"

text \<open>Of the pairing service's \<^verbatim>\<open>signature-verifier.ts\<close>, which throws,\<close>

definition pairing_decodeBase64Url :: "string \<Rightarrow> bytes option" where
  "pairing_decodeBase64Url v =
     (if \<not> b64_text v then None
      else let bs = b64_decode v in if bs = [] \<or> b64_encode bs \<noteq> v then None else Some bs)"

text \<open>of the agent gateway's \<^verbatim>\<open>message-signer.ts\<close>, which throws,\<close>

definition decodeCanonicalBase64Url :: "string \<Rightarrow> bytes option" where
  "decodeCanonicalBase64Url v =
     (if \<not> b64_text v then None
      else let bs = b64_decode v in if b64_encode bs \<noteq> v then None else Some bs)"

text \<open>and of the adapter SDK's \<^verbatim>\<open>signature.ts\<close>, which returns \<^verbatim>\<open>null\<close>.\<close>

definition adapter_decodeBase64Url :: "string \<Rightarrow> bytes option" where
  "adapter_decodeBase64Url v =
     (if \<not> b64_text v then None
      else let bs = b64_decode v in if b64_encode bs = v then Some bs else None)"

lemma canonical_decode:
  "decodeCanonicalBase64Url v = Some bs \<longleftrightarrow> bs \<noteq> [] \<and> v = b64_encode bs"
  using b64_encode_alphabet [of bs]
  by (auto simp: decodeCanonicalBase64Url_def b64_text_def list_all_iff Let_def split: if_splits)

lemma decode_text [codec]: "bs \<noteq> [] \<Longrightarrow> decodeCanonicalBase64Url (b64_encode bs) = Some bs"
  by (simp add: canonical_decode)

lemma encoded_text [codec]: "bs \<noteq> [] \<Longrightarrow> b64_text (b64_encode bs)"
  using decode_text [of bs] by (simp add: decodeCanonicalBase64Url_def split: if_splits)

lemma decoders_same:
  "pairing_decodeBase64Url v = decodeCanonicalBase64Url v"
  "adapter_decodeBase64Url v = decodeCanonicalBase64Url v"
  by (auto simp: pairing_decodeBase64Url_def decodeCanonicalBase64Url_def adapter_decodeBase64Url_def
      b64_text_def Let_def)

text \<open>C6. The three decoders that guard keys and signatures agree, and accept exactly the
canonical encodings of non-empty byte strings: every byte string has one accepted text, so no
second spelling of a key or a signature passes (the reencoding check rules out set bits in the
last character), and every encoded key or signature is accepted and decoded to itself.\<close>

theorem decoders_accept_canonical_only:
  "pairing_decodeBase64Url v = decodeCanonicalBase64Url v
   \<and> adapter_decodeBase64Url v = decodeCanonicalBase64Url v
   \<and> (decodeCanonicalBase64Url v = Some bs \<longleftrightarrow> bs \<noteq> [] \<and> v = b64_encode bs)"
  by (simp add: decoders_same canonical_decode)

end
