(* ===== verification/Audit_Chain.thy ===== *)
theory Audit_Chain
  imports Bytes
begin

text \<open>
  The audit hash chain of \<^verbatim>\<open>packages/domain/src/audit\<close>. SHA-256 (Node's crypto) and RFC 8785
  canonicalisation (the \<open>canonicalize\<close> package) are the parameters \<open>sha\<close> and \<open>canon\<close>; what is
  modelled is what the chain makes of them: the bytes it hashes, the links it checks, and the
  errors it throws. The metadata of an event has the type \<open>'m\<close>.
\<close>

datatype actor_type = UserActor | AgentActor | SystemActor

record 'm audit_body =
  ae_id :: string
  ae_tenantId :: string
  ae_environmentId :: string
  ae_sequence :: string
  ae_requestId :: "string option"
  ae_actorType :: actor_type
  ae_actorId :: string
  ae_action :: string
  ae_metadata :: 'm
  ae_createdAt :: string

record 'm audit_event = "'m audit_body" +
  ae_previousEventHash :: "string option"
  ae_eventHash :: string

datatype audit_error = AuditEventNotCanonical | AuditPreviousHashInvalid

definition AUDIT_HASH_CONTEXT :: string where
  "AUDIT_HASH_CONTEXT = ''forgetops.audit-event.v1''"

type_synonym 'm canon = "'m audit_body \<Rightarrow> string option"

definition canonicalAuditEventBytes :: "'m canon \<Rightarrow> 'm audit_body \<Rightarrow> audit_error + bytes" where
  "canonicalAuditEventBytes canon e =
     (case canon e of None \<Rightarrow> Inl AuditEventNotCanonical | Some s \<Rightarrow> Inr (utf8 s))"

text \<open>\<open>null\<close> and the empty string are both falsy: no previous hash.\<close>

definition previous_bytes :: "string option \<Rightarrow> audit_error + bytes" where
  "previous_bytes prev =
     (let given = prev \<noteq> None \<and> prev \<noteq> Some [];
          bs = (case prev of None \<Rightarrow> [] | Some h \<Rightarrow> if given then hex_decode h else [])
      in if length bs \<noteq> (if given then 32 else 0) then Inl AuditPreviousHashInvalid else Inr bs)"

definition hash_input :: "bytes \<Rightarrow> bytes \<Rightarrow> bytes" where
  "hash_input prev body = utf8 AUDIT_HASH_CONTEXT @ [0] @ prev @ body"

definition auditEventHash ::
  "(bytes \<Rightarrow> bytes) \<Rightarrow> 'm canon \<Rightarrow> string option \<Rightarrow> 'm audit_body \<Rightarrow> audit_error + string" where
  "auditEventHash sha canon prev e =
     (case previous_bytes prev of
        Inl err \<Rightarrow> Inl err
      | Inr p \<Rightarrow>
          (case canonicalAuditEventBytes canon e of
             Inl err \<Rightarrow> Inl err
           | Inr body \<Rightarrow> Inr (hex_encode (sha (hash_input p body)))))"

text \<open>The fields \<open>verifyChain\<close> passes on, every one but the two hashes.\<close>

definition strip :: "('m, 'z) audit_body_scheme \<Rightarrow> 'm audit_body" where
  "strip e = \<lparr>ae_id = ae_id e, ae_tenantId = ae_tenantId e, ae_environmentId = ae_environmentId e,
     ae_sequence = ae_sequence e, ae_requestId = ae_requestId e, ae_actorType = ae_actorType e,
     ae_actorId = ae_actorId e, ae_action = ae_action e, ae_metadata = ae_metadata e,
     ae_createdAt = ae_createdAt e\<rparr>"

definition complete_event ::
  "'m audit_body \<Rightarrow> string option \<Rightarrow> string \<Rightarrow> 'm audit_event" where
  "complete_event e prev h = audit_body.extend e
     \<lparr>ae_previousEventHash = prev, ae_eventHash = h\<rparr>"

datatype chain_verdict = Valid | BrokenAt string

fun verify_from ::
  "(bytes \<Rightarrow> bytes) \<Rightarrow> 'm canon \<Rightarrow> string option \<Rightarrow> 'm audit_event list \<Rightarrow>
   audit_error + chain_verdict" where
  "verify_from sha canon prev [] = Inr Valid"
| "verify_from sha canon prev (e # es) =
     (case auditEventHash sha canon prev (strip e) of
        Inl err \<Rightarrow> Inl err
      | Inr expected \<Rightarrow>
          if ae_previousEventHash e \<noteq> prev \<or> ae_eventHash e \<noteq> expected
          then Inr (BrokenAt (ae_id e))
          else verify_from sha canon (Some (ae_eventHash e)) es)"

definition verifyChain ::
  "(bytes \<Rightarrow> bytes) \<Rightarrow> 'm canon \<Rightarrow> 'm audit_event list \<Rightarrow> audit_error + chain_verdict" where
  "verifyChain sha canon chain = verify_from sha canon None chain"

fun build_from ::
  "(bytes \<Rightarrow> bytes) \<Rightarrow> 'm canon \<Rightarrow> string option \<Rightarrow> 'm audit_body list \<Rightarrow>
   audit_error + 'm audit_event list" where
  "build_from sha canon prev [] = Inr []"
| "build_from sha canon prev (e # es) =
     (case auditEventHash sha canon prev e of
        Inl err \<Rightarrow> Inl err
      | Inr h \<Rightarrow>
          (case build_from sha canon (Some h) es of
             Inl err \<Rightarrow> Inl err
           | Inr rest \<Rightarrow> Inr (complete_event e prev h # rest)))"

definition buildChain ::
  "(bytes \<Rightarrow> bytes) \<Rightarrow> 'm canon \<Rightarrow> 'm audit_body list \<Rightarrow> audit_error + 'm audit_event list" where
  "buildChain sha canon events = build_from sha canon None events"

subsection \<open>Lemmas\<close>

lemma strip_complete [simp]: "strip (complete_event e prev h) = e"
  and complete_simps [simp]: "ae_previousEventHash (complete_event e prev h) = prev"
    "ae_eventHash (complete_event e prev h) = h" "ae_id (complete_event e prev h) = ae_id e"
  by (simp_all add: strip_def complete_event_def audit_body.extend_def)

lemma complete_strip: "complete_event (strip e) (ae_previousEventHash e) (ae_eventHash e) = e"
  by (simp add: strip_def complete_event_def audit_body.extend_def)

lemma complete_eq:
  "complete_event b prev h = e \<longleftrightarrow>
     b = strip e \<and> prev = ae_previousEventHash e \<and> h = ae_eventHash e"
  using complete_strip by auto

lemma verify_iff_build:
  "verify_from sha canon prev es = Inr Valid \<longleftrightarrow> build_from sha canon prev (map strip es) = Inr es"
  by (induction es arbitrary: prev) (auto simp: complete_eq split: sum.splits)

lemma build_strip: "build_from sha canon prev bs = Inr es \<Longrightarrow> map strip es = bs"
  by (induction bs arbitrary: prev es) (auto split: sum.splits)

text \<open>A previous hash that the chain itself produced is always 64 hexadecimal characters.\<close>

definition link_ok :: "string option \<Rightarrow> bool" where
  "link_ok prev \<longleftrightarrow> prev = None \<or> (\<exists>bs. prev = Some (hex_encode bs) \<and> length bs = 32)"

lemma link_ok_simps [simp]:
  "link_ok None" "length bs = 32 \<Longrightarrow> link_ok (Some (hex_encode bs))"
  by (auto simp: link_ok_def)

lemma previous_bytes_ok:
  "link_ok prev \<Longrightarrow>
   previous_bytes prev = Inr (case prev of None \<Rightarrow> [] | Some h \<Rightarrow> hex_decode h)"
  by (auto simp: link_ok_def previous_bytes_def Let_def)

lemma link_ok_inj:
  assumes "link_ok p" and "link_ok q" and "previous_bytes p = previous_bytes q"
  shows "p = q"
  using assms
  by (auto simp: previous_bytes_ok link_ok_def)

lemma auditEventHash_total:
  assumes "link_ok prev" and "canon e \<noteq> None"
  shows "\<exists>p body. previous_bytes prev = Inr p \<and> canonicalAuditEventBytes canon e = Inr body \<and>
    auditEventHash sha canon prev e = Inr (hex_encode (sha (hash_input p body)))"
  using assms by (auto simp: previous_bytes_ok auditEventHash_def canonicalAuditEventBytes_def)

lemma verify_total:
  assumes sha: "\<And>b. length (sha b) = 32"
  shows "link_ok prev \<Longrightarrow> (\<And>e. e \<in> set es \<Longrightarrow> canon (strip e) \<noteq> None) \<Longrightarrow>
    \<exists>v. verify_from sha canon prev es = Inr v"
proof (induction es arbitrary: prev)
  case (Cons e es)
  obtain p body where
    "auditEventHash sha canon prev (strip e) = Inr (hex_encode (sha (hash_input p body)))"
    using auditEventHash_total [of prev canon "strip e" sha] Cons.prems by auto
  moreover have "\<exists>v. verify_from sha canon (Some (hex_encode (sha (hash_input p body)))) es = Inr v"
    using Cons.IH [of "Some (hex_encode (sha (hash_input p body)))"] Cons.prems sha by simp
  ultimately show ?case by auto
qed simp

lemma build_total:
  assumes sha: "\<And>b. length (sha b) = 32"
  shows "link_ok prev \<Longrightarrow> (\<And>e. e \<in> set bs \<Longrightarrow> canon e \<noteq> None) \<Longrightarrow>
    \<exists>es. build_from sha canon prev bs = Inr es"
proof (induction bs arbitrary: prev)
  case (Cons e bs)
  obtain p body where
    "auditEventHash sha canon prev e = Inr (hex_encode (sha (hash_input p body)))"
    using auditEventHash_total [of prev canon e sha] Cons.prems by auto
  moreover have "\<exists>es. build_from sha canon (Some (hex_encode (sha (hash_input p body)))) bs = Inr es"
    using Cons.IH [of "Some (hex_encode (sha (hash_input p body)))"] Cons.prems sha by simp
  ultimately show ?case by auto
qed simp

text \<open>The byte strings whose digests a valid chain is made of.\<close>

definition link_input :: "'m canon \<Rightarrow> string option \<Rightarrow> 'm audit_body \<Rightarrow> bytes list" where
  "link_input canon prev e =
     (case (previous_bytes prev, canonicalAuditEventBytes canon e) of
        (Inr p, Inr body) \<Rightarrow> [hash_input p body]
      | _ \<Rightarrow> [])"

fun hashed_inputs :: "'m canon \<Rightarrow> string option \<Rightarrow> 'm audit_event list \<Rightarrow> bytes list" where
  "hashed_inputs canon prev [] = []"
| "hashed_inputs canon prev (e # es) =
     link_input canon prev (strip e) @ hashed_inputs canon (Some (ae_eventHash e)) es"

definition digest_collision :: "(bytes \<Rightarrow> bytes) \<Rightarrow> bytes list \<Rightarrow> bytes list \<Rightarrow> bool" where
  "digest_collision sha xs ys \<longleftrightarrow> (\<exists>x \<in> set xs. \<exists>y \<in> set ys. x \<noteq> y \<and> sha x = sha y)"

definition canon_collision :: "'m canon \<Rightarrow> 'm audit_event list \<Rightarrow> 'm audit_event list \<Rightarrow> bool" where
  "canon_collision canon es fs \<longleftrightarrow>
     (\<exists>e \<in> set es. \<exists>f \<in> set fs. strip e \<noteq> strip f \<and> canon (strip e) = canon (strip f))"

lemma collision_mono:
  "digest_collision sha xs ys \<Longrightarrow> digest_collision sha (us @ xs) (vs @ ys)"
  "canon_collision canon es fs \<Longrightarrow> canon_collision canon (e # es) (f # fs)"
  by (auto simp: digest_collision_def canon_collision_def)

definition linked :: "(bytes \<Rightarrow> bytes) \<Rightarrow> 'm canon \<Rightarrow> string option \<Rightarrow> 'm audit_event \<Rightarrow> bool" where
  "linked sha canon prev e \<longleftrightarrow> ae_previousEventHash e = prev \<and>
     auditEventHash sha canon prev (strip e) = Inr (ae_eventHash e)"

lemma verify_Cons:
  "verify_from sha canon prev (e # es) = Inr Valid \<longleftrightarrow>
     linked sha canon prev e \<and> verify_from sha canon (Some (ae_eventHash e)) es = Inr Valid"
  by (auto simp: linked_def split: sum.splits)

lemma linked_inputs:
  assumes "linked sha canon prev e"
  obtains p body s where "previous_bytes prev = Inr p" "canon (strip e) = Some s"
    "link_input canon prev (strip e) = [hash_input p (utf8 s)]"
    "ae_eventHash e = hex_encode (sha (hash_input p (utf8 s)))"
  using assms
  by (auto simp: linked_def auditEventHash_def link_input_def canonicalAuditEventBytes_def
      split: sum.splits option.splits)

lemma link_length:
  "link_ok p \<Longrightarrow> previous_bytes p = Inr bs \<Longrightarrow> length bs = (if p = None then 0 else 32)"
  by (auto simp: previous_bytes_ok link_ok_def)

lemma same_link:
  assumes e: "linked sha canon p e" and f: "linked sha canon q f"
    and ok: "link_ok p" "link_ok q" "p = None \<longleftrightarrow> q = None"
    and same: "ae_eventHash e = ae_eventHash f"
  shows "p = q \<and> e = f
    \<or> digest_collision sha (link_input canon p (strip e)) (link_input canon q (strip f))
    \<or> canon_collision canon [e] [f]"
proof -
  from e obtain a s where a: "previous_bytes p = Inr a" "canon (strip e) = Some s"
    "link_input canon p (strip e) = [hash_input a (utf8 s)]"
    "ae_eventHash e = hex_encode (sha (hash_input a (utf8 s)))" by (rule linked_inputs)
  from f obtain b t where b: "previous_bytes q = Inr b" "canon (strip f) = Some t"
    "link_input canon q (strip f) = [hash_input b (utf8 t)]"
    "ae_eventHash f = hex_encode (sha (hash_input b (utf8 t)))" by (rule linked_inputs)
  have sha: "sha (hash_input a (utf8 s)) = sha (hash_input b (utf8 t))"
    using same a(4) b(4) by (simp add: hex_encode_inj)
  show ?thesis
  proof (cases "hash_input a (utf8 s) = hash_input b (utf8 t)")
    case False
    with sha show ?thesis by (simp add: a(3) b(3) digest_collision_def)
  next
    case True
    have "length a = length b"
      using link_length [OF ok(1) a(1)] link_length [OF ok(2) b(1)] ok(3) by simp
    with True have eq: "a = b" "s = t" by (auto simp: hash_input_def utf8_inj)
    have pq: "p = q" using link_ok_inj [OF ok(1,2)] a(1) b(1) eq(1) by simp
    show ?thesis
    proof (cases "strip e = strip f")
      case True
      then have "e = f"
        using pq same e f complete_strip [of e] complete_strip [of f] by (simp add: linked_def)
      with pq show ?thesis by simp
    next
      case False
      with a(2) b(2) eq(2) show ?thesis by (simp add: canon_collision_def)
    qed
  qed
qed

lemma linked_next:
  assumes "\<And>b. length (sha b) = 32" and "linked sha canon prev e"
  shows "link_ok (Some (ae_eventHash e))"
  using assms(2) by (rule linked_inputs) (simp add: assms(1))

lemma same_head_same_chain:
  assumes sha: "\<And>b. length (sha b) = 32"
  shows "length es = length fs \<Longrightarrow> es \<noteq> [] \<Longrightarrow> link_ok p \<Longrightarrow> link_ok q \<Longrightarrow> (p = None \<longleftrightarrow> q = None) \<Longrightarrow>
    verify_from sha canon p es = Inr Valid \<Longrightarrow> verify_from sha canon q fs = Inr Valid \<Longrightarrow>
    ae_eventHash (last es) = ae_eventHash (last fs) \<Longrightarrow>
    p = q \<and> es = fs \<or> digest_collision sha (hashed_inputs canon p es) (hashed_inputs canon q fs)
      \<or> canon_collision canon es fs"
proof (induction es fs arbitrary: p q rule: list_induct2)
  case (Cons e es f fs)
  note prems = Cons.prems
  have e: "linked sha canon p e" and f: "linked sha canon q f"
    using prems by (simp_all only: verify_Cons)
  have head: "p = q \<and> e = f
      \<or> digest_collision sha (hashed_inputs canon p (e # es)) (hashed_inputs canon q (f # fs))
      \<or> canon_collision canon (e # es) (f # fs)"
    if "ae_eventHash e = ae_eventHash f"
    using same_link [OF e f prems(2,3,4) that]
    by (auto simp: digest_collision_def canon_collision_def)
  show ?case
  proof (cases "es = []")
    case True
    with Cons.hyps head prems show ?thesis by auto
  next
    case False
    with Cons.hyps have "fs \<noteq> []" by auto
    with False Cons.IH [of "Some (ae_eventHash e)" "Some (ae_eventHash f)"] prems
      linked_next [OF sha e] linked_next [OF sha f]
    consider (same) "ae_eventHash e = ae_eventHash f \<and> es = fs"
      | (digest) "digest_collision sha (hashed_inputs canon (Some (ae_eventHash e)) es)
          (hashed_inputs canon (Some (ae_eventHash f)) fs)"
      | (canon) "canon_collision canon es fs"
      by (auto simp: verify_Cons simp del: verify_from.simps(2))
    then show ?thesis
    proof cases
      case same
      with head show ?thesis by auto
    qed (simp_all add: collision_mono)
  qed
qed simp

lemma verify_prefix:
  "verify_from sha canon prev (es @ fs) = Inr Valid \<Longrightarrow> verify_from sha canon prev es = Inr Valid"
  by (induction es arbitrary: prev) (auto split: sum.splits if_splits)

lemma verify_broken:
  "verify_from sha canon prev es = Inr (BrokenAt i) \<Longrightarrow>
     \<exists>n < length es. ae_id (es ! n) = i \<and>
        verify_from sha canon prev (take n es) = Inr Valid \<and>
        verify_from sha canon prev (take (Suc n) es) = Inr (BrokenAt i)"
proof (induction es arbitrary: prev)
  case (Cons e es)
  obtain h where h: "auditEventHash sha canon prev (strip e) = Inr h"
    using Cons.prems by (auto split: sum.splits)
  show ?case
  proof (cases "ae_previousEventHash e \<noteq> prev \<or> ae_eventHash e \<noteq> h")
    case True
    with Cons.prems h show ?thesis by (intro exI [of _ 0]) (auto split: if_splits)
  next
    case False
    then have link: "verify_from sha canon prev (e # xs) = verify_from sha canon (Some h) xs" for xs
      using h by auto
    from Cons.prems Cons.IH [of "Some h"] obtain n where "n < length es" "ae_id (es ! n) = i"
      "verify_from sha canon (Some h) (take n es) = Inr Valid"
      "verify_from sha canon (Some h) (take (Suc n) es) = Inr (BrokenAt i)"
      unfolding link by blast
    then show ?thesis unfolding take_Suc_Cons
      by (intro exI [of _ "Suc n"]) (simp add: link del: verify_from.simps(2))
  qed
qed simp

subsection \<open>Properties\<close>

text \<open>A digest and a canonical form for the witnesses: real SHA-256 and RFC 8785 are not needed to
show that the hypotheses can hold.\<close>

definition toy_sha :: "bytes \<Rightarrow> bytes" where
  "toy_sha b = take 32 (rev b @ replicate 32 0)"

definition toy_canon :: "'m canon" where
  "toy_canon e = Some (ae_id e)"

definition toy_event :: "string \<Rightarrow> unit audit_body" where
  "toy_event i = \<lparr>ae_id = i, ae_tenantId = ''ten'', ae_environmentId = ''env'', ae_sequence = ''1'',
     ae_requestId = None, ae_actorType = SystemActor, ae_actorId = ''sys'', ae_action = ''x'',
     ae_metadata = (), ae_createdAt = ''t''\<rparr>"

lemma toy_sha_length: "length (toy_sha b) = 32"
  by (simp add: toy_sha_def)

lemma toy_build: "\<exists>es. build_from toy_sha toy_canon None bs = Inr es"
  by (rule build_total) (simp_all add: toy_sha_length toy_canon_def)

text \<open>C8. \<open>verifyChain\<close> accepts exactly the chains \<open>buildChain\<close> produces: a chain is valid if and
only if rebuilding it from its own events, hashes removed, gives it back; in particular every
chain that \<open>buildChain\<close> returns is valid.\<close>

theorem verify_accepts_exactly_built:
  "(verifyChain sha canon es = Inr Valid \<longleftrightarrow> buildChain sha canon (map strip es) = Inr es)
   \<and> (buildChain sha canon bs = Inr es \<longrightarrow> map strip es = bs \<and> verifyChain sha canon es = Inr Valid)"
  using build_strip [of sha canon None bs es]
  by (auto simp: verifyChain_def buildChain_def verify_iff_build)

theorem verify_accepts_exactly_built_witness:
  "\<exists>es. buildChain toy_sha toy_canon [toy_event ''a'', toy_event ''b''] = Inr es
     \<and> verifyChain toy_sha toy_canon es = Inr Valid"
proof -
  obtain es where "buildChain toy_sha toy_canon [toy_event ''a'', toy_event ''b''] = Inr es"
    unfolding buildChain_def using toy_build by blast
  with verify_accepts_exactly_built show ?thesis by blast
qed

text \<open>C7. The chain is tamper evident: when two chains of the same length are both valid and end in
the same event hash, they are the same chain, unless two of the byte strings hashed along them are
different with the same digest, or two of their events are different with the same canonical
form. So changing, reordering or exchanging any event of a chain whose head is known is detected
up to a collision of SHA-256 (or of the canonicaliser), which the theorem exhibits.\<close>

theorem chain_tamper_evident:
  assumes "\<And>b. length (sha b) = 32" and "length es = length fs" and "es \<noteq> []"
    and "verifyChain sha canon es = Inr Valid" and "verifyChain sha canon fs = Inr Valid"
    and "ae_eventHash (last es) = ae_eventHash (last fs)"
  shows "es = fs \<or> digest_collision sha (hashed_inputs canon None es) (hashed_inputs canon None fs)
    \<or> canon_collision canon es fs"
  using same_head_same_chain [OF assms(1,2,3), where p = None and q = None] assms(4-6)
  by (auto simp: verifyChain_def)

theorem chain_tamper_evident_witness:
  "\<exists>es :: unit audit_event list. length es = 2 \<and> verifyChain toy_sha toy_canon es = Inr Valid \<and>
     (\<forall>fs. length fs = 2 \<longrightarrow> verifyChain toy_sha toy_canon fs = Inr Valid \<longrightarrow>
        ae_eventHash (last es) = ae_eventHash (last fs) \<longrightarrow>
        es = fs \<or> digest_collision toy_sha (hashed_inputs toy_canon None es) (hashed_inputs toy_canon None fs)
          \<or> canon_collision toy_canon es fs)"
proof -
  obtain es where es: "build_from toy_sha toy_canon None [toy_event ''a'', toy_event ''b''] = Inr es"
    using toy_build by blast
  have strip: "map strip es = [toy_event ''a'', toy_event ''b'']" using build_strip [OF es] .
  have len: "length es = 2" using arg_cong [OF strip, of length] by simp
  have valid: "verifyChain toy_sha toy_canon es = Inr Valid"
    using es by (simp add: verifyChain_def verify_iff_build strip)
  show ?thesis
  proof (rule exI [of _ es], intro conjI allI impI)
    fix fs :: "unit audit_event list"
    assume "length fs = 2" and fs: "verifyChain toy_sha toy_canon fs = Inr Valid"
      and "ae_eventHash (last es) = ae_eventHash (last fs)"
    with chain_tamper_evident [where sha = toy_sha and canon = toy_canon and es = es and fs = fs]
      toy_sha_length valid len
    show "es = fs \<or> digest_collision toy_sha (hashed_inputs toy_canon None es)
        (hashed_inputs toy_canon None fs) \<or> canon_collision toy_canon es fs" by fastforce
  qed (use len valid in simp_all)
qed

text \<open>With a digest of 32 bytes and events that have a canonical form, verification never
throws, whatever hashes the chain carries; and when it reports a break, the report is exact: it
names the first event that does not fit, the chain before it is valid, and every chain that
contains that prefix is rejected as well.\<close>

theorem verification_localises_first_break:
  assumes "\<And>b. length (sha b) = 32" and "\<And>e. e \<in> set es \<Longrightarrow> canon (strip e) \<noteq> None"
  shows "verifyChain sha canon es = Inr Valid
    \<or> (\<exists>n < length es. verifyChain sha canon es = Inr (BrokenAt (ae_id (es ! n)))
        \<and> verifyChain sha canon (take n es) = Inr Valid
        \<and> (\<forall>fs. verifyChain sha canon (take (Suc n) es @ fs) \<noteq> Inr Valid))"
proof -
  obtain v where v: "verifyChain sha canon es = Inr v"
    using verify_total [where sha = sha and prev = None and es = es and canon = canon] assms
    by (auto simp: verifyChain_def)
  show ?thesis
  proof (cases v)
    case (BrokenAt i)
    then obtain n where n: "n < length es" "ae_id (es ! n) = i"
      "verify_from sha canon None (take n es) = Inr Valid"
      "verify_from sha canon None (take (Suc n) es) = Inr (BrokenAt i)"
      using v verify_broken [of sha canon None es i] by (auto simp: verifyChain_def)
    have "verifyChain sha canon (take (Suc n) es @ fs) \<noteq> Inr Valid" for fs
      using verify_prefix [of sha canon None "take (Suc n) es" fs] n(4) by (auto simp: verifyChain_def)
    with n v BrokenAt show ?thesis by (auto simp: verifyChain_def)
  qed (use v in simp)
qed

theorem verification_localises_first_break_witness:
  "verifyChain toy_sha toy_canon [complete_event (toy_event ''a'') (Some ''00'') ''00''] = Inr Valid
   \<or> verifyChain toy_sha toy_canon [complete_event (toy_event ''a'') (Some ''00'') ''00''] = Inr (BrokenAt ''a'')"
  using verification_localises_first_break [where sha = toy_sha and canon = toy_canon
      and es = "[complete_event (toy_event ''a'') (Some ''00'') ''00'']"]
  by (auto simp: toy_sha_length toy_canon_def toy_event_def)

end
