(* ===== verification/Dates.thy ===== *)
theory Dates
  imports Prelude
begin

text \<open>
  What the sources use of \<open>Date\<close>: time values are integers, milliseconds since 1970 UTC;
  \<open>toISOString\<close> writes one and \<open>date_parse\<close> (\<open>Date.parse\<close>) reads the RFC 3339 UTC format back.
  The calendar is that of the ECMAScript specification: the year of a day is the largest whose
  first day is not after it. Years outside 1970-9999 have no text here (the language writes six
  digits and a sign there, a format none of the sources accepts).
\<close>

subsection \<open>The calendar\<close>

definition leap :: "nat \<Rightarrow> bool" where
  "leap y \<longleftrightarrow> (y mod 4 = 0 \<and> y mod 100 \<noteq> 0) \<or> y mod 400 = 0"

definition year_length :: "nat \<Rightarrow> nat" where
  "year_length y = (if leap y then 366 else 365)"

text \<open>Days from 1970-01-01 to the first day of a year: \<open>DayFromYear\<close> of the specification.\<close>

definition year_start :: "nat \<Rightarrow> nat" where
  "year_start y =
     365 * (y - 1970) + (y - 1969) div 4 + (y - 1601) div 400 - (y - 1901) div 100"

definition month_lengths :: "nat \<Rightarrow> nat list" where
  "month_lengths y = [31, if leap y then 29 else 28, 31, 30, 31, 30, 31, 31, 30, 31, 30, 31]"

definition month_start :: "nat \<Rightarrow> nat \<Rightarrow> nat" where
  "month_start y m = sum_list (take (m - 1) (month_lengths y))"

function find_year :: "nat \<Rightarrow> nat \<Rightarrow> nat" where
  "find_year y d = (if d < year_start (Suc y) \<or> 9999 \<le> y then y else find_year (Suc y) d)"
  by pat_completeness auto
termination by (relation "measure (\<lambda>(y, d). 9999 - y)") auto

declare find_year.simps [simp del]

fun find_month :: "nat list \<Rightarrow> nat \<Rightarrow> nat \<times> nat" where
  "find_month [] d = (1, d)"
| "find_month (l # ls) d =
     (if d < l then (1, d) else (let (m, r) = find_month ls (d - l) in (Suc m, r)))"

subsection \<open>Writing and reading a time value\<close>

definition digit :: "nat \<Rightarrow> char" where
  "digit n = digits ! (n mod 10)"

fun pad :: "nat \<Rightarrow> nat \<Rightarrow> string" where
  "pad 0 n = []"
| "pad (Suc k) n = pad k (n div 10) @ [digit n]"

text \<open>A natural number in decimal.\<close>

fun decimal :: "nat \<Rightarrow> string" where
  "decimal n = (if n < 10 then [digit n] else decimal (n div 10) @ [digit n])"

declare decimal.simps [simp del]

definition toISOString :: "int \<Rightarrow> string" where
  "toISOString t =
     (let days = nat (t div 86400000); ms = nat (t mod 86400000);
          y = find_year (1970 + days div 366) days;
          (m, d) = find_month (month_lengths y) (days - year_start y)
      in pad 4 y @ ''-'' @ pad 2 m @ ''-'' @ pad 2 (Suc d) @ ''T'' @
         pad 2 (ms div 3600000) @ '':'' @ pad 2 (ms div 60000 mod 60) @ '':'' @
         pad 2 (ms div 1000 mod 60) @ ''.'' @ pad 3 (ms mod 1000) @ ''Z'')"

definition digit_val :: "char \<Rightarrow> nat option" where
  "digit_val c = (if c \<in> set digits then Some (length (takeWhile (\<lambda>d. d \<noteq> c) digits)) else None)"

fun number_from :: "nat \<Rightarrow> string \<Rightarrow> nat option" where
  "number_from n [] = Some n"
| "number_from n (c # cs) =
     (case digit_val c of None \<Rightarrow> None | Some v \<Rightarrow> number_from (10 * n + v) cs)"

text \<open>The fraction of a second: one to nine digits, of which three count.\<close>

definition fraction :: "string \<Rightarrow> nat option" where
  "fraction s =
     (if s = ''Z'' then Some 0
      else if hd s = CHR ''.'' \<and> last s = CHR ''Z'' \<and> 3 \<le> length s \<and> length s \<le> 11
        \<and> list_all (\<lambda>c. c \<in> set digits) (butlast (tl s))
      then number_from 0 (take 3 (butlast (tl s) @ ''00'')) else None)"

definition make_time :: "nat \<Rightarrow> nat \<Rightarrow> nat \<Rightarrow> nat \<Rightarrow> nat \<Rightarrow> nat \<Rightarrow> nat \<Rightarrow> int option" where
  "make_time y mo d h mi s ms =
     (if 1970 \<le> y \<and> 1 \<le> mo \<and> mo \<le> 12 \<and> 1 \<le> d \<and> d \<le> 31 \<and> mi \<le> 59 \<and> s \<le> 59 \<and>
         (h \<le> 23 \<or> h = 24 \<and> mi = 0 \<and> s = 0 \<and> ms = 0)
      then Some (int (86400000 * (year_start y + month_start y mo + (d - 1)) +
                      3600000 * h + 60000 * mi + 1000 * s + ms))
      else None)"

definition date_parse :: "string \<Rightarrow> int option" where
  "date_parse s =
     (if 20 \<le> length s \<and> s ! 4 = CHR ''-'' \<and> s ! 7 = CHR ''-'' \<and> s ! 10 = CHR ''T'' \<and>
         s ! 13 = CHR '':'' \<and> s ! 16 = CHR '':''
      then (case (number_from 0 (take 4 s), number_from 0 (take 2 (drop 5 s)),
                  number_from 0 (take 2 (drop 8 s)), number_from 0 (take 2 (drop 11 s)),
                  number_from 0 (take 2 (drop 14 s)), number_from 0 (take 2 (drop 17 s)),
                  fraction (drop 19 s)) of
              (Some y, Some mo, Some d, Some h, Some mi, Some s, Some ms) \<Rightarrow>
                make_time y mo d h mi s ms
            | _ \<Rightarrow> None)
      else None)"

subsection \<open>Reading back what was written\<close>

lemma digit_val_digit [simp]: "digit_val (digit n) = Some (n mod 10)"
proof -
  have "list_all (\<lambda>k. digit_val (digits ! k) = Some k) [0..<10]" by code_simp
  then show ?thesis by (simp add: list_all_iff digit_def)
qed

lemma digit_mem [simp]: "digit n \<in> set digits"
  by (rule ccontr) (use digit_val_digit [of n] in \<open>simp add: digit_val_def\<close>)

lemma number_from_append:
  "number_from a (xs @ ys) = (case number_from a xs of None \<Rightarrow> None | Some b \<Rightarrow> number_from b ys)"
  by (induction xs arbitrary: a) (auto split: option.splits)

lemma number_from_pad: "number_from a (pad k n) = Some (a * 10 ^ k + n mod 10 ^ k)"
proof (induction k arbitrary: n)
  case (Suc k)
  have "n mod (10 * 10 ^ k) = 10 * (n div 10 mod 10 ^ k) + n mod 10"
    by (rule mod_mult2_eq)
  with Suc show ?case by (simp add: number_from_append algebra_simps)
qed simp

lemma pad_length [simp]: "length (pad k n) = k"
  by (induction k arbitrary: n) auto

lemma pad_digits: "list_all (\<lambda>c. c \<in> set digits) (pad k n)"
  by (induction k arbitrary: n) auto

lemma div_Suc_step: "0 < k \<Longrightarrow> Suc n div k = n div k + (if Suc n mod k = 0 then 1 else 0)"
  by (simp add: div_Suc)

lemma leap_count:
  fixes a :: nat
  assumes "b = a + (if p then 1 else 0)" and "d = c + (if q then 1 else 0)"
    and "f = e + (if r then 1 else 0)" and "q \<Longrightarrow> p" and "r \<Longrightarrow> q" and "c < Suc z"
  shows "365 * z + 365 + b + f - d = 365 * z + a + e - c + (if p \<and> \<not> q \<or> r then 366 else 365)"
  using assms by (cases p; cases q; cases r) auto

lemma year_step:
  assumes "1970 \<le> y"
  shows "year_start (Suc y) = year_start y + year_length y"
proof -
  obtain z where y: "y = z + 1970" using assms by (metis le_add_diff_inverse2)
  have m: "(z + 1970) mod 4 = (z + 2) mod 4" "(z + 1970) mod 100 = (z + 70) mod 100"
    "(z + 1970) mod 400 = (z + 370) mod 400"
    using mod_mult_self1 [of "z + 2" 492 4] mod_mult_self1 [of "z + 70" 19 100]
      mod_mult_self1 [of "z + 370" 4 400] by (simp_all add: add.commute)
  have d: "(z + 2) div 4 = (z + 1) div 4 + (if (z + 2) mod 4 = 0 then 1 else 0)"
    "(z + 70) div 100 = (z + 69) div 100 + (if (z + 70) mod 100 = 0 then 1 else 0)"
    "(z + 370) div 400 = (z + 369) div 400 + (if (z + 370) mod 400 = 0 then 1 else 0)"
    using div_Suc_step [of 4 "z + 1"] div_Suc_step [of 100 "z + 69"] div_Suc_step [of 400 "z + 369"]
    by (simp_all add: add.commute)
  have "4 dvd z + 2" if "100 dvd z + 70"
  proof -
    have "4 dvd (z + 2) + 68" using dvd_trans [OF _ that, of 4] by (simp add: add.commute)
    then show ?thesis by (subst (asm) dvd_add_left_iff) simp_all
  qed
  moreover have "100 dvd z + 70" if "400 dvd z + 370"
  proof -
    have "100 dvd (z + 70) + 300" using dvd_trans [OF _ that, of 100] by (simp add: add.commute)
    then show ?thesis by (subst (asm) dvd_add_left_iff) simp_all
  qed
  ultimately have i: "(z + 70) mod 100 = 0 \<Longrightarrow> (z + 2) mod 4 = 0"
    "(z + 370) mod 400 = 0 \<Longrightarrow> (z + 70) mod 100 = 0"
    by (simp_all only: mod_eq_0_iff_dvd)
  have "(z + 69) div 100 < Suc z" by (rule less_mult_imp_div_less) simp
  have "year_start y = 365 * z + (z + 1) div 4 + (z + 369) div 400 - (z + 69) div 100"
    "year_start (Suc y) = 365 * z + 365 + (z + 2) div 4 + (z + 370) div 400 - (z + 70) div 100"
    by (simp_all add: year_start_def y add.commute)
  moreover have "year_length y = (if (z + 2) mod 4 = 0 \<and> (z + 70) mod 100 \<noteq> 0 \<or> (z + 370) mod 400 = 0
      then 366 else 365)"
    unfolding year_length_def leap_def y m ..
  ultimately show ?thesis
    using leap_count [OF d(1) d(2) d(3) i \<open>(z + 69) div 100 < Suc z\<close>] by (simp only:)
qed

lemma year_start_1970 [simp]: "year_start 1970 = 0"
  by (simp add: year_start_def)

lemma year_length_bounds: "365 \<le> year_length y" "year_length y \<le> 366"
  by (simp_all add: year_length_def)

lemma year_start_estimate: "year_start (1970 + k) \<le> 366 * k"
proof (induction k)
  case (Suc k)
  then show ?case using year_step [of "1970 + k"] year_length_bounds(2) [of "1970 + k"] by simp
qed simp

lemma year_start_10000: "year_start 10000 = 2932897"
  by (simp add: year_start_def)

lemma find_year_correct:
  assumes "year_start y \<le> d" and "y \<le> 9999" and "d < year_start 10000"
  shows "y \<le> find_year y d \<and> find_year y d \<le> 9999 \<and>
    year_start (find_year y d) \<le> d \<and> d < year_start (Suc (find_year y d))"
  using assms
proof (induction y d rule: find_year.induct)
  case (1 y d)
  show ?case
  proof (cases "d < year_start (Suc y) \<or> 9999 \<le> y")
    case True
    then have "find_year y d = y" by (subst find_year.simps) simp
    moreover have "d < year_start (Suc y)"
    proof (rule ccontr)
      assume "\<not> d < year_start (Suc y)"
      with True 1(3) have "y = 9999" by simp
      then have "Suc y = 10000" by simp
      with 1(4) \<open>\<not> d < year_start (Suc y)\<close> show False by simp
    qed
    ultimately show ?thesis using 1(2,3) by simp
  next
    case False
    then have "find_year y d = find_year (Suc y) d" by (subst find_year.simps) simp
    moreover have "year_start (Suc y) \<le> d" "Suc y \<le> 9999" using False by linarith+
    ultimately show ?thesis using 1(1) [OF False _ _ 1(4)] by force
  qed
qed

lemma find_month_correct:
  "d < sum_list ls \<Longrightarrow> find_month ls d = (m, r) \<Longrightarrow>
   1 \<le> m \<and> m \<le> length ls \<and> r < ls ! (m - 1) \<and> d = sum_list (take (m - 1) ls) + r"
proof (induction ls arbitrary: d m r)
  case (Cons l ls)
  show ?case
  proof (cases "d < l")
    case False
    obtain m' r' where mr: "find_month ls (d - l) = (m', r')" by (cases "find_month ls (d - l)")
    with False Cons.prems have m: "m = Suc m'" "r = r'" by auto
    have "1 \<le> m' \<and> m' \<le> length ls \<and> r' < ls ! (m' - 1) \<and> d - l = sum_list (take (m' - 1) ls) + r'"
      using Cons.IH [OF _ mr] False Cons.prems(1) by auto
    with False m show ?thesis by (cases m') auto
  qed (use Cons.prems in auto)
qed simp

lemma month_lengths_sum: "sum_list (month_lengths y) = year_length y"
  and month_lengths_bound: "k < 12 \<Longrightarrow> month_lengths y ! k \<le> 31"
  and month_lengths_length [simp]: "length (month_lengths y) = 12"
  by (auto simp: month_lengths_def year_length_def less_Suc_eq numeral_eq_Suc)

lemma fraction_pad: "fraction (CHR ''.'' # pad 3 n @ ''Z'') = Some (n mod 1000)"
  by (simp add: fraction_def butlast_append pad_digits number_from_pad)

text \<open>The four-digit and two-digit fields, as lists of characters.\<close>

lemma pad_fields:
  "pad 2 n = [digit (n div 10), digit n]"
  "pad 4 n = [digit (n div 10 div 10 div 10), digit (n div 10 div 10), digit (n div 10), digit n]"
proof -
  have n: "(2::nat) = Suc (Suc 0)" "(4::nat) = Suc (Suc (Suc (Suc 0)))" by simp_all
  show "pad 2 n = [digit (n div 10), digit n]"
    "pad 4 n = [digit (n div 10 div 10 div 10), digit (n div 10 div 10), digit (n div 10), digit n]"
    unfolding n by (simp_all only: pad.simps append.simps)
qed

lemma number_from_fields:
  "n < 100 \<Longrightarrow> number_from 0 [digit (n div 10), digit n] = Some n"
  "n < 10000 \<Longrightarrow> number_from 0
     [digit (n div 10 div 10 div 10), digit (n div 10 div 10), digit (n div 10), digit n] = Some n"
  using number_from_pad [of 0 2 n] number_from_pad [of 0 4 n] by (simp_all only: pad_fields) simp_all

definition iso_fields :: "nat \<Rightarrow> nat \<Rightarrow> nat \<Rightarrow> nat \<Rightarrow> nat \<Rightarrow> nat \<Rightarrow> nat \<Rightarrow> string" where
  "iso_fields y m d h mi s ms = pad 4 y @ ''-'' @ pad 2 m @ ''-'' @ pad 2 d @ ''T'' @
     pad 2 h @ '':'' @ pad 2 mi @ '':'' @ pad 2 s @ ''.'' @ pad 3 ms @ ''Z''"

lemma date_parse_fields:
  assumes "y < 10000" "m < 100" "d < 100" "h < 100" "mi < 100" "s < 100" "ms < 1000"
  shows "date_parse (iso_fields y m d h mi s ms) = make_time y m d h mi s ms"
  using assms fraction_pad [of ms]
  by (simp add: date_parse_def iso_fields_def pad_fields number_from_fields)

lemma time_of_day:
  assumes "n < 86400000"
  shows "n div 3600000 < (24::nat)" "n div 60000 mod 60 < 60" "n div 1000 mod 60 < 60" "n mod 1000 < 1000"
    "3600000 * (n div 3600000) + 60000 * (n div 60000 mod 60) + 1000 * (n div 1000 mod 60) + n mod 1000 = n"
proof -
  show "n div 3600000 < (24::nat)" by (rule less_mult_imp_div_less) (use assms in simp)
  have "n div 1000 div 60 = n div 60000" "n div 60000 div 60 = n div 3600000"
    by (simp_all flip: div_mult2_eq)
  then have "60 * (n div 3600000) + n div 60000 mod 60 = n div 60000"
    "60 * (n div 60000) + n div 1000 mod 60 = n div 1000" "1000 * (n div 1000) + n mod 1000 = n"
    by (metis mult_div_mod_eq)+
  then show "3600000 * (n div 3600000) + 60000 * (n div 60000 mod 60) +
      1000 * (n div 1000 mod 60) + n mod 1000 = n"
    by linarith
qed simp_all

definition max_time :: int where
  "max_time = 253402300800000"

text \<open>From 1970 to the end of 9999, reading a written time value gives it back.\<close>

lemma date_parse_toISOString:
  assumes "0 \<le> t" and "t < max_time"
  shows "date_parse (toISOString t) = Some t"
proof -
  define days where "days = nat (t div 86400000)"
  define ms where "ms = nat (t mod 86400000)"
  define y where "y = find_year (1970 + days div 366) days"
  obtain m d where md: "find_month (month_lengths y) (days - year_start y) = (m, d)"
    by (cases "find_month (month_lengths y) (days - year_start y)")
  have days: "days < year_start 10000"
    using assms by (simp add: days_def year_start_10000 max_time_def)
  have t: "t = int (86400000 * days + ms)"
    using assms(1) by (simp add: days_def ms_def pos_imp_zdiv_nonneg_iff)
  have "year_start (1970 + days div 366) \<le> days"
    using year_start_estimate [of "days div 366"] by (meson div_times_less_eq_dividend dual_order.trans
      mult.commute times_div_less_eq_dividend)
  moreover have "days div 366 < 8030"
    by (rule less_mult_imp_div_less) (use days in \<open>simp add: year_start_10000\<close>)
  ultimately have y: "1970 \<le> y" "y \<le> 9999" "year_start y \<le> days" "days < year_start (Suc y)"
    using find_year_correct [of "1970 + days div 366" days] days unfolding y_def by simp_all
  have "days - year_start y < sum_list (month_lengths y)"
    using y(3,4) year_step [OF y(1)] by (simp add: month_lengths_sum)
  from find_month_correct [OF this md]
  have m: "1 \<le> m" "m \<le> 12" "d < month_lengths y ! (m - 1)"
    "days - year_start y = month_start y m + d"
    by (simp_all add: month_start_def)
  have "d < 31" using month_lengths_bound [of "m - 1" y] m by linarith
  have ms: "ms < 86400000" by (simp add: ms_def)
  note tod = time_of_day [OF ms]
  have iso: "toISOString t = iso_fields y m (Suc d) (ms div 3600000) (ms div 60000 mod 60)
      (ms div 1000 mod 60) (ms mod 1000)"
    using md by (simp add: toISOString_def iso_fields_def Let_def flip: days_def ms_def y_def)
  have "date_parse (toISOString t) = make_time y m (Suc d) (ms div 3600000) (ms div 60000 mod 60)
      (ms div 1000 mod 60) (ms mod 1000)"
    unfolding iso by (rule date_parse_fields) (use y m \<open>d < 31\<close> tod in linarith)+
  also have "\<dots> = Some (int (86400000 * days + ms))"
  proof -
    have "86400000 * (year_start y + month_start y m + (Suc d - 1)) + 3600000 * (ms div 3600000) +
        60000 * (ms div 60000 mod 60) + 1000 * (ms div 1000 mod 60) + ms mod 1000 =
        86400000 * days + ms"
    proof -
      have "days = year_start y + month_start y m + (Suc d - 1)" using m(4) y(3) by simp
      then show ?thesis using tod(5) by (simp only: add.assoc)
    qed
    moreover have "ms div 3600000 \<le> 23" "ms div 60000 mod 60 \<le> 59" "ms div 1000 mod 60 \<le> 59"
      using tod by linarith+
    ultimately show ?thesis using y m \<open>d < 31\<close> by (simp only: make_time_def) simp
  qed
  finally show ?thesis by (simp only: t)
qed

end
