(* ===== verification/Json.thy ===== *)
theory Json
  imports Prelude
begin

text \<open>
  JSON values as \<open>JSON.parse\<close> returns them (an object is its list of distinct keys with their
  values; numbers are the integers, which is all the sources compute with), and the checks of
  the \<open>zod\<close> schemas in the sources: a schema is a function from a JSON value to the parsed value,
  or \<open>None\<close> where \<open>safeParse\<close> does not succeed. \<open>strict()\<close> rejects an unknown key, \<open>trim()\<close>
  changes the value before the bounds are tested, an optional key may be missing.
\<close>

datatype json =
    JNull
  | JBool bool
  | JNum int
  | JStr string
  | JArr "json list"
  | JObj "(string \<times> json) list"

type_synonym 'a schema = "json \<Rightarrow> 'a option"

text \<open>\<open>s.split(d)\<close> for one character, and \<open>toLowerCase\<close> on ASCII.\<close>

fun split_at :: "char \<Rightarrow> string \<Rightarrow> string list" where
  "split_at d [] = [[]]"
| "split_at d (c # cs) =
     (if c = d then [] # split_at d cs
      else (case split_at d cs of [] \<Rightarrow> [[c]] | w # ws \<Rightarrow> (c # w) # ws))"

definition ascii_lower :: "char \<Rightarrow> char" where
  "ascii_lower c = (let n = (of_char c :: nat) in if 65 \<le> n \<and> n \<le> 90 then char_of (n + 32) else c)"

definition white :: "char \<Rightarrow> bool" where
  "white c \<longleftrightarrow> (let n = (of_char c :: nat) in (9 \<le> n \<and> n \<le> 13) \<or> n = 32 \<or> n = 160)"

definition trim :: "string \<Rightarrow> string" where
  "trim s = rev (dropWhile white (rev (dropWhile white s)))"

fun zstr :: "string schema" where
  "zstr (JStr s) = Some s"
| "zstr _ = None"

definition zbounded :: "nat \<Rightarrow> nat \<Rightarrow> string schema" where
  "zbounded lo hi j = Option.bind (zstr j)
     (\<lambda>s. if lo \<le> length s \<and> length s \<le> hi then Some s else None)"

definition ztrimmed :: "nat \<Rightarrow> nat \<Rightarrow> string schema" where
  "ztrimmed lo hi j = Option.bind (zstr j)
     (\<lambda>s. let t = trim s in if lo \<le> length t \<and> length t \<le> hi then Some t else None)"

fun zbool :: "bool schema" where
  "zbool (JBool b) = Some b"
| "zbool _ = None"

text \<open>An enumeration is the list of its texts with the values they stand for.\<close>

definition zenum :: "(string \<times> 'a) list \<Rightarrow> 'a schema" where
  "zenum cases j = Option.bind (zstr j) (map_of cases)"

fun zarray :: "'a schema \<Rightarrow> nat \<Rightarrow> nat \<Rightarrow> 'a list schema" where
  "zarray f lo hi (JArr xs) =
     (if lo \<le> length xs \<and> length xs \<le> hi then those (map f xs) else None)"
| "zarray f lo hi _ = None"

text \<open>The members of a strict object.\<close>

fun zobject :: "string list \<Rightarrow> (string \<times> json) list schema" where
  "zobject keys (JObj ms) = (if list_all (\<lambda>(k, v). k \<in> set keys) ms then Some ms else None)"
| "zobject keys _ = None"

definition zfield :: "(string \<times> json) list \<Rightarrow> string \<Rightarrow> 'a schema \<Rightarrow> 'a option" where
  "zfield ms k f = Option.bind (map_of ms k) f"

definition zoptional :: "(string \<times> json) list \<Rightarrow> string \<Rightarrow> 'a schema \<Rightarrow> 'a option option" where
  "zoptional ms k f = (case map_of ms k of None \<Rightarrow> Some None | Some j \<Rightarrow> map_option Some (f j))"

lemma zarray_Some:
  "zarray f lo hi j = Some ys \<Longrightarrow> lo \<le> length ys \<and> length ys \<le> hi \<and> (\<forall>y \<in> set ys. \<exists>x. f x = Some y)"
proof (cases j)
  case (JArr xs)
  assume "zarray f lo hi j = Some ys"
  with JArr have b: "lo \<le> length xs" "length xs \<le> hi" and t: "those (map f xs) = Some ys"
    by (auto split: if_splits)
  from t have "length ys = length xs \<and> (\<forall>y \<in> set ys. \<exists>x. f x = Some y)"
    by (induction xs arbitrary: ys) (auto split: option.splits)
  with b show ?thesis by simp
qed auto

lemma split_at_none: "d \<notin> set s \<Longrightarrow> split_at d s = [s]"
  by (induction s) auto

lemma split_at_join: "d \<notin> set s \<Longrightarrow> d \<notin> set t \<Longrightarrow> split_at d (s @ d # t) = [s, t]"
  by (induction s) (auto simp: split_at_none)

end
