(* ===== verification/Adapter_Signature.thy ===== *)
theory Adapter_Signature
  imports Bytes Dates Json
begin

text \<open>
  Request signatures of the adapter SDK (\<^verbatim>\<open>sdk/typescript/src/signature.ts\<close>) and its two
  nonce stores. SHA-256 and HMAC (Node's crypto) and the canonicaliser are the parameters \<open>sha\<close>,
  \<open>hmac\<close> and \<open>canonicalize\<close>; a digest is a byte string.
\<close>

subsection \<open>Signatures\<close>

definition SIGNATURE_DOMAIN :: string where
  "SIGNATURE_DOMAIN = ''forgetops.adapter-request.v1''"

definition ADAPTER_ACCEPTANCE_WINDOW_MS :: int where
  "ADAPTER_ACCEPTANCE_WINDOW_MS = 60000"

record adapter_signature_input =
  si_secret :: bytes
  si_method :: string
  si_normalizedPath :: string
  si_timestamp :: string
  si_nonce :: string
  si_contentType :: string
  si_body :: bytes

definition signature_envelope :: "(bytes \<Rightarrow> bytes) \<Rightarrow> adapter_signature_input \<Rightarrow> json" where
  "signature_envelope sha i = JObj
     [(''bodyDigest'', JStr (''sha256:'' @ hex_encode (sha (si_body i)))),
      (''contentType'', JStr (si_contentType i)), (''method'', JStr (si_method i)),
      (''nonce'', JStr (si_nonce i)), (''path'', JStr (si_normalizedPath i)),
      (''timestamp'', JStr (si_timestamp i)), (''type'', JStr ''forgetops.adapter-request''),
      (''version'', JNum 1)]"

text \<open>\<open>None\<close> is \<^verbatim>\<open>ADAPTER_SIGNATURE_CANONICALIZATION_FAILED\<close>.\<close>

definition signatureMaterial ::
  "(bytes \<Rightarrow> bytes) \<Rightarrow> (json \<Rightarrow> string option) \<Rightarrow> adapter_signature_input \<Rightarrow> bytes option" where
  "signatureMaterial sha canonicalize i =
     map_option (\<lambda>s. utf8 SIGNATURE_DOMAIN @ [0] @ utf8 s) (canonicalize (signature_envelope sha i))"

definition signAdapterRequest ::
  "(bytes \<Rightarrow> bytes) \<Rightarrow> (bytes \<Rightarrow> bytes \<Rightarrow> bytes) \<Rightarrow> (json \<Rightarrow> string option) \<Rightarrow>
   adapter_signature_input \<Rightarrow> string option" where
  "signAdapterRequest sha hmac canonicalize i =
     map_option (\<lambda>m. b64_encode (hmac (si_secret i) m)) (signatureMaterial sha canonicalize i)"

text \<open>\<^verbatim>\<open>RFC3339_UTC\<close>, and \<^verbatim>\<open>s === s.toUpperCase()\<close> on the 256 code units.\<close>

definition rfc3339_utc :: "string \<Rightarrow> bool" where
  "rfc3339_utc s \<longleftrightarrow> 20 \<le> length s \<and>
     list_all (\<lambda>k. s ! k \<in> set digits) [0, 1, 2, 3, 5, 6, 8, 9, 11, 12, 14, 15, 17, 18] \<and>
     s ! 4 = CHR ''-'' \<and> s ! 7 = CHR ''-'' \<and> s ! 10 = CHR ''T'' \<and> s ! 13 = CHR '':'' \<and>
     s ! 16 = CHR '':'' \<and> fraction (drop 19 s) \<noteq> None"

definition upper_text :: "string \<Rightarrow> bool" where
  "upper_text s \<longleftrightarrow> list_all (\<lambda>c. let n = (of_char c :: nat) in
     \<not> (97 \<le> n \<and> n \<le> 122) \<and> n \<noteq> 181 \<and> (n < 223 \<or> n = 247)) s"

definition nonce_text :: "string \<Rightarrow> bool" where
  "nonce_text s \<longleftrightarrow> 16 \<le> length s \<and> length s \<le> 128 \<and> list_all (\<lambda>c. c \<in> set b64_alphabet) s"

definition signed_fields_ok :: "adapter_signature_input \<Rightarrow> bool" where
  "signed_fields_ok i \<longleftrightarrow> 32 \<le> length (si_secret i) \<and> upper_text (si_method i) \<and>
     take 1 (si_normalizedPath i) = ''/'' \<and> rfc3339_utc (si_timestamp i) \<and> nonce_text (si_nonce i)"

definition in_window :: "int \<Rightarrow> string \<Rightarrow> bool" where
  "in_window nowMs ts =
     (case date_parse ts of None \<Rightarrow> False | Some t \<Rightarrow> \<bar>nowMs - t\<bar> \<le> ADAPTER_ACCEPTANCE_WINDOW_MS)"

text \<open>The outer option is \<open>None\<close> where the call throws.\<close>

definition verifyAdapterSignature ::
  "(bytes \<Rightarrow> bytes) \<Rightarrow> (bytes \<Rightarrow> bytes \<Rightarrow> bytes) \<Rightarrow> (json \<Rightarrow> string option) \<Rightarrow>
   adapter_signature_input \<Rightarrow> string \<Rightarrow> int \<Rightarrow> bool option" where
  "verifyAdapterSignature sha hmac canonicalize i signature nowMs =
     (if \<not> signed_fields_ok i then Some False
      else if \<not> in_window nowMs (si_timestamp i) then Some False
      else (case signatureMaterial sha canonicalize i of
              None \<Rightarrow> None
            | Some m \<Rightarrow> Some (adapter_decodeBase64Url signature = Some (hmac (si_secret i) m))))"

lemma verify_signature_iff:
  "verifyAdapterSignature sha hmac canonicalize i sig now = Some True \<longleftrightarrow>
     signed_fields_ok i \<and> in_window now (si_timestamp i) \<and>
     hmac (si_secret i) (the (signatureMaterial sha canonicalize i)) \<noteq> [] \<and>
     signAdapterRequest sha hmac canonicalize i = Some sig"
  by (auto simp: verifyAdapterSignature_def signAdapterRequest_def decoders_same canonical_decode
      split: option.splits)

subsection \<open>Nonce stores\<close>

text \<open>
  A \<open>Map\<close> is its entries in insertion order. A call of \<open>consume\<close> that throws has the result
  \<open>None\<close>.
\<close>

type_synonym nonces = "(string \<times> int) list"

fun map_set :: "string \<Rightarrow> int \<Rightarrow> nonces \<Rightarrow> nonces" where
  "map_set k v [] = [(k, v)]"
| "map_set k v ((a, b) # m) = (if a = k then (a, v) # m else (a, b) # map_set k v m)"

definition drop_expired :: "int \<Rightarrow> nonces \<Rightarrow> nonces" where
  "drop_expired nowMs m = filter (\<lambda>(value, expiry). \<not> expiry < nowMs) m"

definition memory_consume ::
  "string \<Rightarrow> int \<Rightarrow> int \<Rightarrow> nonces \<Rightarrow> bool option \<times> nonces" where
  "memory_consume nonce expiresAtMs nowMs m =
     (let m = drop_expired nowMs m in
      if nonce \<in> fst ` set m then (Some False, m) else (Some True, map_set nonce expiresAtMs m))"

text \<open>
  \<open>FileNonceStore\<close>: the file is a list of lines, each the JSON value it parses to or \<open>None\<close> where
  \<open>JSON.parse\<close> throws; \<open>fn_file\<close> is \<open>None\<close> while the file does not exist. \<open>io\<close> says whether creating,
  opening, appending to and syncing the file succeeds in a call; a failed append has written
  nothing, the whole line, or a torn one that does not parse.
\<close>

datatype append_outcome = Appended | NotWritten | WrittenNotSynced | TornLine

record file_nonce_store =
  fn_file :: "json option list option"
  fn_loaded :: bool
  fn_nonces :: nonces

definition nonce_line :: "string \<Rightarrow> int \<Rightarrow> json" where
  "nonce_line nonce expiresAtMs = JObj [(''nonce'', JStr nonce), (''expiresAtMs'', JNum expiresAtMs)]"

definition read_line :: "json option \<Rightarrow> (string \<times> int) option" where
  "read_line l = (case l of
       Some (JObj ms) \<Rightarrow>
         (case (map_of ms ''nonce'', map_of ms ''expiresAtMs'') of
            (Some (JStr n), Some (JNum e)) \<Rightarrow> Some (n, e)
          | _ \<Rightarrow> None)
     | _ \<Rightarrow> None)"

text \<open>Lines are entered one by one until one is corrupt; what was entered stays.\<close>

fun load_lines :: "json option list \<Rightarrow> nonces \<Rightarrow> bool \<times> nonces" where
  "load_lines [] m = (True, m)"
| "load_lines (l # ls) m =
     (case read_line l of None \<Rightarrow> (False, m) | Some (n, e) \<Rightarrow> load_lines ls (map_set n e m))"

definition file_lines :: "file_nonce_store \<Rightarrow> json option list" where
  "file_lines s = (case fn_file s of None \<Rightarrow> [] | Some ls \<Rightarrow> ls)"

definition file_load :: "file_nonce_store \<Rightarrow> bool \<times> file_nonce_store" where
  "file_load s =
     (if fn_loaded s then (True, s)
      else (case load_lines (file_lines s) (fn_nonces s) of
              (ok, m) \<Rightarrow> (ok, s\<lparr>fn_nonces := m, fn_loaded := ok\<rparr>)))"

definition append_line :: "json option \<Rightarrow> file_nonce_store \<Rightarrow> file_nonce_store" where
  "append_line l s = s\<lparr>fn_file := Some (file_lines s @ [l])\<rparr>"

definition file_consume ::
  "append_outcome \<Rightarrow> string \<Rightarrow> int \<Rightarrow> int \<Rightarrow> file_nonce_store \<Rightarrow>
   bool option \<times> file_nonce_store" where
  "file_consume io nonce expiresAtMs nowMs s =
     (case file_load s of
        (False, s) \<Rightarrow> (None, s)
      | (True, s) \<Rightarrow>
          (let m = drop_expired nowMs (fn_nonces s); s = s\<lparr>fn_nonces := m\<rparr>;
               line = Some (nonce_line nonce expiresAtMs) in
           if nonce \<in> fst ` set m then (Some False, s)
           else (case io of
                   NotWritten \<Rightarrow> (None, s)
                 | TornLine \<Rightarrow> (None, append_line None s)
                 | WrittenNotSynced \<Rightarrow> (None, append_line line s)
                 | Appended \<Rightarrow>
                     (Some True, (append_line line s)\<lparr>fn_nonces := map_set nonce expiresAtMs m\<rparr>))))"

text \<open>A new process on the same file.\<close>

definition file_restart :: "file_nonce_store \<Rightarrow> file_nonce_store" where
  "file_restart s = s\<lparr>fn_loaded := False, fn_nonces := []\<rparr>"

subsection \<open>What a nonce store promises\<close>

text \<open>
  \<open>blocked s n e\<close>: up to time \<open>e\<close> the store in state \<open>s\<close> will not accept \<open>n\<close>. Time stamps a
  store is called with need not grow; a call promises something about the nonces whose expiry
  is not before it. \<open>restart\<close> is what the loss of the process does to the store.
\<close>

locale nonce_store =
  fixes consume :: "'io \<Rightarrow> string \<Rightarrow> int \<Rightarrow> int \<Rightarrow> 's \<Rightarrow> bool option \<times> 's"
    and restart :: "'s \<Rightarrow> 's"
    and inv :: "'s \<Rightarrow> bool"
    and blocked :: "'s \<Rightarrow> string \<Rightarrow> int \<Rightarrow> bool"
  assumes consume_inv: "inv s \<Longrightarrow> consume io n e t s = (r, s') \<Longrightarrow> inv s'"
    and restart_inv: "inv s \<Longrightarrow> inv (restart s)"
    and accepted_blocked: "inv s \<Longrightarrow> consume io n e t s = (Some True, s') \<Longrightarrow> blocked s' n e"
    and blocked_refused: "inv s \<Longrightarrow> blocked s n e \<Longrightarrow> t \<le> e \<Longrightarrow> fst (consume io n e' t s) \<noteq> Some True"
    and blocked_consume: "inv s \<Longrightarrow> blocked s n e \<Longrightarrow> t \<le> e \<Longrightarrow> consume io k e' t s = (r, s') \<Longrightarrow>
      blocked s' n e"
    and blocked_restart: "inv s \<Longrightarrow> blocked s n e \<Longrightarrow> blocked (restart s) n e"

datatype 'io store_call = Consume 'io string int int | Restart

fun run_calls ::
  "('io \<Rightarrow> string \<Rightarrow> int \<Rightarrow> int \<Rightarrow> 's \<Rightarrow> bool option \<times> 's) \<Rightarrow> ('s \<Rightarrow> 's) \<Rightarrow>
   'io store_call list \<Rightarrow> 's \<Rightarrow> 's" where
  "run_calls consume restart [] s = s"
| "run_calls consume restart (Consume io n e t # cs) s =
     run_calls consume restart cs (snd (consume io n e t s))"
| "run_calls consume restart (Restart # cs) s = run_calls consume restart cs (restart s)"

fun call_until :: "int \<Rightarrow> 'io store_call \<Rightarrow> bool" where
  "call_until e (Consume io n x t) = (t \<le> e)"
| "call_until e Restart = True"

context nonce_store
begin

lemma run_inv: "inv s \<Longrightarrow> inv (run_calls consume restart cs s)"
proof (induction cs arbitrary: s)
  case (Cons c cs)
  show ?case
  proof (cases c)
    case (Consume io n e t)
    with Cons show ?thesis by (cases "consume io n e t s") (auto dest: consume_inv)
  qed (use Cons in \<open>simp add: restart_inv\<close>)
qed simp

lemma run_blocked:
  "inv s \<Longrightarrow> blocked s n e \<Longrightarrow> list_all (call_until e) cs \<Longrightarrow>
   blocked (run_calls consume restart cs s) n e"
proof (induction cs arbitrary: s)
  case (Cons c cs)
  show ?case
  proof (cases c)
    case (Consume io k x t)
    then show ?thesis using Cons
      by (cases "consume io k x t s") (auto dest: consume_inv blocked_consume)
  qed (use Cons in \<open>simp add: restart_inv blocked_restart\<close>)
qed simp

text \<open>Whatever calls and restarts happen before its expiry, an accepted nonce is not accepted again.\<close>

lemma accepted_once:
  assumes "inv s" and "consume io n e t s = (Some True, s')" and "list_all (call_until e) cs" and "t' \<le> e"
  shows "fst (consume io' n e' t' (run_calls consume restart cs s')) \<noteq> Some True"
proof -
  have s': "inv s'" using consume_inv [OF assms(1,2)] .
  have "blocked s' n e" using accepted_blocked [OF assms(1,2)] .
  from blocked_refused [OF run_inv [OF s'] run_blocked [OF s' this assms(3)] assms(4)]
  show ?thesis .
qed

end

subsection \<open>The memory store\<close>

lemma map_of_map_set: "map_of (map_set k v m) x = (if x = k then Some v else map_of m x)"
  by (induction k v m rule: map_set.induct) auto

lemma map_set_keys: "fst ` set (map_set k v m) = insert k (fst ` set m)"
  by (induction k v m rule: map_set.induct) auto

lemma distinct_map_set: "distinct (map fst m) \<Longrightarrow> distinct (map fst (map_set k v m))"
  by (induction k v m rule: map_set.induct) (auto simp: map_set_keys)

lemma distinct_drop_expired: "distinct (map fst m) \<Longrightarrow> distinct (map fst (drop_expired t m))"
  by (auto simp: drop_expired_def distinct_map_filter)

lemma map_of_drop_expired:
  "distinct (map fst m) \<Longrightarrow>
   map_of (drop_expired t m) n = (case map_of m n of None \<Rightarrow> None | Some e \<Rightarrow> if e < t then None else Some e)"
proof (induction m)
  case (Cons p m)
  obtain a b where p: "p = (a, b)" by (cases p)
  with Cons.prems have "map_of m a = None" by (simp add: map_of_eq_None_iff)
  with Cons p show ?case by (cases "n = a") (auto simp: drop_expired_def)
qed (simp add: drop_expired_def)

lemma in_keys: "n \<in> fst ` set m \<longleftrightarrow> map_of m n \<noteq> None"
  by (simp add: map_of_eq_None_iff)

definition memory_blocked :: "nonces \<Rightarrow> string \<Rightarrow> int \<Rightarrow> bool" where
  "memory_blocked m n e \<longleftrightarrow> (\<exists>x. map_of m n = Some x \<and> e \<le> x)"

text \<open>A memory store has no restart: losing the process loses the store.\<close>

interpretation nonce_memory: nonce_store "\<lambda>_ :: unit. memory_consume" "\<lambda>m. m" "\<lambda>m. distinct (map fst m)"
  memory_blocked
proof
  fix s s' :: nonces and io :: unit and n k e e' t r
  assume d: "distinct (map fst s)"
  note drop = map_of_drop_expired [OF d] distinct_drop_expired [OF d]
  show "distinct (map fst s')" if "memory_consume n e t s = (r, s')"
    using that drop by (auto simp: memory_consume_def Let_def distinct_map_set split: if_splits)
  show "memory_blocked s' n e" if "memory_consume n e t s = (Some True, s')"
    using that by (auto simp: memory_consume_def Let_def memory_blocked_def map_of_map_set split: if_splits)
  show "fst (memory_consume n e' t s) \<noteq> Some True" if "memory_blocked s n e" "t \<le> e"
    using that by (auto simp: memory_consume_def Let_def memory_blocked_def in_keys drop)
  show "memory_blocked s' n e"
    if "memory_blocked s n e" "t \<le> e" "memory_consume k e' t s = (r, s')"
    using that
    by (auto simp: memory_consume_def Let_def memory_blocked_def map_of_map_set in_keys drop split: if_splits)
qed auto

subsection \<open>The file store\<close>

text \<open>What the lines of the file say: whether one is corrupt, and the entries before it.\<close>

definition corrupt :: "json option list \<Rightarrow> bool" where
  "corrupt ls \<longleftrightarrow> list_ex (\<lambda>l. read_line l = None) ls"

fun file_map :: "json option list \<Rightarrow> (string \<rightharpoonup> int)" where
  "file_map [] = Map.empty"
| "file_map (l # ls) = (case read_line l of None \<Rightarrow> Map.empty | Some (n, e) \<Rightarrow> [n \<mapsto> e] ++ file_map ls)"

lemma map_of_map_set_upd: "map_of (map_set n e m) = map_of m ++ [n \<mapsto> e]"
  by (rule ext) (simp add: map_of_map_set)

lemma load_lines_map: "map_of (snd (load_lines ls m)) = map_of m ++ file_map ls"
proof (induction ls arbitrary: m)
  case (Cons l ls)
  show ?case
  proof (cases "read_line l")
    case (Some p)
    then show ?thesis
      by (cases p) (simp only: load_lines.simps file_map.simps option.case prod.case Cons.IH
          map_of_map_set_upd map_add_assoc)
  qed simp
qed simp

lemma load_lines_ok: "fst (load_lines ls m) \<longleftrightarrow> \<not> corrupt ls"
  by (induction ls m rule: load_lines.induct) (auto simp: corrupt_def split: option.splits)

lemma load_lines_distinct:
  "distinct (map fst m) \<Longrightarrow> distinct (map fst (snd (load_lines ls m)))"
  by (induction ls m rule: load_lines.induct) (auto simp: distinct_map_set split: option.splits)

lemma corrupt_append [simp]: "corrupt (ls @ [l]) \<longleftrightarrow> corrupt ls \<or> read_line l = None"
  by (auto simp: corrupt_def)

lemma file_map_append:
  "\<not> corrupt ls \<Longrightarrow> file_map (ls @ ks) = file_map ls ++ file_map ks"
  by (induction ls) (auto simp: corrupt_def split: option.splits)

lemma read_nonce_line [simp]: "read_line (Some (nonce_line n e)) = Some (n, e)"
  by (simp add: read_line_def nonce_line_def)

definition file_inv :: "file_nonce_store \<Rightarrow> bool" where
  "file_inv s \<longleftrightarrow> distinct (map fst (fn_nonces s)) \<and>
     (corrupt (file_lines s) \<or> map_of (fn_nonces s) \<subseteq>\<^sub>m file_map (file_lines s))"

definition file_blocked :: "file_nonce_store \<Rightarrow> string \<Rightarrow> int \<Rightarrow> bool" where
  "file_blocked s n e \<longleftrightarrow>
     (if fn_loaded s then (\<exists>x. map_of (fn_nonces s) n = Some x \<and> e \<le> x)
      else corrupt (file_lines s) \<or> (\<exists>x. file_map (file_lines s) n = Some x \<and> e \<le> x))"

lemma file_lines_simps [simp]:
  "file_lines (s\<lparr>fn_nonces := m\<rparr>) = file_lines s" "file_lines (s\<lparr>fn_loaded := b\<rparr>) = file_lines s"
  "file_lines (append_line l s) = file_lines s @ [l]" "fn_loaded (append_line l s) = fn_loaded s"
  "fn_nonces (append_line l s) = fn_nonces s"
  by (simp_all add: file_lines_def append_line_def)

lemma file_load_ok:
  assumes "file_load s = (True, s')" and "file_inv s"
  shows "fn_loaded s'" "file_inv s'" "file_blocked s' n e \<longleftrightarrow> file_blocked s n e \<or> file_blocked s' n e"
    "file_blocked s n e \<Longrightarrow> file_blocked s' n e"
proof -
  have "fn_loaded s' \<and> file_inv s' \<and> (file_blocked s n e \<longrightarrow> file_blocked s' n e)"
  proof (cases "fn_loaded s")
    case False
    obtain ok m where load: "load_lines (file_lines s) (fn_nonces s) = (ok, m)" by fastforce
    with False assms(1) have s': "s' = s\<lparr>fn_nonces := m, fn_loaded := True\<rparr>" and ok
      by (auto simp: file_load_def)
    have clean: "\<not> corrupt (file_lines s)" using load_lines_ok [of "file_lines s" "fn_nonces s"] load \<open>ok\<close> by simp
    have m: "map_of m = map_of (fn_nonces s) ++ file_map (file_lines s)"
      using load_lines_map [of "file_lines s" "fn_nonces s"] load by simp
    moreover have "map_of (fn_nonces s) \<subseteq>\<^sub>m file_map (file_lines s)"
      using assms(2) clean by (simp add: file_inv_def)
    ultimately have m: "map_of m = file_map (file_lines s)"
      by (simp add: map_add_subsumed1)
    have "distinct (map fst m)"
      using load_lines_distinct [of "fn_nonces s" "file_lines s"] load assms(2) by (simp add: file_inv_def)
    with m clean False show ?thesis by (simp add: s' file_inv_def file_blocked_def)
  qed (use assms in \<open>simp add: file_load_def\<close>)
  then show "fn_loaded s'" "file_inv s'" "file_blocked s' n e \<longleftrightarrow> file_blocked s n e \<or> file_blocked s' n e"
    "file_blocked s n e \<Longrightarrow> file_blocked s' n e" by blast+
qed

lemma file_load_failed:
  assumes "file_load s = (False, s')" and "file_inv s"
  shows "file_inv s' \<and> \<not> fn_loaded s' \<and> corrupt (file_lines s')"
proof -
  obtain ok m where load: "load_lines (file_lines s) (fn_nonces s) = (ok, m)" by fastforce
  with assms(1) have s': "s' = s\<lparr>fn_nonces := m, fn_loaded := False\<rparr>" and "\<not> ok"
    by (auto simp: file_load_def split: if_splits)
  have "corrupt (file_lines s)" using load_lines_ok [of "file_lines s" "fn_nonces s"] load \<open>\<not> ok\<close> by simp
  moreover have "distinct (map fst m)"
    using load_lines_distinct [of "fn_nonces s" "file_lines s"] load assms(2) by (simp add: file_inv_def)
  ultimately show ?thesis by (simp add: s' file_inv_def)
qed

text \<open>The rest of \<open>file_consume\<close>, on a loaded store.\<close>

definition loaded_consume ::
  "append_outcome \<Rightarrow> string \<Rightarrow> int \<Rightarrow> int \<Rightarrow> file_nonce_store \<Rightarrow>
   bool option \<times> file_nonce_store" where
  "loaded_consume io n e t s =
     (let m = drop_expired t (fn_nonces s); s = s\<lparr>fn_nonces := m\<rparr>; line = Some (nonce_line n e) in
      if n \<in> fst ` set m then (Some False, s)
      else (case io of
              NotWritten \<Rightarrow> (None, s)
            | TornLine \<Rightarrow> (None, append_line None s)
            | WrittenNotSynced \<Rightarrow> (None, append_line line s)
            | Appended \<Rightarrow> (Some True, (append_line line s)\<lparr>fn_nonces := map_set n e m\<rparr>)))"

lemma file_consume_split:
  "file_consume io n e t s =
     (case file_load s of (False, s) \<Rightarrow> (None, s) | (True, s) \<Rightarrow> loaded_consume io n e t s)"
  by (simp add: file_consume_def loaded_consume_def split: prod.split bool.split)

lemma read_torn [simp]: "read_line None = None"
  by (simp add: read_line_def)

lemma loaded_consume_inv:
  assumes "file_inv s" and "loaded_consume io n e t s = (r, s')"
  shows "file_inv s'"
proof -
  let ?m = "drop_expired t (fn_nonces s)"
  have d: "distinct (map fst (fn_nonces s))" using assms(1) by (simp add: file_inv_def)
  have sub: "map_of ?m \<subseteq>\<^sub>m map_of (fn_nonces s)"
    by (auto simp: map_le_def map_of_drop_expired [OF d] split: option.splits if_splits)
  have keep: "corrupt (file_lines s) \<or> map_of ?m \<subseteq>\<^sub>m file_map (file_lines s)"
    using assms(1) sub map_le_trans by (auto simp: file_inv_def)
  have le: "a \<subseteq>\<^sub>m b \<Longrightarrow> a ++ [n \<mapsto> e] \<subseteq>\<^sub>m b ++ [n \<mapsto> e]" for a b :: "string \<rightharpoonup> int"
    by (auto simp: map_le_def)
  have weaken: "n \<notin> fst ` set ?m \<Longrightarrow> map_of ?m \<subseteq>\<^sub>m b \<Longrightarrow> map_of ?m \<subseteq>\<^sub>m b ++ [n \<mapsto> e]" for b
    by (auto simp: map_le_def in_keys)
  show ?thesis
    using assms(2) keep distinct_drop_expired [OF d, of t] le weaken
    by (cases io; auto simp: loaded_consume_def Let_def file_inv_def file_map_append
        map_of_map_set_upd        distinct_map_set split: if_splits)
qed

lemma loaded_consume_blocked:
  assumes "file_inv s" and "fn_loaded s" and "loaded_consume io k e' t s = (r, s')"
  shows "r = Some True \<Longrightarrow> file_blocked s' k e'"
    and "file_blocked s k e \<Longrightarrow> t \<le> e \<Longrightarrow> r \<noteq> Some True"
    and "file_blocked s n e \<Longrightarrow> t \<le> e \<Longrightarrow> file_blocked s' n e"
proof -
  have d: "distinct (map fst (fn_nonces s))" using assms(1) by (simp add: file_inv_def)
  note defs = loaded_consume_def Let_def file_blocked_def in_keys map_of_drop_expired [OF d] map_of_map_set
  show "r = Some True \<Longrightarrow> file_blocked s' k e'"
    using assms by (cases io) (auto simp: defs split: if_splits)
  show "file_blocked s k e \<Longrightarrow> t \<le> e \<Longrightarrow> r \<noteq> Some True"
    using assms by (cases io) (auto simp: defs split: if_splits)
  show "file_blocked s n e \<Longrightarrow> t \<le> e \<Longrightarrow> file_blocked s' n e"
    using assms by (cases io) (auto simp: defs split: if_splits)
qed

interpretation nonce_file: nonce_store file_consume file_restart file_inv file_blocked
proof
  fix s s' :: file_nonce_store and io n k e e' t r
  assume inv: "file_inv s"
  show "file_inv s'" if c: "file_consume io n e t s = (r, s')"
    using that inv
    by (cases "file_load s"; cases "fst (file_load s)")
      (auto simp: file_consume_split dest: file_load_failed file_load_ok(2) intro: loaded_consume_inv)
  show "file_inv (file_restart s)"
    using inv by (simp add: file_inv_def file_restart_def file_lines_def)
  show "file_blocked s' n e" if "file_consume io n e t s = (Some True, s')"
    using that inv
    by (cases "file_load s"; cases "fst (file_load s)")
      (auto simp: file_consume_split dest: file_load_ok(1,2) intro: loaded_consume_blocked(1))
  show "fst (file_consume io n e' t s) \<noteq> Some True" if "file_blocked s n e" "t \<le> e"
  proof (cases "file_load s")
    case (Pair ok u)
    show ?thesis
    proof (cases ok)
      case True
      note u = file_load_ok [OF Pair [unfolded True[THEN eqTrueI]] inv]
      obtain r v where rv: "loaded_consume io n e' t u = (r, v)" by fastforce
      have "r \<noteq> Some True" using loaded_consume_blocked(2) [OF u(2,1) rv] u(4) that by blast
      with Pair True rv show ?thesis by (simp add: file_consume_split)
    qed (use Pair in \<open>simp add: file_consume_split\<close>)
  qed
  show "file_blocked s' n e"
    if "file_blocked s n e" "t \<le> e" "file_consume io k e' t s = (r, s')"
  proof (cases "file_load s")
    case (Pair ok u)
    show ?thesis
    proof (cases ok)
      case True
      note u = file_load_ok [OF Pair [unfolded True[THEN eqTrueI]] inv]
      have "loaded_consume io k e' t u = (r, s')" using that(3) Pair True by (simp add: file_consume_split)
      from loaded_consume_blocked(3) [OF u(2,1) this] u(4) that show ?thesis by blast
    next
      case False
      with that(3) Pair have "file_load s = (False, s')" by (simp add: file_consume_split)
      from file_load_failed [OF this inv] show ?thesis by (simp add: file_blocked_def)
    qed
  qed
  show "file_blocked (file_restart s) n e" if "file_blocked s n e"
    using that inv
    by (auto simp: file_blocked_def file_restart_def file_lines_def file_inv_def map_le_def dom_def
        split: if_splits)
qed

subsection \<open>Properties\<close>

definition opened :: "json option list option \<Rightarrow> file_nonce_store" where
  "opened f = \<lparr>fn_file = f, fn_loaded = False, fn_nonces = []\<rparr>"

lemma opened_inv: "file_inv (opened f)"
  by (simp add: file_inv_def opened_def)

text \<open>A nonce that the file store has accepted is not accepted again before it expires: not
after any sequence of other calls at times up to the expiry, in any order, not after any number
of process restarts in between, and not when writes fail or leave torn lines; whatever the file
held at first and whatever calls came before.\<close>

theorem file_nonce_single_use:
  assumes "s = run_calls file_consume file_restart before (opened f)"
    and "file_consume io n e t s = (Some True, s')"
    and "list_all (call_until e) between" and "t' \<le> e"
  shows "fst (file_consume io' n e' t' (run_calls file_consume file_restart between s')) \<noteq> Some True"
  using nonce_file.accepted_once [OF _ assms(2-4)] nonce_file.run_inv [OF opened_inv]
  by (simp add: assms(1))

theorem file_nonce_single_use_witness:
  "fst (file_consume Appended ''abcdefghijklmnop'' 70 50
     (run_calls file_consume file_restart
       [Restart, Consume TornLine ''ponmlkjihgfedcba'' 90 40, Restart]
       (snd (file_consume Appended ''abcdefghijklmnop'' 60 0 (opened None))))) \<noteq> Some True"
proof (rule file_nonce_single_use [where before = "[]" and f = None and e = 60])
  show "file_consume Appended ''abcdefghijklmnop'' 60 0 (opened None) =
      (Some True, snd (file_consume Appended ''abcdefghijklmnop'' 60 0 (opened None)))"
    by (simp add: file_consume_def file_load_def file_lines_def opened_def drop_expired_def Let_def)
qed simp_all

text \<open>\<open>verifyAdapterSignature\<close> accepts exactly what \<open>signAdapterRequest\<close> produces: the secret
is long enough, method, path, time stamp and nonce have their format, the time stamp is within
60 seconds of the clock, and the signature text is the canonical encoding of the HMAC of the
request; no other text of the same bytes is accepted.\<close>

theorem adapter_signature_exact:
  assumes "\<And>k m. hmac k m \<noteq> []"
  shows "verifyAdapterSignature sha hmac canonicalize i sig now = Some True \<longleftrightarrow>
     signed_fields_ok i \<and> in_window now (si_timestamp i) \<and>
     signAdapterRequest sha hmac canonicalize i = Some sig"
  using verify_signature_iff assms by blast

definition example_input :: adapter_signature_input where
  "example_input = \<lparr>si_secret = replicate 32 7, si_method = ''POST'',
     si_normalizedPath = ''/forgetops/v1/erase'', si_timestamp = ''2026-08-01T00:00:00Z'',
     si_nonce = ''abcdefghijklmnop'', si_contentType = ''application/json'', si_body = []\<rparr>"

lemmas example_eval = example_input_def signed_fields_ok_def rfc3339_utc_def nonce_text_def upper_text_def
  b64_alphabet_def digits_def lower_def upper_def fraction_def

lemma example_input_ok: "signed_fields_ok example_input"
  by (simp add: example_eval)

lemma example_time: "date_parse ''2026-08-01T00:00:00Z'' = Some 1785542400000"
  by (simp add: date_parse_def digit_val_def digits_def fraction_def make_time_def year_start_def
      month_start_def month_lengths_def leap_def)

theorem adapter_signature_exact_witness:
  "verifyAdapterSignature (\<lambda>b. b) (\<lambda>k m. k @ [1]) (\<lambda>j. Some ''{}'') example_input
     (b64_encode (replicate 32 7 @ [1])) 1785542460000 = Some True"
  by (subst adapter_signature_exact)
    (simp_all add: example_input_ok in_window_def example_time
      signAdapterRequest_def signatureMaterial_def, simp_all add: example_input_def example_time ADAPTER_ACCEPTANCE_WINDOW_MS_def)

end
