(* ===== verification/Adapter_Service.thy ===== *)
theory Adapter_Service
  imports Adapter_Signature
begin

text \<open>
  The adapter of \<^verbatim>\<open>sdk/typescript/src/create-adapter.ts\<close> with its request schemas
  (\<^verbatim>\<open>contracts.ts\<close>): the checks in front of every route, the five routes, and the framing of an
  export. The resource handlers are the customer's code: a handler is an action on the
  customer's database of type \<open>'db\<close> whose result is \<open>None\<close> where it throws.
\<close>

subsection \<open>Contracts\<close>

record subject_identity =
  sub_userId :: "string option"
  sub_email :: "string option"

datatype capability = CDiscover | CExport | CDelete | CAnonymize | CRetain | CVerify

datatype proposed_action =
    PDelete | PAnonymize | PExport | PRetainByPolicy | PUnsupported | PNeedsReview

datatype lifecycle_outcome =
    ODeleted | OAnonymized | ORetainedByPolicy | OUnsupported | ONeedsReview

datatype request_kind = KAccess | KDelete

definition action_texts :: "(string \<times> proposed_action) list" where
  "action_texts = [(''delete'', PDelete), (''anonymize'', PAnonymize),
     (''retain_by_policy'', PRetainByPolicy), (''unsupported'', PUnsupported),
     (''needs_review'', PNeedsReview)]"

definition outcome_texts :: "(string \<times> lifecycle_outcome) list" where
  "outcome_texts = [(''deleted'', ODeleted), (''anonymized'', OAnonymized),
     (''retained_by_policy'', ORetainedByPolicy), (''unsupported'', OUnsupported),
     (''needs_review'', ONeedsReview)]"

definition SubjectIdentitySchema :: "subject_identity schema" where
  "SubjectIdentitySchema j =
     Option.bind (zobject [''userId'', ''email''] j) (\<lambda>ms.
     Option.bind (zoptional ms ''userId'' (ztrimmed 1 512)) (\<lambda>u.
     Option.bind (zoptional ms ''email'' (ztrimmed 1 512)) (\<lambda>e.
       if u \<noteq> None \<or> e \<noteq> None then Some \<lparr>sub_userId = u, sub_email = e\<rparr> else None)))"

definition resource_name_text :: "string \<Rightarrow> bool" where
  "resource_name_text s \<longleftrightarrow>
     class_match (upper @ lower) (upper @ lower @ digits @ ''_-'') 127 s"

definition ResourceNameSchema :: "string schema" where
  "ResourceNameSchema j = Option.bind (zbounded 1 128 j)
     (\<lambda>s. if resource_name_text s then Some s else None)"

definition RequestIdSchema :: "string schema" where
  "RequestIdSchema = ztrimmed 1 256"

definition HealthRequestSchema :: "unit schema" where
  "HealthRequestSchema j = map_option (\<lambda>_. ()) (zobject [] j)"

definition DiscoverRequestSchema :: "(subject_identity \<times> string \<times> request_kind) schema" where
  "DiscoverRequestSchema j =
     Option.bind (zobject [''subject'', ''request''] j) (\<lambda>ms.
     Option.bind (zfield ms ''subject'' SubjectIdentitySchema) (\<lambda>s.
     Option.bind (zfield ms ''request'' (zobject [''requestId'', ''requestType''])) (\<lambda>rs.
     Option.bind (zfield rs ''requestId'' RequestIdSchema) (\<lambda>i.
     Option.bind (zfield rs ''requestType'' (zenum [(''access'', KAccess), (''delete'', KDelete)]))
       (\<lambda>k. Some (s, i, k))))))"

definition ExportRequestSchema :: "(subject_identity \<times> string list) schema" where
  "ExportRequestSchema j =
     Option.bind (zobject [''subject'', ''selection''] j) (\<lambda>ms.
     Option.bind (zfield ms ''subject'' SubjectIdentitySchema) (\<lambda>s.
     Option.bind (zfield ms ''selection'' (zobject [''resources''])) (\<lambda>sel.
     Option.bind (zfield sel ''resources'' (zarray ResourceNameSchema 1 128)) (\<lambda>rs.
       Some (s, rs)))))"

record erase_context =
  ec_requestId :: string
  ec_attemptId :: string
  ec_stepId :: string
  ec_idempotencyKey :: string
  ec_dryRun :: bool

record erase_request =
  er_subject :: subject_identity
  er_resource :: string
  er_operationKey :: string
  er_action :: proposed_action
  er_context :: erase_context

definition EraseContextSchema :: "erase_context schema" where
  "EraseContextSchema j =
     Option.bind (zobject [''requestId'', ''attemptId'', ''stepId'', ''idempotencyKey'', ''dryRun''] j) (\<lambda>ms.
     Option.bind (zfield ms ''requestId'' RequestIdSchema) (\<lambda>r.
     Option.bind (zfield ms ''attemptId'' RequestIdSchema) (\<lambda>a.
     Option.bind (zfield ms ''stepId'' RequestIdSchema) (\<lambda>s.
     Option.bind (zfield ms ''idempotencyKey'' (ztrimmed 1 512)) (\<lambda>k.
     Option.bind (zfield ms ''dryRun'' zbool) (\<lambda>d.
       Some \<lparr>ec_requestId = r, ec_attemptId = a, ec_stepId = s, ec_idempotencyKey = k,
         ec_dryRun = d\<rparr>))))))"

definition EraseRequestSchema :: "erase_request schema" where
  "EraseRequestSchema j =
     Option.bind (zobject [''subject'', ''resource'', ''plan'', ''context''] j) (\<lambda>ms.
     Option.bind (zfield ms ''subject'' SubjectIdentitySchema) (\<lambda>s.
     Option.bind (zfield ms ''resource'' ResourceNameSchema) (\<lambda>r.
     Option.bind (zfield ms ''plan'' (zobject [''operationKey'', ''action''])) (\<lambda>p.
     Option.bind (zfield p ''operationKey'' (ztrimmed 1 512)) (\<lambda>k.
     Option.bind (zfield p ''action'' (zenum action_texts)) (\<lambda>a.
     Option.bind (zfield ms ''context'' EraseContextSchema) (\<lambda>c.
       Some \<lparr>er_subject = s, er_resource = r, er_operationKey = k, er_action = a,
         er_context = c\<rparr>)))))))"

definition VerifyRequestSchema :: "(subject_identity \<times> string \<times> lifecycle_outcome) schema" where
  "VerifyRequestSchema j =
     Option.bind (zobject [''subject'', ''resource'', ''expectation''] j) (\<lambda>ms.
     Option.bind (zfield ms ''subject'' SubjectIdentitySchema) (\<lambda>s.
     Option.bind (zfield ms ''resource'' ResourceNameSchema) (\<lambda>r.
     Option.bind (zfield ms ''expectation'' (zobject [''state''])) (\<lambda>e.
     Option.bind (zfield e ''state'' (zenum outcome_texts)) (\<lambda>st.
       Some (s, r, st))))))"

subsection \<open>Resources\<close>

record discovery_result =
  dr_estimatedCount :: int
  dr_proposedAction :: proposed_action
  dr_localReference :: "string option"

record erase_result =
  rs_operationKey :: string
  rs_affectedCount :: int
  rs_outcome :: lifecycle_outcome

record verification_result =
  vr_satisfied :: bool
  vr_remainingCount :: int

type_synonym ('r, 'db) handler = "'db \<Rightarrow> 'r option \<times> 'db"

text \<open>
  What an export handler does with the writer it is given: it writes, sees whether the write
  was accepted, goes on, and returns a count or throws.
\<close>

datatype export_program =
    ExportReturn int
  | ExportThrow
  | ExportWrite string string bytes "bool \<Rightarrow> export_program"

record 'db resource =
  res_name :: string
  res_capabilities :: "capability list"
  res_healthCheck :: "(bool, 'db) handler option"
  res_discover :: "subject_identity \<Rightarrow> string \<times> request_kind \<Rightarrow> (discovery_result, 'db) handler"
  res_export :: "(subject_identity \<Rightarrow> 'db \<Rightarrow> export_program \<times> 'db) option"
  res_erase :: "(erase_request \<Rightarrow> (erase_result, 'db) handler) option"
  res_verify :: "(subject_identity \<Rightarrow> lifecycle_outcome \<Rightarrow> (verification_result, 'db) handler) option"

definition resource_ok :: "'db resource \<Rightarrow> bool" where
  "resource_ok r \<longleftrightarrow> (let c = set (res_capabilities r) in
     resource_name_text (res_name r) \<and> CDiscover \<in> c \<and>
     (CDelete \<in> c \<or> CAnonymize \<in> c \<longrightarrow> CVerify \<in> c \<and> res_erase r \<noteq> None \<and> res_verify r \<noteq> None) \<and>
     (CExport \<in> c \<longrightarrow> res_export r \<noteq> None))"

datatype adapter_error =
    ResourcesRequired | ResourceInvalid | SecretInvalid | LimitInvalid

fun add_resources ::
  "'db resource list \<Rightarrow> 'db resource list \<Rightarrow> adapter_error + 'db resource list" where
  "add_resources done [] = Inr done"
| "add_resources done (r # rs) =
     (if \<not> resource_ok r \<or> res_name r \<in> res_name ` set done then Inl ResourceInvalid
      else add_resources (done @ [r]) rs)"

definition validateResources :: "'db resource list \<Rightarrow> adapter_error + 'db resource list" where
  "validateResources rs = (if rs = [] then Inl ResourcesRequired else add_resources [] rs)"

definition get_resource :: "'db resource list \<Rightarrow> string \<Rightarrow> 'db resource option" where
  "get_resource rs n = find (\<lambda>r. res_name r = n) rs"

definition resolveSecret :: "bytes \<Rightarrow> adapter_error + bytes" where
  "resolveSecret configured =
     (if length configured < 32 then Inl SecretInvalid else Inr configured)"

definition MAX_SAFE :: int where "MAX_SAFE = 9007199254740991"

definition positiveLimit :: "int option \<Rightarrow> int \<Rightarrow> adapter_error + int" where
  "positiveLimit v fallback =
     (case v of None \<Rightarrow> Inr fallback
      | Some n \<Rightarrow> if MAX_SAFE < n \<or> n \<le> 0 then Inl LimitInvalid else Inr n)"

definition nonNegativeInteger :: "int \<Rightarrow> bool" where
  "nonNegativeInteger n \<longleftrightarrow> 0 \<le> n \<and> n \<le> MAX_SAFE"

text \<open>The configuration \<open>createForgetOpsAdapter\<close> closes over.\<close>

record 'db adapter_config =
  cf_resources :: "'db resource list"
  cf_secret :: bytes
  cf_maxPayloadBytes :: int
  cf_maxFrameBytes :: int
  cf_maxExportBytes :: int

record 'db adapter_options =
  op_resources :: "'db resource list"
  op_secret :: bytes
  op_maxPayloadBytes :: "int option"
  op_maxFrameBytes :: "int option"
  op_maxExportBytes :: "int option"

definition createForgetOpsAdapter :: "'db adapter_options \<Rightarrow> adapter_error + 'db adapter_config" where
  "createForgetOpsAdapter o1 =
     (case validateResources (op_resources o1) of Inl e \<Rightarrow> Inl e | Inr rs \<Rightarrow>
     (case resolveSecret (op_secret o1) of Inl e \<Rightarrow> Inl e | Inr secret \<Rightarrow>
     (case positiveLimit (op_maxPayloadBytes o1) (1024 * 1024) of Inl e \<Rightarrow> Inl e | Inr p \<Rightarrow>
     (case positiveLimit (op_maxFrameBytes o1) (256 * 1024) of Inl e \<Rightarrow> Inl e | Inr f \<Rightarrow>
     (case positiveLimit (op_maxExportBytes o1) (100 * 1024 * 1024) of Inl e \<Rightarrow> Inl e | Inr x \<Rightarrow>
       Inr \<lparr>cf_resources = rs, cf_secret = secret, cf_maxPayloadBytes = p, cf_maxFrameBytes = f,
            cf_maxExportBytes = x\<rparr>)))))"

subsection \<open>The export stream\<close>

text \<open>\<open>JSON.stringify\<close> of a string and of a non-negative integer.\<close>

definition json_char :: "char \<Rightarrow> string" where
  "json_char c = (let n = (of_char c :: nat) in
     if n = 34 then [CHR 0x5C, c] else if n = 92 then [CHR 0x5C, c]
     else if n = 8 then CHR 0x5C # ''b'' else if n = 9 then CHR 0x5C # ''t''
     else if n = 10 then CHR 0x5C # ''n'' else if n = 12 then CHR 0x5C # ''f''
     else if n = 13 then CHR 0x5C # ''r''
     else if n < 32 then CHR 0x5C # ''u00'' @ [hex_char (n div 16), hex_char (n mod 16)]
     else [c])"

definition json_string :: "string \<Rightarrow> string" where
  "json_string s = CHR 0x22 # concat (map json_char s) @ [CHR 0x22]"

datatype export_frame =
    DataFrame string string string
  | CompleteFrame int
  | ErrorFrame

definition json_key :: "string \<Rightarrow> string" where
  "json_key k = json_string k @ '':''"

fun frame_text :: "export_frame \<Rightarrow> string" where
  "frame_text (DataFrame path ct data) = ''{'' @ json_key ''type'' @ json_string ''data'' @ '','' @
     json_key ''path'' @ json_string path @ '','' @ json_key ''contentType'' @ json_string ct @ '','' @
     json_key ''data'' @ json_string data @ ''}''"
| "frame_text (CompleteFrame n) = ''{'' @ json_key ''type'' @ json_string ''complete'' @ '','' @
     json_key ''exportedCount'' @ decimal (nat n) @ ''}''"
| "frame_text ErrorFrame = ''{'' @ json_key ''type'' @ json_string ''error'' @ '','' @
     json_key ''code'' @ json_string ''ADAPTER_EXPORT_FAILED'' @ ''}''"

record export_stream =
  es_totalBytes :: int
  es_frames :: "export_frame list"

text \<open>\<^verbatim>\<open>Math.ceil(maxFrameBytes * 1.4) + 1024\<close>, over the rationals.\<close>

definition frame_limit :: "int \<Rightarrow> int" where
  "frame_limit maxFrameBytes = (14 * maxFrameBytes + 9) div 10 + 1024"

text \<open>The result is \<open>False\<close> where the call throws; what it added to the total stays added.\<close>

definition writeFrame ::
  "'db adapter_config \<Rightarrow> export_frame \<Rightarrow> int \<Rightarrow> export_stream \<Rightarrow> bool \<times> export_stream" where
  "writeFrame cf frame rawBytes s =
     (let s = s\<lparr>es_totalBytes := es_totalBytes s + rawBytes\<rparr> in
      if cf_maxExportBytes cf < es_totalBytes s then (False, s)
      else if frame_limit (cf_maxFrameBytes cf) < int (length (utf8 (frame_text frame))) + 1 then (False, s)
      else (True, s\<lparr>es_frames := es_frames s @ [frame]\<rparr>))"

fun split_slash :: "string \<Rightarrow> string list" where
  "split_slash [] = [[]]"
| "split_slash (c # cs) =
     (if c = CHR ''/'' then [] # split_slash cs
      else (case split_slash cs of [] \<Rightarrow> [[c]] | seg # segs \<Rightarrow> (c # seg) # segs))"

definition export_path_ok :: "string \<Rightarrow> bool" where
  "export_path_ok path \<longleftrightarrow> path \<noteq> [] \<and> length path \<le> 512 \<and> take 1 path \<noteq> ''/'' \<and>
     CHR 0x5C \<notin> set path \<and>
     list_all (\<lambda>seg. seg \<noteq> [] \<and> seg \<noteq> ''.'' \<and> seg \<noteq> ''..'') (split_slash path)"

definition writer_bytes ::
  "'db adapter_config \<Rightarrow> string \<Rightarrow> string \<Rightarrow> bytes \<Rightarrow> export_stream \<Rightarrow> bool \<times> export_stream" where
  "writer_bytes cf path ct bs s =
     (if \<not> export_path_ok path then (False, s)
      else if ct = [] \<or> 128 < length ct \<or> cf_maxFrameBytes cf < int (length bs) then (False, s)
      else writeFrame cf (DataFrame path ct (b64_encode bs)) (int (length bs)) s)"

primrec run_export ::
  "export_program \<Rightarrow> 'db adapter_config \<Rightarrow> export_stream \<Rightarrow> int option \<times> export_stream" where
  "run_export (ExportReturn n) cf s = (Some n, s)"
| "run_export ExportThrow cf s = (None, s)"
| "run_export (ExportWrite path ct bs k) cf s =
     (case writer_bytes cf path ct bs s of (ok, s) \<Rightarrow> run_export (k ok) cf s)"

text \<open>The loop over the selected resources; \<open>None\<close> where an exporter or the count check throws.\<close>

fun export_all ::
  "'db adapter_config \<Rightarrow> subject_identity \<Rightarrow> 'db resource list \<Rightarrow> int \<Rightarrow> export_stream \<Rightarrow> 'db \<Rightarrow>
   int option \<times> export_stream \<times> 'db" where
  "export_all cf sub [] count s db = (Some count, s, db)"
| "export_all cf sub (r # rs) count s db =
     (case res_export r of
        None \<Rightarrow> (None, s, db)
      | Some export \<Rightarrow>
          (case export sub db of (program, db) \<Rightarrow>
            (case run_export program cf s of
               (None, s) \<Rightarrow> (None, s, db)
             | (Some n, s) \<Rightarrow>
                 if nonNegativeInteger n then export_all cf sub rs (count + n) s db
                 else (None, s, db))))"

definition export_stream_of ::
  "'db adapter_config \<Rightarrow> subject_identity \<Rightarrow> 'db resource list \<Rightarrow> 'db \<Rightarrow> export_stream \<times> 'db" where
  "export_stream_of cf sub selected db =
     (case export_all cf sub selected 0 \<lparr>es_totalBytes = 0, es_frames = []\<rparr> db of
        (None, s, db) \<Rightarrow> (snd (writeFrame cf ErrorFrame 0 s), db)
      | (Some count, s, db) \<Rightarrow>
          (case writeFrame cf (CompleteFrame count) 0 s of
             (True, s) \<Rightarrow> (s, db)
           | (False, s) \<Rightarrow> (snd (writeFrame cf ErrorFrame 0 s), db)))"

subsection \<open>Routes\<close>

datatype reply =
    ErrorReply string
  | HealthReply bool "(string \<times> bool) list"
  | DiscoverReply "(string \<times> discovery_result) list"
  | ExportReply "export_frame list"
  | EraseReply erase_result
  | VerifyReply verification_result

record response =
  rp_status :: nat
  rp_reply :: reply

definition jsonResponse :: "nat \<Rightarrow> string \<Rightarrow> response" where
  "jsonResponse status code = \<lparr>rp_status = status, rp_reply = ErrorReply code\<rparr>"

definition ok_response :: "reply \<Rightarrow> response" where
  "ok_response r = \<lparr>rp_status = 200, rp_reply = r\<rparr>"

text \<open>\<open>Promise.all\<close>: every handler runs; the result is a rejection if one of them threw.\<close>

fun run_all ::
  "('db resource \<Rightarrow> ('r, 'db) handler) \<Rightarrow> 'db resource list \<Rightarrow> ('r list, 'db) handler" where
  "run_all f [] db = (Some [], db)"
| "run_all f (r # rs) db =
     (case f r db of (x, db) \<Rightarrow>
       (case run_all f rs db of (xs, db) \<Rightarrow>
         (case (x, xs) of (Some y, Some ys) \<Rightarrow> Some (y # ys) | _ \<Rightarrow> None, db)))"

text \<open>A route's handler; \<open>None\<close> where it throws.\<close>

definition health :: "'db adapter_config \<Rightarrow> json \<Rightarrow> (response, 'db) handler" where
  "health cf payload db =
     (case HealthRequestSchema payload of
        None \<Rightarrow> (None, db)
      | Some _ \<Rightarrow>
          (case run_all (\<lambda>r db. case res_healthCheck r of
                  None \<Rightarrow> (Some (res_name r, True), db)
                | Some check \<Rightarrow> (case check db of (h, db) \<Rightarrow> (map_option (Pair (res_name r)) h, db)))
                (cf_resources cf) db of
             (checks, db) \<Rightarrow>
               (map_option (\<lambda>cs. ok_response (HealthReply (list_all snd cs) cs)) checks, db)))"

definition discover :: "'db adapter_config \<Rightarrow> json \<Rightarrow> (response, 'db) handler" where
  "discover cf payload db =
     (case DiscoverRequestSchema payload of
        None \<Rightarrow> (None, db)
      | Some (subject, request) \<Rightarrow>
          (case run_all (\<lambda>r db. case res_discover r subject request db of (d, db) \<Rightarrow>
                  (map_option (\<lambda>d. (res_name r, d\<lparr>dr_localReference :=
                     Some (case dr_localReference d of None \<Rightarrow> res_name r | Some l \<Rightarrow> l)\<rparr>)) d, db))
                (cf_resources cf) db of
             (items, db) \<Rightarrow> (map_option (\<lambda>is. ok_response (DiscoverReply is)) items, db)))"

definition exportable :: "'db adapter_config \<Rightarrow> string \<Rightarrow> 'db resource option" where
  "exportable cf name =
     (case get_resource (cf_resources cf) name of
        None \<Rightarrow> None
      | Some r \<Rightarrow> if res_export r \<noteq> None \<and> CExport \<in> set (res_capabilities r) then Some r else None)"

definition exportData :: "'db adapter_config \<Rightarrow> json \<Rightarrow> (response, 'db) handler" where
  "exportData cf payload db =
     (case ExportRequestSchema payload of
        None \<Rightarrow> (None, db)
      | Some (subject, names) \<Rightarrow>
          (case those (map (exportable cf) (rev (remdups (rev names)))) of
             None \<Rightarrow> (None, db)
           | Some selected \<Rightarrow>
               (case export_stream_of cf subject selected db of
                  (s, db) \<Rightarrow> (Some (ok_response (ExportReply (es_frames s))), db))))"

fun required_capability :: "proposed_action \<Rightarrow> capability option" where
  "required_capability PRetainByPolicy = Some CRetain"
| "required_capability PDelete = Some CDelete"
| "required_capability PAnonymize = Some CAnonymize"
| "required_capability _ = None"

definition erase :: "'db adapter_config \<Rightarrow> json \<Rightarrow> (response, 'db) handler" where
  "erase cf payload db =
     (case EraseRequestSchema payload of
        None \<Rightarrow> (None, db)
      | Some i \<Rightarrow>
          if ec_dryRun (er_context i)
          then (Some (jsonResponse 400 ''ADAPTER_ERASE_DRY_RUN_FORBIDDEN''), db)
          else
            (case (get_resource (cf_resources cf) (er_resource i), required_capability (er_action i)) of
               (Some r, Some c) \<Rightarrow>
                 (case res_erase r of
                    Some handler \<Rightarrow>
                      if c \<in> set (res_capabilities r) \<and> CVerify \<in> set (res_capabilities r)
                      then (case handler i db of
                              (None, db) \<Rightarrow> (None, db)
                            | (Some result, db) \<Rightarrow>
                                if rs_operationKey result \<noteq> er_operationKey i then (None, db)
                                else if \<not> nonNegativeInteger (rs_affectedCount result) then (None, db)
                                else (Some (ok_response (EraseReply result)), db))
                      else (Some (jsonResponse 400 ''ADAPTER_RESOURCE_ERASE_UNAVAILABLE''), db)
                  | None \<Rightarrow> (Some (jsonResponse 400 ''ADAPTER_RESOURCE_ERASE_UNAVAILABLE''), db))
             | _ \<Rightarrow> (Some (jsonResponse 400 ''ADAPTER_RESOURCE_ERASE_UNAVAILABLE''), db)))"

definition verify :: "'db adapter_config \<Rightarrow> json \<Rightarrow> (response, 'db) handler" where
  "verify cf payload db =
     (case VerifyRequestSchema payload of
        None \<Rightarrow> (None, db)
      | Some (subject, name, state) \<Rightarrow>
          (case get_resource (cf_resources cf) name of
             None \<Rightarrow> (Some (jsonResponse 400 ''ADAPTER_RESOURCE_VERIFY_UNAVAILABLE''), db)
           | Some r \<Rightarrow>
               (case res_verify r of
                  None \<Rightarrow> (Some (jsonResponse 400 ''ADAPTER_RESOURCE_VERIFY_UNAVAILABLE''), db)
                | Some handler \<Rightarrow>
                    if CVerify \<in> set (res_capabilities r)
                    then (case handler subject state db of
                            (None, db) \<Rightarrow> (None, db)
                          | (Some result, db) \<Rightarrow>
                              if nonNegativeInteger (vr_remainingCount result)
                              then (Some (ok_response (VerifyReply result)), db) else (None, db))
                    else (Some (jsonResponse 400 ''ADAPTER_RESOURCE_VERIFY_UNAVAILABLE''), db))))"

subsection \<open>The request handler\<close>

record http_request =
  rq_method :: string
  rq_path :: string
  rq_contentType :: "string option"
  rq_contentLength :: "int option"
  rq_body :: bytes
  rq_timestamp :: "string option"
  rq_nonce :: "string option"
  rq_signature :: "string option"

definition ROUTES :: "string list" where
  "ROUTES = [''/forgetops/v1/health'', ''/forgetops/v1/discover'', ''/forgetops/v1/export'',
     ''/forgetops/v1/erase'', ''/forgetops/v1/verify'']"

definition header_or_empty :: "string option \<Rightarrow> string" where
  "header_or_empty h = (case h of None \<Rightarrow> [] | Some v \<Rightarrow> v)"

definition signed_request :: "'db adapter_config \<Rightarrow> http_request \<Rightarrow> adapter_signature_input" where
  "signed_request cf rq =
     \<lparr>si_secret = cf_secret cf, si_method = rq_method rq, si_normalizedPath = rq_path rq,
      si_timestamp = header_or_empty (rq_timestamp rq), si_nonce = header_or_empty (rq_nonce rq),
      si_contentType = header_or_empty (rq_contentType rq), si_body = rq_body rq\<rparr>"

definition route :: "'db adapter_config \<Rightarrow> string \<Rightarrow> json \<Rightarrow> (response, 'db) handler" where
  "route cf path payload db =
     (if path = ''/forgetops/v1/health'' then health cf payload db
      else if path = ''/forgetops/v1/discover'' then discover cf payload db
      else if path = ''/forgetops/v1/export'' then exportData cf payload db
      else if path = ''/forgetops/v1/erase'' then erase cf payload db
      else if path = ''/forgetops/v1/verify'' then verify cf payload db
      else (Some (jsonResponse 404 ''ADAPTER_ROUTE_NOT_FOUND''), db))"

text \<open>
  Node's crypto, the canonicaliser, and the reading of a body (\<open>TextDecoder\<close> and \<open>JSON.parse\<close>,
  \<open>None\<close> where either throws).
\<close>

record crypto =
  cy_sha :: "bytes \<Rightarrow> bytes"
  cy_hmac :: "bytes \<Rightarrow> bytes \<Rightarrow> bytes"
  cy_canonicalize :: "json \<Rightarrow> string option"
  cy_parseBody :: "bytes \<Rightarrow> json option"

type_synonym ('io, 's) consume = "'io \<Rightarrow> string \<Rightarrow> int \<Rightarrow> int \<Rightarrow> 's \<Rightarrow> bool option \<times> 's"

text \<open>
  The state is the nonce store and the customer's database. The result is \<open>None\<close> where \<open>fetch\<close>
  itself rejects: the signature check is outside every \<open>try\<close>.
\<close>

definition fetch ::
  "crypto \<Rightarrow> ('io, 's) consume \<Rightarrow> 'db adapter_config \<Rightarrow> 'io \<Rightarrow> int \<Rightarrow> http_request \<Rightarrow>
   's \<times> 'db \<Rightarrow> response option \<times> 's \<times> 'db" where
  "fetch cy consume cf io nowMs rq st =
     (case st of (store, db) \<Rightarrow>
      if rq_path rq \<notin> set ROUTES then (Some (jsonResponse 404 ''ADAPTER_ROUTE_NOT_FOUND''), store, db)
      else if rq_method rq \<noteq> ''POST''
      then (Some (jsonResponse 405 ''ADAPTER_METHOD_NOT_ALLOWED''), store, db)
      else if header_or_empty (rq_contentType rq) \<noteq> ''application/json'' \<or>
        (case rq_contentLength rq of None \<Rightarrow> False | Some l \<Rightarrow> cf_maxPayloadBytes cf < l)
      then (Some (jsonResponse 413 ''ADAPTER_PAYLOAD_INVALID''), store, db)
      else if cf_maxPayloadBytes cf < int (length (rq_body rq))
      then (Some (jsonResponse 413 ''ADAPTER_PAYLOAD_TOO_LARGE''), store, db)
      else
        (case verifyAdapterSignature (cy_sha cy) (cy_hmac cy) (cy_canonicalize cy)
                (signed_request cf rq) (header_or_empty (rq_signature rq)) nowMs of
           None \<Rightarrow> (None, store, db)
         | Some False \<Rightarrow> (Some (jsonResponse 401 ''ADAPTER_SIGNATURE_INVALID''), store, db)
         | Some True \<Rightarrow>
             (case consume io (header_or_empty (rq_nonce rq)) (nowMs + ADAPTER_ACCEPTANCE_WINDOW_MS)
                     nowMs store of
                (None, store) \<Rightarrow>
                  (Some (jsonResponse 503 ''ADAPTER_NONCE_STORE_UNAVAILABLE''), store, db)
              | (Some False, store) \<Rightarrow> (Some (jsonResponse 401 ''ADAPTER_NONCE_REPLAYED''), store, db)
              | (Some True, store) \<Rightarrow>
                  (case cy_parseBody cy (rq_body rq) of
                     None \<Rightarrow> (Some (jsonResponse 400 ''ADAPTER_JSON_INVALID''), store, db)
                   | Some payload \<Rightarrow>
                       (case route cf (rq_path rq) payload db of
                          (None, db) \<Rightarrow>
                            (Some (jsonResponse 500 ''ADAPTER_HANDLER_FAILED''), store, db)
                        | (Some r, db) \<Rightarrow> (Some r, store, db))))))"

subsection \<open>Lemmas\<close>

text \<open>A request reaches the routes when its signature and its nonce are accepted.\<close>

definition admitted ::
  "crypto \<Rightarrow> ('io, 's) consume \<Rightarrow> 'db adapter_config \<Rightarrow> 'io \<Rightarrow> int \<Rightarrow> http_request \<Rightarrow> 's \<Rightarrow> bool" where
  "admitted cy consume cf io nowMs rq store \<longleftrightarrow>
     rq_path rq \<in> set ROUTES \<and> rq_method rq = ''POST'' \<and>
     int (length (rq_body rq)) \<le> cf_maxPayloadBytes cf \<and>
     verifyAdapterSignature (cy_sha cy) (cy_hmac cy) (cy_canonicalize cy) (signed_request cf rq)
       (header_or_empty (rq_signature rq)) nowMs = Some True \<and>
     fst (consume io (header_or_empty (rq_nonce rq)) (nowMs + ADAPTER_ACCEPTANCE_WINDOW_MS) nowMs store)
       = Some True"

lemma fetch_db:
  assumes "fetch cy consume cf io now rq (store, db) = (r, store', db')"
  shows "db' = db \<or> admitted cy consume cf io now rq store \<and>
    (\<exists>payload. cy_parseBody cy (rq_body rq) = Some payload \<and> snd (route cf (rq_path rq) payload db) = db')"
  using assms
  by (auto simp: fetch_def admitted_def split: if_splits option.splits bool.splits prod.splits)

text \<open>The export stream keeps its invariant through every write.\<close>

definition raw_bytes :: "export_frame \<Rightarrow> int" where
  "raw_bytes f = (case f of DataFrame _ _ d \<Rightarrow> int (length (b64_decode d)) | _ \<Rightarrow> 0)"

definition frame_ok :: "'db adapter_config \<Rightarrow> export_frame \<Rightarrow> bool" where
  "frame_ok cf f \<longleftrightarrow> int (length (utf8 (frame_text f))) + 1 \<le> frame_limit (cf_maxFrameBytes cf) \<and>
     (case f of DataFrame path ct d \<Rightarrow> export_path_ok path \<and> ct \<noteq> [] \<and> length ct \<le> 128 \<and>
        int (length (b64_decode d)) \<le> cf_maxFrameBytes cf
      | _ \<Rightarrow> True)"

fun is_data :: "export_frame \<Rightarrow> bool" where
  "is_data (DataFrame _ _ _) = True"
| "is_data _ = False"

definition stream_ok :: "'db adapter_config \<Rightarrow> export_stream \<Rightarrow> bool" where
  "stream_ok cf s \<longleftrightarrow> list_all (frame_ok cf) (es_frames s) \<and> list_all is_data (es_frames s) \<and>
     sum_list (map raw_bytes (es_frames s)) \<le> es_totalBytes s \<and>
     sum_list (map raw_bytes (es_frames s)) \<le> cf_maxExportBytes cf"

lemma writer_bytes_ok:
  "stream_ok cf s \<Longrightarrow> writer_bytes cf path ct bs s = (ok, s') \<Longrightarrow> stream_ok cf s'"
  by (auto simp: writer_bytes_def writeFrame_def stream_ok_def frame_ok_def raw_bytes_def Let_def
      split: if_splits)

lemma run_export_ok:
  "stream_ok cf s \<Longrightarrow> run_export program cf s = (r, s') \<Longrightarrow> stream_ok cf s'"
proof (induction program arbitrary: s)
  case (ExportWrite path ct bs k)
  obtain ok t where w: "writer_bytes cf path ct bs s = (ok, t)" by fastforce
  with ExportWrite show ?case using writer_bytes_ok [OF ExportWrite.prems(1) w] by auto
qed auto

lemma export_all_ok:
  "stream_ok cf s \<Longrightarrow> export_all cf sub rs n s db = (r, s', db') \<Longrightarrow> stream_ok cf s'"
proof (induction cf sub rs n s db rule: export_all.induct)
  case (2 cf sub rs' rs count s db)
  show ?case
  proof (cases "res_export rs'")
    case (Some export)
    obtain program db1 where e: "export sub db = (program, db1)" by fastforce
    obtain m s1 where x: "run_export program cf s = (m, s1)" by fastforce
    have ok: "stream_ok cf s1" using run_export_ok [OF 2(2) x] .
    show ?thesis
      using 2(3) Some e x ok 2(1) [OF Some e [symmetric] x [symmetric]]
      by (auto split: option.splits if_splits)
  qed (use 2 in auto)
qed auto

lemma writeFrame_end:
  "writeFrame cf f 0 s = (ok, s') \<Longrightarrow>
     es_totalBytes s' = es_totalBytes s \<and> es_frames s' = es_frames s @ (if ok then [f] else []) \<and>
     (ok \<longrightarrow> es_totalBytes s \<le> cf_maxExportBytes cf)"
  by (auto simp: writeFrame_def Let_def split: if_splits)

end
