(* ===== verification/Adapter_Properties.thy ===== *)
theory Adapter_Properties
  imports Adapter_Service
begin

text \<open>
  What the adapter guarantees: only authenticated requests act, a captured request does not act
  twice, an erasure runs only where the resource declares it, and an export stays in its bounds.
\<close>

subsection \<open>Runs of the adapter\<close>

datatype 'io adapter_event = Request 'io int http_request | Restarted

fun serve ::
  "crypto \<Rightarrow> ('io, 's) consume \<Rightarrow> ('s \<Rightarrow> 's) \<Rightarrow> 'db adapter_config \<Rightarrow> 'io adapter_event list \<Rightarrow>
   's \<times> 'db \<Rightarrow> 's \<times> 'db" where
  "serve cy consume restart cf [] st = st"
| "serve cy consume restart cf (Request io now rq # evs) st =
     serve cy consume restart cf evs (snd (fetch cy consume cf io now rq st))"
| "serve cy consume restart cf (Restarted # evs) (store, db) =
     serve cy consume restart cf evs (restart store, db)"

fun event_until :: "int \<Rightarrow> 'io adapter_event \<Rightarrow> bool" where
  "event_until e (Request io now rq) = (now \<le> e)"
| "event_until e Restarted = True"

text \<open>The store sees at most one call per request.\<close>

lemma fetch_store:
  "fst (snd (fetch cy consume cf io now rq (store, db))) \<in>
     {store, snd (consume io (header_or_empty (rq_nonce rq)) (now + ADAPTER_ACCEPTANCE_WINDOW_MS) now store)}"
  by (simp add: fetch_def split: prod.splits option.splits bool.splits)

lemma fetch_admitted_store:
  assumes "admitted cy consume cf io now rq store"
    and "header_or_empty (rq_contentType rq) = ''application/json''"
    and "case rq_contentLength rq of None \<Rightarrow> True | Some l \<Rightarrow> l \<le> cf_maxPayloadBytes cf"
  shows "fst (snd (fetch cy consume cf io now rq (store, db))) =
    snd (consume io (header_or_empty (rq_nonce rq)) (now + ADAPTER_ACCEPTANCE_WINDOW_MS) now store)"
  using assms
  by (cases "consume io (header_or_empty (rq_nonce rq)) (now + ADAPTER_ACCEPTANCE_WINDOW_MS) now store")
    (auto simp: fetch_def admitted_def split: prod.splits option.splits)

lemma serve_calls:
  "list_all (event_until e) evs \<Longrightarrow>
   \<exists>cs. fst (serve cy consume restart cf evs (store, db)) = run_calls consume restart cs store \<and>
     list_all (call_until e) cs"
proof (induction evs arbitrary: store db)
  case Nil
  show ?case by (rule exI [of _ "[]"]) simp
next
  case (Cons ev evs)
  show ?case
  proof (cases ev)
    case (Request io now rq)
    let ?n = "header_or_empty (rq_nonce rq)" and ?e = "now + ADAPTER_ACCEPTANCE_WINDOW_MS"
    obtain r store' db' where f: "fetch cy consume cf io now rq (store, db) = (r, store', db')"
      by (metis prod_cases3)
    from Cons.IH [of store' db'] Cons.prems obtain cs where cs:
      "fst (serve cy consume restart cf evs (store', db')) = run_calls consume restart cs store'"
      "list_all (call_until e) cs" by auto
    consider "store' = store" | "store' = snd (consume io ?n ?e now store)"
      using fetch_store [of cy consume cf io now rq store db] f by auto
    then show ?thesis
    proof cases
      case 1
      with cs f Request show ?thesis by auto
    next
      case 2
      with cs f Request Cons.prems show ?thesis by (intro exI [of _ "Consume io ?n ?e now # cs"]) simp
    qed
  next
    case Restarted
    with Cons obtain cs where
      "fst (serve cy consume restart cf evs (restart store, db)) = run_calls consume restart cs (restart store)"
      "list_all (call_until e) cs" by fastforce
    with Restarted show ?thesis by (intro exI [of _ "Restart # cs"]) simp
  qed
qed

lemma events_bounded: "\<exists>e. list_all (event_until e) evs"
proof (induction evs)
  case (Cons ev evs)
  then obtain e where "list_all (event_until e) evs" by auto
  moreover have "event_until e x \<Longrightarrow> e \<le> e' \<Longrightarrow> event_until e' x" for e' x by (cases x) auto
  ultimately have "list_all (event_until e') evs" if "e \<le> e'" for e' using that by (auto simp: list_all_iff)
  then show ?case
  proof (cases ev)
    case (Request io now rq)
    have "list_all (event_until (max e now)) evs"
      by (rule \<open>\<And>e'. e \<le> e' \<Longrightarrow> list_all (event_until e') evs\<close>) simp
    with Request show ?thesis by (intro exI [of _ "max e now"]) simp
  qed (use Cons in auto)
qed simp

context nonce_store
begin

lemma serve_inv: "inv store \<Longrightarrow> inv (fst (serve cy consume restart cf evs (store, db)))"
  using events_bounded [of evs] serve_calls run_inv by metis

text \<open>
  After a request is admitted with nonce \<open>n\<close> at time \<open>now\<close>, no request with that nonce is
  admitted up to the end of the nonce's life, whatever is served in between.
\<close>

lemma not_admitted_again:
  assumes "inv store" and "admitted cy consume cf io now rq store"
    and "store' = snd (consume io (header_or_empty (rq_nonce rq)) (now + ADAPTER_ACCEPTANCE_WINDOW_MS) now store)"
    and "list_all (event_until (now + ADAPTER_ACCEPTANCE_WINDOW_MS)) evs"
    and "rq_nonce rq' = rq_nonce rq" and "now' \<le> now + ADAPTER_ACCEPTANCE_WINDOW_MS"
  shows "\<not> admitted cy' consume cf' io' now' rq' (fst (serve cy consume restart cf evs (store', db)))"
proof -
  let ?n = "header_or_empty (rq_nonce rq)" and ?e = "now + ADAPTER_ACCEPTANCE_WINDOW_MS"
  have c: "consume io ?n ?e now store = (Some True, store')"
    using assms(2,3) by (cases "consume io ?n ?e now store") (simp add: admitted_def)
  obtain cs where cs: "fst (serve cy consume restart cf evs (store', db)) = run_calls consume restart cs store'"
    "list_all (call_until ?e) cs" using serve_calls [OF assms(4), of cy consume restart cf store' db] by blast
  have "fst (consume io' ?n (now' + ADAPTER_ACCEPTANCE_WINDOW_MS) now' (run_calls consume restart cs store')) \<noteq> Some True"
    by (rule accepted_once [OF assms(1) c cs(2) assms(6)])
  then show ?thesis by (simp add: admitted_def cs(1) assms(5))
qed

end

subsection \<open>An example\<close>

text \<open>An adapter with one resource, whose erasure adds one to the database, an integer.\<close>

definition ex_resource :: "int resource" where
  "ex_resource = \<lparr>res_name = ''users'', res_capabilities = [CDiscover, CDelete, CVerify, CExport],
     res_healthCheck = None,
     res_discover = (\<lambda>_ _ db. (None, db)),
     res_export = Some (\<lambda>_ db. (ExportWrite ''users/a.json'' ''text/plain'' [1, 2, 3, 4]
       (\<lambda>ok. if ok then ExportReturn 1 else ExportThrow), db)),
     res_erase = Some (\<lambda>i db. (Some \<lparr>rs_operationKey = er_operationKey i, rs_affectedCount = 1,
       rs_outcome = ODeleted\<rparr>, db + 1)),
     res_verify = Some (\<lambda>_ _ db. (None, db))\<rparr>"

definition ex_config :: "int adapter_config" where
  "ex_config = \<lparr>cf_resources = [ex_resource], cf_secret = replicate 32 7, cf_maxPayloadBytes = 1000,
     cf_maxFrameBytes = 100, cf_maxExportBytes = 1000\<rparr>"

definition ex_payload :: json where
  "ex_payload = JObj [(''subject'', JObj [(''userId'', JStr ''u1'')]), (''resource'', JStr ''users''),
     (''plan'', JObj [(''operationKey'', JStr ''op1''), (''action'', JStr ''delete'')]),
     (''context'', JObj [(''requestId'', JStr ''r1''), (''attemptId'', JStr ''a1''),
       (''stepId'', JStr ''s1''), (''idempotencyKey'', JStr ''k1''), (''dryRun'', JBool False)])]"

definition ex_crypto :: crypto where
  "ex_crypto = \<lparr>cy_sha = (\<lambda>b. b), cy_hmac = (\<lambda>k m. k @ [1]), cy_canonicalize = (\<lambda>j. Some ''{}''),
     cy_parseBody = (\<lambda>b. Some ex_payload)\<rparr>"

definition ex_request :: http_request where
  "ex_request = \<lparr>rq_method = ''POST'', rq_path = ''/forgetops/v1/erase'',
     rq_contentType = Some ''application/json'', rq_contentLength = None, rq_body = [],
     rq_timestamp = Some ''2026-08-01T00:00:00Z'', rq_nonce = Some ''abcdefghijklmnop'',
     rq_signature = Some (b64_encode (replicate 32 7 @ [1]))\<rparr>"

lemma ex_signed: "signed_request ex_config ex_request = example_input"
  by (simp add: signed_request_def ex_config_def ex_request_def example_input_def header_or_empty_def)

lemma ex_verifies:
  "verifyAdapterSignature (cy_sha ex_crypto) (cy_hmac ex_crypto) (cy_canonicalize ex_crypto)
     (signed_request ex_config ex_request) (header_or_empty (rq_signature ex_request)) now = Some True
   \<longleftrightarrow> \<bar>now - 1785542400000\<bar> \<le> 60000"
  unfolding ex_signed
  by (simp add: verify_signature_iff example_input_ok ex_crypto_def ex_request_def header_or_empty_def
      signAdapterRequest_def signatureMaterial_def in_window_def)
    (simp add: example_input_def example_time ADAPTER_ACCEPTANCE_WINDOW_MS_def)

lemmas schema_eval = EraseRequestSchema_def SubjectIdentitySchema_def ResourceNameSchema_def
  EraseContextSchema_def RequestIdSchema_def zfield_def zoptional_def ztrimmed_def zbounded_def
  zenum_def trim_def white_def Let_def resource_name_text_def action_texts_def

lemma ex_parsed: "EraseRequestSchema ex_payload = Some
   \<lparr>er_subject = \<lparr>sub_userId = Some ''u1'', sub_email = None\<rparr>, er_resource = ''users'',
    er_operationKey = ''op1'', er_action = PDelete,
    er_context = \<lparr>ec_requestId = ''r1'', ec_attemptId = ''a1'', ec_stepId = ''s1'',
      ec_idempotencyKey = ''k1'', ec_dryRun = False\<rparr>\<rparr>"
  by (simp add: ex_payload_def schema_eval lower_def upper_def digits_def)

lemma ex_erase: "erase ex_config ex_payload db =
  (Some \<lparr>rp_status = 200, rp_reply = EraseReply
     \<lparr>rs_operationKey = ''op1'', rs_affectedCount = 1, rs_outcome = ODeleted\<rparr>\<rparr>, db + 1)"
  by (simp add: erase_def ex_parsed ex_config_def ex_resource_def get_resource_def ok_response_def
      nonNegativeInteger_def MAX_SAFE_def)

lemma ex_admitted:
  "fst (consume io ''abcdefghijklmnop'' (now + 60000) now store) = Some True \<Longrightarrow>
   \<bar>now - 1785542400000\<bar> \<le> 60000 \<Longrightarrow> admitted ex_crypto consume ex_config io now ex_request store"
  unfolding admitted_def ex_verifies
  by (simp add: ex_request_def ROUTES_def ex_config_def header_or_empty_def
      ADAPTER_ACCEPTANCE_WINDOW_MS_def)

lemma ex_fetch:
  assumes "admitted ex_crypto consume ex_config io now ex_request store"
  shows "snd (fetch ex_crypto consume ex_config io now ex_request (store, db)) =
    (snd (consume io ''abcdefghijklmnop'' (now + 60000) now store), db + 1)"
proof -
  obtain store' where c: "consume io ''abcdefghijklmnop'' (now + 60000) now store = (Some True, store')"
    using assms by (cases "consume io ''abcdefghijklmnop'' (now + 60000) now store")
      (simp add: admitted_def ex_request_def header_or_empty_def ADAPTER_ACCEPTANCE_WINDOW_MS_def)
  have v: "verifyAdapterSignature (cy_sha ex_crypto) (cy_hmac ex_crypto) (cy_canonicalize ex_crypto)
     (signed_request ex_config ex_request) (header_or_empty (rq_signature ex_request)) now = Some True"
    using assms by (simp add: admitted_def)
  have "cy_parseBody ex_crypto b = Some ex_payload" for b by (simp add: ex_crypto_def)
  moreover have "route ex_config (rq_path ex_request) ex_payload db = erase ex_config ex_payload db"
    by (simp add: route_def ex_request_def)
  ultimately show ?thesis
    using c unfolding fetch_def v
    by (simp add: ex_erase)
      (simp add: ex_request_def ROUTES_def ex_config_def header_or_empty_def ADAPTER_ACCEPTANCE_WINDOW_MS_def)
qed

lemma ex_first: "fst (file_consume Appended n e t (opened None)) = Some True"
  by (simp add: file_consume_def file_load_def file_lines_def opened_def drop_expired_def Let_def)

subsection \<open>Properties\<close>

text \<open>C38. A request changes the customer's database only if it is a POST to one of the five routes
within the size limit, all its signed fields are well formed, its time stamp is within 60 seconds
of the clock, its signature is the one text \<open>signAdapterRequest\<close> produces for exactly this method,
path, time stamp, nonce, content type and body under the adapter's secret, and the nonce store
accepted its nonce in this very call.\<close>

theorem only_signed_requests_act:
  assumes "fetch cy consume cf io now rq (store, db) = (r, store', db')" and "db' \<noteq> db"
  shows "rq_path rq \<in> set ROUTES \<and> rq_method rq = ''POST'' \<and>
    int (length (rq_body rq)) \<le> cf_maxPayloadBytes cf \<and>
    signed_fields_ok (signed_request cf rq) \<and> in_window now (header_or_empty (rq_timestamp rq)) \<and>
    signAdapterRequest (cy_sha cy) (cy_hmac cy) (cy_canonicalize cy) (signed_request cf rq)
      = Some (header_or_empty (rq_signature rq)) \<and>
    fst (consume io (header_or_empty (rq_nonce rq)) (now + ADAPTER_ACCEPTANCE_WINDOW_MS) now store)
      = Some True"
  using fetch_db [OF assms(1)] assms(2)
  by (auto simp: admitted_def verify_signature_iff signed_request_def)

text \<open>An erasure handler runs only for a well-formed request that is not a dry run, on a
configured resource that declares both the capability the requested action needs (delete,
anonymize, or retain for a policy retention) and verification; and an erasure is confirmed only
with the operation key of the request and a safe non-negative count.\<close>

theorem erase_needs_capability:
  assumes "erase cf payload db = (r, db')"
    and "db' \<noteq> db \<or> r = Some \<lparr>rp_status = 200, rp_reply = EraseReply result\<rparr>"
  shows "\<exists>i res c handler. EraseRequestSchema payload = Some i \<and> \<not> ec_dryRun (er_context i) \<and>
    res \<in> set (cf_resources cf) \<and> res_name res = er_resource i \<and> res_erase res = Some handler \<and>
    required_capability (er_action i) = Some c \<and> c \<in> set (res_capabilities res) \<and>
    CVerify \<in> set (res_capabilities res) \<and>
    (r = Some \<lparr>rp_status = 200, rp_reply = EraseReply result\<rparr> \<longrightarrow>
       rs_operationKey result = er_operationKey i \<and> 0 \<le> rs_affectedCount result)"
  using assms
  by (auto simp: erase_def jsonResponse_def ok_response_def get_resource_def nonNegativeInteger_def
      split: option.splits if_splits prod.splits dest!: find_Some_mem)

text \<open>Whatever the export handlers of the customer do, an export stays in its bounds: the
stream is data frames followed by at most one final frame, every frame is within the frame limit,
every data path is a relative path without empty, dot or dot-dot segments and without backslashes,
no content type is empty or longer than 128, and all data frames together carry at most
\<open>maxExportBytes\<close> bytes. The final frame is \<open>complete\<close> only if every selected exporter returned
a count, and then it carries their total.\<close>

theorem export_stream_bounded:
  assumes "0 < cf_maxExportBytes cf" and "export_stream_of cf sub selected db = (s, db')"
  shows "\<exists>data end. es_frames s = data @ end \<and> list_all is_data data
    \<and> list_all (frame_ok cf) (data @ end)
    \<and> sum_list (map raw_bytes data) \<le> cf_maxExportBytes cf
    \<and> (end = [] \<or> end = [ErrorFrame] \<or>
        (\<exists>n. end = [CompleteFrame n] \<and> fst (export_all cf sub selected 0
            \<lparr>es_totalBytes = 0, es_frames = []\<rparr> db) = Some n))"
proof -
  obtain c t d where a: "export_all cf sub selected 0 \<lparr>es_totalBytes = 0, es_frames = []\<rparr> db = (c, t, d)"
    by (metis prod_cases3)
  have "stream_ok cf \<lparr>es_totalBytes = 0, es_frames = []\<rparr>" using assms(1) by (simp add: stream_ok_def)
  from export_all_ok [OF this a] have t: "stream_ok cf t" .
  have frame: "frame_ok cf f" if "writeFrame cf f 0 u = (True, v)" "\<not> is_data f" for f u v
    using that by (cases f) (auto simp: writeFrame_def frame_ok_def Let_def split: if_splits)
  define e u where "e = (\<lambda>v. fst (writeFrame cf ErrorFrame 0 v))" and "u = (\<lambda>v. snd (writeFrame cf ErrorFrame 0 v))"
  then have e: "writeFrame cf ErrorFrame 0 v = (e v, u v)" for v by simp
  show ?thesis
  proof (cases c)
    case None
    with a assms(2) e have "s = u t" by (auto simp: export_stream_of_def)
    with writeFrame_end [OF e [of t]] frame [of ErrorFrame t "u t"] e [of t] t show ?thesis
      by (intro exI [of _ "es_frames t"] exI [of _ "if e t then [ErrorFrame] else []"])
        (auto simp: stream_ok_def)
  next
    case (Some n)
    obtain k v where w: "writeFrame cf (CompleteFrame n) 0 t = (k, v)" by fastforce
    note wf = writeFrame_end [OF w]
    show ?thesis
    proof (cases k)
      case True
      with Some a assms(2) w have "s = v" by (auto simp: export_stream_of_def)
      with wf True frame [of "CompleteFrame n" t v] w t a Some show ?thesis
        by (intro exI [of _ "es_frames t"] exI [of _ "[CompleteFrame n]"]) (auto simp: stream_ok_def)
    next
      case False
      with Some a assms(2) w e have "s = u v" by (auto simp: export_stream_of_def)
      with wf False writeFrame_end [OF e [of v]] frame [of ErrorFrame v "u v"] e [of v] t show ?thesis
        by (intro exI [of _ "es_frames t"] exI [of _ "if e v then [ErrorFrame] else []"])
          (auto simp: stream_ok_def)
    qed
  qed
qed


theorem only_signed_requests_act_witness:
  "\<exists>st. fetch ex_crypto file_consume ex_config Appended 1785542400500 ex_request (opened None, 0) = st \<and>
     snd (snd st) \<noteq> 0 \<and> in_window 1785542400500 ''2026-08-01T00:00:00Z''"
proof -
  have "admitted ex_crypto file_consume ex_config Appended 1785542400500 ex_request (opened None)"
    by (rule ex_admitted) (simp_all add: ex_first)
  from ex_fetch [OF this, of 0] obtain r store' where
    f: "fetch ex_crypto file_consume ex_config Appended 1785542400500 ex_request (opened None, 0) = (r, store', 1)"
    by (metis add_0 prod.collapse snd_conv)
  have "header_or_empty (rq_timestamp ex_request) = ''2026-08-01T00:00:00Z''"
    by (simp add: ex_request_def header_or_empty_def)
  with only_signed_requests_act [OF f] f show ?thesis by simp
qed

theorem erase_needs_capability_witness:
  "\<exists>c. required_capability PDelete = Some c \<and> c \<in> set (res_capabilities ex_resource) \<and>
     snd (erase ex_config ex_payload 4) = 5"
proof -
  have "erase ex_config ex_payload 4 = (fst (erase ex_config ex_payload 4), 5)" by (simp add: ex_erase)
  from erase_needs_capability [OF this] show ?thesis
    using ex_erase [of 4] by (auto simp: ex_parsed) (simp_all add: ex_config_def)
qed

theorem export_stream_bounded_witness:
  "\<exists>data end. es_frames (fst (export_stream_of ex_config \<lparr>sub_userId = None, sub_email = None\<rparr> [ex_resource] 0))
      = data @ end \<and> list_all is_data data"
proof -
  obtain s db' where
    "export_stream_of ex_config \<lparr>sub_userId = None, sub_email = None\<rparr> [ex_resource] 0 = (s, db')"
    by fastforce
  from export_stream_bounded [OF _ this] this show ?thesis by (auto simp: ex_config_def)
qed

text \<open>C39. A captured request does not act twice while the sender's clock is not ahead: after a
request was admitted at a time not before its own time stamp, no request with the same nonce and
time stamp changes the database, whatever it asks for, however often the adapter restarts and
whatever it serves in between at times up to one minute after (as its clock says); later the time
stamp is out of the window. The adapter's past may be any run on any nonce file.\<close>

theorem captured_request_acts_once:
  assumes "(store, db0) = serve cy file_consume file_restart cf past (opened f, d)"
    and "admitted cy file_consume cf io now rq store"
    and "store' = snd (file_consume io (header_or_empty (rq_nonce rq)) (now + 60000) now store)"
    and "date_parse (header_or_empty (rq_timestamp rq)) = Some sent" and "sent \<le> now"
    and "list_all (event_until (now + 60000)) between"
    and "(store2, db2) = serve cy file_consume file_restart cf between (store', db1)"
    and "rq_nonce replay = rq_nonce rq" and "rq_timestamp replay = rq_timestamp rq"
  shows "snd (snd (fetch cy file_consume cf io' now2 replay (store2, db2))) = db2"
proof (rule ccontr)
  obtain r s3 d3 where f: "fetch cy file_consume cf io' now2 replay (store2, db2) = (r, s3, d3)"
    by (metis prod_cases3)
  assume "\<not> ?thesis"
  with f fetch_db [OF f] have adm: "admitted cy file_consume cf io' now2 replay store2" by simp
  then have "in_window now2 (header_or_empty (rq_timestamp rq))"
    using assms(9) by (auto simp: admitted_def verify_signature_iff signed_request_def)
  then have "now2 \<le> now + 60000"
    using assms(4,5) by (simp add: in_window_def ADAPTER_ACCEPTANCE_WINDOW_MS_def)
  moreover have "file_inv store"
    using nonce_file.serve_inv [OF opened_inv, of cy cf past f d] arg_cong [OF assms(1), of fst] by simp
  ultimately show False
    using nonce_file.not_admitted_again [OF _ assms(2), of store' between replay now2 cy cf io' db1]
      adm assms(3,6,8) arg_cong [OF assms(7), of fst]
    by (simp add: ADAPTER_ACCEPTANCE_WINDOW_MS_def)
qed

theorem captured_request_acts_once_witness:
  "snd (snd (fetch ex_crypto file_consume ex_config Appended 1785542430000 ex_request
     (file_restart (snd (file_consume Appended ''abcdefghijklmnop'' (1785542400500 + 60000) 1785542400500
        (opened None))), 7))) = 7"
proof (rule captured_request_acts_once [where store = "opened None" and past = "[]" and now = 1785542400500
      and between = "[Restarted]" and rq = ex_request and io = Appended and sent = 1785542400000])
  show "admitted ex_crypto file_consume ex_config Appended 1785542400500 ex_request (opened None)"
    by (rule ex_admitted) (simp_all add: ex_first)
qed (simp_all add: ex_request_def header_or_empty_def example_time)

text \<open>The nonce's life does not cover the whole acceptance window: the adapter accepts a time
stamp up to 60 seconds ahead of its clock, but keeps a nonce for 60 seconds from its own clock. So
a request whose sender's clock is ahead is accepted, forgotten 60 seconds later while its time
stamp is still in the window, and then the very same request is admitted a second time.\<close>

theorem nonce_forgotten_inside_window:
  assumes "admitted cy (\<lambda>_ :: unit. memory_consume) cf io now rq []"
    and "date_parse (header_or_empty (rq_timestamp rq)) = Some sent"
    and "now + 60000 < now2" and "now2 \<le> sent + 60000" and "sent \<le> now2"
  shows "admitted cy (\<lambda>_. memory_consume) cf io now2 rq
    (snd (memory_consume (header_or_empty (rq_nonce rq)) (now + 60000) now []))"
  using assms
  by (auto simp: admitted_def verify_signature_iff signed_request_def in_window_def
      ADAPTER_ACCEPTANCE_WINDOW_MS_def memory_consume_def drop_expired_def Let_def)

theorem nonce_forgotten_inside_window_witness:
  "admitted ex_crypto (\<lambda>_ :: unit. memory_consume) ex_config () 1785542405000 ex_request
    (snd (memory_consume ''abcdefghijklmnop'' (1785542341000 + 60000) 1785542341000 []))"
proof -
  have "admitted ex_crypto (\<lambda>_ :: unit. memory_consume) ex_config () 1785542341000 ex_request []"
    by (rule ex_admitted) (simp_all add: memory_consume_def drop_expired_def Let_def)
  from nonce_forgotten_inside_window [OF this, of 1785542400000 1785542405000] show ?thesis
    by (simp add: ex_request_def header_or_empty_def example_time)
qed

text \<open>An export that exceeds the byte limit ends without a final frame: once the total is over
\<open>maxExportBytes\<close> the error frame is refused for the same reason as the data was, so the stream
closes normally after the data frames, with neither \<open>complete\<close> nor \<open>error\<close>.\<close>

theorem over_limit_export_has_no_final_frame:
  assumes "export_all cf sub selected 0 \<lparr>es_totalBytes = 0, es_frames = []\<rparr> db = (c, t, db')"
    and "cf_maxExportBytes cf < es_totalBytes t"
  shows "es_frames (fst (export_stream_of cf sub selected db)) = es_frames t"
  using assms by (auto simp: export_stream_of_def writeFrame_def Let_def split: option.splits)

theorem over_limit_export_has_no_final_frame_witness:
  "es_frames (fst (export_stream_of (ex_config\<lparr>cf_maxExportBytes := 3\<rparr>)
     \<lparr>sub_userId = None, sub_email = None\<rparr> [ex_resource] 0)) = []"
proof -
  have path: "export_path_ok ''users/a.json''" by (simp add: export_path_ok_def)
  have "export_all (ex_config\<lparr>cf_maxExportBytes := 3\<rparr>) \<lparr>sub_userId = None, sub_email = None\<rparr> [ex_resource] 0
      \<lparr>es_totalBytes = 0, es_frames = []\<rparr> 0 = (None, \<lparr>es_totalBytes = 4, es_frames = []\<rparr>, 0)"
    by (simp add: ex_resource_def writer_bytes_def path writeFrame_def ex_config_def)
  from over_limit_export_has_no_final_frame [OF this] show ?thesis by (simp add: ex_config_def)
qed

end
