(* ===== verification/Execution_Policy.thy ===== *)
theory Execution_Policy
  imports Bytes Dates Json
begin

text \<open>
  The signer (\<^verbatim>\<open>apps/signer/src\<close>): the policy checks in front of an execution authorization and
  of an execution lease, the signed claims with their schemas
  (\<^verbatim>\<open>packages/contracts/src/privacy-request.ts\<close>), the lease service and the kill switch of the API.
  Ed25519 (Node's crypto) and the canonicaliser are parameters; the clock reading and the random
  bytes of a call are its arguments. Of the schemas, \<open>z.string().datetime()\<close> is read as a time
  stamp that parses.
\<close>

subsection \<open>Policy state\<close>

datatype agent_policy_status = AgentOnline | AgentOutdated | AgentDraining | AgentRevoked

datatype authorization_kind = KindInitial | KindRetry

record policy_request =
  pq_id :: string
  pq_environmentId :: string
  pq_version :: int
  pq_policyVersion :: int
  pq_status :: string
  pq_cancelled :: bool

record policy_plan =
  pp_id :: string
  pp_version :: int
  pp_fingerprint :: string
  pp_connectorConfigurationFingerprint :: string
  pp_stepIds :: "string list"
  pp_requiresApproval :: bool

record policy_approval =
  pa_evidenceHash :: string
  pa_decidedBy :: string
  pa_decidedAt :: string
  pa_requestVersion :: int
  pa_planVersion :: int
  pa_planFingerprint :: string

record policy_agent =
  pg_id :: string
  pg_environmentId :: string
  pg_status :: agent_policy_status

record authorization_policy_state =
  ps_request :: policy_request
  ps_plan :: policy_plan
  ps_approval :: "policy_approval option"
  ps_agent :: policy_agent
  ps_executionPaused :: bool

record authorization_policy_input =
  pi_state :: authorization_policy_state
  pi_actorId :: string
  pi_expectedRequestVersion :: int
  pi_requestedStepIds :: "string list"
  pi_authorizationKind :: authorization_kind

datatype policy_error =
    ExecutionGloballyPaused | RequestVersionMismatch | PolicyPlanVersionMismatch
  | ApprovalEvidenceInvalid | SeparationOfDutyViolation | AgentNotEligible
  | RequestNotAuthorizable | StepScopeInvalid

definition authorizable_statuses :: "string list" where
  "authorizable_statuses = [''planning'', ''awaiting_approval'', ''partially_completed'', ''failed'',
     ''needs_review'']"

text \<open>\<open>None\<close> is a return without error.\<close>

definition assertAuthorizationPolicy :: "authorization_policy_input \<Rightarrow> policy_error option" where
  "assertAuthorizationPolicy i =
     (let s = pi_state i; req = ps_request s; plan = ps_plan s; agent = ps_agent s;
          gated = pp_requiresApproval plan \<and> pi_authorizationKind i = KindInitial;
          steps = pi_requestedStepIds i in
      if ps_executionPaused s then Some ExecutionGloballyPaused
      else if pq_cancelled req \<or> pq_status req = ''cancelled'' then Some RequestNotAuthorizable
      else if pq_version req \<noteq> pi_expectedRequestVersion i then Some RequestVersionMismatch
      else if pq_status req \<notin> set authorizable_statuses then Some RequestNotAuthorizable
      else if pg_status agent = AgentRevoked \<or> pg_environmentId agent \<noteq> pq_environmentId req
      then Some AgentNotEligible
      else if (pp_version plan \<le> 0 \<or>
          Some (pp_version plan) \<noteq> map_option pa_planVersion (ps_approval s) \<and> gated) \<and> gated
      then Some ApprovalEvidenceInvalid
      else if gated \<and> (case ps_approval s of None \<Rightarrow> True | Some a \<Rightarrow>
          pa_planVersion a \<noteq> pp_version plan \<or> pa_planFingerprint a \<noteq> pp_fingerprint plan \<or>
          pq_version req < pa_requestVersion a)
      then Some ApprovalEvidenceInvalid
      else if gated \<and> (case ps_approval s of None \<Rightarrow> False | Some a \<Rightarrow> pa_decidedBy a = pi_actorId i)
      then Some SeparationOfDutyViolation
      else if steps = [] \<or> (\<exists>x \<in> set steps. x \<notin> set (pp_stepIds plan)) \<or> \<not> distinct steps
      then Some StepScopeInvalid
      else None)"

subsection \<open>Claims\<close>

record authorization_claims =
  ac_keyId :: string
  ac_environmentId :: string
  ac_agentId :: string
  ac_requestId :: string
  ac_attemptId :: string
  ac_authorizationKind :: authorization_kind
  ac_planId :: string
  ac_planVersion :: int
  ac_planFingerprint :: string
  ac_policyVersion :: int
  ac_connectorConfigurationFingerprint :: string
  ac_allowedStepIds :: "string list"
  ac_approvalEvidenceHash :: string
  ac_issuedAt :: string
  ac_notBefore :: string
  ac_expiresAt :: string
  ac_nonce :: string

record lease_claims =
  lc_keyId :: string
  lc_environmentId :: string
  lc_agentId :: string
  lc_requestId :: string
  lc_attemptId :: string
  lc_allowedStepIds :: "string list"
  lc_issuedAt :: string
  lc_expiresAt :: string
  lc_leaseId :: string

definition fingerprint_text :: "string \<Rightarrow> bool" where
  "fingerprint_text s \<longleftrightarrow> take 7 s = ''sha256:''"

definition datetime_text :: "string \<Rightarrow> bool" where
  "datetime_text s \<longleftrightarrow> date_parse s \<noteq> None"

definition step_ids_text :: "string list \<Rightarrow> bool" where
  "step_ids_text xs \<longleftrightarrow> xs \<noteq> [] \<and> list_all (\<lambda>x. x \<noteq> []) xs"

text \<open>The literal fields (type, version, issuer, audience) are not part of the records.\<close>

definition authorization_claims_ok :: "authorization_claims \<Rightarrow> bool" where
  "authorization_claims_ok c \<longleftrightarrow>
     ac_keyId c \<noteq> [] \<and> ac_environmentId c \<noteq> [] \<and> ac_agentId c \<noteq> [] \<and> ac_requestId c \<noteq> [] \<and>
     ac_attemptId c \<noteq> [] \<and> ac_planId c \<noteq> [] \<and> 0 < ac_planVersion c \<and>
     fingerprint_text (ac_planFingerprint c) \<and> 0 < ac_policyVersion c \<and>
     fingerprint_text (ac_connectorConfigurationFingerprint c) \<and>
     step_ids_text (ac_allowedStepIds c) \<and> fingerprint_text (ac_approvalEvidenceHash c) \<and>
     datetime_text (ac_issuedAt c) \<and> datetime_text (ac_notBefore c) \<and>
     datetime_text (ac_expiresAt c) \<and> 16 \<le> length (ac_nonce c)"

definition MAX_LEASE_TTL_MS :: int where
  "MAX_LEASE_TTL_MS = 90000"

definition lease_ttl_ok :: "lease_claims \<Rightarrow> bool" where
  "lease_ttl_ok c \<longleftrightarrow>
     (case (date_parse (lc_expiresAt c), date_parse (lc_issuedAt c)) of
        (Some e, Some i) \<Rightarrow> \<not> (e - i \<le> 0 \<or> 90000 < e - i)
      | _ \<Rightarrow> True)"

definition lease_claims_ok :: "lease_claims \<Rightarrow> bool" where
  "lease_claims_ok c \<longleftrightarrow>
     lc_keyId c \<noteq> [] \<and> lc_environmentId c \<noteq> [] \<and> lc_agentId c \<noteq> [] \<and> lc_requestId c \<noteq> [] \<and>
     lc_attemptId c \<noteq> [] \<and> step_ids_text (lc_allowedStepIds c) \<and> datetime_text (lc_issuedAt c) \<and>
     datetime_text (lc_expiresAt c) \<and> 16 \<le> length (lc_leaseId c) \<and> lease_ttl_ok c"

fun kind_value :: "authorization_kind \<Rightarrow> string" where
  "kind_value KindInitial = ''initial''"
| "kind_value KindRetry = ''retry''"

definition authorization_json :: "authorization_claims \<Rightarrow> json" where
  "authorization_json c = JObj
     [(''type'', JStr ''forgetops.execution-authorization''), (''version'', JNum 1),
      (''keyId'', JStr (ac_keyId c)), (''issuer'', JStr ''forgetops-control-plane''),
      (''audience'', JStr ''forgetops-agent''), (''environmentId'', JStr (ac_environmentId c)),
      (''agentId'', JStr (ac_agentId c)), (''requestId'', JStr (ac_requestId c)),
      (''attemptId'', JStr (ac_attemptId c)),
      (''authorizationKind'', JStr (kind_value (ac_authorizationKind c))),
      (''planId'', JStr (ac_planId c)), (''planVersion'', JNum (ac_planVersion c)),
      (''planFingerprint'', JStr (ac_planFingerprint c)),
      (''policyVersion'', JNum (ac_policyVersion c)),
      (''connectorConfigurationFingerprint'', JStr (ac_connectorConfigurationFingerprint c)),
      (''allowedStepIds'', JArr (map JStr (ac_allowedStepIds c))),
      (''approvalEvidenceHash'', JStr (ac_approvalEvidenceHash c)),
      (''issuedAt'', JStr (ac_issuedAt c)), (''notBefore'', JStr (ac_notBefore c)),
      (''expiresAt'', JStr (ac_expiresAt c)), (''nonce'', JStr (ac_nonce c))]"

definition lease_json :: "lease_claims \<Rightarrow> json" where
  "lease_json c = JObj
     [(''type'', JStr ''forgetops.execution-lease''), (''version'', JNum 1),
      (''keyId'', JStr (lc_keyId c)), (''environmentId'', JStr (lc_environmentId c)),
      (''agentId'', JStr (lc_agentId c)), (''requestId'', JStr (lc_requestId c)),
      (''attemptId'', JStr (lc_attemptId c)),
      (''allowedStepIds'', JArr (map JStr (lc_allowedStepIds c))),
      (''issuedAt'', JStr (lc_issuedAt c)), (''expiresAt'', JStr (lc_expiresAt c)),
      (''leaseId'', JStr (lc_leaseId c))]"

subsection \<open>Signatures\<close>

definition signing_material ::
  "(json \<Rightarrow> string option) \<Rightarrow> string \<Rightarrow> json \<Rightarrow> bytes option" where
  "signing_material canonicalize context claims =
     map_option (\<lambda>s. utf8 context @ [0] @ utf8 s) (canonicalize claims)"

definition signDomainSeparatedJcs ::
  "(bytes \<Rightarrow> bytes) \<Rightarrow> (json \<Rightarrow> string option) \<Rightarrow> string \<Rightarrow> json \<Rightarrow> string option" where
  "signDomainSeparatedJcs sign canonicalize context claims =
     map_option (\<lambda>m. b64_encode (sign m)) (signing_material canonicalize context claims)"

text \<open>
  \<open>ed key signature material\<close> is what \<open>createPublicKey\<close> and \<open>verify\<close> make of the two decoded texts, \<open>None\<close>
  where one of them throws.
\<close>

definition verifyDomainSeparatedJcs ::
  "(bytes \<Rightarrow> bytes \<Rightarrow> bytes \<Rightarrow> bool option) \<Rightarrow> (json \<Rightarrow> string option) \<Rightarrow> string \<Rightarrow> json \<Rightarrow>
   string \<Rightarrow> string \<Rightarrow> bool" where
  "verifyDomainSeparatedJcs ed canonicalize context claims signature publicKey =
     (case signing_material canonicalize context claims of
        None \<Rightarrow> False
      | Some m \<Rightarrow> ed (buffer_base64url publicKey) (buffer_base64url signature) m = Some True)"

definition planFingerprint_of :: "(bytes \<Rightarrow> bytes) \<Rightarrow> (json \<Rightarrow> string option) \<Rightarrow> json \<Rightarrow> string option" where
  "planFingerprint_of sha canonicalize plan =
     map_option (\<lambda>s. ''sha256:'' @ hex_encode (sha (utf8 s))) (canonicalize plan)"

subsection \<open>The authorization signer\<close>

datatype signer_error =
    PolicyError policy_error
  | SignerRequestNotFound
  | AuthorizationTtlInvalid
  | LeaseTtlInvalid
  | ClaimsInvalid
  | ClaimsNotCanonical
  | AttemptNotFound
  | SignerKeyIdMissing
  | SeedLengthInvalid

definition SIGNING_CONTEXT :: string where
  "SIGNING_CONTEXT = ''forgetops.execution-authorization.v1''"

definition LEASE_CONTEXT :: string where
  "LEASE_CONTEXT = ''forgetops.execution-lease.v1''"

definition MAX_AUTHORIZATION_TTL_MS :: int where
  "MAX_AUTHORIZATION_TTL_MS = 30 * 60 * 1000"

record signer =
  sg_sign :: "bytes \<Rightarrow> bytes"
  sg_canonicalize :: "json \<Rightarrow> string option"
  sg_keyId :: string
  sg_maxTtlMs :: int

definition new_authorization_signer ::
  "(bytes \<Rightarrow> bytes) \<Rightarrow> (json \<Rightarrow> string option) \<Rightarrow> string \<Rightarrow> int option \<Rightarrow> signer_error + signer" where
  "new_authorization_signer sign canonicalize keyId maxTtlMs =
     (let ttl = (case maxTtlMs of None \<Rightarrow> MAX_AUTHORIZATION_TTL_MS | Some t \<Rightarrow> t) in
      if keyId = [] then Inl SignerKeyIdMissing
      else if ttl \<le> 0 \<or> MAX_AUTHORIZATION_TTL_MS < ttl then Inl AuthorizationTtlInvalid
      else Inr \<lparr>sg_sign = sign, sg_canonicalize = canonicalize, sg_keyId = keyId, sg_maxTtlMs = ttl\<rparr>)"

text \<open>\<open>ed seed\<close> signs with the key of a seed.\<close>

definition authorization_signer_fromSeed ::
  "(bytes \<Rightarrow> bytes \<Rightarrow> bytes) \<Rightarrow> (json \<Rightarrow> string option) \<Rightarrow> bytes \<Rightarrow> string \<Rightarrow> int option \<Rightarrow> signer_error + signer" where
  "authorization_signer_fromSeed ed canonicalize seed keyId maxTtlMs =
     (if length seed \<noteq> 32 then Inl SeedLengthInvalid
      else new_authorization_signer (ed seed) canonicalize keyId maxTtlMs)"

record authorize_input =
  ai_requestId :: string
  ai_actorId :: string
  ai_expectedRequestVersion :: int
  ai_requestedStepIds :: "string list"
  ai_authorizationKind :: "authorization_kind option"
  ai_ttlMs :: "int option"

definition authorization_claims_of ::
  "signer \<Rightarrow> authorization_policy_state \<Rightarrow> authorize_input \<Rightarrow> authorization_kind \<Rightarrow> int \<Rightarrow> int \<Rightarrow>
   bytes \<Rightarrow> bytes \<Rightarrow> authorization_claims" where
  "authorization_claims_of sg state i kind now ttlMs r16 r24 =
     \<lparr>ac_keyId = sg_keyId sg, ac_environmentId = pq_environmentId (ps_request state),
      ac_agentId = pg_id (ps_agent state), ac_requestId = pq_id (ps_request state),
      ac_attemptId = hex_encode r16, ac_authorizationKind = kind,
      ac_planId = pp_id (ps_plan state), ac_planVersion = pp_version (ps_plan state),
      ac_planFingerprint = pp_fingerprint (ps_plan state),
      ac_policyVersion = pq_policyVersion (ps_request state),
      ac_connectorConfigurationFingerprint = pp_connectorConfigurationFingerprint (ps_plan state),
      ac_allowedStepIds = ai_requestedStepIds i,
      ac_approvalEvidenceHash =
        (case ps_approval state of None \<Rightarrow> ''sha256:unapproved'' | Some a \<Rightarrow> pa_evidenceHash a),
      ac_issuedAt = toISOString now, ac_notBefore = toISOString now,
      ac_expiresAt = toISOString (now + ttlMs), ac_nonce = b64_encode r24\<rparr>"

definition authorize ::
  "signer \<Rightarrow> (string \<Rightarrow> authorization_policy_state option) \<Rightarrow> int \<Rightarrow> bytes \<Rightarrow> bytes \<Rightarrow>
   authorize_input \<Rightarrow> signer_error + (authorization_claims \<times> string)" where
  "authorize sg getAuthorizationState now r16 r24 i =
     (case getAuthorizationState (ai_requestId i) of
        None \<Rightarrow> Inl SignerRequestNotFound
      | Some state \<Rightarrow>
          (let kind = (case ai_authorizationKind i of None \<Rightarrow> KindInitial | Some k \<Rightarrow> k);
               ttlMs = (case ai_ttlMs i of None \<Rightarrow> sg_maxTtlMs sg | Some t \<Rightarrow> t);
               claims = authorization_claims_of sg state i kind now ttlMs r16 r24 in
           case assertAuthorizationPolicy
               \<lparr>pi_state = state, pi_actorId = ai_actorId i,
                pi_expectedRequestVersion = ai_expectedRequestVersion i,
                pi_requestedStepIds = ai_requestedStepIds i, pi_authorizationKind = kind\<rparr> of
             Some e \<Rightarrow> Inl (PolicyError e)
           | None \<Rightarrow>
               if ttlMs \<le> 0 \<or> sg_maxTtlMs sg < ttlMs then Inl AuthorizationTtlInvalid
               else if \<not> authorization_claims_ok claims then Inl ClaimsInvalid
               else (case signDomainSeparatedJcs (sg_sign sg) (sg_canonicalize sg) SIGNING_CONTEXT
                       (authorization_json claims) of
                       None \<Rightarrow> Inl ClaimsNotCanonical
                     | Some signature \<Rightarrow> Inr (claims, signature))))"

subsection \<open>The lease signer\<close>

definition assertExecutionLeasePolicy ::
  "authorization_claims \<Rightarrow> authorization_policy_state \<Rightarrow> string list \<Rightarrow> int \<Rightarrow> policy_error option" where
  "assertExecutionLeasePolicy auth state steps now =
     (if ps_executionPaused state then Some ExecutionGloballyPaused
      else if ac_environmentId auth \<noteq> pq_environmentId (ps_request state) \<or>
        ac_agentId auth \<noteq> pg_id (ps_agent state) \<or> ac_requestId auth \<noteq> pq_id (ps_request state) \<or>
        ac_planVersion auth \<noteq> pp_version (ps_plan state) \<or>
        ac_planFingerprint auth \<noteq> pp_fingerprint (ps_plan state) \<or>
        pg_status (ps_agent state) = AgentRevoked \<or> pg_status (ps_agent state) = AgentDraining
      then Some AgentNotEligible
      else if (case date_parse (ac_expiresAt auth) of None \<Rightarrow> False | Some e \<Rightarrow> e \<le> now)
      then Some RequestNotAuthorizable
      else if steps = [] \<or> (\<exists>x \<in> set steps. x \<notin> set (ac_allowedStepIds auth)) \<or> \<not> distinct steps
      then Some StepScopeInvalid
      else None)"

definition assertLeaseClaimsBound :: "lease_claims \<Rightarrow> authorization_claims \<Rightarrow> policy_error option" where
  "assertLeaseClaimsBound lease auth =
     (if lc_environmentId lease \<noteq> ac_environmentId auth \<or> lc_agentId lease \<noteq> ac_agentId auth \<or>
         lc_requestId lease \<noteq> ac_requestId auth \<or> lc_attemptId lease \<noteq> ac_attemptId auth \<or>
         (\<exists>x \<in> set (lc_allowedStepIds lease). x \<notin> set (ac_allowedStepIds auth))
      then Some StepScopeInvalid else None)"

record lease_input =
  li_authorization :: authorization_claims
  li_state :: authorization_policy_state
  li_requestedStepIds :: "string list"
  li_ttlMs :: "int option"

text \<open>The lease signer has the constant \<open>MAX_LEASE_TTL_MS\<close> in place of an option.\<close>

definition new_lease_signer ::
  "(bytes \<Rightarrow> bytes) \<Rightarrow> (json \<Rightarrow> string option) \<Rightarrow> string \<Rightarrow> signer_error + signer" where
  "new_lease_signer sign canonicalize keyId =
     (if keyId = [] then Inl SignerKeyIdMissing
      else Inr \<lparr>sg_sign = sign, sg_canonicalize = canonicalize, sg_keyId = keyId, sg_maxTtlMs = MAX_LEASE_TTL_MS\<rparr>)"

definition lease_signer_fromSeed ::
  "(bytes \<Rightarrow> bytes \<Rightarrow> bytes) \<Rightarrow> (json \<Rightarrow> string option) \<Rightarrow> bytes \<Rightarrow> string \<Rightarrow> signer_error + signer" where
  "lease_signer_fromSeed ed canonicalize seed keyId =
     (if length seed \<noteq> 32 then Inl SeedLengthInvalid else new_lease_signer (ed seed) canonicalize keyId)"

definition lease_claims_of :: "signer \<Rightarrow> lease_input \<Rightarrow> int \<Rightarrow> int \<Rightarrow> bytes \<Rightarrow> lease_claims" where
  "lease_claims_of sg i now ttlMs r16 =
     (let auth = li_authorization i in
      \<lparr>lc_keyId = sg_keyId sg, lc_environmentId = ac_environmentId auth, lc_agentId = ac_agentId auth,
       lc_requestId = ac_requestId auth, lc_attemptId = ac_attemptId auth,
       lc_allowedStepIds = li_requestedStepIds i, lc_issuedAt = toISOString now,
       lc_expiresAt = toISOString (now + ttlMs), lc_leaseId = hex_encode r16\<rparr>)"

definition issue ::
  "signer \<Rightarrow> int \<Rightarrow> bytes \<Rightarrow> lease_input \<Rightarrow> signer_error + (lease_claims \<times> string)" where
  "issue sg now r16 i =
     (let ttlMs = (case li_ttlMs i of None \<Rightarrow> MAX_LEASE_TTL_MS | Some t \<Rightarrow> t);
          claims = lease_claims_of sg i now ttlMs r16 in
      case assertExecutionLeasePolicy (li_authorization i) (li_state i) (li_requestedStepIds i) now of
        Some e \<Rightarrow> Inl (PolicyError e)
      | None \<Rightarrow>
          if ttlMs \<le> 0 \<or> MAX_LEASE_TTL_MS < ttlMs then Inl LeaseTtlInvalid
          else if \<not> lease_claims_ok claims then Inl ClaimsInvalid
          else
            (case assertLeaseClaimsBound claims (li_authorization i) of
               Some e \<Rightarrow> Inl (PolicyError e)
             | None \<Rightarrow>
                 (case signDomainSeparatedJcs (sg_sign sg) (sg_canonicalize sg) LEASE_CONTEXT
                         (lease_json claims) of
                    None \<Rightarrow> Inl ClaimsNotCanonical
                  | Some signature \<Rightarrow> Inr (claims, signature))))"

definition verifyExecutionLease ::
  "(bytes \<Rightarrow> bytes \<Rightarrow> bytes \<Rightarrow> bool option) \<Rightarrow> (json \<Rightarrow> string option) \<Rightarrow> lease_claims \<Rightarrow>
   string \<Rightarrow> string \<Rightarrow> bool" where
  "verifyExecutionLease ed canonicalize claims signature publicKey \<longleftrightarrow>
     lease_claims_ok claims \<and>
     verifyDomainSeparatedJcs ed canonicalize LEASE_CONTEXT (lease_json claims) signature
       publicKey"

subsection \<open>The lease service and the kill switch of the API\<close>

record execution_context =
  xc_authorization :: authorization_claims
  xc_state :: authorization_policy_state

definition acquire ::
  "signer \<Rightarrow> (string \<Rightarrow> execution_context option) \<Rightarrow> int \<Rightarrow> bytes \<Rightarrow> string \<Rightarrow> string list \<Rightarrow>
   int option \<Rightarrow> signer_error + (lease_claims \<times> string)" where
  "acquire sg getExecutionContext now r16 attempt steps ttlMs =
     (case getExecutionContext attempt of
        None \<Rightarrow> Inl AttemptNotFound
      | Some c \<Rightarrow> issue sg now r16
          \<lparr>li_authorization = xc_authorization c, li_state = xc_state c,
           li_requestedStepIds = steps, li_ttlMs = ttlMs\<rparr>)"

definition isActive :: "lease_claims \<Rightarrow> int \<Rightarrow> bool" where
  "isActive c now =
     (case (date_parse (lc_issuedAt c), date_parse (lc_expiresAt c)) of
        (Some i, Some e) \<Rightarrow> i \<le> now \<and> now < e
      | _ \<Rightarrow> False)"

record kill_switch =
  ks_paused :: bool
  ks_reason :: "string option"

definition new_kill_switch :: kill_switch where
  "new_kill_switch = \<lparr>ks_paused = False, ks_reason = None\<rparr>"

definition kill_switch_reason_ok :: "string \<Rightarrow> bool" where
  "kill_switch_reason_ok r =
     class_match (lower @ upper @ digits) (lower @ upper @ digits @ ''_:-'') 127 r"

definition pause :: "string \<Rightarrow> (string, unit, kill_switch) act" where
  "pause reason = block
     [guardM (kill_switch_reason_ok reason) ''KILL_SWITCH_REASON_INVALID'',
      modifyM (\<lambda>_. \<lparr>ks_paused = True, ks_reason = Some reason\<rparr>)]"

definition resume :: "(string, unit, kill_switch) act" where
  "resume = modifyM (\<lambda>_. \<lparr>ks_paused = False, ks_reason = None\<rparr>)"

subsection \<open>Lemmas\<close>

text \<open>The evidence the policy asks for: an approval of exactly this plan by somebody else.\<close>

definition approved_by_other :: "authorization_policy_state \<Rightarrow> string \<Rightarrow> bool" where
  "approved_by_other s actor \<longleftrightarrow> (\<exists>a. ps_approval s = Some a \<and>
     pa_planVersion a = pp_version (ps_plan s) \<and> pa_planFingerprint a = pp_fingerprint (ps_plan s) \<and>
     pa_requestVersion a \<le> pq_version (ps_request s) \<and> pa_decidedBy a \<noteq> actor)"

definition scoped :: "string list \<Rightarrow> string list \<Rightarrow> bool" where
  "scoped steps allowed \<longleftrightarrow> steps \<noteq> [] \<and> distinct steps \<and> set steps \<subseteq> set allowed"

lemma cancelled_not_authorizable [simp]: "''cancelled'' \<notin> set authorizable_statuses"
  by (simp add: authorizable_statuses_def)

lemma guards_None:
  "(if p then Some e1 else if c \<or> k then Some e2 else if v then Some e3 else if st then Some e4
    else if a \<or> b then Some e5 else if (z \<or> n \<and> g) \<and> g then Some e6 else if g \<and> w then Some e7
    else if g \<and> x then Some e8 else if sc then Some e9 else None) = None \<longleftrightarrow>
   \<not> p \<and> \<not> c \<and> \<not> k \<and> \<not> v \<and> \<not> st \<and> \<not> a \<and> \<not> b \<and> (g \<longrightarrow> \<not> z \<and> \<not> n \<and> \<not> w \<and> \<not> x) \<and> \<not> sc"
  by auto

lemma policy_ok:
  "assertAuthorizationPolicy i = None \<longleftrightarrow>
     (let s = pi_state i; req = ps_request s; plan = ps_plan s in
      \<not> ps_executionPaused s \<and> \<not> pq_cancelled req \<and>
      pq_version req = pi_expectedRequestVersion i \<and> pq_status req \<in> set authorizable_statuses \<and>
      pg_status (ps_agent s) \<noteq> AgentRevoked \<and> pg_environmentId (ps_agent s) = pq_environmentId req \<and>
      (pp_requiresApproval plan \<and> pi_authorizationKind i = KindInitial \<longrightarrow>
         0 < pp_version plan \<and> approved_by_other s (pi_actorId i)) \<and>
      scoped (pi_requestedStepIds i) (pp_stepIds plan))"
proof -
  have steps: "scoped xs ys \<longleftrightarrow> \<not> (xs = [] \<or> (\<exists>x \<in> set xs. x \<notin> set ys) \<or> \<not> distinct xs)"
    for xs ys :: "string list" by (auto simp: scoped_def)
  have status: "pq_status (ps_request (pi_state i)) \<in> set authorizable_statuses \<Longrightarrow>
    pq_status (ps_request (pi_state i)) \<noteq> ''cancelled''" by auto
  show ?thesis
    unfolding assertAuthorizationPolicy_def Let_def approved_by_other_def steps
    using status unfolding guards_None
    by (cases "ps_approval (pi_state i)") (auto simp: not_le not_less)
qed

lemma lease_policy_ok:
  "assertExecutionLeasePolicy auth state steps now = None \<longleftrightarrow>
     \<not> ps_executionPaused state \<and> ac_environmentId auth = pq_environmentId (ps_request state) \<and>
     ac_agentId auth = pg_id (ps_agent state) \<and> ac_requestId auth = pq_id (ps_request state) \<and>
     ac_planVersion auth = pp_version (ps_plan state) \<and>
     ac_planFingerprint auth = pp_fingerprint (ps_plan state) \<and>
     pg_status (ps_agent state) \<notin> {AgentRevoked, AgentDraining} \<and>
     (\<forall>e. date_parse (ac_expiresAt auth) = Some e \<longrightarrow> now < e) \<and>
     scoped steps (ac_allowedStepIds auth)"
  by (auto simp: assertExecutionLeasePolicy_def scoped_def not_le split: option.splits)

definition chosen_kind :: "authorize_input \<Rightarrow> authorization_kind" where
  "chosen_kind i = (case ai_authorizationKind i of None \<Rightarrow> KindInitial | Some k \<Rightarrow> k)"

definition policy_input :: "authorize_input \<Rightarrow> authorization_policy_state \<Rightarrow> authorization_policy_input" where
  "policy_input i state = \<lparr>pi_state = state, pi_actorId = ai_actorId i,
     pi_expectedRequestVersion = ai_expectedRequestVersion i,
     pi_requestedStepIds = ai_requestedStepIds i, pi_authorizationKind = chosen_kind i\<rparr>"

lemma authorize_ok:
  assumes "authorize sg store now r16 r24 i = Inr (claims, signature)"
  obtains state ttlMs where "store (ai_requestId i) = Some state"
    and "assertAuthorizationPolicy (policy_input i state) = None"
    and "0 < ttlMs" and "ttlMs \<le> sg_maxTtlMs sg"
    and "claims = authorization_claims_of sg state i (chosen_kind i) now ttlMs r16 r24"
    and "authorization_claims_ok claims"
proof -
  define ttlMs where "ttlMs = (case ai_ttlMs i of None \<Rightarrow> sg_maxTtlMs sg | Some t \<Rightarrow> t)"
  obtain state where "store (ai_requestId i) = Some state"
    using assms by (cases "store (ai_requestId i)") (auto simp: authorize_def)
  then show ?thesis
    using assms that [of state ttlMs]
    unfolding authorize_def Let_def ttlMs_def [symmetric] chosen_kind_def [symmetric] policy_input_def
    by (simp split: option.splits if_splits)
qed

lemma issue_ok:
  assumes "issue sg now r16 i = Inr (claims, signature)"
  obtains ttlMs where
    "assertExecutionLeasePolicy (li_authorization i) (li_state i) (li_requestedStepIds i) now = None"
    and "0 < ttlMs" and "ttlMs \<le> 90000" and "ttlMs = (case li_ttlMs i of None \<Rightarrow> 90000 | Some t \<Rightarrow> t)" and "claims = lease_claims_of sg i now ttlMs r16"
    and "lease_claims_ok claims"
    and "signDomainSeparatedJcs (sg_sign sg) (sg_canonicalize sg) LEASE_CONTEXT (lease_json claims)
      = Some signature"
proof -
  define ttlMs where "ttlMs = (case li_ttlMs i of None \<Rightarrow> 90000 | Some t \<Rightarrow> t)"
  show ?thesis
    using assms that [OF _ _ _ ttlMs_def]
    unfolding issue_def Let_def MAX_LEASE_TTL_MS_def ttlMs_def [symmetric]
    by (simp split: option.splits if_splits)
qed

subsection \<open>An example\<close>

definition ex_state :: authorization_policy_state where
  "ex_state = \<lparr>ps_request = \<lparr>pq_id = ''req'', pq_environmentId = ''env'', pq_version = 5,
       pq_policyVersion = 1, pq_status = ''awaiting_approval'', pq_cancelled = False\<rparr>,
     ps_plan = \<lparr>pp_id = ''pln'', pp_version = 2, pp_fingerprint = ''sha256:a'',
       pp_connectorConfigurationFingerprint = ''sha256:b'', pp_stepIds = [''s1'', ''s2''],
       pp_requiresApproval = True\<rparr>,
     ps_approval = Some \<lparr>pa_evidenceHash = ''sha256:c'', pa_decidedBy = ''usr_1'', pa_decidedAt = ''t'',
       pa_requestVersion = 4, pa_planVersion = 2, pa_planFingerprint = ''sha256:a''\<rparr>,
     ps_agent = \<lparr>pg_id = ''agt'', pg_environmentId = ''env'', pg_status = AgentOnline\<rparr>,
     ps_executionPaused = False\<rparr>"

definition ex_signer :: signer where
  "ex_signer = \<lparr>sg_sign = (\<lambda>m. [1]), sg_canonicalize = (\<lambda>j. Some ''{}''), sg_keyId = ''key'',
     sg_maxTtlMs = 1800000\<rparr>"

definition ex_authorize :: "authorization_kind \<Rightarrow> authorize_input" where
  "ex_authorize k = \<lparr>ai_requestId = ''req'', ai_actorId = ''usr_2'', ai_expectedRequestVersion = 5,
     ai_requestedStepIds = [''s1''], ai_authorizationKind = Some k, ai_ttlMs = None\<rparr>"

lemma toISOString_datetime: "0 \<le> t \<Longrightarrow> t < max_time \<Longrightarrow> datetime_text (toISOString t)"
  by (simp add: datetime_text_def date_parse_toISOString)

lemma ex_policy:
  "assertAuthorizationPolicy \<lparr>pi_state = ex_state, pi_actorId = ''usr_2'', pi_expectedRequestVersion = 5,
     pi_requestedStepIds = [''s1''], pi_authorizationKind = k\<rparr> = None"
  "assertAuthorizationPolicy \<lparr>pi_state = ex_state\<lparr>ps_approval := None\<rparr>, pi_actorId = ''usr_2'',
     pi_expectedRequestVersion = 5, pi_requestedStepIds = [''s1''], pi_authorizationKind = KindRetry\<rparr> = None"
  by (simp_all add: policy_ok Let_def ex_state_def approved_by_other_def scoped_def
      authorizable_statuses_def)

lemma ex_claims_ok:
  "authorization_claims_ok (authorization_claims_of ex_signer ex_state (ex_authorize k) k
     1785542400000 1800000 (replicate 16 0) (replicate 24 0))"
  by (simp add: authorization_claims_ok_def authorization_claims_of_def ex_signer_def ex_state_def
      ex_authorize_def toISOString_datetime max_time_def fingerprint_text_def step_ids_text_def
      order_trans [OF _ b64_encode_length])

lemma ex_authorized:
  "authorize ex_signer (\<lambda>_. Some ex_state) 1785542400000 (replicate 16 0) (replicate 24 0) (ex_authorize k)
    = Inr (authorization_claims_of ex_signer ex_state (ex_authorize k) k 1785542400000 1800000
        (replicate 16 0) (replicate 24 0), b64_encode [1])"
  using ex_policy(1) [of k] ex_claims_ok [of k]
  by (simp add: authorize_def Let_def ex_authorize_def)
    (simp add: ex_signer_def signDomainSeparatedJcs_def signing_material_def)

definition ex_auth :: authorization_claims where
  "ex_auth = authorization_claims_of ex_signer ex_state (ex_authorize KindInitial) KindInitial
     1785542400000 1800000 (replicate 16 0) (replicate 24 0)"

definition ex_lease :: lease_input where
  "ex_lease = \<lparr>li_authorization = ex_auth, li_state = ex_state, li_requestedStepIds = [''s1''],
     li_ttlMs = Some 60000\<rparr>"

lemma lease_ttl_of:
  "0 \<le> now \<Longrightarrow> 0 < ttlMs \<Longrightarrow> now + ttlMs < max_time \<Longrightarrow>
   lease_ttl_ok (lease_claims_of sg i now ttlMs r16) \<longleftrightarrow> ttlMs \<le> 90000"
  by (simp add: lease_ttl_ok_def lease_claims_of_def Let_def date_parse_toISOString not_less)

lemma ex_issued_at:
  assumes "1785542400000 \<le> now" and "now < 1785544200000"
  shows "issue ex_signer now (replicate 16 0) ex_lease =
     Inr (lease_claims_of ex_signer ex_lease now 60000 (replicate 16 0), b64_encode [1])"
proof -
  have "assertExecutionLeasePolicy ex_auth ex_state [''s1''] now = None"
    using assms by (simp add: lease_policy_ok ex_auth_def authorization_claims_of_def ex_state_def ex_authorize_def
        scoped_def date_parse_toISOString max_time_def)
  moreover have "lease_claims_ok (lease_claims_of ex_signer ex_lease now 60000 (replicate 16 0))"
    unfolding lease_claims_ok_def using lease_ttl_of [of now 60000 ex_signer ex_lease] assms
    by (simp add: max_time_def)
      (simp add: lease_claims_of_def Let_def ex_lease_def ex_auth_def authorization_claims_of_def
        ex_signer_def ex_state_def step_ids_text_def toISOString_datetime max_time_def)
  moreover have "assertLeaseClaimsBound (lease_claims_of ex_signer ex_lease now 60000
      (replicate 16 0)) ex_auth = None"
    by (simp add: assertLeaseClaimsBound_def lease_claims_of_def Let_def ex_lease_def ex_auth_def
        authorization_claims_of_def ex_authorize_def)
  ultimately show ?thesis
    by (simp add: issue_def Let_def ex_lease_def MAX_LEASE_TTL_MS_def)
      (simp add: ex_signer_def signDomainSeparatedJcs_def signing_material_def)
qed

lemma ex_issued:
  "issue ex_signer 1785542401000 (replicate 16 0) ex_lease =
     Inr (lease_claims_of ex_signer ex_lease 1785542401000 60000 (replicate 16 0), b64_encode [1])"
  by (rule ex_issued_at) simp_all

text \<open>A lease issued one second before its authorization expires.\<close>

lemma ex_issued_late:
  "issue ex_signer 1785544199000 (replicate 16 0) ex_lease =
     Inr (lease_claims_of ex_signer ex_lease 1785544199000 60000 (replicate 16 0), b64_encode [1])"
  by (rule ex_issued_at) simp_all

lemma ex_auth_expires: "date_parse (ac_expiresAt ex_auth) = Some 1785544200000"
  by (simp add: ex_auth_def authorization_claims_of_def date_parse_toISOString max_time_def)

subsection \<open>Properties\<close>

text \<open>C29. A signed authorization is always backed by the policy: execution was not paused, the
request not cancelled, at exactly the version the caller expected and in a status that can be
authorized, the agent not revoked and of the request's environment, the steps a non-empty
duplicate-free part of the plan's steps; and for an initial authorization of a plan that requires
approval there is an approval of exactly this plan version and fingerprint, given at this or an
earlier version of the request, by somebody other than the caller. The claims are bound to this
request, plan, agent and step list.\<close>

theorem authorization_backed_by_policy:
  assumes "authorize sg store now r16 r24 i = Inr (claims, signature)"
  shows "\<exists>s. store (ai_requestId i) = Some s \<and> \<not> ps_executionPaused s \<and>
    \<not> pq_cancelled (ps_request s) \<and> pq_version (ps_request s) = ai_expectedRequestVersion i \<and>
    pq_status (ps_request s) \<in> set authorizable_statuses \<and>
    pg_status (ps_agent s) \<noteq> AgentRevoked \<and>
    pg_environmentId (ps_agent s) = pq_environmentId (ps_request s) \<and>
    scoped (ai_requestedStepIds i) (pp_stepIds (ps_plan s)) \<and>
    (pp_requiresApproval (ps_plan s) \<and> ac_authorizationKind claims = KindInitial \<longrightarrow>
       approved_by_other s (ai_actorId i)) \<and>
    ac_requestId claims = pq_id (ps_request s) \<and> ac_agentId claims = pg_id (ps_agent s) \<and>
    ac_environmentId claims = pq_environmentId (ps_request s) \<and>
    ac_planId claims = pp_id (ps_plan s) \<and> ac_planVersion claims = pp_version (ps_plan s) \<and>
    ac_planFingerprint claims = pp_fingerprint (ps_plan s) \<and>
    ac_allowedStepIds claims = ai_requestedStepIds i"
  using assms
  by (rule authorize_ok) (auto simp: policy_ok Let_def policy_input_def authorization_claims_of_def)

theorem authorization_backed_by_policy_witness:
  "approved_by_other ex_state ''usr_2''"
  using authorization_backed_by_policy [OF ex_authorized [of KindInitial]]
  by (simp add: ex_authorize_def authorization_claims_of_def) (simp add: ex_state_def)

text \<open>C30. A signed lease is for the environment, agent, request and attempt of its authorization and for a
non-empty duplicate-free part of its steps; at the moment it is issued execution is not paused, the agent
is neither revoked nor draining, the plan is the authorized one and the authorization has not expired. It
is active from then on for exactly the time asked for, at most 90 seconds. Its end is not bounded by that
of the authorization: the lease is still active when the authorization has expired if and only if this
happens within the time asked for, so it may outlive it, by less than 90 seconds.\<close>

theorem lease_scope_and_lifetime:
  assumes "issue sg now r16 i = Inr (lease, signature)" and "0 \<le> now" and "now + 90000 < max_time"
  shows "scoped (lc_allowedStepIds lease) (ac_allowedStepIds (li_authorization i)) \<and>
    lc_environmentId lease = ac_environmentId (li_authorization i) \<and>
    lc_agentId lease = ac_agentId (li_authorization i) \<and>
    lc_requestId lease = ac_requestId (li_authorization i) \<and>
    lc_attemptId lease = ac_attemptId (li_authorization i) \<and>
    \<not> ps_executionPaused (li_state i) \<and>
    pg_status (ps_agent (li_state i)) \<notin> {AgentRevoked, AgentDraining} \<and>
    ac_planVersion (li_authorization i) = pp_version (ps_plan (li_state i)) \<and>
    ac_planFingerprint (li_authorization i) = pp_fingerprint (ps_plan (li_state i)) \<and>
    (let ttl = (case li_ttlMs i of None \<Rightarrow> 90000 | Some t \<Rightarrow> t) in 0 < ttl \<and> ttl \<le> 90000 \<and>
       (\<forall>t. isActive lease t \<longleftrightarrow> now \<le> t \<and> t < now + ttl) \<and>
       (\<forall>e. date_parse (ac_expiresAt (li_authorization i)) = Some e \<longrightarrow> now < e \<and>
          (isActive lease e \<longleftrightarrow> e < now + ttl) \<and> (\<forall>t. isActive lease t \<longrightarrow> t < e + 90000)))"
  using assms(1)
proof (rule issue_ok)
  fix ttlMs
  assume policy: "assertExecutionLeasePolicy (li_authorization i) (li_state i) (li_requestedStepIds i) now = None"
    and ttl: "0 < ttlMs" "ttlMs \<le> 90000" "ttlMs = (case li_ttlMs i of None \<Rightarrow> 90000 | Some t \<Rightarrow> t)"
    and lease: "lease = lease_claims_of sg i now ttlMs r16"
  have "isActive lease t \<longleftrightarrow> now \<le> t \<and> t < now + ttlMs" for t
    using ttl assms(2,3)
    by (simp add: lease isActive_def lease_claims_of_def Let_def date_parse_toISOString)
  with policy ttl(1,2) show ?thesis
    unfolding ttl(3) [symmetric] Let_def
    by (auto simp: lease_policy_ok lease lease_claims_of_def Let_def)
qed

text \<open>A lease issued a second before its authorization expires is still active when that has happened.\<close>

theorem lease_scope_and_lifetime_witness:
  "scoped [''s1''] (ac_allowedStepIds ex_auth) \<and>
   isActive (lease_claims_of ex_signer ex_lease 1785544199000 60000 (replicate 16 0)) 1785544200000"
  using lease_scope_and_lifetime [OF ex_issued_late] ex_auth_expires
  by (simp add: max_time_def Let_def ex_lease_def) (simp add: lease_claims_of_def Let_def)

text \<open>C31. A lease that was issued can be verified: with a key pair whose verification accepts what
its signing wrote, \<open>verifyExecutionLease\<close> accepts every lease \<open>issue\<close> returns under the public key,
and refuses any claims that the schema does not admit, whatever the signature.\<close>

theorem issued_lease_verifies:
  assumes "issue sg now r16 i = Inr (lease, signature)"
    and "\<And>m. ed (buffer_base64url pk) (sg_sign sg m) m = Some True"
  shows "verifyExecutionLease ed (sg_canonicalize sg) lease signature pk \<and>
    (\<not> lease_claims_ok other \<longrightarrow> \<not> verifyExecutionLease ed (sg_canonicalize sg) other sig pk)"
  using assms(1)
  by (rule issue_ok)
    (auto simp: verifyExecutionLease_def verifyDomainSeparatedJcs_def signDomainSeparatedJcs_def assms(2))

theorem issued_lease_verifies_witness:
  "verifyExecutionLease (\<lambda>pk s m. Some (s = [1])) (sg_canonicalize ex_signer)
     (lease_claims_of ex_signer ex_lease 1785542401000 60000 (replicate 16 0)) (b64_encode [1]) ''pk''"
  using issued_lease_verifies [OF ex_issued, of "\<lambda>pk s m. Some (s = [1])" "''pk''"]
  by (simp add: ex_signer_def)

text \<open>The kill switch stops both signers: while the execution is paused no authorization is
signed for any request and no lease for any authorization, the lease signer reporting the pause
before anything else.\<close>

theorem paused_signs_nothing:
  assumes "ps_executionPaused state"
  shows "(store (ai_requestId i) = Some state \<longrightarrow>
      authorize sg store now r16 r24 i = Inl (PolicyError ExecutionGloballyPaused))
    \<and> (li_state l = state \<longrightarrow> issue sg now r16 l = Inl (PolicyError ExecutionGloballyPaused))"
  using assms
  by (auto simp: authorize_def issue_def assertAuthorizationPolicy_def assertExecutionLeasePolicy_def Let_def)

theorem paused_signs_nothing_witness:
  "authorize ex_signer (\<lambda>_. Some (ex_state\<lparr>ps_executionPaused := True\<rparr>)) 0 [] [] (ex_authorize KindInitial)
     = Inl (PolicyError ExecutionGloballyPaused)"
  using paused_signs_nothing [of "ex_state\<lparr>ps_executionPaused := True\<rparr>"] by simp

text \<open>The approval of a plan is only asked for when the caller says the authorization is an
initial one; the policy does not compare the kind with the request's status. A caller who asks for
a retry gets a signed authorization for a request that still awaits its approval, although the
plan requires one and nobody has given it.\<close>

theorem retry_kind_skips_approval:
  "\<exists>claims signature.
     authorize ex_signer (\<lambda>_. Some (ex_state\<lparr>ps_approval := None\<rparr>)) 1785542400000
       (replicate 16 0) (replicate 24 0) (ex_authorize KindRetry) = Inr (claims, signature) \<and>
     pp_requiresApproval (ps_plan ex_state) \<and>
     pq_status (ps_request ex_state) = ''awaiting_approval'' \<and>
     ac_approvalEvidenceHash claims = ''sha256:unapproved''"
proof -
  let ?i = "ex_authorize KindRetry" and ?s = "ex_state\<lparr>ps_approval := None\<rparr>"
  define claims where
    "claims = authorization_claims_of ex_signer ?s ?i KindRetry 1785542400000 1800000
      (replicate 16 0) (replicate 24 0)"
  have "authorization_claims_ok claims"
    using ex_claims_ok [of KindRetry]
    by (simp add: claims_def authorization_claims_ok_def authorization_claims_of_def fingerprint_text_def)
  moreover obtain signature where
    "signDomainSeparatedJcs (sg_sign ex_signer) (sg_canonicalize ex_signer) SIGNING_CONTEXT
      (authorization_json claims) = Some signature"
    by (simp add: ex_signer_def signDomainSeparatedJcs_def signing_material_def)
  moreover have "ai_ttlMs ?i = None" "ai_actorId ?i = ''usr_2''" "ai_expectedRequestVersion ?i = 5"
    "sg_maxTtlMs ex_signer = 1800000" "ai_requestedStepIds ?i = [''s1'']"
    "ai_authorizationKind ?i = Some KindRetry"
    by (simp_all add: ex_authorize_def ex_signer_def)
  ultimately have "authorize ex_signer (\<lambda>_. Some ?s) 1785542400000 (replicate 16 0) (replicate 24 0) ?i
      = Inr (claims, signature)"
    using ex_policy(2) by (simp add: authorize_def Let_def flip: claims_def)
  moreover have "ac_approvalEvidenceHash claims = ''sha256:unapproved''"
    by (simp add: claims_def authorization_claims_of_def)
  moreover have "pp_requiresApproval (ps_plan ex_state)"
    "pq_status (ps_request ex_state) = ''awaiting_approval''" by (simp_all add: ex_state_def)
  ultimately show ?thesis by blast
qed

text \<open>The lease signer does not look at the request: for every status, cancellation flag and
version of the request the outcome is the same. In particular leases for new destructive steps are
still signed after the request was cancelled, until the authorization expires.\<close>

theorem lease_ignores_request_status:
  "issue sg now r16 (i\<lparr>li_state := (li_state i)\<lparr>ps_request := (ps_request (li_state i))
      \<lparr>pq_status := st, pq_cancelled := c, pq_version := v\<rparr>\<rparr>\<rparr>) = issue sg now r16 i"
  by (simp add: issue_def Let_def lease_claims_of_def assertExecutionLeasePolicy_def)

end
