(* ===== verification/Database.thy ===== *)
theory Database
  imports Privacy_Request Dates
begin

text \<open>
  The tables of \<^verbatim>\<open>packages/database/src/schema/index.ts\<close>, one record per row type, with their
  constraints: a primary key or unique index is distinctness of its columns over the rows it
  covers, a \<open>check\<close> a condition on each row, \<open>references\<close> the existence of the referenced row.
  A time stamp column is an instant in milliseconds. Indexes that are not unique and the deletion
  rules of foreign keys constrain nothing here (no modelled operation deletes a referenced row).
\<close>

subsection \<open>Rows\<close>

record tenant_row =
  tn_id :: string
  tn_name :: string
  tn_plan :: string
  tn_createdAt :: int

record project_row =
  pj_id :: string
  pj_tenantId :: string
  pj_name :: string
  pj_slug :: string
  pj_createdAt :: int

record environment_row =
  en_id :: string
  en_projectId :: string
  en_kind :: string
  en_status :: string
  en_subjectHashKeyVersion :: int
  en_subjectCanonicalizationVersion :: int
  en_createdAt :: int

record agent_pairing_token_row =
  pt_id :: string
  pt_tenantId :: string
  pt_environmentId :: string
  pt_tokenHash :: string
  pt_replacementMode :: string
  pt_allowReplacement :: bool
  pt_createdByActorId :: string
  pt_createdAt :: int
  pt_expiresAt :: int
  pt_consumedAt :: "int option"

record agent_row =
  ag_id :: string
  ag_environmentId :: string
  ag_publicSigningKey :: string
  ag_publicEncryptionKey :: string
  ag_signingKeyId :: "string option"
  ag_encryptionKeyId :: "string option"
  ag_version :: string
  ag_protocolVersion :: string
  ag_instanceFingerprint :: string
  ag_status :: string
  ag_lastSeenAt :: "int option"
  ag_lastSequence :: string
  ag_lastControlSequence :: string
  ag_createdAt :: int

record agent_message_receipt_row =
  mr_agentId :: string
  mr_messageId :: string
  mr_sequence :: string
  mr_receivedAt :: int

record agent_transport_session_row =
  ts_agentId :: string
  ts_tenantId :: string
  ts_environmentId :: string
  ts_transport :: string
  ts_sessionId :: string
  ts_startedAt :: int
  ts_lastSeenAt :: int

record privacy_request_row =
  rw_id :: string
  rw_tenantId :: string
  rw_environmentId :: string
  rw_type :: string
  rw_source :: string
  rw_subjectHash :: "string option"
  rw_subjectHashKeyVersion :: "int option"
  rw_subjectCanonicalizationVersion :: "int option"
  rw_duplicateOverride :: bool
  rw_duplicateOfRequestId :: "string option"
  rw_currentAttemptId :: "string option"
  rw_status :: string
  rw_policyVersion :: int
  rw_deadlineAt :: int
  rw_createdByActorId :: string
  rw_createdAt :: int
  rw_completedAt :: "int option"
  rw_version :: int

record execution_attempt_row =
  ea_id :: string
  ea_tenantId :: string
  ea_environmentId :: string
  ea_requestId :: string
  ea_attemptNumber :: int
  ea_kind :: string
  ea_planId :: string
  ea_planVersion :: int
  ea_planFingerprint :: string
  ea_allowedStepIds :: "string list"
  ea_status :: string
  ea_createdAt :: int
  ea_completedAt :: "int option"

record agent_job_row =
  aj_id :: string
  aj_tenantId :: string
  aj_requestId :: string
  aj_environmentId :: string
  aj_kind :: string
  aj_planVersion :: "int option"
  aj_payloadCiphertext :: "string option"
  aj_payloadEncryptionKeyId :: "string option"
  aj_authorization :: "string option"
  aj_availableAt :: int
  aj_expiresAt :: int
  aj_leasedByAgentId :: "string option"
  aj_leaseExpiresAt :: "int option"
  aj_attempt :: int
  aj_completedAt :: "int option"
  aj_createdAt :: int

record subject_envelope_row =
  se_requestId :: string
  se_tenantId :: string
  se_environmentId :: string
  se_ciphertext :: string
  se_encryptionKeyId :: string
  se_expiresAt :: int
  se_consumedAt :: "int option"
  se_createdAt :: int

record subject_identity_alias_row =
  sa_requestId :: string
  sa_tenantId :: string
  sa_environmentId :: string
  sa_identifierKind :: string
  sa_subjectHash :: string
  sa_subjectHashKeyVersion :: int
  sa_canonicalizationVersion :: int
  sa_createdAt :: int

text \<open>A JSON response body is kept as its text.\<close>

record idempotency_row =
  ir_tenantId :: string
  ir_scope :: string
  ir_actorId :: string
  ir_idempotencyKey :: string
  ir_requestHash :: string
  ir_responseStatus :: "int option"
  ir_responseBody :: "string option"
  ir_createdAt :: int
  ir_expiresAt :: int

record audit_chain_head_row =
  ch_tenantId :: string
  ch_environmentId :: string
  ch_sequence :: int
  ch_eventHash :: "string option"

type_synonym event_payload = "(string \<times> event_value) list"

record audit_event_row =
  au_id :: string
  au_tenantId :: string
  au_environmentId :: string
  au_sequence :: int
  au_requestId :: "string option"
  au_actorType :: string
  au_actorId :: string
  au_action :: string
  au_metadata :: event_payload
  au_previousEventHash :: "string option"
  au_eventHash :: string
  au_createdAt :: int

record outbox_event_row =
  ox_id :: string
  ox_tenantId :: string
  ox_environmentId :: string
  ox_aggregateId :: string
  ox_type :: string
  ox_payload :: event_payload
  ox_occurredAt :: int
  ox_publishedAt :: "int option"

record database =
  db_tenants :: "tenant_row list"
  db_projects :: "project_row list"
  db_environments :: "environment_row list"
  db_agentPairingTokens :: "agent_pairing_token_row list"
  db_agents :: "agent_row list"
  db_agentMessageReceipts :: "agent_message_receipt_row list"
  db_agentTransportSessions :: "agent_transport_session_row list"
  db_privacyRequests :: "privacy_request_row list"
  db_executionAttempts :: "execution_attempt_row list"
  db_agentJobs :: "agent_job_row list"
  db_subjectEnvelopes :: "subject_envelope_row list"
  db_subjectIdentityAliases :: "subject_identity_alias_row list"
  db_idempotencyRecords :: "idempotency_row list"
  db_auditChainHeads :: "audit_chain_head_row list"
  db_auditEvents :: "audit_event_row list"
  db_outboxEvents :: "outbox_event_row list"

subsection \<open>Constraints\<close>

definition tenants_ok :: "database \<Rightarrow> bool" where
  "tenants_ok db \<longleftrightarrow> distinct (map tn_id (db_tenants db)) \<and>
     list_all (\<lambda>r. tn_plan r \<in> {''trial'', ''starter'', ''team''}) (db_tenants db)"

definition tenant_exists :: "database \<Rightarrow> string \<Rightarrow> bool" where
  "tenant_exists db t \<longleftrightarrow> t \<in> tn_id ` set (db_tenants db)"

definition environment_exists :: "database \<Rightarrow> string \<Rightarrow> bool" where
  "environment_exists db e \<longleftrightarrow> e \<in> en_id ` set (db_environments db)"

definition agent_exists :: "database \<Rightarrow> string \<Rightarrow> bool" where
  "agent_exists db a \<longleftrightarrow> a \<in> ag_id ` set (db_agents db)"

definition request_exists :: "database \<Rightarrow> string \<Rightarrow> bool" where
  "request_exists db r \<longleftrightarrow> r \<in> rw_id ` set (db_privacyRequests db)"

definition projects_ok :: "database \<Rightarrow> bool" where
  "projects_ok db \<longleftrightarrow> distinct (map pj_id (db_projects db)) \<and>
     list_all (\<lambda>r. tenant_exists db (pj_tenantId r)) (db_projects db)"

definition environments_ok :: "database \<Rightarrow> bool" where
  "environments_ok db \<longleftrightarrow> distinct (map en_id (db_environments db)) \<and>
     distinct (map (\<lambda>r. (en_projectId r, en_kind r)) (db_environments db)) \<and>
     list_all (\<lambda>r. en_projectId r \<in> pj_id ` set (db_projects db) \<and>
       en_kind r \<in> {''staging'', ''production''} \<and> en_status r \<in> {''active'', ''disabled''} \<and>
       0 < en_subjectHashKeyVersion r \<and> 0 < en_subjectCanonicalizationVersion r)
       (db_environments db)"

definition agent_pairing_tokens_ok :: "database \<Rightarrow> bool" where
  "agent_pairing_tokens_ok db \<longleftrightarrow> distinct (map pt_id (db_agentPairingTokens db)) \<and>
     distinct (map pt_tokenHash (db_agentPairingTokens db)) \<and>
     list_all (\<lambda>r. tenant_exists db (pt_tenantId r) \<and> environment_exists db (pt_environmentId r))
       (db_agentPairingTokens db)"

definition active_agent :: "agent_row \<Rightarrow> bool" where
  "active_agent r \<longleftrightarrow> ag_status r \<in> {''pairing'', ''online'', ''offline'', ''outdated''}"

definition agents_ok :: "database \<Rightarrow> bool" where
  "agents_ok db \<longleftrightarrow> distinct (map ag_id (db_agents db)) \<and>
     distinct (map ag_environmentId (filter active_agent (db_agents db))) \<and>
     list_all (\<lambda>r. environment_exists db (ag_environmentId r) \<and>
       ag_status r \<in> {''pairing'', ''online'', ''offline'', ''outdated'', ''revoked''}) (db_agents db)"

definition agent_message_receipts_ok :: "database \<Rightarrow> bool" where
  "agent_message_receipts_ok db \<longleftrightarrow>
     distinct (map (\<lambda>r. (mr_agentId r, mr_messageId r)) (db_agentMessageReceipts db)) \<and>
     distinct (map (\<lambda>r. (mr_agentId r, mr_sequence r)) (db_agentMessageReceipts db)) \<and>
     list_all (\<lambda>r. agent_exists db (mr_agentId r)) (db_agentMessageReceipts db)"

definition agent_transport_sessions_ok :: "database \<Rightarrow> bool" where
  "agent_transport_sessions_ok db \<longleftrightarrow> distinct (map ts_agentId (db_agentTransportSessions db)) \<and>
     list_all (\<lambda>r. agent_exists db (ts_agentId r) \<and> tenant_exists db (ts_tenantId r) \<and>
       environment_exists db (ts_environmentId r) \<and> ts_transport r \<in> {''websocket'', ''polling''})
       (db_agentTransportSessions db)"

definition request_statuses :: "string list" where
  "request_statuses = [''created'', ''identity_verification_pending'', ''identity_verified'',
     ''planning'', ''awaiting_approval'', ''execution_authorized'', ''executing'', ''needs_review'',
     ''completed'', ''partially_completed'', ''failed'', ''cancelled'']"

definition positive_or_null :: "int option \<Rightarrow> bool" where
  "positive_or_null v \<longleftrightarrow> (case v of None \<Rightarrow> True | Some n \<Rightarrow> 0 < n)"

text \<open>The rows the partial unique index on active subjects covers.\<close>

definition active_subject :: "privacy_request_row \<Rightarrow> bool" where
  "active_subject r \<longleftrightarrow> rw_subjectHash r \<noteq> None \<and> \<not> rw_duplicateOverride r \<and>
     rw_status r \<notin> {''completed'', ''cancelled''}"

definition privacy_request_ok :: "privacy_request_row \<Rightarrow> bool" where
  "privacy_request_ok r \<longleftrightarrow> rw_type r \<in> {''delete'', ''export''} \<and>
     rw_source r \<in> {''admin'', ''privacy_portal'', ''api''} \<and> rw_status r \<in> set request_statuses \<and>
     positive_or_null (rw_subjectHashKeyVersion r) \<and>
     positive_or_null (rw_subjectCanonicalizationVersion r) \<and>
     0 < rw_policyVersion r \<and> 0 < rw_version r"

definition privacy_requests_ok :: "database \<Rightarrow> bool" where
  "privacy_requests_ok db \<longleftrightarrow> distinct (map rw_id (db_privacyRequests db)) \<and>
     distinct (map (\<lambda>r. (rw_environmentId r, rw_subjectHash r, rw_type r))
       (filter active_subject (db_privacyRequests db))) \<and>
     list_all (\<lambda>r. tenant_exists db (rw_tenantId r) \<and> environment_exists db (rw_environmentId r) \<and>
       privacy_request_ok r) (db_privacyRequests db)"

definition attempt_statuses :: "string list" where
  "attempt_statuses = [''planned'', ''awaiting_approval'', ''authorized'', ''running'', ''succeeded'',
     ''partially_succeeded'', ''failed'', ''needs_review'', ''cancelled'']"

definition closed_attempt_statuses :: "string list" where
  "closed_attempt_statuses = [''succeeded'', ''partially_succeeded'', ''failed'', ''needs_review'',
     ''cancelled'']"

definition execution_attempt_ok :: "execution_attempt_row \<Rightarrow> bool" where
  "execution_attempt_ok r \<longleftrightarrow> 0 < ea_attemptNumber r \<and> ea_kind r \<in> {''initial'', ''retry''} \<and>
     0 < ea_planVersion r \<and> 0 < length (ea_allowedStepIds r) \<and>
     ea_status r \<in> set attempt_statuses \<and>
     (ea_status r \<in> set closed_attempt_statuses \<longleftrightarrow> ea_completedAt r \<noteq> None)"

definition execution_attempts_ok :: "database \<Rightarrow> bool" where
  "execution_attempts_ok db \<longleftrightarrow> distinct (map ea_id (db_executionAttempts db)) \<and>
     distinct (map (\<lambda>r. (ea_requestId r, ea_attemptNumber r)) (db_executionAttempts db)) \<and>
     list_all (\<lambda>r. tenant_exists db (ea_tenantId r) \<and> environment_exists db (ea_environmentId r) \<and>
       request_exists db (ea_requestId r) \<and> execution_attempt_ok r) (db_executionAttempts db)"

definition agent_jobs_ok :: "database \<Rightarrow> bool" where
  "agent_jobs_ok db \<longleftrightarrow> distinct (map aj_id (db_agentJobs db)) \<and>
     list_all (\<lambda>r. tenant_exists db (aj_tenantId r) \<and> request_exists db (aj_requestId r) \<and>
       environment_exists db (aj_environmentId r) \<and>
       (case aj_leasedByAgentId r of None \<Rightarrow> True | Some a \<Rightarrow> agent_exists db a) \<and>
       aj_kind r \<in> {''bind_subject'', ''plan'', ''execute'', ''lease_execution'', ''wrap_export_key'',
         ''cancel'', ''health_check''} \<and>
       positive_or_null (aj_planVersion r) \<and> 0 \<le> aj_attempt r) (db_agentJobs db)"

definition subject_envelopes_ok :: "database \<Rightarrow> bool" where
  "subject_envelopes_ok db \<longleftrightarrow> distinct (map se_requestId (db_subjectEnvelopes db)) \<and>
     list_all (\<lambda>r. request_exists db (se_requestId r) \<and> tenant_exists db (se_tenantId r) \<and>
       environment_exists db (se_environmentId r)) (db_subjectEnvelopes db)"

definition hmac_text :: "string \<Rightarrow> bool" where
  "hmac_text s \<longleftrightarrow> take 12 s = ''hmac-sha256:'' \<and> length s = 76 \<and>
     list_all (\<lambda>c. c \<in> set hex_digits) (drop 12 s)"

definition subject_identity_aliases_ok :: "database \<Rightarrow> bool" where
  "subject_identity_aliases_ok db \<longleftrightarrow>
     distinct (map (\<lambda>r. (sa_requestId r, sa_identifierKind r, sa_subjectHash r))
       (db_subjectIdentityAliases db)) \<and>
     list_all (\<lambda>r. request_exists db (sa_requestId r) \<and> tenant_exists db (sa_tenantId r) \<and>
       environment_exists db (sa_environmentId r) \<and> sa_identifierKind r = ''email'' \<and>
       hmac_text (sa_subjectHash r) \<and> 0 < sa_subjectHashKeyVersion r \<and>
       0 < sa_canonicalizationVersion r) (db_subjectIdentityAliases db)"

definition idempotency_records_ok :: "database \<Rightarrow> bool" where
  "idempotency_records_ok db \<longleftrightarrow>
     distinct (map (\<lambda>r. (ir_tenantId r, ir_scope r, ir_actorId r, ir_idempotencyKey r))
       (db_idempotencyRecords db)) \<and>
     list_all (\<lambda>r. tenant_exists db (ir_tenantId r) \<and> ir_scope r \<noteq> [] \<and> ir_actorId r \<noteq> [] \<and>
       ir_idempotencyKey r \<noteq> [] \<and> ir_requestHash r \<noteq> [] \<and>
       (case ir_responseStatus r of None \<Rightarrow> True | Some c \<Rightarrow> 100 \<le> c \<and> c \<le> 599) \<and>
       ir_createdAt r < ir_expiresAt r) (db_idempotencyRecords db)"

definition audit_chain_heads_ok :: "database \<Rightarrow> bool" where
  "audit_chain_heads_ok db \<longleftrightarrow> distinct (map ch_environmentId (db_auditChainHeads db)) \<and>
     list_all (\<lambda>r. tenant_exists db (ch_tenantId r) \<and> environment_exists db (ch_environmentId r) \<and>
       0 \<le> ch_sequence r \<and> (ch_sequence r = 0 \<longleftrightarrow> ch_eventHash r = None)) (db_auditChainHeads db)"

definition audit_events_ok :: "database \<Rightarrow> bool" where
  "audit_events_ok db \<longleftrightarrow> distinct (map au_id (db_auditEvents db)) \<and>
     distinct (map (\<lambda>r. (au_environmentId r, au_sequence r)) (db_auditEvents db)) \<and>
     list_all (\<lambda>r. tenant_exists db (au_tenantId r) \<and> environment_exists db (au_environmentId r) \<and>
       (case au_requestId r of None \<Rightarrow> True | Some q \<Rightarrow> request_exists db q) \<and> 0 < au_sequence r \<and>
       au_actorType r \<in> {''user'', ''agent'', ''system''}) (db_auditEvents db)"

definition outbox_events_ok :: "database \<Rightarrow> bool" where
  "outbox_events_ok db \<longleftrightarrow> distinct (map ox_id (db_outboxEvents db)) \<and>
     list_all (\<lambda>r. tenant_exists db (ox_tenantId r) \<and> environment_exists db (ox_environmentId r) \<and>
       request_exists db (ox_aggregateId r)) (db_outboxEvents db)"

definition constraints :: "database \<Rightarrow> bool" where
  "constraints db \<longleftrightarrow> tenants_ok db \<and> projects_ok db \<and> environments_ok db \<and>
     agent_pairing_tokens_ok db \<and> agents_ok db \<and> agent_message_receipts_ok db \<and>
     agent_transport_sessions_ok db \<and> privacy_requests_ok db \<and> execution_attempts_ok db \<and>
     agent_jobs_ok db \<and> subject_envelopes_ok db \<and> subject_identity_aliases_ok db \<and>
     idempotency_records_ok db \<and> audit_chain_heads_ok db \<and> audit_events_ok db \<and> outbox_events_ok db"

subsection \<open>Statements and transactions\<close>

text \<open>
  A statement takes effect when the tables it leaves satisfy every constraint, and fails
  otherwise. A transaction whose work throws is rolled back, also in what it did before the throw.
  Transactions are serial: one commits or rolls back before the next begins.
\<close>

datatype 'e db_error = ConstraintViolation | InvalidTimestamp | Raised 'e

type_synonym ('e, 'a) sql = "('e db_error, 'a, database) act"

definition statement :: "(database \<Rightarrow> database) \<Rightarrow> ('e, unit) sql" where
  "statement f db = (if constraints (f db) then (Inr (), f db) else (Inl ConstraintViolation, db))"

definition raise :: "'e \<Rightarrow> ('e, 'a) sql" where
  "raise e = throwM (Raised e)"

definition query :: "(database \<Rightarrow> 'a) \<Rightarrow> ('e, 'a) sql" where
  "query f db = (Inr (f db), db)"

definition inTransaction :: "('e, 'a) sql \<Rightarrow> ('e, 'a) sql" where
  "inTransaction work db = (case work db of (Inl e, _) \<Rightarrow> (Inl e, db) | (Inr a, db') \<Rightarrow> (Inr a, db'))"

text \<open>
  \<open>inTenantTransaction\<close> sets the role and the tenant of the row-level security policies: the work
  gets the tenant, and every table it reads or writes is restricted to the tenant's rows.
\<close>

definition inTenantTransaction :: "string \<Rightarrow> (string \<Rightarrow> ('e, 'a) sql) \<Rightarrow> ('e, 'a) sql" where
  "inTenantTransaction tenant work = inTransaction (work tenant)"

text \<open>A text parameter for a time stamp column.\<close>

definition as_timestamp :: "string \<Rightarrow> ('e, int) sql" where
  "as_timestamp s db = (case date_parse s of None \<Rightarrow> (Inl InvalidTimestamp, db) | Some t \<Rightarrow> (Inr t, db))"

definition as_timestamp_or_null :: "string option \<Rightarrow> ('e, int option) sql" where
  "as_timestamp_or_null v db =
     (case v of None \<Rightarrow> (Inr None, db)
      | Some s \<Rightarrow> (case date_parse s of None \<Rightarrow> (Inl InvalidTimestamp, db) | Some t \<Rightarrow> (Inr (Some t), db)))"

lemma statement_ok [simp]: "statement f db = (Inr u, db') \<longleftrightarrow> constraints (f db) \<and> db' = f db"
  and statement_err [simp]:
    "statement f db = (Inl e, db') \<longleftrightarrow> \<not> constraints (f db) \<and> e = ConstraintViolation \<and> db' = db"
  by (auto simp: statement_def)

lemma raise_ok [simp]: "raise e db \<noteq> (Inr a, db')"
  and raise_err [simp]: "raise e db = (Inl e', db') \<longleftrightarrow> e' = Raised e \<and> db' = db"
  by (auto simp: raise_def)

lemma query_ok [simp]: "query f db = (Inr a, db') \<longleftrightarrow> a = f db \<and> db' = db"
  and query_err [simp]: "query f db \<noteq> (Inl e, db')"
  by (auto simp: query_def)

lemma inTransaction_ok [simp]: "inTransaction work db = (Inr a, db') \<longleftrightarrow> work db = (Inr a, db')"
  and inTransaction_err [simp]:
    "inTransaction work db = (Inl e, db') \<longleftrightarrow> db' = db \<and> (\<exists>x. work db = (Inl e, x))"
  by (auto simp: inTransaction_def split: prod.splits sum.splits)

lemma as_timestamp_ok [simp]: "as_timestamp s db = (Inr t, db') \<longleftrightarrow> date_parse s = Some t \<and> db' = db"
  by (auto simp: as_timestamp_def split: option.splits)

lemma as_timestamp_or_null_ok [simp]:
  "as_timestamp_or_null v db = (Inr t, db') \<longleftrightarrow>
     (case v of None \<Rightarrow> t = None | Some s \<Rightarrow> (\<exists>x. date_parse s = Some x \<and> t = Some x)) \<and> db' = db"
  by (auto simp: as_timestamp_or_null_def split: option.splits)

end
