(* ===== verification/Request_Store.thy ===== *)
theory Request_Store
  imports Database Audit_Chain Privacy_Request_Properties
begin

text \<open>
  \<^verbatim>\<open>packages/database/src/repositories/privacy-request-repository.ts\<close>: saving an aggregate with
  its attempts, its audit events and its outbox events in one tenant transaction, guarded by the
  version the caller loaded. The k-th call of a clock or an id source is its value at k; SHA-256
  and the canonicaliser are the parameters of the audit chain.
\<close>

subsection \<open>The repository\<close>

record repository =
  rp_tenantId :: string
  rp_newEventId :: "nat \<Rightarrow> string"
  rp_now :: "nat \<Rightarrow> int"
  rp_sha :: "bytes \<Rightarrow> bytes"
  rp_canonicalize :: "event_payload canon"

datatype store_error =
    PrivacyRequestConcurrencyError string
  | TenantScopeError
  | AuditTypeError audit_error
  | AggregateError domain_error

record privacy_request_record =
  qr_id :: string
  qr_tenantId :: string
  qr_environmentId :: string
  qr_type :: string
  qr_source :: string
  qr_subjectHash :: "string option"
  qr_subjectHashKeyVersion :: "int option"
  qr_subjectCanonicalizationVersion :: "int option"
  qr_duplicateOverride :: bool
  qr_duplicateOfRequestId :: "string option"
  qr_status :: string
  qr_policyVersion :: int
  qr_deadlineAt :: string
  qr_createdByActorId :: string
  qr_createdAt :: string
  qr_completedAt :: "string option"
  qr_currentAttemptId :: "string option"
  qr_version :: int

text \<open>The unions of the domain as the strings they are.\<close>

fun status_value :: "privacy_request_status \<Rightarrow> string" where
  "status_value Created = ''created''"
| "status_value IdentityVerificationPending = ''identity_verification_pending''"
| "status_value IdentityVerified = ''identity_verified''"
| "status_value Planning = ''planning''"
| "status_value AwaitingApproval = ''awaiting_approval''"
| "status_value ExecutionAuthorized = ''execution_authorized''"
| "status_value Executing = ''executing''"
| "status_value NeedsReview = ''needs_review''"
| "status_value Completed = ''completed''"
| "status_value PartiallyCompleted = ''partially_completed''"
| "status_value Failed = ''failed''"
| "status_value Cancelled = ''cancelled''"

fun kind_value :: "attempt_kind \<Rightarrow> string" where
  "kind_value Initial = ''initial''"
| "kind_value Retry = ''retry''"

fun attempt_status_value :: "execution_attempt_status \<Rightarrow> string" where
  "attempt_status_value APlanned = ''planned''"
| "attempt_status_value AAwaitingApproval = ''awaiting_approval''"
| "attempt_status_value AAuthorized = ''authorized''"
| "attempt_status_value ARunning = ''running''"
| "attempt_status_value ASucceeded = ''succeeded''"
| "attempt_status_value APartiallySucceeded = ''partially_succeeded''"
| "attempt_status_value AFailed = ''failed''"
| "attempt_status_value ANeedsReview = ''needs_review''"
| "attempt_status_value ACancelled = ''cancelled''"

fun actor_value :: "actor_type \<Rightarrow> string" where
  "actor_value UserActor = ''user''"
| "actor_value AgentActor = ''agent''"
| "actor_value SystemActor = ''system''"

definition terminalStatuses :: "privacy_request_status list" where
  "terminalStatuses = [Completed, Cancelled]"

definition eventActor :: "domain_event \<Rightarrow> actor_type \<times> string" where
  "eventActor e =
     (case map_of (ev_payload e) ''agentId'' of Some (EStr i) \<Rightarrow> (AgentActor, i)
      | _ \<Rightarrow> (case map_of (ev_payload e) ''actorId'' of Some (EStr i) \<Rightarrow> (UserActor, i)
      | _ \<Rightarrow> (case map_of (ev_payload e) ''decidedBy'' of Some (EStr i) \<Rightarrow> (UserActor, i)
      | _ \<Rightarrow> (SystemActor, ''forgetops-domain''))))"

subsection \<open>Reading\<close>

definition record_of_row :: "privacy_request_row \<Rightarrow> privacy_request_record" where
  "record_of_row r =
     \<lparr>qr_id = rw_id r, qr_tenantId = rw_tenantId r, qr_environmentId = rw_environmentId r,
      qr_type = rw_type r, qr_source = rw_source r, qr_subjectHash = rw_subjectHash r,
      qr_subjectHashKeyVersion = rw_subjectHashKeyVersion r,
      qr_subjectCanonicalizationVersion = rw_subjectCanonicalizationVersion r,
      qr_duplicateOverride = rw_duplicateOverride r,
      qr_duplicateOfRequestId = rw_duplicateOfRequestId r, qr_status = rw_status r,
      qr_policyVersion = rw_policyVersion r, qr_deadlineAt = toISOString (rw_deadlineAt r),
      qr_createdByActorId = rw_createdByActorId r, qr_createdAt = toISOString (rw_createdAt r),
      qr_completedAt = map_option toISOString (rw_completedAt r),
      qr_currentAttemptId = rw_currentAttemptId r, qr_version = rw_version r\<rparr>"

definition findById :: "repository \<Rightarrow> string \<Rightarrow> (store_error, privacy_request_record option) sql" where
  "findById rp i = inTenantTransaction (rp_tenantId rp) (\<lambda>tenant.
     query (\<lambda>db. map_option record_of_row
       (find (\<lambda>r. rw_id r = i \<and> rw_tenantId r = tenant) (db_privacyRequests db))))"

subsection \<open>Saving\<close>

definition assertEnvironmentOwnership :: "repository \<Rightarrow> string \<Rightarrow> (store_error, unit) sql" where
  "assertEnvironmentOwnership rp e db =
     (if \<exists>r \<in> set (db_environments db). en_id r = e \<and>
          (\<exists>p \<in> set (db_projects db). pj_id p = en_projectId r \<and> pj_tenantId p = rp_tenantId rp)
      then returnM () db else raise TenantScopeError db)"

definition new_request_row ::
  "repository \<Rightarrow> privacy_request_snapshot \<Rightarrow> int \<Rightarrow> int \<Rightarrow> int option \<Rightarrow> privacy_request_row" where
  "new_request_row rp sn deadline at done_at =
     \<lparr>rw_id = sn_id sn, rw_tenantId = rp_tenantId rp, rw_environmentId = sn_environmentId sn,
      rw_type = type_value (sn_type sn), rw_source = source_value (sn_source sn),
      rw_subjectHash = None, rw_subjectHashKeyVersion = None,
      rw_subjectCanonicalizationVersion = None, rw_duplicateOverride = False,
      rw_duplicateOfRequestId = None, rw_currentAttemptId = sn_currentAttemptId sn,
      rw_status = status_value (sn_status sn), rw_policyVersion = sn_policyVersion sn,
      rw_deadlineAt = deadline, rw_createdByActorId = sn_createdByActorId sn, rw_createdAt = at,
      rw_completedAt = done_at, rw_version = sn_version sn\<rparr>"

definition update_request_row ::
  "privacy_request_snapshot \<Rightarrow> int \<Rightarrow> int option \<Rightarrow> privacy_request_row \<Rightarrow> privacy_request_row" where
  "update_request_row sn deadline done_at r =
     r\<lparr>rw_status := status_value (sn_status sn), rw_policyVersion := sn_policyVersion sn,
       rw_deadlineAt := deadline, rw_completedAt := done_at,
       rw_currentAttemptId := sn_currentAttemptId sn, rw_version := sn_version sn\<rparr>"

text \<open>The rows the conditional update is about: at most one, the id being the key.\<close>

definition at_version ::
  "repository \<Rightarrow> privacy_request_snapshot \<Rightarrow> int \<Rightarrow> privacy_request_row \<Rightarrow> bool" where
  "at_version rp sn v r \<longleftrightarrow> rw_id r = sn_id sn \<and> rw_tenantId r = rp_tenantId rp \<and>
     rw_environmentId r = sn_environmentId sn \<and> rw_version r = v"

definition write_snapshot ::
  "repository \<Rightarrow> privacy_request_snapshot \<Rightarrow> int \<Rightarrow> int \<Rightarrow> int \<Rightarrow> int option \<Rightarrow>
   (store_error, unit) sql" where
  "write_snapshot rp sn v deadline at done_at db =
     (if v = 0
      then (if request_exists db (sn_id sn) then raise (PrivacyRequestConcurrencyError (sn_id sn)) db
            else statement (\<lambda>db. db\<lparr>db_privacyRequests := db_privacyRequests db @
              [new_request_row rp sn deadline at done_at]\<rparr>) db)
      else (if \<exists>r \<in> set (db_privacyRequests db). at_version rp sn v r
            then statement (\<lambda>db. db\<lparr>db_privacyRequests :=
              map (\<lambda>r. if at_version rp sn v r then update_request_row sn deadline done_at r else r)
                (db_privacyRequests db)\<rparr>) db
            else raise (PrivacyRequestConcurrencyError (sn_id sn)) db))"

definition persistSnapshot ::
  "repository \<Rightarrow> privacy_request_snapshot \<Rightarrow> int \<Rightarrow> (store_error, unit) sql" where
  "persistSnapshot rp sn v =
     (let persistedAt = toISOString (rp_now rp 0);
          completedAt = (if sn_status sn \<in> set terminalStatuses then Some persistedAt else None) in
      seqM (as_timestamp (sn_deadlineAt sn)) (\<lambda>deadline.
      seqM (as_timestamp persistedAt) (\<lambda>at.
      seqM (as_timestamp_or_null completedAt) (\<lambda>done_at.
        write_snapshot rp sn v deadline at done_at))))"

definition attempt_row ::
  "repository \<Rightarrow> privacy_request_snapshot \<Rightarrow> execution_attempt \<Rightarrow> int \<Rightarrow> int option \<Rightarrow>
   execution_attempt_row" where
  "attempt_row rp sn a created done_at =
     \<lparr>ea_id = att_id a, ea_tenantId = rp_tenantId rp, ea_environmentId = sn_environmentId sn,
      ea_requestId = sn_id sn, ea_attemptNumber = int (att_attemptNumber a),
      ea_kind = kind_value (att_kind a), ea_planId = att_planId a,
      ea_planVersion = att_planVersion a, ea_planFingerprint = att_planFingerprint a,
      ea_allowedStepIds = att_allowedStepIds a, ea_status = attempt_status_value (att_status a),
      ea_createdAt = created, ea_completedAt = done_at\<rparr>"

text \<open>
  \<open>on conflict (id) do update ... where completed_at is null\<close>: a completed row stays as it is, and
  updating a row of another tenant is refused by the policy of the table.
\<close>

definition write_attempt :: "repository \<Rightarrow> execution_attempt_row \<Rightarrow> (store_error, unit) sql" where
  "write_attempt rp new db =
     (case find (\<lambda>r. ea_id r = ea_id new) (db_executionAttempts db) of
        None \<Rightarrow> statement (\<lambda>db. db\<lparr>db_executionAttempts := db_executionAttempts db @ [new]\<rparr>) db
      | Some old \<Rightarrow>
          if ea_completedAt old \<noteq> None then returnM () db
          else if ea_tenantId old \<noteq> rp_tenantId rp then throwM ConstraintViolation db
          else statement (\<lambda>db. db\<lparr>db_executionAttempts :=
            map (\<lambda>r. if ea_id r = ea_id new
                     then r\<lparr>ea_status := ea_status new, ea_completedAt := ea_completedAt new\<rparr> else r)
              (db_executionAttempts db)\<rparr>) db)"

definition upsertAttempt ::
  "repository \<Rightarrow> privacy_request_snapshot \<Rightarrow> execution_attempt \<Rightarrow> (store_error, unit) sql" where
  "upsertAttempt rp sn a =
     seqM (as_timestamp (att_createdAt a)) (\<lambda>created.
     seqM (as_timestamp_or_null (att_completedAt a)) (\<lambda>done_at.
       write_attempt rp (attempt_row rp sn a created done_at)))"

definition persistAttempts ::
  "repository \<Rightarrow> privacy_request_snapshot \<Rightarrow> execution_attempt list \<Rightarrow> (store_error, unit) sql" where
  "persistAttempts rp sn attempts = block (map (upsertAttempt rp sn) attempts)"

definition event_body ::
  "repository \<Rightarrow> privacy_request_snapshot \<Rightarrow> nat \<Rightarrow> int \<Rightarrow> domain_event \<Rightarrow> event_payload audit_body" where
  "event_body rp sn k sequence e =
     \<lparr>ae_id = rp_newEventId rp k, ae_tenantId = rp_tenantId rp,
      ae_environmentId = sn_environmentId sn, ae_sequence = decimal (nat sequence),
      ae_requestId = Some (sn_id sn), ae_actorType = fst (eventActor e),
      ae_actorId = snd (eventActor e), ae_action = ev_type e, ae_metadata = ev_payload e,
      ae_createdAt = toISOString (rp_now rp (Suc k))\<rparr>"

definition eventHash ::
  "repository \<Rightarrow> string option \<Rightarrow> event_payload audit_body \<Rightarrow> (store_error, string) sql" where
  "eventHash rp prev b =
     (case rp_canonicalize rp b of
        None \<Rightarrow> raise (AuditTypeError AuditEventNotCanonical)
      | Some canonical \<Rightarrow>
          (case previous_bytes prev of
             Inl err \<Rightarrow> raise (AuditTypeError err)
           | Inr p \<Rightarrow> returnM (hex_encode (rp_sha rp (hash_input p (utf8 canonical))))))"

definition audit_row ::
  "event_payload audit_body \<Rightarrow> int \<Rightarrow> string option \<Rightarrow> string \<Rightarrow> int \<Rightarrow> audit_event_row" where
  "audit_row b sequence prev h at =
     \<lparr>au_id = ae_id b, au_tenantId = ae_tenantId b, au_environmentId = ae_environmentId b,
      au_sequence = sequence, au_requestId = ae_requestId b,
      au_actorType = actor_value (ae_actorType b), au_actorId = ae_actorId b,
      au_action = ae_action b, au_metadata = ae_metadata b, au_previousEventHash = prev,
      au_eventHash = h, au_createdAt = at\<rparr>"

definition outbox_row ::
  "repository \<Rightarrow> privacy_request_snapshot \<Rightarrow> nat \<Rightarrow> domain_event \<Rightarrow> int \<Rightarrow> outbox_event_row" where
  "outbox_row rp sn k e at =
     \<lparr>ox_id = rp_newEventId rp k, ox_tenantId = rp_tenantId rp,
      ox_environmentId = sn_environmentId sn, ox_aggregateId = sn_id sn, ox_type = ev_type e,
      ox_payload = ev_payload e, ox_occurredAt = at, ox_publishedAt = None\<rparr>"

definition insert_audit :: "audit_event_row \<Rightarrow> ('e, unit) sql" where
  "insert_audit r = statement (\<lambda>db. db\<lparr>db_auditEvents := db_auditEvents db @ [r]\<rparr>)"

definition update_head :: "repository \<Rightarrow> string \<Rightarrow> int \<Rightarrow> string \<Rightarrow> (store_error, unit) sql" where
  "update_head rp e sequence h = statement (\<lambda>db. db\<lparr>db_auditChainHeads :=
     map (\<lambda>r. if ch_environmentId r = e \<and> ch_tenantId r = rp_tenantId rp
              then r\<lparr>ch_sequence := sequence, ch_eventHash := Some h\<rparr> else r)
       (db_auditChainHeads db)\<rparr>)"

definition insert_outbox :: "outbox_event_row \<Rightarrow> ('e, unit) sql" where
  "insert_outbox r = statement (\<lambda>db. db\<lparr>db_outboxEvents := db_outboxEvents db @ [r]\<rparr>)"

text \<open>The loop over the events, from the k-th on, after \<open>sequence\<close> events with last hash \<open>prev\<close>.\<close>

fun append_events ::
  "repository \<Rightarrow> privacy_request_snapshot \<Rightarrow> nat \<Rightarrow> int \<Rightarrow> string option \<Rightarrow> domain_event list \<Rightarrow>
   (store_error, unit) sql" where
  "append_events rp sn k sequence prev [] = returnM ()"
| "append_events rp sn k sequence prev (e # es) =
     (let b = event_body rp sn k (sequence + 1) e in
      seqM (eventHash rp prev b) (\<lambda>h.
      seqM (as_timestamp (ae_createdAt b)) (\<lambda>at. block
        [insert_audit (audit_row b (sequence + 1) prev h at),
         update_head rp (sn_environmentId sn) (sequence + 1) h,
         insert_outbox (outbox_row rp sn k e at),
         append_events rp sn (Suc k) (sequence + 1) (Some h) es])))"

definition ensure_head :: "repository \<Rightarrow> string \<Rightarrow> (store_error, unit) sql" where
  "ensure_head rp e db =
     (if e \<in> ch_environmentId ` set (db_auditChainHeads db) then returnM () db
      else statement (\<lambda>db. db\<lparr>db_auditChainHeads := db_auditChainHeads db @
        [\<lparr>ch_tenantId = rp_tenantId rp, ch_environmentId = e, ch_sequence = 0, ch_eventHash = None\<rparr>]\<rparr>)
        db)"

definition persistEvents ::
  "repository \<Rightarrow> privacy_request_snapshot \<Rightarrow> domain_event list \<Rightarrow> (store_error, unit) sql" where
  "persistEvents rp sn events =
     seqM (ensure_head rp (sn_environmentId sn)) (\<lambda>_ db.
       case find (\<lambda>r. ch_environmentId r = sn_environmentId sn \<and> ch_tenantId r = rp_tenantId rp)
              (db_auditChainHeads db) of
         None \<Rightarrow> raise TenantScopeError db
       | Some head \<Rightarrow> append_events rp sn 0 (ch_sequence head) (ch_eventHash head) events db)"

text \<open>The aggregate after the call, its saved events taken from its buffer, is the result.\<close>

definition save :: "repository \<Rightarrow> aggregate \<Rightarrow> int \<Rightarrow> (store_error, aggregate) sql" where
  "save rp a v =
     (let sn = snapshot a; events = pr_events a in
      if v < 0 \<or> events = [] \<or> sn_version sn \<noteq> v + int (length events)
      then raise (PrivacyRequestConcurrencyError (sn_id sn))
      else seqM (inTenantTransaction (rp_tenantId rp) (\<lambda>_. block
             [assertEnvironmentOwnership rp (sn_environmentId sn),
              persistSnapshot rp sn v,
              persistAttempts rp sn (pr_attempts a),
              persistEvents rp sn events]))
           (\<lambda>_. case markEventsCommitted (int (length events)) a of
              (Inl err, _) \<Rightarrow> raise (AggregateError err)
            | (Inr _, a') \<Rightarrow> returnM a'))"

end
