(* ===== verification/Request_Store_Properties.thy ===== *)
theory Request_Store_Properties
  imports Request_Store
begin

text \<open>
  What a save does to the database: the audit log stays a valid hash chain per environment, the
  audit log and the outbox get the aggregate's events exactly once, a stale version is refused,
  and what is stored reads back.
\<close>

subsection \<open>The audit chain of the stored rows\<close>

definition actor_of :: "string \<Rightarrow> actor_type" where
  "actor_of s = (if s = ''user'' then UserActor else if s = ''agent'' then AgentActor else SystemActor)"

definition audit_event_of_row :: "audit_event_row \<Rightarrow> event_payload audit_event" where
  "audit_event_of_row r = complete_event
     \<lparr>ae_id = au_id r, ae_tenantId = au_tenantId r, ae_environmentId = au_environmentId r,
      ae_sequence = decimal (nat (au_sequence r)), ae_requestId = au_requestId r,
      ae_actorType = actor_of (au_actorType r), ae_actorId = au_actorId r,
      ae_action = au_action r, ae_metadata = au_metadata r,
      ae_createdAt = toISOString (au_createdAt r)\<rparr>
     (au_previousEventHash r) (au_eventHash r)"

definition audit_rows :: "database \<Rightarrow> string \<Rightarrow> audit_event_row list" where
  "audit_rows db e = filter (\<lambda>r. au_environmentId r = e) (db_auditEvents db)"

definition audit_head :: "database \<Rightarrow> string \<Rightarrow> audit_chain_head_row option" where
  "audit_head db e = find (\<lambda>r. ch_environmentId r = e) (db_auditChainHeads db)"

definition last_hash :: "audit_event_row list \<Rightarrow> string option" where
  "last_hash rows = (if rows = [] then None else Some (au_eventHash (last rows)))"

definition head_fits :: "audit_chain_head_row option \<Rightarrow> audit_event_row list \<Rightarrow> bool" where
  "head_fits h rows \<longleftrightarrow> (case h of None \<Rightarrow> rows = []
     | Some r \<Rightarrow> ch_sequence r = int (length rows) \<and> ch_eventHash r = last_hash rows)"

text \<open>
  Of each environment: the rows are numbered from one without gap, \<open>verifyChain\<close> accepts them, and
  the head row holds their number and the hash of the last.
\<close>

definition chain_fits ::
  "repository \<Rightarrow> audit_chain_head_row option \<Rightarrow> audit_event_row list \<Rightarrow> bool" where
  "chain_fits rp h rows \<longleftrightarrow> map au_sequence rows = map int [1..<Suc (length rows)] \<and>
     verifyChain (rp_sha rp) (rp_canonicalize rp) (map audit_event_of_row rows) = Inr Valid \<and>
     head_fits h rows"

definition audit_state :: "repository \<Rightarrow> database \<Rightarrow> bool" where
  "audit_state rp db \<longleftrightarrow> constraints db \<and> (\<forall>e. chain_fits rp (audit_head db e) (audit_rows db e))"

definition clock_ok :: "repository \<Rightarrow> bool" where
  "clock_ok rp \<longleftrightarrow> (\<forall>k. 0 \<le> rp_now rp k \<and> rp_now rp k < max_time)"

lemma eventHash_ok [simp]:
  "eventHash rp prev b db = (Inr h, db') \<longleftrightarrow>
     auditEventHash (rp_sha rp) (rp_canonicalize rp) prev b = Inr h \<and> db' = db"
  by (auto simp: eventHash_def auditEventHash_def canonicalAuditEventBytes_def
      split: option.splits sum.splits)

lemma actor_of_value [simp]: "actor_of (actor_value t) = t"
  by (cases t) (simp_all add: actor_of_def)

lemma verify_snoc:
  "verify_from sha canon p (es @ [e]) = Inr Valid \<longleftrightarrow> verify_from sha canon p es = Inr Valid \<and>
     linked sha canon (if es = [] then p else Some (ae_eventHash (last es))) e"
proof (induction es arbitrary: p)
  case (Cons x es)
  then show ?case unfolding append_Cons verify_Cons by auto
qed (simp add: verify_Cons del: verify_from.simps(2))

text \<open>An event of the environment that takes the sequence number after the head's.\<close>

definition next_event :: "string \<Rightarrow> audit_chain_head_row \<Rightarrow> event_payload audit_body \<Rightarrow> bool" where
  "next_event e hr b \<longleftrightarrow> ae_environmentId b = e \<and> ae_sequence b = decimal (nat (ch_sequence hr + 1)) \<and>
     (\<exists>t. 0 \<le> t \<and> t < max_time \<and> ae_createdAt b = toISOString t)"

definition next_head :: "string \<Rightarrow> audit_chain_head_row \<Rightarrow> audit_chain_head_row" where
  "next_head h hr = hr\<lparr>ch_sequence := ch_sequence hr + 1, ch_eventHash := Some h\<rparr>"

definition next_row :: "event_payload audit_body \<Rightarrow> audit_chain_head_row \<Rightarrow> string \<Rightarrow> int \<Rightarrow> audit_event_row" where
  "next_row b hr h at = audit_row b (ch_sequence hr + 1) (ch_eventHash hr) h at"

lemma chain_fits_snoc:
  assumes fits: "chain_fits rp (Some hr) rows" and b: "next_event e hr b"
    and at: "date_parse (ae_createdAt b) = Some at"
    and h: "auditEventHash (rp_sha rp) (rp_canonicalize rp) (ch_eventHash hr) b = Inr h"
  shows "chain_fits rp (Some (next_head h hr)) (rows @ [next_row b hr h at])"
proof -
  let ?r = "next_row b hr h at"
  have row: "audit_event_of_row ?r = complete_event b (ch_eventHash hr) h"
    using b at date_parse_toISOString by (cases b)
      (auto simp: audit_event_of_row_def next_row_def audit_row_def next_event_def complete_event_def)
  have len: "ch_sequence hr = int (length rows)" and last: "ch_eventHash hr = last_hash rows"
    using fits by (simp_all add: chain_fits_def head_fits_def)
  have "linked (rp_sha rp) (rp_canonicalize rp)
      (if map audit_event_of_row rows = [] then None
       else Some (ae_eventHash (last (map audit_event_of_row rows)))) (complete_event b (ch_eventHash hr) h)"
    using h last by (auto simp: linked_def last_hash_def last_map audit_event_of_row_def)
  then have "verifyChain (rp_sha rp) (rp_canonicalize rp) (map audit_event_of_row (rows @ [?r])) = Inr Valid"
    using fits by (simp add: chain_fits_def verifyChain_def verify_snoc row)
  moreover have "au_sequence ?r = int (Suc (length rows))" "au_eventHash ?r = h"
    by (simp_all add: next_row_def audit_row_def len)
  ultimately show ?thesis
    using fits by (simp add: chain_fits_def head_fits_def last_hash_def len next_head_def)
qed

text \<open>A database that got one more event of the environment, whose head row was moved on with it.\<close>

lemma appended_state:
  assumes inv: "audit_state rp db" and head: "audit_head db e = Some hr" and b: "next_event e hr b"
    and at: "date_parse (ae_createdAt b) = Some at"
    and h: "auditEventHash (rp_sha rp) (rp_canonicalize rp) (ch_eventHash hr) b = Inr h"
    and ok: "constraints db'"
    and ev: "db_auditEvents db' = db_auditEvents db @ [next_row b hr h at]"
    and hd: "db_auditChainHeads db' = map (\<lambda>r. if P r then next_head h hr else r) (db_auditChainHeads db)"
    and P: "P hr" "\<And>r. P r \<Longrightarrow> ch_environmentId r = e"
  shows "audit_state rp db' \<and> audit_head db' e = Some (next_head h hr)"
proof -
  let ?g = "\<lambda>r. if P r then next_head h hr else r"
  have env: "ch_environmentId hr = e"
    using find_Some_mem head unfolding audit_head_def by fastforce
  have "ch_environmentId (?g r) = ch_environmentId r" for r
    using P(2) [of r] env by (simp add: next_head_def)
  then have heads: "audit_head db' x = map_option ?g (audit_head db x)" for x
    by (simp only: audit_head_def hd find_map_other)
  have new: "audit_head db' e = Some (next_head h hr)" using heads [of e] head P(1) by simp
  have renv: "au_environmentId (next_row b hr h at) = e"
    using b by (simp add: next_row_def audit_row_def next_event_def)
  have "chain_fits rp (audit_head db' x) (audit_rows db' x)" for x
  proof (cases "x = e")
    case True
    have "chain_fits rp (Some hr) (audit_rows db e)" using inv head by (metis audit_state_def)
    from chain_fits_snoc [OF this b at h] show ?thesis
      using True new renv ev by (simp add: audit_rows_def)
  next
    case False
    have "map_option ?g (audit_head db x) = audit_head db x"
      using find_Some_mem P(2) False unfolding audit_head_def
      by (cases "find (\<lambda>r. ch_environmentId r = x) (db_auditChainHeads db)") fastforce+
    with inv False renv ev heads [of x] show ?thesis by (simp add: audit_rows_def audit_state_def)
  qed
  with ok new show ?thesis by (simp add: audit_state_def)
qed

text \<open>A database whose environment got its first head row.\<close>

lemma started_state:
  assumes inv: "audit_state rp db" and none: "e \<notin> ch_environmentId ` set (db_auditChainHeads db)"
    and ok: "constraints db'" and ev: "db_auditEvents db' = db_auditEvents db"
    and hd: "db_auditChainHeads db' = db_auditChainHeads db @
      [\<lparr>ch_tenantId = t, ch_environmentId = e, ch_sequence = 0, ch_eventHash = None\<rparr>]"
  shows "audit_state rp db'"
proof -
  from none have none': "audit_head db e = None" by (auto simp: audit_head_def find_None_key)
  have "chain_fits rp (audit_head db' x) (audit_rows db' x)" for x
  proof (cases "x = e")
    case True
    have "chain_fits rp None (audit_rows db e)" using inv none' by (metis audit_state_def)
    moreover have "audit_head db' e = Some \<lparr>ch_tenantId = t, ch_environmentId = e,
        ch_sequence = 0, ch_eventHash = None\<rparr>"
      using none' by (simp add: audit_head_def hd find_append)
    ultimately show ?thesis using True ev
      by (simp add: chain_fits_def head_fits_def last_hash_def audit_rows_def verifyChain_def)
  next
    case False
    then have "audit_head db' x = audit_head db x"
      by (simp add: audit_head_def hd find_append split: option.split)
    with inv ev show ?thesis by (simp add: audit_state_def audit_rows_def)
  qed
  with ok show ?thesis by (simp add: audit_state_def)
qed

subsection \<open>What each part of a save changes\<close>

definition same_audit :: "database \<Rightarrow> database \<Rightarrow> bool" where
  "same_audit db db' \<longleftrightarrow> db_auditEvents db' = db_auditEvents db \<and>
     db_auditChainHeads db' = db_auditChainHeads db \<and> db_outboxEvents db' = db_outboxEvents db"

lemma same_audit_refl [simp]: "same_audit db db"
  by (simp add: same_audit_def)

lemma same_audit_state: "audit_state rp db \<Longrightarrow> same_audit db db' \<Longrightarrow> constraints db' \<Longrightarrow> audit_state rp db'"
  by (simp add: audit_state_def same_audit_def audit_head_def audit_rows_def)

lemma assertEnvironmentOwnership_ok [simp]:
  "assertEnvironmentOwnership rp e db = (Inr u, db') \<longleftrightarrow>
     (\<exists>r \<in> set (db_environments db). en_id r = e \<and>
        (\<exists>p \<in> set (db_projects db). pj_id p = en_projectId r \<and> pj_tenantId p = rp_tenantId rp)) \<and>
     db' = db"
  by (auto simp: assertEnvironmentOwnership_def)

lemma write_snapshot_cases [consumes 1, case_names inserted updated]:
  assumes "write_snapshot rp sn v deadline at done_at db = (Inr u, db')"
  obtains (inserted) "v = 0" "\<not> request_exists db (sn_id sn)" "constraints db'"
      "db' = db\<lparr>db_privacyRequests := db_privacyRequests db @
         [new_request_row rp sn deadline at done_at]\<rparr>"
    | (updated) r where "v \<noteq> 0" "r \<in> set (db_privacyRequests db)" "at_version rp sn v r"
      "constraints db'"
      "db' = db\<lparr>db_privacyRequests :=
         map (\<lambda>r. if at_version rp sn v r then update_request_row sn deadline done_at r else r)
           (db_privacyRequests db)\<rparr>"
proof (cases "v = 0")
  case True
  with assms that(1) show ?thesis by (simp add: write_snapshot_def split: if_splits)
next
  case False
  with assms obtain r where "r \<in> set (db_privacyRequests db)" "at_version rp sn v r"
    by (auto simp: write_snapshot_def split: if_splits)
  with False assms that(2) [of r] show ?thesis
    by (simp add: write_snapshot_def split: if_splits)
qed

lemma persistSnapshot_ok:
  assumes "persistSnapshot rp sn v db = (Inr u, db')"
  obtains deadline at done_at where "date_parse (sn_deadlineAt sn) = Some deadline"
    "date_parse (toISOString (rp_now rp 0)) = Some at"
    "done_at = (if sn_status sn \<in> set terminalStatuses then Some at else None)"
    "write_snapshot rp sn v deadline at done_at db = (Inr (), db')"
  using assms by (auto simp: persistSnapshot_def Let_def split: if_splits)

lemma persistSnapshot_audit:
  assumes "persistSnapshot rp sn v db = (Inr u, db')"
  shows "constraints db' \<and> same_audit db db'"
  using assms
  by (rule persistSnapshot_ok, elim write_snapshot_cases) (simp_all add: same_audit_def)

lemma write_attempt_cases [consumes 1, case_names completed inserted updated]:
  assumes "write_attempt rp new db = (Inr u, db')"
  obtains (completed) old where "find (\<lambda>r. ea_id r = ea_id new) (db_executionAttempts db) = Some old"
      "ea_completedAt old \<noteq> None" "db' = db"
    | (inserted) "find (\<lambda>r. ea_id r = ea_id new) (db_executionAttempts db) = None" "constraints db'"
      "db' = db\<lparr>db_executionAttempts := db_executionAttempts db @ [new]\<rparr>"
    | (updated) old where "find (\<lambda>r. ea_id r = ea_id new) (db_executionAttempts db) = Some old"
      "ea_completedAt old = None" "constraints db'"
      "db' = db\<lparr>db_executionAttempts := map (\<lambda>r. if ea_id r = ea_id new
         then r\<lparr>ea_status := ea_status new, ea_completedAt := ea_completedAt new\<rparr> else r)
         (db_executionAttempts db)\<rparr>"
proof (cases "find (\<lambda>r. ea_id r = ea_id new) (db_executionAttempts db)")
  case None
  with assms that(2) show ?thesis by (simp add: write_attempt_def)
next
  case (Some old)
  then show ?thesis
    using assms that(1,3) [of old] by (cases "ea_completedAt old = None")
      (simp_all add: write_attempt_def split: if_splits)
qed

lemma write_attempt_audit:
  assumes "write_attempt rp new db = (Inr u, db')" and "constraints db"
  shows "constraints db' \<and> same_audit db db' \<and> db_privacyRequests db' = db_privacyRequests db"
  using assms by (cases rule: write_attempt_cases) (simp_all add: same_audit_def)

lemma upsertAttempt_audit:
  "upsertAttempt rp sn a db = (Inr u, db') \<Longrightarrow> constraints db \<Longrightarrow>
   constraints db' \<and> same_audit db db' \<and> db_privacyRequests db' = db_privacyRequests db"
  using write_attempt_audit by (auto simp: upsertAttempt_def)

lemma persistAttempts_audit:
  "persistAttempts rp sn as db = (Inr u, db') \<Longrightarrow> constraints db \<Longrightarrow>
   constraints db' \<and> same_audit db db' \<and> db_privacyRequests db' = db_privacyRequests db"
proof (induction as arbitrary: db)
  case (Cons a as)
  then obtain d where d: "upsertAttempt rp sn a db = (Inr (), d)"
    "persistAttempts rp sn as d = (Inr u, db')" by (auto simp: persistAttempts_def)
  with upsertAttempt_audit [OF d(1)] Cons show ?case by (simp add: same_audit_def)
qed (simp add: persistAttempts_def)

lemma head_unique:
  assumes "constraints db" and "find (\<lambda>r. ch_environmentId r = e \<and> ch_tenantId r = t)
    (db_auditChainHeads db) = Some h"
  shows "audit_head db e = Some h" and "ch_tenantId h = t"
proof -
  from assms(1) have "distinct (map ch_environmentId (db_auditChainHeads db))"
    by (simp add: constraints_def audit_chain_heads_ok_def)
  moreover have "h \<in> set (db_auditChainHeads db)" and h: "ch_environmentId h = e \<and> ch_tenantId h = t"
    using find_Some_mem [OF assms(2)] by auto
  ultimately show "audit_head db e = Some h"
    using find_distinct_key [of ch_environmentId "db_auditChainHeads db" h] by (simp add: audit_head_def)
  show "ch_tenantId h = t" using h by simp
qed

definition audited :: "audit_event_row \<Rightarrow> (string \<times> string option) \<times> string \<times> event_payload" where
  "audited r = ((au_environmentId r, au_requestId r), au_action r, au_metadata r)"

definition announced :: "outbox_event_row \<Rightarrow> (string \<times> string option) \<times> string \<times> event_payload" where
  "announced r = ((ox_environmentId r, Some (ox_aggregateId r)), ox_type r, ox_payload r)"

definition event_record ::
  "privacy_request_snapshot \<Rightarrow> domain_event \<Rightarrow> (string \<times> string option) \<times> string \<times> event_payload" where
  "event_record sn e = ((sn_environmentId sn, Some (sn_id sn)), ev_type e, ev_payload e)"

lemma rows_record [simp]:
  "audited (audit_row (event_body rp sn k s e) n p h at) = event_record sn e"
  "announced (outbox_row rp sn k e at) = event_record sn e"
  "au_id (audit_row (event_body rp sn k s e) n p h at) = ox_id (outbox_row rp sn k e at)"
  by (simp_all add: audited_def announced_def event_record_def audit_row_def outbox_row_def
      event_body_def)

lemma event_body_next:
  "clock_ok rp \<Longrightarrow> next_event (sn_environmentId sn) hr (event_body rp sn k (ch_sequence hr + 1) e)"
  by (auto simp: next_event_def event_body_def clock_ok_def)

lemma append_event_state:
  assumes inv: "audit_state rp db" and head: "audit_head db (sn_environmentId sn) = Some hr"
    and tenant: "ch_tenantId hr = rp_tenantId rp" and clock: "clock_ok rp"
    and b: "b = event_body rp sn k (ch_sequence hr + 1) e"
    and h: "auditEventHash (rp_sha rp) (rp_canonicalize rp) (ch_eventHash hr) b = Inr h"
    and at: "date_parse (ae_createdAt b) = Some at"
    and steps: "block [insert_audit (audit_row b (ch_sequence hr + 1) (ch_eventHash hr) h at),
        update_head rp (sn_environmentId sn) (ch_sequence hr + 1) h, insert_outbox ox] db = (Inr (), db')"
  shows "audit_state rp db' \<and> audit_head db' (sn_environmentId sn) =
      Some (hr\<lparr>ch_sequence := ch_sequence hr + 1, ch_eventHash := Some h\<rparr>) \<and>
    db_auditEvents db' = db_auditEvents db @ [audit_row b (ch_sequence hr + 1) (ch_eventHash hr) h at] \<and>
    db_outboxEvents db' = db_outboxEvents db @ [ox]"
proof -
  let ?e = "sn_environmentId sn"
  let ?P = "\<lambda>r. ch_environmentId r = ?e \<and> ch_tenantId r = rp_tenantId rp"
  have mem: "hr \<in> set (db_auditChainHeads db)" "ch_environmentId hr = ?e"
    using find_Some_mem head unfolding audit_head_def by fastforce+
  have "distinct (map ch_environmentId (db_auditChainHeads db))"
    using inv by (simp add: audit_state_def constraints_def audit_chain_heads_ok_def)
  then have only: "r = hr" if "r \<in> set (db_auditChainHeads db)" "?P r" for r
    using distinct_key [of ch_environmentId, OF _ that(1) mem(1)] that(2) mem(2) by simp
  have moved: "map (\<lambda>r. if ?P r then r\<lparr>ch_sequence := s, ch_eventHash := x\<rparr> else r) (db_auditChainHeads db) =
      map (\<lambda>r. if ?P r then hr\<lparr>ch_sequence := s, ch_eventHash := x\<rparr> else r) (db_auditChainHeads db)" for s x
    using only by auto
  from steps have db': "constraints db'" "db_auditEvents db' = db_auditEvents db @ [next_row b hr h at]"
    "db_auditChainHeads db' = map (\<lambda>r. if ?P r then next_head h hr else r) (db_auditChainHeads db)"
    "db_outboxEvents db' = db_outboxEvents db @ [ox]"
    by (auto simp: insert_audit_def update_head_def insert_outbox_def next_row_def next_head_def moved)
  have "?P hr" using mem(2) tenant by simp
  from appended_state [OF inv head _ at h db'(1-3) this] event_body_next [OF clock] b db'
  show ?thesis by (simp add: next_head_def next_row_def)
qed

lemma append_events_state:
  assumes "clock_ok rp"
  shows "append_events rp sn k s p es db = (Inr u, db') \<Longrightarrow> audit_state rp db \<Longrightarrow>
    audit_head db (sn_environmentId sn) = Some hr \<Longrightarrow> ch_tenantId hr = rp_tenantId rp \<Longrightarrow>
    ch_sequence hr = s \<Longrightarrow> ch_eventHash hr = p \<Longrightarrow>
    audit_state rp db' \<and> (\<exists>as os. db_auditEvents db' = db_auditEvents db @ as \<and>
      db_outboxEvents db' = db_outboxEvents db @ os \<and> map audited as = map (event_record sn) es \<and>
      map announced os = map (event_record sn) es \<and> map au_id as = map ox_id os)"
proof (induction es arbitrary: k s p db hr)
  case (Cons e es)
  let ?b = "event_body rp sn k (s + 1) e"
  from Cons.prems obtain h at d where h: "auditEventHash (rp_sha rp) (rp_canonicalize rp) p ?b = Inr h"
    and at: "date_parse (ae_createdAt ?b) = Some at"
    and d: "block [insert_audit (audit_row ?b (s + 1) p h at),
        update_head rp (sn_environmentId sn) (s + 1) h, insert_outbox (outbox_row rp sn k e at)] db
        = (Inr (), d)"
    and rest: "append_events rp sn (Suc k) (s + 1) (Some h) es d = (Inr u, db')"
    by (auto simp: Let_def)
  note one = append_event_state [OF Cons.prems(2,3,4) assms, of ?b k e h at
      "outbox_row rp sn k e at" d, unfolded Cons.prems(5,6), OF refl h at d]
  with Cons.IH [OF rest, of "hr\<lparr>ch_sequence := s + 1, ch_eventHash := Some h\<rparr>"] Cons.prems(4)
  obtain as os where fin: "audit_state rp db'" "db_auditEvents db' = db_auditEvents d @ as"
    "db_outboxEvents db' = db_outboxEvents d @ os" "map audited as = map (event_record sn) es"
    "map announced os = map (event_record sn) es" "map au_id as = map ox_id os" by auto
  show ?case
    by (intro conjI fin(1) exI [of _ "audit_row ?b (s + 1) p h at # as"]
          exI [of _ "outbox_row rp sn k e at # os"])
       (use one fin in simp_all)
qed simp

lemma persistEvents_state:
  assumes clock: "clock_ok rp" and inv: "audit_state rp db"
    and run: "persistEvents rp sn es db = (Inr u, db')"
  shows "audit_state rp db' \<and> (\<exists>as os. db_auditEvents db' = db_auditEvents db @ as \<and>
      db_outboxEvents db' = db_outboxEvents db @ os \<and> map audited as = map (event_record sn) es \<and>
      map announced os = map (event_record sn) es \<and> map au_id as = map ox_id os)"
proof -
  let ?e = "sn_environmentId sn"
  from run obtain d where d: "ensure_head rp ?e db = (Inr (), d)"
    and rest: "(case find (\<lambda>r. ch_environmentId r = ?e \<and> ch_tenantId r = rp_tenantId rp)
        (db_auditChainHeads d) of None \<Rightarrow> raise TenantScopeError d
      | Some h \<Rightarrow> append_events rp sn 0 (ch_sequence h) (ch_eventHash h) es d) = (Inr u, db')"
    by (auto simp: persistEvents_def)
  then obtain h where h: "find (\<lambda>r. ch_environmentId r = ?e \<and> ch_tenantId r = rp_tenantId rp)
        (db_auditChainHeads d) = Some h"
    and app: "append_events rp sn 0 (ch_sequence h) (ch_eventHash h) es d = (Inr u, db')"
    by (auto split: option.splits)
  have same: "db_auditEvents d = db_auditEvents db" "db_outboxEvents d = db_outboxEvents db"
    using d by (auto simp: ensure_head_def split: if_splits)
  have "audit_state rp d"
  proof (cases "?e \<in> ch_environmentId ` set (db_auditChainHeads db)")
    case False
    with d have "constraints d" "db_auditChainHeads d = db_auditChainHeads db @
        [\<lparr>ch_tenantId = rp_tenantId rp, ch_environmentId = ?e, ch_sequence = 0, ch_eventHash = None\<rparr>]"
      by (auto simp: ensure_head_def)
    with started_state [OF inv False _ same(1)] show ?thesis by blast
  qed (use d inv in \<open>simp add: ensure_head_def\<close>)
  then have inv': "audit_state rp d" .
  then have "constraints d" by (simp add: audit_state_def)
  note hd = head_unique [OF this h]
  from append_events_state [OF clock app inv' hd refl refl] same show ?thesis by simp
qed

subsection \<open>A whole save\<close>

lemma save_ok:
  assumes "save rp a v db = (Inr a', db')"
  obtains d1 d2 where "0 \<le> v" "pr_events a \<noteq> []" "pr_version a = v + int (length (pr_events a))"
    "persistSnapshot rp (snapshot a) v db = (Inr (), d1)"
    "persistAttempts rp (snapshot a) (pr_attempts a) d1 = (Inr (), d2)"
    "persistEvents rp (snapshot a) (pr_events a) d2 = (Inr (), db')" "a' = a\<lparr>pr_events := []\<rparr>"
  using assms
  by (auto simp: save_def Let_def inTenantTransaction_def markEventsCommitted_def snapshot_def
      split: if_splits prod.splits sum.splits)

lemma save_err: "save rp a v db = (Inl e, db') \<Longrightarrow> db' = db"
  by (auto simp: save_def Let_def inTenantTransaction_def markEventsCommitted_def
      split: if_splits prod.splits sum.splits)

lemma append_events_frame:
  "append_events rp sn k s p es db = (Inr u, db') \<Longrightarrow> constraints db \<Longrightarrow>
   constraints db' \<and> db_privacyRequests db' = db_privacyRequests db \<and>
   db_executionAttempts db' = db_executionAttempts db"
proof (induction es arbitrary: k s p db)
  case (Cons e es)
  from Cons.prems(1) obtain d h where "append_events rp sn (Suc k) (s + 1) (Some h) es d = (Inr u, db')"
    "constraints d" "db_privacyRequests d = db_privacyRequests db"
    "db_executionAttempts d = db_executionAttempts db"
    by (auto simp: Let_def insert_audit_def update_head_def insert_outbox_def)
  with Cons.IH show ?case by metis
qed simp

lemma persistEvents_frame:
  assumes "persistEvents rp sn es db = (Inr u, db')" and "constraints db"
  shows "constraints db' \<and> db_privacyRequests db' = db_privacyRequests db \<and>
    db_executionAttempts db' = db_executionAttempts db"
proof -
  from assms(1) obtain d s p where "ensure_head rp (sn_environmentId sn) db = (Inr (), d)"
    and app: "append_events rp sn 0 s p es d = (Inr u, db')"
    by (auto simp: persistEvents_def split: option.splits)
  then have "constraints d \<and> db_privacyRequests d = db_privacyRequests db \<and>
      db_executionAttempts d = db_executionAttempts db"
    using assms(2) by (auto simp: ensure_head_def split: if_splits)
  with append_events_frame [OF app] show ?thesis by metis
qed

lemma save_request_row:
  assumes "save rp a v db = (Inr a', db')" and "constraints db"
  obtains deadline at done_at d where "date_parse (pr_deadlineAt a) = Some deadline"
    "date_parse (toISOString (rp_now rp 0)) = Some at"
    "done_at = (if pr_status a \<in> {Completed, Cancelled} then Some at else None)"
    "write_snapshot rp (snapshot a) v deadline at done_at db = (Inr (), d)"
    "db_privacyRequests db' = db_privacyRequests d" "constraints db'"
proof -
  from assms(1) obtain d1 d2 where
    snap: "persistSnapshot rp (snapshot a) v db = (Inr (), d1)"
    and att: "persistAttempts rp (snapshot a) (pr_attempts a) d1 = (Inr (), d2)"
    and evs: "persistEvents rp (snapshot a) (pr_events a) d2 = (Inr (), db')" by (rule save_ok)
  have c1: "constraints d1" using persistSnapshot_audit [OF snap] by simp
  note c2 = persistAttempts_audit [OF att c1]
  then have "constraints d2" by simp
  note c3 = persistEvents_frame [OF evs this]
  from snap obtain deadline at done_at where w: "date_parse (pr_deadlineAt a) = Some deadline"
    "date_parse (toISOString (rp_now rp 0)) = Some at"
    "done_at = (if pr_status a \<in> {Completed, Cancelled} then Some at else None)"
    "write_snapshot rp (snapshot a) v deadline at done_at db = (Inr (), d1)"
    by (rule persistSnapshot_ok) (simp add: snapshot_def terminalStatuses_def)
  show ?thesis
    by (rule that [OF w]) (use c2 c3 in simp_all)
qed

lemma request_key:
  "constraints db \<Longrightarrow> r \<in> set (db_privacyRequests db) \<Longrightarrow> s \<in> set (db_privacyRequests db) \<Longrightarrow>
   rw_id r = rw_id s \<Longrightarrow> r = s"
  by (auto simp: constraints_def privacy_requests_ok_def distinct_map dest: inj_onD)

text \<open>The row a save leaves behind.\<close>

definition saved_as ::
  "repository \<Rightarrow> aggregate \<Rightarrow> int \<Rightarrow> database \<Rightarrow> privacy_request_row \<Rightarrow> bool" where
  "saved_as rp a v db r \<longleftrightarrow> rw_id r = pr_id a \<and> rw_tenantId r = rp_tenantId rp \<and>
     rw_environmentId r = pr_environmentId a \<and> rw_version r = pr_version a \<and>
     rw_status r = status_value (pr_status a) \<and> rw_policyVersion r = pr_policyVersion a \<and>
     rw_currentAttemptId r = pr_currentAttemptId a \<and>
     date_parse (pr_deadlineAt a) = Some (rw_deadlineAt r) \<and>
     (rw_completedAt r = None \<longleftrightarrow> pr_status a \<notin> {Completed, Cancelled}) \<and>
     (if v = 0
      then \<not> request_exists db (pr_id a) \<and> rw_type r = type_value (pr_type a) \<and>
        rw_source r = source_value (pr_source a) \<and> rw_createdByActorId r = pr_createdByActorId a
      else \<exists>q \<in> set (db_privacyRequests db). rw_id q = pr_id a \<and> rw_version q = v \<and>
        rw_type r = rw_type q \<and> rw_source r = rw_source q \<and>
        rw_createdByActorId r = rw_createdByActorId q)"

lemma saved_row_cases [consumes 2, case_names inserted updated]:
  assumes "save rp a v db = (Inr a', db')" and "constraints db"
  obtains (inserted) deadline at where "date_parse (pr_deadlineAt a) = Some deadline"
      "date_parse (toISOString (rp_now rp 0)) = Some at" "v = 0" "\<not> request_exists db (pr_id a)"
      "new_request_row rp (snapshot a) deadline at
         (if pr_status a \<in> {Completed, Cancelled} then Some at else None) \<in> set (db_privacyRequests db')"
    | (updated) deadline at q where "date_parse (pr_deadlineAt a) = Some deadline"
      "date_parse (toISOString (rp_now rp 0)) = Some at" "v \<noteq> 0" "q \<in> set (db_privacyRequests db)"
      "at_version rp (snapshot a) v q"
      "update_request_row (snapshot a) deadline
         (if pr_status a \<in> {Completed, Cancelled} then Some at else None) q \<in> set (db_privacyRequests db')"
proof -
  from assms obtain deadline at done_at d where
    dl: "date_parse (pr_deadlineAt a) = Some deadline" "date_parse (toISOString (rp_now rp 0)) = Some at"
    and dn: "done_at = (if pr_status a \<in> {Completed, Cancelled} then Some at else None)"
    and w: "write_snapshot rp (snapshot a) v deadline at done_at db = (Inr (), d)"
    and rows: "db_privacyRequests db' = db_privacyRequests d" and "constraints db'"
    by (rule save_request_row)
  from w show ?thesis
  proof (cases rule: write_snapshot_cases)
    case inserted
    show ?thesis by (rule that(1) [OF dl]) (use inserted dn in \<open>simp_all add: rows snapshot_def\<close>)
  next
    case (updated q)
    show ?thesis by (rule that(2) [OF dl, of q]) (use updated dn in \<open>auto simp: rows\<close>)
  qed
qed

lemma saved_row:
  assumes "save rp a v db = (Inr a', db')" and "constraints db"
  obtains r where "r \<in> set (db_privacyRequests db')" "saved_as rp a v db r"
  using assms
proof (cases rule: saved_row_cases)
  case inserted
  show ?thesis
    by (rule that [OF inserted(5)]) (use inserted(1-4) in \<open>simp add: new_request_row_def snapshot_def saved_as_def\<close>)
next
  case (updated deadline at q)
  from updated(5) have q: "rw_id q = pr_id a" "rw_tenantId q = rp_tenantId rp"
    "rw_environmentId q = pr_environmentId a" "rw_version q = v"
    by (simp_all add: at_version_def snapshot_def)
  have "\<exists>p \<in> set (db_privacyRequests db). rw_id p = pr_id a \<and> rw_version p = v \<and> rw_type q = rw_type p \<and>
      rw_source q = rw_source p \<and> rw_createdByActorId q = rw_createdByActorId p"
    by (rule bexI [OF _ updated(4)]) (simp add: q)
  with updated(1,3) q show ?thesis
    by (intro that [OF updated(6)]) (simp add: saved_as_def update_request_row_def snapshot_def)
qed

lemma findById_row:
  assumes "constraints db" and "r \<in> set (db_privacyRequests db)" "rw_id r = i" "rw_tenantId r = rp_tenantId rp"
  shows "findById rp i db = (Inr (Some (record_of_row r)), db)"
proof -
  have "find (\<lambda>x. rw_id x = i \<and> rw_tenantId x = rp_tenantId rp) (db_privacyRequests db) = Some r"
  proof (rule find_unique [OF assms(2)])
    fix y
    assume "y \<in> set (db_privacyRequests db)" "rw_id y = i \<and> rw_tenantId y = rp_tenantId rp"
    with assms(3) show "y = r" by (intro request_key [OF assms(1) _ assms(2)]) simp_all
  qed (simp add: assms)
  then show ?thesis by (simp add: findById_def inTenantTransaction_def)
qed

text \<open>One environment without requests, and a repository for it.\<close>

definition example_db :: database where
  "example_db =
     \<lparr>db_tenants = [\<lparr>tn_id = ''ten_1'', tn_name = ''Tenant'', tn_plan = ''trial'', tn_createdAt = 0\<rparr>],
      db_projects = [\<lparr>pj_id = ''prj_1'', pj_tenantId = ''ten_1'', pj_name = ''Project'',
        pj_slug = ''project'', pj_createdAt = 0\<rparr>],
      db_environments = [\<lparr>en_id = ''env_1'', en_projectId = ''prj_1'', en_kind = ''production'',
        en_status = ''active'', en_subjectHashKeyVersion = 1,
        en_subjectCanonicalizationVersion = 1, en_createdAt = 0\<rparr>],
      db_agentPairingTokens = [], db_agents = [], db_agentMessageReceipts = [],
      db_agentTransportSessions = [], db_privacyRequests = [], db_executionAttempts = [],
      db_agentJobs = [], db_subjectEnvelopes = [], db_subjectIdentityAliases = [],
      db_idempotencyRecords = [], db_auditChainHeads = [], db_auditEvents = [],
      db_outboxEvents = []\<rparr>"

definition example_repository :: repository where
  "example_repository = \<lparr>rp_tenantId = ''ten_1'', rp_newEventId = (\<lambda>k. ''evt_'' @ decimal k),
     rp_now = (\<lambda>_. 1000), rp_sha = toy_sha, rp_canonicalize = toy_canon\<rparr>"

lemmas constraint_defs = constraints_def tenants_ok_def projects_ok_def environments_ok_def
  agent_pairing_tokens_ok_def agents_ok_def agent_message_receipts_ok_def
  agent_transport_sessions_ok_def privacy_requests_ok_def execution_attempts_ok_def
  agent_jobs_ok_def subject_envelopes_ok_def subject_identity_aliases_ok_def
  idempotency_records_ok_def audit_chain_heads_ok_def audit_events_ok_def outbox_events_ok_def
  tenant_exists_def environment_exists_def agent_exists_def request_exists_def

lemma example_db_simps:
  "db_privacyRequests example_db = []" "db_auditChainHeads example_db = []"
  "db_auditEvents example_db = []" "db_outboxEvents example_db = []" "db_executionAttempts example_db = []"
  "\<exists>r\<in>set (db_environments example_db). en_id r = ''env_1'' \<and>
     (\<exists>p\<in>set (db_projects example_db). pj_id p = en_projectId r \<and> pj_tenantId p = ''ten_1'')"
  by (simp_all add: example_db_def)

lemma example_db_ok: "constraints example_db"
  by (simp add: constraint_defs example_db_def)

lemma example_audit_state: "audit_state rp example_db"
  by (simp add: audit_state_def example_db_ok)
    (simp add: chain_fits_def head_fits_def audit_rows_def audit_head_def verifyChain_def example_db_def)

lemma example_clock: "clock_ok example_repository"
  by (simp add: clock_ok_def example_repository_def max_time_def)

lemma example_deadline: "date_parse ''2026-08-01T00:00:00.000Z'' = Some 1785542400000"
  by (simp add: date_parse_def Let_def digits_def number_from.simps digit_val_def fraction_def
      make_time_def year_start_def month_start_def month_lengths_def year_length_def leap_def)

lemma example_times: "date_parse (toISOString 1000) = Some 1000"
  by (subst date_parse_toISOString) (simp_all add: max_time_def)

abbreviation example_new :: aggregate where
  "example_new \<equiv> create example_request"

definition example_created :: domain_event where
  "example_created = hd (pr_events example_new)"

lemma example_repository_simps [simp]:
  "rp_tenantId example_repository = ''ten_1''" "rp_newEventId example_repository k = ''evt_'' @ decimal k"
  "rp_now example_repository k = 1000" "rp_sha example_repository = toy_sha"
  "rp_canonicalize example_repository = toy_canon"
  by (simp_all add: example_repository_def)

lemma example_new_simps [simp]:
  "pr_events example_new = [example_created]" "pr_version example_new = 1" "pr_attempts example_new = []"
  "sn_version (snapshot example_new) = 1" "sn_id (snapshot example_new) = ''req_1''"
  "sn_environmentId (snapshot example_new) = ''env_1''" "sn_status (snapshot example_new) = Created"
  "sn_deadlineAt (snapshot example_new) = ''2026-08-01T00:00:00.000Z''"
  "ev_type example_created = ''PrivacyRequestCreated''"
  by (simp_all add: create_def example_created_def snapshot_def example_request_def event_def)

lemma example_committed: "markEventsCommitted 1 example_new = (Inr (), example_new\<lparr>pr_events := []\<rparr>)"
  by (simp add: markEventsCommitted_def)

lemma example_save:
  "\<exists>a' db'. save example_repository example_new 0 example_db = (Inr a', db')"
proof -
  let ?b = "event_body example_repository (snapshot example_new) 0 1 example_created"
  obtain h where h: "auditEventHash toy_sha toy_canon None ?b = Inr h"
    using auditEventHash_total [of None toy_canon ?b toy_sha] by (auto simp: toy_canon_def)
  have at: "ae_createdAt ?b = toISOString 1000" by (simp add: event_body_def)
  have new: "constraints (example_db\<lparr>db_privacyRequests := [r]\<rparr>)"
    "constraints (example_db\<lparr>db_privacyRequests := [r], db_auditChainHeads := [c]\<rparr>)"
    "constraints (example_db\<lparr>db_privacyRequests := [r], db_auditChainHeads := [c], db_auditEvents := [e]\<rparr>)"
    "constraints (example_db\<lparr>db_privacyRequests := [r], db_auditEvents := [e], db_auditChainHeads := [c']\<rparr>)"
    "constraints (example_db\<lparr>db_privacyRequests := [r], db_auditEvents := [e],
       db_auditChainHeads := [c'], db_outboxEvents := [x]\<rparr>)"
    if "r = new_request_row example_repository (snapshot example_new) 1785542400000 1000 None"
      "c = \<lparr>ch_tenantId = ''ten_1'', ch_environmentId = ''env_1'', ch_sequence = 0, ch_eventHash = None\<rparr>"
      "c' = \<lparr>ch_tenantId = ''ten_1'', ch_environmentId = ''env_1'', ch_sequence = 1, ch_eventHash = Some h\<rparr>"
      "e = audit_row ?b 1 None h 1000"
      "x = outbox_row example_repository (snapshot example_new) 0 example_created 1000"
    for r c c' e x
    using that
    by (simp_all add: constraint_defs example_db_def new_request_row_def audit_row_def outbox_row_def
        event_body_def snapshot_def create_def example_request_def active_subject_def
        privacy_request_ok_def request_statuses_def positive_or_null_def example_created_def
        eventActor_def event_def)
  show ?thesis
    by (simp add: save_def Let_def inTenantTransaction_def persistSnapshot_def write_snapshot_def
      persistAttempts_def persistEvents_def ensure_head_def insert_audit_def update_head_def
      insert_outbox_def h at example_committed terminalStatuses_def example_deadline
      example_times example_db_simps request_exists_def new)
qed

subsection \<open>What the constraints ask of a saved aggregate\<close>

definition positive :: "aggregate \<Rightarrow> bool" where
  "positive s \<longleftrightarrow> 0 \<le> pr_latestPlanVersion s \<and>
     (\<forall>p. pr_plan s = Some p \<longrightarrow> 0 < planVersion p) \<and>
     (\<forall>a \<in> set (pr_attempts s). 0 < att_planVersion a \<and> 0 < att_attemptNumber a)"

lemma current_mem: "current_attempt s = Some a \<Longrightarrow> a \<in> set (pr_attempts s)"
  using find_Some_mem by (fastforce simp: current_attempt_def)

lemma with_current_positive:
  "positive s \<Longrightarrow> current_attempt s = Some a \<Longrightarrow> positive (with_current a st c s)"
  using current_mem [of s a] by (auto simp: positive_def)

lemma moved_positive [simp]: "positive (moved q ev s) \<longleftrightarrow> positive s"
  by (simp add: positive_def)

lemma approval_positive [simp]: "positive (s\<lparr>pr_approval := x\<rparr>) \<longleftrightarrow> positive s"
  by (simp add: positive_def)

lemma lifecycle_positive: "lifecycle_step s t \<Longrightarrow> positive s \<Longrightarrow> positive t"
proof (induction rule: lifecycle_step.induct)
qed (simp_all add: with_current_positive, auto simp: positive_def new_attempt_def)

lemma buffer_positive [simp]: "positive (s\<lparr>pr_events := es\<rparr>) \<longleftrightarrow> positive s"
  by (simp add: positive_def)

lemma reachable_positive: "reachable s h \<Longrightarrow> positive s"
proof (induction rule: reachable.induct)
  case (command s h now c r t)
  from command(2) show ?case
    by (cases rule: exec_cases) (use command lifecycle_positive in auto)
next
  case (committed s h n r t)
  then show ?case by (cases r) (auto simp: markEventsCommitted_def)
qed (auto simp: positive_def create_def pullEvents_def)

lemma version_positive: "reachable s h \<Longrightarrow> h \<noteq> []"
  by (induction rule: reachable.induct) (simp_all add: create_def)

lemma closed_value:
  "attempt_status_value st \<in> set closed_attempt_statuses \<longleftrightarrow>
     st \<in> {ASucceeded, APartiallySucceeded, AFailed, ANeedsReview, ACancelled}"
  "attempt_status_value st \<in> set attempt_statuses" "status_value q \<in> set request_statuses"
  by (cases st; simp add: closed_attempt_statuses_def attempt_statuses_def)+
    (cases q; simp add: request_statuses_def)

subsection \<open>Properties\<close>

text \<open>C36. What a reachable aggregate writes fits the tables, its policy version apart, which the aggregate
takes as it comes: the row of the request satisfies the check constraints of its table exactly if the
policy version is positive. The row of each of its attempts, whose completion time is stored exactly when
it has one, always satisfies those of its table, and the attempts have distinct ids and distinct numbers,
as the unique indexes want.\<close>

theorem saved_rows_well_typed:
  assumes "reachable a h"
  shows "(privacy_request_ok (new_request_row rp (snapshot a) deadline at done_at) \<longleftrightarrow> 0 < pr_policyVersion a) \<and>
    (\<forall>t \<in> set (pr_attempts a). execution_attempt_ok
       (attempt_row rp (snapshot a) t created (map_option f (att_completedAt t)))) \<and>
    distinct (map att_id (pr_attempts a)) \<and> distinct (map att_attemptNumber (pr_attempts a))"
proof -
  have pos: "positive a" by (rule reachable_positive [OF assms])
  have att: "attempts_inv a" using reachable_inv [OF assms] by (simp add: request_inv_def)
  have "0 < pr_version a"
    using reachable_events [OF assms] version_positive [OF assms] by (simp add: events_inv_def)
  moreover have "type_value (pr_type a) \<in> {''delete'', ''export''}" by (cases "pr_type a") simp_all
  moreover have "source_value (pr_source a) \<in> {''admin'', ''privacy_portal'', ''api''}"
    by (cases "pr_source a") simp_all
  ultimately have "privacy_request_ok (new_request_row rp (snapshot a) deadline at done_at) \<longleftrightarrow> 0 < pr_policyVersion a"
    by (simp add: privacy_request_ok_def new_request_row_def snapshot_def positive_or_null_def closed_value)
  moreover have "execution_attempt_ok (attempt_row rp (snapshot a) t created
      (map_option f (att_completedAt t)))" if "t \<in> set (pr_attempts a)" for t
  proof -
    have "att_ok (pr_id a) t" "0 < att_planVersion t" "0 < att_attemptNumber t"
      using that att pos by (simp_all add: att_inv_def positive_def)
    moreover have "kind_value (att_kind t) \<in> {''initial'', ''retry''}" by (cases "att_kind t") simp_all
    ultimately show ?thesis
      by (simp add: execution_attempt_ok_def attempt_row_def att_ok_def closed_def steps_ok_def
          closed_value)
  qed
  moreover have "distinct (map att_attemptNumber (pr_attempts a))"
    using att by (simp add: att_inv_def numbered_def)
  ultimately show ?thesis using att by (simp add: att_inv_def)
qed

theorem saved_rows_well_typed_witness:
  "privacy_request_ok (new_request_row example_repository (snapshot example_next) 1 2 None)"
proof -
  obtain h where "reachable example_next h" using example_authorized_reachable by blast
  moreover have "0 < pr_policyVersion example_next" by (simp add: example_next_def request_eval)
  ultimately show ?thesis using saved_rows_well_typed by blast
qed

text \<open>C32. Saving keeps the audit log: if the rows of every environment form a hash chain that
\<open>verifyChain\<close> accepts, numbered from one without gap and with the head row at its end, they do
after every save, whether it succeeds or throws.\<close>

theorem save_keeps_audit_chains:
  assumes "audit_state rp db" and "clock_ok rp" and "save rp a v db = (r, db')"
  shows "audit_state rp db'"
proof (cases r)
  case (Inl e)
  with assms(1,3) show ?thesis using save_err by fastforce
next
  case (Inr a')
  with assms(3) have "save rp a v db = (Inr a', db')" by simp
  then obtain d1 d2 where snap: "persistSnapshot rp (snapshot a) v db = (Inr (), d1)"
    and att: "persistAttempts rp (snapshot a) (pr_attempts a) d1 = (Inr (), d2)"
    and evs: "persistEvents rp (snapshot a) (pr_events a) d2 = (Inr (), db')" by (rule save_ok)
  note one = persistSnapshot_audit [OF snap]
  note two = persistAttempts_audit [OF att conjunct1 [OF one]]
  have "audit_state rp d2" using assms(1) one two by (auto intro: same_audit_state)
  with persistEvents_state [OF assms(2) _ evs] show ?thesis by blast
qed

theorem save_keeps_audit_chains_witness:
  "\<exists>a' db'. save example_repository example_new 0 example_db = (Inr a', db') \<and>
     audit_state example_repository db'"
  using example_save save_keeps_audit_chains [OF example_audit_state example_clock] by blast

text \<open>C34. A successful save publishes exactly the events of the aggregate's buffer, once and in
order: the audit log and the outbox each grow by one row per event, with the same id, the
request's environment and id, and the event's type and payload; and the buffer is empty after. A
save that throws leaves the whole database as it was.\<close>

theorem save_publishes_pending_events:
  assumes "audit_state rp db" and "clock_ok rp"
  shows "(\<forall>a' db'. save rp a v db = (Inr a', db') \<longrightarrow>
      pr_events a' = [] \<and>
      (\<exists>as os. db_auditEvents db' = db_auditEvents db @ as \<and> db_outboxEvents db' = db_outboxEvents db @ os \<and>
         map audited as = map (event_record (snapshot a)) (pr_events a) \<and>
         map announced os = map (event_record (snapshot a)) (pr_events a) \<and>
         map au_id as = map ox_id os))
    \<and> (\<forall>e db'. save rp a v db = (Inl e, db') \<longrightarrow> db' = db)"
proof (intro conjI allI impI)
  fix a' db'
  assume "save rp a v db = (Inr a', db')"
  then obtain d1 d2 where snap: "persistSnapshot rp (snapshot a) v db = (Inr (), d1)"
    and att: "persistAttempts rp (snapshot a) (pr_attempts a) d1 = (Inr (), d2)"
    and evs: "persistEvents rp (snapshot a) (pr_events a) d2 = (Inr (), db')"
    and a': "a' = a\<lparr>pr_events := []\<rparr>" by (rule save_ok)
  show "pr_events a' = []" by (simp add: a')
  note one = persistSnapshot_audit [OF snap]
  note two = persistAttempts_audit [OF att conjunct1 [OF one]]
  have "audit_state rp d2" using assms(1) one two by (auto intro: same_audit_state)
  moreover have "db_auditEvents d2 = db_auditEvents db" "db_outboxEvents d2 = db_outboxEvents db"
    using one two by (simp_all add: same_audit_def)
  ultimately show "\<exists>as os. db_auditEvents db' = db_auditEvents db @ as \<and>
      db_outboxEvents db' = db_outboxEvents db @ os \<and>
         map audited as = map (event_record (snapshot a)) (pr_events a) \<and>
         map announced os = map (event_record (snapshot a)) (pr_events a) \<and>
         map au_id as = map ox_id os"
    using persistEvents_state [OF assms(2) _ evs] by auto
qed (use save_err in blast)

theorem save_publishes_pending_events_witness:
  "\<exists>a' db'. save example_repository example_new 0 example_db = (Inr a', db') \<and>
     length (db_auditEvents db') = 1 \<and> length (db_outboxEvents db') = 1"
proof -
  obtain a' db' where run: "save example_repository example_new 0 example_db = (Inr a', db')"
    using example_save by blast
  with save_publishes_pending_events [OF example_audit_state example_clock, of example_new 0]
  obtain as os where "db_auditEvents db' = db_auditEvents example_db @ as"
    "db_outboxEvents db' = db_outboxEvents example_db @ os"
    "length (map audited as) = 1" "length (map announced os) = 1" by (auto simp: map_eq_Cons_conv)
  with run show ?thesis by (auto simp: example_db_simps)
qed

text \<open>C33. No lost update: a save that succeeds found its request at exactly the version the caller
expected (or absent, when it expected none) and leaves it at a later one; afterwards no save of
any aggregate with that id, by any tenant, succeeds with an expected version that is not past the
one just used. So of two concurrent commands on the same loaded state at most one is stored.\<close>

theorem stale_save_refused:
  assumes "constraints db" and "save rp a v db = (Inr a', db')"
  shows "(if v = 0 then \<not> request_exists db (pr_id a)
      else \<exists>q \<in> set (db_privacyRequests db). rw_id q = pr_id a \<and> rw_version q = v)
    \<and> (\<exists>q \<in> set (db_privacyRequests db'). rw_id q = pr_id a \<and> rw_version q = pr_version a) \<and> v < pr_version a
    \<and> (\<forall>rp' (b :: aggregate) w. pr_id b = pr_id a \<longrightarrow> w \<le> v \<longrightarrow>
        (\<exists>e. save rp' b w db' = (Inl e, db')))"
proof (intro conjI allI impI)
  obtain r where r0: "r \<in> set (db_privacyRequests db')" "saved_as rp a v db r"
    using assms(2,1) by (rule saved_row)
  then have r: "r \<in> set (db_privacyRequests db')" "rw_id r = pr_id a" "rw_version r = pr_version a"
    by (simp_all add: saved_as_def)
  show "if v = 0 then \<not> request_exists db (pr_id a)
      else \<exists>q \<in> set (db_privacyRequests db). rw_id q = pr_id a \<and> rw_version q = v"
    using r0(2) by (auto simp: saved_as_def split: if_splits)
  show "\<exists>q \<in> set (db_privacyRequests db'). rw_id q = pr_id a \<and> rw_version q = pr_version a"
    using r by blast
  show newer: "v < pr_version a" using assms(2) by (rule save_ok) simp
  have ok: "constraints db'" using assms(2,1) by (rule save_request_row)
  fix rp' w and b :: aggregate
  assume b: "pr_id b = pr_id a" "w \<le> v"
  show "\<exists>e. save rp' b w db' = (Inl e, db')"
  proof (cases "save rp' b w db'")
    case (Pair res db2)
    show ?thesis
    proof (cases res)
      case (Inl e)
      with Pair save_err show ?thesis by metis
    next
      case (Inr b')
      with Pair have run: "save rp' b w db' = (Inr b', db2)" by simp
      obtain q where "saved_as rp' b w db' q" using run ok by (rule saved_row)
      moreover have "request_exists db' (pr_id b)"
        using imageI [OF r(1), of rw_id] by (simp add: request_exists_def r(2) b(1))
      ultimately obtain p where p: "p \<in> set (db_privacyRequests db')" "rw_id p = pr_id b" "rw_version p = w"
        by (auto simp: saved_as_def split: if_splits)
      with request_key [OF ok r(1) p(1)] r b newer show ?thesis by simp
    qed
  qed
qed

theorem stale_save_refused_witness:
  "\<exists>a' db' e. save example_repository example_new 0 example_db = (Inr a', db') \<and>
     save example_repository example_new 0 db' = (Inl e, db')"
  using example_save stale_save_refused [OF example_db_ok] by (metis order_refl)

text \<open>C35. Saving and reading back. After a successful save \<open>findById\<close> returns a record in which every field
is known. Status, policy version, deadline, current attempt and version are those of the aggregate, and
it is completed, at the time of the save, exactly when its status is terminal. A first save also stores
type, source and creator as given and the time of the save as that of the creation, and leaves the subject
fields empty; a later save leaves these and all other fields as they were.\<close>

theorem findById_returns_saved:
  assumes "constraints db" and "save rp a v db = (Inr a', db')"
  shows "\<exists>deadline at. date_parse (pr_deadlineAt a) = Some deadline \<and>
    date_parse (toISOString (rp_now rp 0)) = Some at \<and>
    (let done_at = (if pr_status a \<in> {Completed, Cancelled} then Some (toISOString at) else None) in
     if v = 0 then \<not> request_exists db (pr_id a) \<and>
       findById rp (pr_id a) db' = (Inr (Some
         \<lparr>qr_id = pr_id a, qr_tenantId = rp_tenantId rp, qr_environmentId = pr_environmentId a,
          qr_type = type_value (pr_type a), qr_source = source_value (pr_source a), qr_subjectHash = None,
          qr_subjectHashKeyVersion = None, qr_subjectCanonicalizationVersion = None,
          qr_duplicateOverride = False, qr_duplicateOfRequestId = None, qr_status = status_value (pr_status a),
          qr_policyVersion = pr_policyVersion a, qr_deadlineAt = toISOString deadline,
          qr_createdByActorId = pr_createdByActorId a, qr_createdAt = toISOString at, qr_completedAt = done_at,
          qr_currentAttemptId = pr_currentAttemptId a, qr_version = pr_version a\<rparr>), db')
     else \<exists>p \<in> set (db_privacyRequests db). rw_id p = pr_id a \<and> rw_tenantId p = rp_tenantId rp \<and>
       rw_environmentId p = pr_environmentId a \<and> rw_version p = v \<and>
       findById rp (pr_id a) db' = (Inr (Some
         \<lparr>qr_id = pr_id a, qr_tenantId = rp_tenantId rp, qr_environmentId = pr_environmentId a,
          qr_type = rw_type p, qr_source = rw_source p, qr_subjectHash = rw_subjectHash p,
          qr_subjectHashKeyVersion = rw_subjectHashKeyVersion p,
          qr_subjectCanonicalizationVersion = rw_subjectCanonicalizationVersion p,
          qr_duplicateOverride = rw_duplicateOverride p, qr_duplicateOfRequestId = rw_duplicateOfRequestId p,
          qr_status = status_value (pr_status a), qr_policyVersion = pr_policyVersion a,
          qr_deadlineAt = toISOString deadline, qr_createdByActorId = rw_createdByActorId p,
          qr_createdAt = toISOString (rw_createdAt p), qr_completedAt = done_at,
          qr_currentAttemptId = pr_currentAttemptId a, qr_version = pr_version a\<rparr>), db'))"
proof -
  have ok: "constraints db'" using assms(2,1) by (rule save_request_row)
  from assms(2,1) show ?thesis
  proof (cases rule: saved_row_cases)
    case (inserted deadline at)
    from findById_row [OF ok inserted(5), of "pr_id a" rp] inserted(1-4) show ?thesis
      by (intro exI [of _ deadline] exI [of _ at])
        (simp add: Let_def new_request_row_def record_of_row_def snapshot_def)
  next
    case (updated deadline at q)
    from updated(5) have q: "rw_id q = pr_id a" "rw_tenantId q = rp_tenantId rp"
      "rw_environmentId q = pr_environmentId a" "rw_version q = v"
      by (simp_all add: at_version_def snapshot_def)
    from findById_row [OF ok updated(6), of "pr_id a" rp] updated(1-4) q show ?thesis
      by (intro exI [of _ deadline] exI [of _ at])
        (simp add: Let_def update_request_row_def record_of_row_def snapshot_def bexI [of _ q])
  qed
qed

theorem findById_returns_saved_witness:
  "\<exists>a' db' q. save example_repository example_new 0 example_db = (Inr a', db') \<and>
     findById example_repository (pr_id example_new) db' = (Inr (Some q), db') \<and> qr_version q = 1 \<and>
     qr_deadlineAt q = toISOString 1785542400000 \<and> qr_createdAt q = toISOString 1000 \<and> qr_completedAt q = None"
proof -
  obtain a' db' where run: "save example_repository example_new 0 example_db = (Inr a', db')"
    using example_save by blast
  have "pr_deadlineAt example_new = ''2026-08-01T00:00:00.000Z''" "pr_status example_new = Created"
    by (simp_all add: create_def example_request_def)
  with findById_returns_saved [OF example_db_ok run] run show ?thesis
    by (simp add: Let_def example_deadline example_times)
qed

end
