(* ===== verification/Idempotency.thy ===== *)
theory Idempotency
  imports Request_Store_Properties
begin

text \<open>
  \<^verbatim>\<open>packages/database/src/repositories/idempotency-repository.ts\<close>: a key of a tenant, scope and
  actor is claimed once, completed once with the response, and replays that response from then
  on. A response body is its JSON text (\<open>None\<close> when \<open>JSON.stringify\<close> gives none); \<open>now\<close> is the
  database's \<open>now()\<close> at the insert.
\<close>

record idempotency_command =
  ic_scope :: string
  ic_actorId :: string
  ic_idempotencyKey :: string
  ic_requestHash :: string
  ic_expiresAt :: string

record idempotency_completion = idempotency_command +
  ic_responseStatus :: int
  ic_responseBody :: "string option"

datatype idempotency_claim = Claimed | InProgress | Replay int "string option"

datatype idempotency_error =
    IdempotencyConflictError
  | IdempotencyRecordNotFoundError
  | ResponseNotJson

definition row_of_key :: "string \<Rightarrow> 'a idempotency_command_scheme \<Rightarrow> idempotency_row \<Rightarrow> bool" where
  "row_of_key tenant c r \<longleftrightarrow> ir_tenantId r = tenant \<and> ir_scope r = ic_scope c \<and>
     ir_actorId r = ic_actorId c \<and> ir_idempotencyKey r = ic_idempotencyKey c"

definition new_record :: "string \<Rightarrow> idempotency_command \<Rightarrow> int \<Rightarrow> int \<Rightarrow> idempotency_row" where
  "new_record tenant c now expires =
     \<lparr>ir_tenantId = tenant, ir_scope = ic_scope c, ir_actorId = ic_actorId c,
      ir_idempotencyKey = ic_idempotencyKey c, ir_requestHash = ic_requestHash c,
      ir_responseStatus = None, ir_responseBody = None, ir_createdAt = now, ir_expiresAt = expires\<rparr>"

definition read_claim ::
  "string \<Rightarrow> idempotency_command \<Rightarrow> (idempotency_error, idempotency_claim) sql" where
  "read_claim tenant c db =
     (case find (row_of_key tenant c) (db_idempotencyRecords db) of
        None \<Rightarrow> raise IdempotencyConflictError db
      | Some r \<Rightarrow>
          if ir_requestHash r \<noteq> ic_requestHash c then raise IdempotencyConflictError db
          else (case ir_responseStatus r of
                  None \<Rightarrow> returnM InProgress db
                | Some s \<Rightarrow> returnM (Replay s (ir_responseBody r)) db))"

definition claim ::
  "string \<Rightarrow> int \<Rightarrow> idempotency_command \<Rightarrow> (idempotency_error, idempotency_claim) sql" where
  "claim tenantId now c = inTenantTransaction tenantId (\<lambda>tenant.
     seqM (as_timestamp (ic_expiresAt c)) (\<lambda>expires db.
       if \<exists>r \<in> set (db_idempotencyRecords db). row_of_key tenant c r then read_claim tenant c db
       else seqM (statement (\<lambda>db. db\<lparr>db_idempotencyRecords :=
              db_idempotencyRecords db @ [new_record tenant c now expires]\<rparr>))
            (\<lambda>_. returnM Claimed) db))"

definition completes :: "string \<Rightarrow> idempotency_completion \<Rightarrow> idempotency_row \<Rightarrow> bool" where
  "completes tenant c r \<longleftrightarrow> row_of_key tenant c r \<and> ir_requestHash r = ic_requestHash c \<and>
     ir_responseStatus r = None"

definition complete_record ::
  "string \<Rightarrow> idempotency_completion \<Rightarrow> (idempotency_error, unit) sql" where
  "complete_record tenantId c =
     (case ic_responseBody c of
        None \<Rightarrow> raise ResponseNotJson
      | Some body \<Rightarrow> inTenantTransaction tenantId (\<lambda>tenant db.
          if \<exists>r \<in> set (db_idempotencyRecords db). completes tenant c r
          then statement (\<lambda>db. db\<lparr>db_idempotencyRecords := map (\<lambda>r. if completes tenant c r
                 then r\<lparr>ir_responseStatus := Some (ic_responseStatus c), ir_responseBody := Some body\<rparr>
                 else r) (db_idempotencyRecords db)\<rparr>) db
          else raise IdempotencyRecordNotFoundError db))"

subsection \<open>The abstract key\<close>

text \<open>What a key is in: not seen, claimed for a request, or answered for it.\<close>

datatype entry = Unseen | Pending string | Answered string int "string option"

type_synonym key = "string \<times> string \<times> string \<times> string"

definition key_of :: "string \<Rightarrow> 'a idempotency_command_scheme \<Rightarrow> key" where
  "key_of tenant c = (tenant, ic_scope c, ic_actorId c, ic_idempotencyKey c)"

definition row_key :: "idempotency_row \<Rightarrow> key" where
  "row_key r = (ir_tenantId r, ir_scope r, ir_actorId r, ir_idempotencyKey r)"

definition entry_of_row :: "idempotency_row \<Rightarrow> entry" where
  "entry_of_row r = (case ir_responseStatus r of None \<Rightarrow> Pending (ir_requestHash r)
     | Some s \<Rightarrow> Answered (ir_requestHash r) s (ir_responseBody r))"

definition entries :: "database \<Rightarrow> key \<Rightarrow> entry" where
  "entries db k = (case find (\<lambda>r. row_key r = k) (db_idempotencyRecords db) of
     None \<Rightarrow> Unseen | Some r \<Rightarrow> entry_of_row r)"

fun claim_spec :: "string \<Rightarrow> entry \<Rightarrow> (idempotency_error + idempotency_claim) \<times> entry" where
  "claim_spec h Unseen = (Inr Claimed, Pending h)"
| "claim_spec h (Pending g) = (if g = h then Inr InProgress else Inl IdempotencyConflictError, Pending g)"
| "claim_spec h (Answered g s b) =
     (if g = h then Inr (Replay s b) else Inl IdempotencyConflictError, Answered g s b)"

fun complete_spec :: "string \<Rightarrow> int \<Rightarrow> string \<Rightarrow> entry \<Rightarrow> (idempotency_error + unit) \<times> entry" where
  "complete_spec h s b (Pending g) =
     (if g = h then (Inr (), Answered g s (Some b)) else (Inl IdempotencyRecordNotFoundError, Pending g))"
| "complete_spec h s b e = (Inl IdempotencyRecordNotFoundError, e)"

text \<open>
  A run of an implementation agrees with the specification of its key, and leaves the other keys;
  or a constraint or a malformed time stamp stopped it and nothing has changed.
\<close>

definition refines ::
  "key \<Rightarrow> database \<Rightarrow> (idempotency_error db_error + 'r) \<times> database \<Rightarrow>
   (idempotency_error + 'r) \<times> entry \<Rightarrow> bool" where
  "refines k db out spec \<longleftrightarrow>
     (case out of
        (Inl ConstraintViolation, db') \<Rightarrow> db' = db
      | (Inl InvalidTimestamp, db') \<Rightarrow> db' = db
      | (Inl (Raised e), db') \<Rightarrow> spec = (Inl e, entries db' k) \<and> db' = db
      | (Inr r, db') \<Rightarrow> spec = (Inr r, entries db' k) \<and> (\<forall>j. j \<noteq> k \<longrightarrow> entries db' j = entries db j))"

subsection \<open>Lemmas\<close>

lemma row_of_key_iff: "row_of_key tenant c = (\<lambda>r. row_key r = key_of tenant c)"
  by (auto simp: row_of_key_def row_key_def key_of_def fun_eq_iff)

lemma entries_None: "entries db k = Unseen \<longleftrightarrow> k \<notin> row_key ` set (db_idempotencyRecords db)"
  by (auto simp: entries_def entry_of_row_def find_None_key split: option.splits
      dest: find_Some_mem)

lemma refines_other:
  "refines k db (Inr x, db') spec \<Longrightarrow> j \<noteq> k \<Longrightarrow> entries db' j = entries db j"
  by (auto simp: refines_def simp del: split_paired_All)

lemma claim_refines:
  "refines (key_of tenant c) db (claim tenant now c db)
     (claim_spec (ic_requestHash c) (entries db (key_of tenant c)))"
proof (cases "date_parse (ic_expiresAt c)")
  case None
  then show ?thesis
    by (simp add: claim_def inTenantTransaction_def inTransaction_def seqM_def as_timestamp_def refines_def)
next
  case (Some expires)
  let ?k = "key_of tenant c"
  show ?thesis
  proof (cases "find (\<lambda>r. row_key r = ?k) (db_idempotencyRecords db)")
    case None
    then have new: "\<not> (\<exists>r \<in> set (db_idempotencyRecords db). row_key r = ?k)"
      by (auto simp: find_None_iff)
    have row: "row_key (new_record tenant c now expires) = ?k"
      "entry_of_row (new_record tenant c now expires) = Pending (ic_requestHash c)"
      by (simp_all add: row_key_def new_record_def key_of_def entry_of_row_def)
    show ?thesis
      using Some new None row
      by (auto simp: claim_def inTenantTransaction_def inTransaction_def seqM_def as_timestamp_def
          statement_def returnM_def refines_def row_of_key_iff entries_def find_append split: option.splits)
  next
    case found: (Some r)
    then have "r \<in> set (db_idempotencyRecords db)" "row_key r = ?k"
      using find_Some_mem by fastforce+
    with Some found show ?thesis
      by (auto simp: claim_def inTenantTransaction_def inTransaction_def seqM_def as_timestamp_def
          read_claim_def raise_def throwM_def returnM_def refines_def row_of_key_iff entries_def
          entry_of_row_def split: option.splits)
  qed
qed

lemma completes_iff:
  "completes tenant c r \<longleftrightarrow> row_key r = key_of tenant c \<and> entry_of_row r = Pending (ic_requestHash c)"
  by (auto simp: completes_def row_of_key_iff entry_of_row_def split: option.splits)

lemma entry_find:
  assumes "constraints db" and "r \<in> set (db_idempotencyRecords db)"
  shows "entries db (row_key r) = entry_of_row r"
proof -
  have "distinct (map row_key (db_idempotencyRecords db))"
    using assms(1) by (simp add: constraints_def idempotency_records_ok_def row_key_def [abs_def])
  from find_distinct_key [OF this assms(2)] show ?thesis by (simp add: entries_def)
qed

lemma complete_refines:
  assumes ok: "constraints db" and body: "ic_responseBody c = Some b"
  shows "refines (key_of tenant c) db (complete_record tenant c db)
     (complete_spec (ic_requestHash c) (ic_responseStatus c) b (entries db (key_of tenant c)))"
proof (cases "\<exists>r \<in> set (db_idempotencyRecords db). completes tenant c r")
  case False
  have "entries db (key_of tenant c) \<noteq> Pending (ic_requestHash c)"
    using False unfolding completes_iff entries_def
    by (auto split: option.splits dest: find_Some_mem)
  then have "complete_spec (ic_requestHash c) (ic_responseStatus c) b (entries db (key_of tenant c)) =
      (Inl IdempotencyRecordNotFoundError, entries db (key_of tenant c))"
    by (cases "entries db (key_of tenant c)") simp_all
  with False body show ?thesis
    by (simp add: complete_record_def inTenantTransaction_def inTransaction_def raise_def throwM_def
        refines_def)
next
  case True
  let ?g = "\<lambda>r. if completes tenant c r
    then r\<lparr>ir_responseStatus := Some (ic_responseStatus c), ir_responseBody := Some b\<rparr> else r"
  let ?f = "\<lambda>db. db\<lparr>db_idempotencyRecords := map ?g (db_idempotencyRecords db)\<rparr>"
  from True obtain r where r: "r \<in> set (db_idempotencyRecords db)" "completes tenant c r" by blast
  then have pend: "entries db (key_of tenant c) = Pending (ic_requestHash c)"
    using entry_find [OF ok r(1)] by (simp add: completes_iff)
  have keys: "row_key (?g x) = row_key x" for x by (simp add: row_key_def)
  have after: "entries (?f db) j = (if j = key_of tenant c
      then Answered (ic_requestHash c) (ic_responseStatus c) (Some b) else entries db j)" for j
  proof -
    have step: "entries (?f db) j = (case map_option ?g (find (\<lambda>x. row_key x = j) (db_idempotencyRecords db))
        of None \<Rightarrow> Unseen | Some r \<Rightarrow> entry_of_row r)"
      using find_map_other [of "\<lambda>x. row_key x = j" ?g "db_idempotencyRecords db"] keys
      by (simp add: entries_def)
    show ?thesis
    proof (cases "find (\<lambda>x. row_key x = j) (db_idempotencyRecords db)")
      case None
      then have "j \<noteq> key_of tenant c" using r by (auto simp: find_None_iff completes_iff)
      with None step show ?thesis by (simp add: entries_def)
    next
      case (Some x)
      then have x: "row_key x = j" using find_Some_mem by fastforce
      then have "completes tenant c x \<longleftrightarrow> j = key_of tenant c"
        using Some pend by (auto simp: completes_iff entries_def)
      moreover have "completes tenant c x \<Longrightarrow> ir_requestHash x = ic_requestHash c"
        by (simp add: completes_def)
      ultimately show ?thesis
        using Some step x by (cases "j = key_of tenant c") (simp_all add: entries_def entry_of_row_def)
    qed
  qed
  have "complete_record tenant c db = inTransaction (statement ?f) db"
    using True body by (simp add: complete_record_def inTenantTransaction_def inTransaction_def)
  then show ?thesis
    using pend after by (simp add: inTransaction_def statement_def refines_def)
qed


subsection \<open>Runs\<close>

datatype call = CallClaim string int idempotency_command | CallComplete string idempotency_completion

datatype answer = ClaimAnswer "idempotency_error db_error + idempotency_claim"
  | CompleteAnswer "idempotency_error db_error + unit"

fun perform :: "call \<Rightarrow> database \<Rightarrow> answer \<times> database" where
  "perform (CallClaim tenant now c) db = (let (r, db') = claim tenant now c db in (ClaimAnswer r, db'))"
| "perform (CallComplete tenant c) db =
     (let (r, db') = complete_record tenant c db in (CompleteAnswer r, db'))"

text \<open>The answers the claims of a key get, in the order of the calls.\<close>

definition claim_answer :: "key \<Rightarrow> call \<Rightarrow> answer \<Rightarrow> idempotency_claim list" where
  "claim_answer k a r =
     (case (a, r) of
        (CallClaim tenant now c, ClaimAnswer (Inr x)) \<Rightarrow> if key_of tenant c = k then [x] else []
      | _ \<Rightarrow> [])"

fun claim_answers :: "key \<Rightarrow> call list \<Rightarrow> database \<Rightarrow> idempotency_claim list" where
  "claim_answers k [] db = []"
| "claim_answers k (a # as) db =
     (let (r, db') = perform a db in claim_answer k a r @ claim_answers k as db')"

fun answers_fit :: "entry \<Rightarrow> idempotency_claim list \<Rightarrow> bool" where
  "answers_fit Unseen xs \<longleftrightarrow> (\<exists>c i r s b. c \<le> Suc 0 \<and>
     xs = replicate c Claimed @ replicate i InProgress @ replicate r (Replay s b))"
| "answers_fit (Pending h) xs \<longleftrightarrow> (\<exists>i r s b. xs = replicate i InProgress @ replicate r (Replay s b))"
| "answers_fit (Answered h s b) xs \<longleftrightarrow> (\<exists>r. xs = replicate r (Replay s b))"

lemma answers_fit_Nil [simp]: "answers_fit e []"
  by (cases e) (auto intro: exI [of _ 0])

lemma answers_fit_Pending: "answers_fit (Answered h s b) xs \<Longrightarrow> answers_fit (Pending h) xs"
  by (auto intro: exI [of _ 0])

lemma answers_fit_Unseen: "answers_fit e xs \<Longrightarrow> answers_fit Unseen xs"
proof (cases e)
  case (Pending h)
  assume "answers_fit e xs"
  with Pending obtain i r s b where "xs = replicate 0 Claimed @ replicate i InProgress @ replicate r (Replay s b)"
    by auto
  then show ?thesis unfolding answers_fit.simps by (metis zero_le)
next
  case (Answered h s b)
  assume "answers_fit e xs"
  with Answered obtain r where
    "xs = replicate 0 Claimed @ replicate 0 InProgress @ replicate r (Replay s b)" by auto
  then show ?thesis unfolding answers_fit.simps by (metis zero_le)
qed simp

lemma answers_fit_claim:
  assumes "claim_spec h e = (Inr x, e')" and "answers_fit e' xs"
  shows "answers_fit e (x # xs)"
proof (cases e)
  case Unseen
  with assms obtain i r s b where "x = Claimed" "xs = replicate i InProgress @ replicate r (Replay s b)"
    by auto
  then have "x # xs = replicate 1 Claimed @ replicate i InProgress @ replicate r (Replay s b)" by simp
  then show ?thesis unfolding Unseen answers_fit.simps by (metis One_nat_def order_refl)
next
  case (Pending g)
  with assms obtain i r s b where "x = InProgress" "xs = replicate i InProgress @ replicate r (Replay s b)"
    by (auto split: if_splits)
  then have "x # xs = replicate (Suc i) InProgress @ replicate r (Replay s b)" by simp
  then show ?thesis unfolding Pending answers_fit.simps by blast
next
  case (Answered g s b)
  with assms obtain r where "x = Replay s b" "xs = replicate r (Replay s b)"
    by (auto split: if_splits)
  then have "x # xs = replicate (Suc r) (Replay s b)" by simp
  then show ?thesis unfolding Answered answers_fit.simps by blast
qed

lemma claim_constraints: "claim tenant now c db = (r, db') \<Longrightarrow> constraints db \<Longrightarrow> constraints db'"
  by (cases r) (auto simp: claim_def inTenantTransaction_def read_claim_def split: if_splits option.splits)

lemma complete_constraints: "complete_record tenant c db = (r, db') \<Longrightarrow> constraints db \<Longrightarrow> constraints db'"
  by (cases r) (auto simp: complete_record_def inTenantTransaction_def split: if_splits option.splits)

lemma perform_constraints: "perform a db = (r, db') \<Longrightarrow> constraints db \<Longrightarrow> constraints db'"
  by (cases a) (auto split: prod.splits dest: claim_constraints complete_constraints)

lemma perform_step:
  assumes "perform a db = (r, db')" and "constraints db"
  shows "(\<exists>h x. claim_answer k a r = [x] \<and> claim_spec h (entries db k) = (Inr x, entries db' k))
    \<or> claim_answer k a r = [] \<and> (entries db' k = entries db k \<or>
        (\<exists>h s b. entries db k = Pending h \<and> entries db' k = Answered h s b))"
proof (cases a)
  case (CallClaim tenant now c)
  then obtain out where out: "claim tenant now c db = (out, db')" "r = ClaimAnswer out"
    using assms(1) by (auto split: prod.splits)
  note ref = claim_refines [of tenant c db now, unfolded out]
  show ?thesis
  proof (cases "\<exists>x. out = Inr x")
    case True
    then obtain x where x: "out = Inr x" by blast
    with ref refines_other [of "key_of tenant c" db x db' _ k] show ?thesis
      by (cases "key_of tenant c = k") (simp_all add: refines_def CallClaim out claim_answer_def, metis)
  next
    case False
    then obtain e where "out = Inl e" by (cases out) auto
    with ref show ?thesis
      by (cases e) (auto simp: refines_def CallClaim out claim_answer_def)
  qed
next
  case (CallComplete tenant c)
  then obtain out where out: "complete_record tenant c db = (out, db')" "r = CompleteAnswer out"
    using assms(1) by (auto split: prod.splits)
  have none: "claim_answer k a r = []" by (simp add: claim_answer_def CallComplete out)
  show ?thesis
  proof (cases "ic_responseBody c")
    case None
    with out have "db' = db" by (auto simp: complete_record_def raise_def throwM_def)
    with none show ?thesis by simp
  next
    case (Some b)
    note ref = complete_refines [OF assms(2) Some, of tenant, unfolded out]
    show ?thesis
    proof (cases out)
      case (Inl e)
      with ref none show ?thesis by (cases e) (auto simp: refines_def)
    next
      case (Inr u)
      show ?thesis
      proof (cases "key_of tenant c = k")
        case True
        with ref Inr have "complete_spec (ic_requestHash c) (ic_responseStatus c) b (entries db k) =
            (Inr u, entries db' k)" by (simp add: refines_def)
        then have "\<exists>h s x. entries db k = Pending h \<and> entries db' k = Answered h s x"
          by (cases "entries db k") (auto split: if_splits dest: sym)
        with none show ?thesis by simp
      next
        case False
        with ref Inr refines_other [of "key_of tenant c" db u db' _ k] none show ?thesis by simp
      qed
    qed
  qed
qed

lemma answers_fit_run: "constraints db \<Longrightarrow> answers_fit (entries db k) (claim_answers k as db)"
proof (induction as arbitrary: db)
  case (Cons a as)
  obtain r db' where run: "perform a db = (r, db')" by (cases "perform a db")
  then have rest: "answers_fit (entries db' k) (claim_answers k as db')"
    using Cons perform_constraints by blast
  from perform_step [OF run Cons.prems, of k] show ?case
  proof (elim disjE exE conjE)
    fix h x
    assume "claim_answer k a r = [x]" "claim_spec h (entries db k) = (Inr x, entries db' k)"
    with answers_fit_claim rest run show ?thesis by simp
  next
    fix h s b
    assume "claim_answer k a r = []" "entries db k = Pending h" "entries db' k = Answered h s b"
    with answers_fit_Pending rest run show ?thesis by (metis append_Nil case_prod_conv claim_answers.simps(2) Let_def)
  qed (use rest run in simp)
qed simp


subsection \<open>Properties\<close>

text \<open>Both operations implement the three-state key: a claim takes an unseen key, reports one in
progress, replays an answered one, and refuses any other request hash; a completion answers
exactly the pending key with its hash. A run that a constraint or a malformed expiry time stops
changes nothing, and no other key is touched. The expiry time of a record plays no part: a key
stays claimed or answered however late the next call comes.\<close>

theorem idempotency_refines_key:
  assumes "constraints db"
  shows "refines (key_of tenant c) db (claim tenant now c db)
      (claim_spec (ic_requestHash c) (entries db (key_of tenant c)))
    \<and> (\<forall>d b. ic_responseBody d = Some b \<longrightarrow> refines (key_of tenant d) db (complete_record tenant d db)
      (complete_spec (ic_requestHash d) (ic_responseStatus d) b (entries db (key_of tenant d))))"
  using claim_refines complete_refines [OF assms] by blast

definition example_claim :: idempotency_command where
  "example_claim = \<lparr>ic_scope = ''create'', ic_actorId = ''usr_1'', ic_idempotencyKey = ''k1'',
     ic_requestHash = ''h1'', ic_expiresAt = ''2026-08-01T00:00:00.000Z''\<rparr>"

lemma example_unseen: "entries example_db (key_of ''ten_1'' example_claim) = Unseen"
  by (simp add: entries_def example_db_def)

lemma example_claimed:
  "\<exists>db'. claim ''ten_1'' 1000 example_claim example_db = (Inr Claimed, db')"
proof -
  have "constraints (example_db\<lparr>db_idempotencyRecords := [new_record ''ten_1'' example_claim 1000 1785542400000]\<rparr>)"
    by (simp add: constraint_defs example_db_def new_record_def example_claim_def)
  moreover have "db_idempotencyRecords example_db = []" by (simp add: example_db_def)
  moreover have "date_parse (ic_expiresAt example_claim) = Some 1785542400000"
    by (simp add: example_claim_def example_deadline)
  ultimately show ?thesis by (simp add: claim_def inTenantTransaction_def)
qed

theorem idempotency_refines_key_witness:
  "\<exists>db'. claim ''ten_1'' 1000 example_claim example_db = (Inr Claimed, db') \<and>
     entries db' (key_of ''ten_1'' example_claim) = Pending ''h1''"
proof -
  obtain db' where run: "claim ''ten_1'' 1000 example_claim example_db = (Inr Claimed, db')"
    using example_claimed by blast
  from idempotency_refines_key [OF example_db_ok, of "''ten_1''" example_claim 1000] run
  have "(Inr Claimed, Pending ''h1'') = (Inr Claimed, entries db' (key_of ''ten_1'' example_claim))"
    by (simp add: refines_def example_unseen) (simp add: example_claim_def)
  with run show ?thesis by (simp del: split_paired_All)
qed

text \<open>C37. At most one caller is told to do the work, and every replay gives the same response: along
any sequence of claims and completions, of any tenants and with any request hashes, the answers
the claims of one key get are at most one \<open>claimed\<close>, then \<open>in_progress\<close> answers, then replays
of one and the same status and body.\<close>

theorem one_claim_then_one_response:
  assumes "constraints db"
  shows "\<exists>c i r s b. c \<le> Suc 0 \<and> claim_answers k as db =
      replicate c Claimed @ replicate i InProgress @ replicate r (Replay s b)"
proof -
  have "answers_fit (entries db k) (claim_answers k as db)" using assms by (rule answers_fit_run)
  then have "answers_fit Unseen (claim_answers k as db)" by (rule answers_fit_Unseen)
  then show ?thesis by simp
qed

theorem one_claim_then_one_response_witness:
  "\<exists>c i r s b. c \<le> Suc 0 \<and>
     claim_answers (key_of ''ten_1'' example_claim)
       [CallClaim ''ten_1'' 1000 example_claim, CallClaim ''ten_1'' 2000 example_claim] example_db =
     replicate c Claimed @ replicate i InProgress @ replicate r (Replay s b)"
  using one_claim_then_one_response [OF example_db_ok] .

end
