(* ===== verification/Agent_Jobs.thy ===== *)
theory Agent_Jobs
  imports Request_Store_Properties
begin

text \<open>
  The agent gateway's store, \<^verbatim>\<open>apps/api/src/modules/agent-gateway/job-repository.ts\<close>, and the keys of
  \<^verbatim>\<open>apps/api/src/modules/agents/signature-verifier.ts\<close>: looking an agent up, accepting a message
  sequence, holding the transport session, and the life of a job from \<open>enqueue\<close> over \<open>poll\<close> and
  \<open>lease\<close> to \<open>heartbeat\<close>. A query sees the rows of the tenant whose transaction it runs in. SHA-256,
  Ed25519 and the canonicaliser are parameters. \<open>BigInt\<close> is modelled on texts of digits.
\<close>

subsection \<open>Agent keys\<close>

definition KEY_BYTES :: nat where "KEY_BYTES = 32"
definition SIGNATURE_BYTES :: nat where "SIGNATURE_BYTES = 64"

definition decodeAgentKey :: "string \<Rightarrow> bytes option" where
  "decodeAgentKey v = (case pairing_decodeBase64Url v of None \<Rightarrow> None
     | Some bs \<Rightarrow> if length bs \<noteq> KEY_BYTES then None else Some bs)"

datatype key_purpose = Ed25519 | X25519

fun purpose_value :: "key_purpose \<Rightarrow> string" where
  "purpose_value Ed25519 = ''ed25519''"
| "purpose_value X25519 = ''x25519''"

definition keyIdForPublicKey :: "(bytes \<Rightarrow> bytes) \<Rightarrow> key_purpose \<Rightarrow> string \<Rightarrow> string option" where
  "keyIdForPublicKey sha purpose k =
     map_option (\<lambda>bs. purpose_value purpose @ '':sha256:'' @ hex_encode (sha bs)) (decodeAgentKey k)"

definition sha256Token :: "(bytes \<Rightarrow> bytes) \<Rightarrow> string \<Rightarrow> string" where
  "sha256Token sha token = hex_encode (sha (utf8 token))"

text \<open>\<open>ed key signature message\<close> is \<open>createPublicKey\<close> and \<open>verify\<close>; \<open>None\<close> is a throw.\<close>

type_synonym ed25519 = "bytes \<Rightarrow> bytes \<Rightarrow> bytes \<Rightarrow> bool option"

definition verifyAgentProof :: "ed25519 \<Rightarrow> string \<Rightarrow> string \<Rightarrow> string \<Rightarrow> bool" where
  "verifyAgentProof ed publicSigningKey proof payload =
     (case (pairing_decodeBase64Url publicSigningKey, pairing_decodeBase64Url proof) of
        (Some k, Some s) \<Rightarrow>
          if length s \<noteq> SIGNATURE_BYTES then False else ed k s (utf8 payload) = Some True
      | _ \<Rightarrow> False)"

subsection \<open>Inputs and errors\<close>

datatype agent_gateway_auth_error_code =
    AuthSignatureInvalid | AuthAgentRevoked | AuthEnvironmentMismatch | AuthReplayDetected
  | ProtocolVersionUnsupported

datatype agent_gateway_error_code = InvalidAgentMessage | JobLeaseExpired

datatype gateway_error =
    AgentGatewayAuthError agent_gateway_auth_error_code
  | AgentGatewayError agent_gateway_error_code
  | SequenceNotNumeric
  | AgentKeyInvalid
  | AgentJobScopeMissing
  | AgentUnavailable
  | InvalidDate
  | MessageKeyMismatch
  | MessageNotCanonical
  | HelloRejected

record enqueue_agent_job_input =
  ej_id :: string
  ej_tenantId :: string
  ej_requestId :: string
  ej_environmentId :: string
  ej_kind :: string
  ej_planVersion :: "int option"
  ej_payloadCiphertext :: "string option"
  ej_authorization :: "string option"
  ej_availableAt :: string
  ej_expiresAt :: string

record agent_job_lookup =
  lk_tenantId :: string
  lk_agentId :: string
  lk_environmentId :: string
  lk_now :: string

record agent_job_mutation = agent_job_lookup +
  lk_jobId :: string

record agent_transport_input =
  ti_tenantId :: string
  ti_agentId :: string
  ti_environmentId :: string
  ti_transport :: string
  ti_sessionId :: string
  ti_now :: string

record gateway_agent_identity =
  gi_agentId :: string
  gi_tenantId :: string
  gi_environmentId :: string
  gi_publicSigningKey :: string
  gi_signingKeyId :: string
  gi_protocolVersion :: string
  gi_status :: string

datatype agent_message_claim_result =
  Accepted | NotFound | EnvironmentMismatch | Revoked | ReplayedMessage

record claim_agent_message_input =
  cm_tenantId :: string
  cm_agentId :: string
  cm_environmentId :: string
  cm_messageId :: string
  cm_sequence :: string
  cm_receivedAt :: string

record agent_job_record =
  jr_id :: string
  jr_tenantId :: string
  jr_requestId :: string
  jr_environmentId :: string
  jr_kind :: string
  jr_planVersion :: "int option"
  jr_payloadCiphertext :: "string option"
  jr_authorization :: "string option"
  jr_availableAt :: string
  jr_expiresAt :: string
  jr_leasedByAgentId :: "string option"
  jr_leaseExpiresAt :: "string option"
  jr_attempt :: int
  jr_completedAt :: "string option"
  jr_createdAt :: string

definition JOB_LEASE_MS :: int where "JOB_LEASE_MS = 60000"

definition normalizeJob :: "agent_job_row \<Rightarrow> agent_job_record" where
  "normalizeJob r =
     \<lparr>jr_id = aj_id r, jr_tenantId = aj_tenantId r, jr_requestId = aj_requestId r,
      jr_environmentId = aj_environmentId r, jr_kind = aj_kind r, jr_planVersion = aj_planVersion r,
      jr_payloadCiphertext = aj_payloadCiphertext r, jr_authorization = aj_authorization r,
      jr_availableAt = toISOString (aj_availableAt r), jr_expiresAt = toISOString (aj_expiresAt r),
      jr_leasedByAgentId = aj_leasedByAgentId r,
      jr_leaseExpiresAt = map_option toISOString (aj_leaseExpiresAt r), jr_attempt = aj_attempt r,
      jr_completedAt = map_option toISOString (aj_completedAt r),
      jr_createdAt = toISOString (aj_createdAt r)\<rparr>"

subsection \<open>Agents\<close>

text \<open>The tenant an environment belongs to, through its project.\<close>

definition environment_tenant :: "database \<Rightarrow> string \<Rightarrow> string option" where
  "environment_tenant db e = Option.bind (find (\<lambda>r. en_id r = e) (db_environments db))
     (\<lambda>r. map_option pj_tenantId (find (\<lambda>p. pj_id p = en_projectId r) (db_projects db)))"

definition visible_agent :: "string \<Rightarrow> database \<Rightarrow> string \<Rightarrow> agent_row option" where
  "visible_agent tenant db a = find (\<lambda>r. ag_id r = a \<and>
     environment_tenant db (ag_environmentId r) = Some tenant) (db_agents db)"

definition eligible :: "agent_row \<Rightarrow> bool" where
  "eligible r \<longleftrightarrow> ag_status r = ''online'' \<or> ag_status r = ''outdated''"

text \<open>The database function \<open>lookup_agent_identity\<close> reads across tenants.\<close>

definition findAgentIdentity ::
  "(bytes \<Rightarrow> bytes) \<Rightarrow> string \<Rightarrow> (gateway_error, gateway_agent_identity option) sql" where
  "findAgentIdentity sha a db =
     (case find (\<lambda>r. ag_id r = a) (db_agents db) of
        None \<Rightarrow> returnM None db
      | Some r \<Rightarrow>
          (case environment_tenant db (ag_environmentId r) of
             None \<Rightarrow> returnM None db
           | Some tenant \<Rightarrow>
               (case (case ag_signingKeyId r of Some k \<Rightarrow> Some k
                      | None \<Rightarrow> keyIdForPublicKey sha Ed25519 (ag_publicSigningKey r)) of
                  None \<Rightarrow> raise AgentKeyInvalid db
                | Some k \<Rightarrow> returnM (Some
                    \<lparr>gi_agentId = ag_id r, gi_tenantId = tenant,
                     gi_environmentId = ag_environmentId r,
                     gi_publicSigningKey = ag_publicSigningKey r, gi_signingKeyId = k,
                     gi_protocolVersion = ag_protocolVersion r, gi_status = ag_status r\<rparr>) db)))"

definition big_int :: "string \<Rightarrow> (gateway_error, nat) sql" where
  "big_int s = (case number_from 0 s of None \<Rightarrow> raise SequenceNotNumeric | Some n \<Rightarrow> returnM n)"

definition receipt_exists :: "claim_agent_message_input \<Rightarrow> database \<Rightarrow> bool" where
  "receipt_exists i db \<longleftrightarrow> (\<exists>r \<in> set (db_agentMessageReceipts db). mr_agentId r = cm_agentId i \<and>
     (mr_messageId r = cm_messageId i \<or> mr_sequence r = cm_sequence i))"

definition claimAgentMessage ::
  "claim_agent_message_input \<Rightarrow> (gateway_error, agent_message_claim_result) sql" where
  "claimAgentMessage i = inTenantTransaction (cm_tenantId i) (\<lambda>tenant db.
     case visible_agent tenant db (cm_agentId i) of
       None \<Rightarrow> returnM NotFound db
     | Some agent \<Rightarrow>
         if ag_environmentId agent \<noteq> cm_environmentId i then returnM EnvironmentMismatch db
         else if ag_status agent = ''revoked'' then returnM Revoked db
         else seqM (big_int (cm_sequence i)) (\<lambda>sequence.
              seqM (big_int (ag_lastSequence agent)) (\<lambda>last_sequence db.
              if sequence \<le> last_sequence then returnM ReplayedMessage db
              else if receipt_exists i db then returnM ReplayedMessage db
              else seqM (as_timestamp (cm_receivedAt i)) (\<lambda>at.
                   seqM (statement (\<lambda>db. db\<lparr>db_agentMessageReceipts := db_agentMessageReceipts db @
                     [\<lparr>mr_agentId = cm_agentId i, mr_messageId = cm_messageId i,
                       mr_sequence = cm_sequence i, mr_receivedAt = at\<rparr>]\<rparr>)) (\<lambda>_.
                   seqM (statement (\<lambda>db. db\<lparr>db_agents := map (\<lambda>r. if ag_id r = cm_agentId i
                     then r\<lparr>ag_lastSequence := cm_sequence i, ag_lastSeenAt := Some at\<rparr> else r)
                     (db_agents db)\<rparr>)) (\<lambda>_. returnM Accepted))) db)) db)"

subsection \<open>Transport sessions\<close>

definition session_row :: "agent_transport_input \<Rightarrow> int \<Rightarrow> agent_transport_session_row" where
  "session_row i at =
     \<lparr>ts_agentId = ti_agentId i, ts_tenantId = ti_tenantId i, ts_environmentId = ti_environmentId i,
      ts_transport = ti_transport i, ts_sessionId = ti_sessionId i, ts_startedAt = at,
      ts_lastSeenAt = at\<rparr>"

definition upsert_session ::
  "string \<Rightarrow> agent_transport_session_row \<Rightarrow> (gateway_error, unit) sql" where
  "upsert_session tenant new db =
     (case find (\<lambda>r. ts_agentId r = ts_agentId new) (db_agentTransportSessions db) of
        None \<Rightarrow> statement (\<lambda>db. db\<lparr>db_agentTransportSessions := db_agentTransportSessions db @ [new]\<rparr>) db
      | Some old \<Rightarrow>
          if ts_tenantId old \<noteq> tenant then throwM ConstraintViolation db
          else statement (\<lambda>db. db\<lparr>db_agentTransportSessions :=
            map (\<lambda>r. if ts_agentId r = ts_agentId new
                     then new\<lparr>ts_startedAt := ts_startedAt r\<rparr> else r)
              (db_agentTransportSessions db)\<rparr>) db)"

definition claimTransport ::
  "agent_transport_input \<Rightarrow> (gateway_error, string option) sql" where
  "claimTransport i = inTenantTransaction (ti_tenantId i) (\<lambda>tenant db.
     case visible_agent tenant db (ti_agentId i) of
       None \<Rightarrow> returnM None db
     | Some agent \<Rightarrow>
         if ag_environmentId agent \<noteq> ti_environmentId i \<or> ag_status agent = ''revoked''
         then returnM None db
         else (let current = find (\<lambda>r. ts_agentId r = ti_agentId i \<and> ts_tenantId r = tenant)
                 (db_agentTransportSessions db) in
               seqM (as_timestamp (ti_now i)) (\<lambda>at.
               seqM (upsert_session tenant (session_row i at)) (\<lambda>_.
               returnM (map_option ts_sessionId current))) db))"

definition this_session :: "string \<Rightarrow> agent_transport_input \<Rightarrow> agent_transport_session_row \<Rightarrow> bool" where
  "this_session tenant i r \<longleftrightarrow> ts_tenantId r = tenant \<and> ts_agentId r = ti_agentId i \<and>
     ts_environmentId r = ti_environmentId i \<and> ts_transport r = ti_transport i \<and>
     ts_sessionId r = ti_sessionId i"

definition isTransportActive :: "agent_transport_input \<Rightarrow> (gateway_error, bool) sql" where
  "isTransportActive i = inTenantTransaction (ti_tenantId i) (\<lambda>tenant.
     query (\<lambda>db. \<exists>r \<in> set (db_agentTransportSessions db). this_session tenant i r))"

definition releaseTransport :: "agent_transport_input \<Rightarrow> (gateway_error, unit) sql" where
  "releaseTransport i = inTenantTransaction (ti_tenantId i) (\<lambda>tenant.
     statement (\<lambda>db. db\<lparr>db_agentTransportSessions :=
       filter (\<lambda>r. \<not> this_session tenant i r) (db_agentTransportSessions db)\<rparr>))"

subsection \<open>Jobs\<close>

text \<open>The order of \<open>order by j.available_at, j.id\<close>, texts compared by code point.\<close>

datatype queue_key = QueueKey int string

fun text_less :: "string \<Rightarrow> string \<Rightarrow> bool" where
  "text_less _ [] = False"
| "text_less [] (_ # _) = True"
| "text_less (c # cs) (d # ds) = (of_char c < (of_char d :: nat) \<or> c = d \<and> text_less cs ds)"

fun queue_less :: "queue_key \<Rightarrow> queue_key \<Rightarrow> bool" where
  "queue_less (QueueKey a i) (QueueKey b j) = (a < b \<or> a = b \<and> text_less i j)"

lemma text_less_irrefl [simp]: "\<not> text_less s s"
  by (induction s) auto

lemma text_less_trans: "text_less a b \<Longrightarrow> text_less b c \<Longrightarrow> text_less a c"
proof (induction a b arbitrary: c rule: text_less.induct)
  case (2 d ds)
  then show ?case by (cases c) auto
next
  case (3 x xs y ys)
  then obtain z zs where c: "c = z # zs" by (cases c) auto
  have "of_char x < (of_char y :: nat) \<or> x = y \<and> text_less xs ys"
    "of_char y < (of_char z :: nat) \<or> y = z \<and> text_less ys zs"
    using 3(2,3) by (simp_all add: c)
  then have "of_char x < (of_char z :: nat) \<or> x = z \<and> text_less xs zs"
    using 3(1) [of zs] less_trans [of "of_char x :: nat" "of_char y" "of_char z"]
    by (elim disjE conjE) simp_all
  then show ?case by (simp add: c)
qed simp

lemma text_less_total: "text_less a b \<or> a = b \<or> text_less b a"
proof (induction a b rule: text_less.induct)
  case (1 a)
  show ?case by (cases a) auto
next
  case (3 c cs d ds)
  have "c = d \<or> of_char c < (of_char d :: nat) \<or> of_char d < (of_char c :: nat)"
    by (metis linorder_neqE of_char_eq_iff)
  with 3 show ?case by auto
qed simp

instantiation queue_key :: linorder
begin

definition less_queue_key :: "queue_key \<Rightarrow> queue_key \<Rightarrow> bool" where
  "less_queue_key = queue_less"

definition less_eq_queue_key :: "queue_key \<Rightarrow> queue_key \<Rightarrow> bool" where
  "less_eq_queue_key a b \<longleftrightarrow> queue_less a b \<or> a = b"

instance
proof
  fix a b c :: queue_key
  have trans: "queue_less a b \<Longrightarrow> queue_less b c \<Longrightarrow> queue_less a c" for a b c
    using text_less_trans by (cases a; cases b; cases c) auto
  have irrefl: "\<not> queue_less a a" for a by (cases a) auto
  show "a < b \<longleftrightarrow> a \<le> b \<and> \<not> b \<le> a"
    unfolding less_queue_key_def less_eq_queue_key_def using trans irrefl by metis
  show "a \<le> a" by (simp add: less_eq_queue_key_def)
  show "a \<le> b \<Longrightarrow> b \<le> c \<Longrightarrow> a \<le> c" unfolding less_eq_queue_key_def using trans by metis
  show "a \<le> b \<Longrightarrow> b \<le> a \<Longrightarrow> a = b" unfolding less_eq_queue_key_def using trans irrefl by metis
  show "a \<le> b \<or> b \<le> a"
    unfolding less_eq_queue_key_def using text_less_total by (cases a; cases b) force
qed

end

definition queue_key :: "agent_job_row \<Rightarrow> queue_key" where
  "queue_key r = QueueKey (aj_availableAt r) (aj_id r)"

definition new_job :: "enqueue_agent_job_input \<Rightarrow> int \<Rightarrow> int \<Rightarrow> int \<Rightarrow> agent_job_row" where
  "new_job i available expires created =
     \<lparr>aj_id = ej_id i, aj_tenantId = ej_tenantId i, aj_requestId = ej_requestId i,
      aj_environmentId = ej_environmentId i, aj_kind = ej_kind i, aj_planVersion = ej_planVersion i,
      aj_payloadCiphertext = ej_payloadCiphertext i, aj_payloadEncryptionKeyId = None,
      aj_authorization = ej_authorization i, aj_availableAt = available, aj_expiresAt = expires,
      aj_leasedByAgentId = None, aj_leaseExpiresAt = None, aj_attempt = 0, aj_completedAt = None,
      aj_createdAt = created\<rparr>"

text \<open>\<open>created\<close> is the database's \<open>now()\<close>, the default of the column.\<close>

definition enqueue ::
  "int \<Rightarrow> enqueue_agent_job_input \<Rightarrow> (gateway_error, agent_job_record) sql" where
  "enqueue created i = inTenantTransaction (ej_tenantId i) (\<lambda>tenant.
     seqM (as_timestamp (ej_availableAt i)) (\<lambda>available.
     seqM (as_timestamp (ej_expiresAt i)) (\<lambda>expires db.
       if \<exists>r \<in> set (db_privacyRequests db). rw_id r = ej_requestId i \<and> rw_tenantId r = tenant \<and>
            rw_environmentId r = ej_environmentId i
       then seqM (statement (\<lambda>db. db\<lparr>db_agentJobs := db_agentJobs db @
              [new_job i available expires created]\<rparr>))
            (\<lambda>_. returnM (normalizeJob (new_job i available expires created))) db
       else raise AgentJobScopeMissing db)))"

definition agent_may_work :: "string \<Rightarrow> database \<Rightarrow> string \<Rightarrow> string \<Rightarrow> bool" where
  "agent_may_work tenant db a e \<longleftrightarrow> (case visible_agent tenant db a of None \<Rightarrow> False
     | Some r \<Rightarrow> ag_environmentId r = e \<and> eligible r)"

definition open_at :: "int \<Rightarrow> agent_job_row \<Rightarrow> bool" where
  "open_at now r \<longleftrightarrow> aj_completedAt r = None \<and> aj_availableAt r \<le> now \<and> now < aj_expiresAt r"

definition leased_at :: "int \<Rightarrow> agent_job_row \<Rightarrow> bool" where
  "leased_at now r \<longleftrightarrow> (case aj_leaseExpiresAt r of None \<Rightarrow> False | Some t \<Rightarrow> now < t)"

definition available_jobs ::
  "string \<Rightarrow> 'a agent_job_lookup_scheme \<Rightarrow> int \<Rightarrow> database \<Rightarrow> agent_job_row list" where
  "available_jobs tenant i now db = sort_key queue_key (filter (\<lambda>r. aj_tenantId r = tenant \<and>
     aj_environmentId r = lk_environmentId i \<and> open_at now r \<and> \<not> leased_at now r \<and>
     agent_may_work tenant db (lk_agentId i) (aj_environmentId r)) (db_agentJobs db))"

definition poll :: "agent_job_lookup \<Rightarrow> (gateway_error, agent_job_record option) sql" where
  "poll i = inTenantTransaction (lk_tenantId i) (\<lambda>tenant. seqM (as_timestamp (lk_now i)) (\<lambda>now.
     query (\<lambda>db. case available_jobs tenant i now db of
       [] \<Rightarrow> None | r # _ \<Rightarrow> Some (normalizeJob r))))"

definition canLease :: "agent_job_row \<Rightarrow> string \<Rightarrow> bool" where
  "canLease r now = (case date_parse now of None \<Rightarrow> False | Some t \<Rightarrow> open_at t r)"

definition take_lease :: "string \<Rightarrow> int \<Rightarrow> agent_job_row \<Rightarrow> agent_job_row" where
  "take_lease a t r = r\<lparr>aj_leasedByAgentId := Some a, aj_leaseExpiresAt := Some t,
     aj_attempt := aj_attempt r + 1\<rparr>"

definition this_job :: "string \<Rightarrow> 'a agent_job_mutation_scheme \<Rightarrow> agent_job_row \<Rightarrow> bool" where
  "this_job tenant i r \<longleftrightarrow> aj_id r = lk_jobId i \<and> aj_tenantId r = tenant"

definition update_job ::
  "string \<Rightarrow> agent_job_mutation \<Rightarrow> (agent_job_row \<Rightarrow> agent_job_row) \<Rightarrow> (gateway_error, unit) sql" where
  "update_job tenant i f = statement (\<lambda>db. db\<lparr>db_agentJobs :=
     map (\<lambda>r. if this_job tenant i r then f r else r) (db_agentJobs db)\<rparr>)"

definition lease :: "agent_job_mutation \<Rightarrow> (gateway_error, agent_job_record option) sql" where
  "lease i = inTenantTransaction (lk_tenantId i) (\<lambda>tenant db.
     if \<not> agent_may_work tenant db (lk_agentId i) (lk_environmentId i) then returnM None db
     else (case find (\<lambda>r. this_job tenant i r \<and> aj_environmentId r = lk_environmentId i)
             (db_agentJobs db) of
        None \<Rightarrow> returnM None db
      | Some r \<Rightarrow>
          if \<not> canLease r (lk_now i) then returnM None db
          else (case date_parse (lk_now i) of
             None \<Rightarrow> raise InvalidDate db
           | Some now \<Rightarrow>
               if aj_leasedByAgentId r = Some (lk_agentId i) \<and> leased_at now r
               then returnM (Some (normalizeJob r)) db
               else if leased_at now r then returnM None db
               else seqM (as_timestamp (toISOString (now + JOB_LEASE_MS))) (\<lambda>t.
                    seqM (update_job tenant i (take_lease (lk_agentId i) t))
                      (\<lambda>_. returnM (Some (normalizeJob (take_lease (lk_agentId i) t r))))) db)))"

definition heartbeat :: "agent_job_mutation \<Rightarrow> (gateway_error, agent_job_record option) sql" where
  "heartbeat i = (case date_parse (lk_now i) of
     None \<Rightarrow> raise InvalidDate
   | Some now \<Rightarrow> inTenantTransaction (lk_tenantId i) (\<lambda>tenant.
       seqM (as_timestamp (toISOString (now + JOB_LEASE_MS))) (\<lambda>t db.
       case find (\<lambda>r. this_job tenant i r \<and> aj_environmentId r = lk_environmentId i \<and>
              aj_leasedByAgentId r = Some (lk_agentId i) \<and> leased_at now r \<and>
              now < aj_expiresAt r \<and> aj_completedAt r = None \<and>
              agent_may_work tenant db (lk_agentId i) (aj_environmentId r)) (db_agentJobs db) of
         None \<Rightarrow> returnM None db
       | Some r \<Rightarrow> seqM (update_job tenant i (\<lambda>r. r\<lparr>aj_leaseExpiresAt := Some t\<rparr>))
           (\<lambda>_. returnM (Some (normalizeJob (r\<lparr>aj_leaseExpiresAt := Some t\<rparr>)))) db)))"

definition control_sequence :: "string \<Rightarrow> (gateway_error, nat) sql" where
  "control_sequence s = (if s = [] then raise SequenceNotNumeric else big_int s)"

definition nextControlSequence :: "string \<Rightarrow> string \<Rightarrow> (gateway_error, string) sql" where
  "nextControlSequence tenantId a = inTenantTransaction tenantId (\<lambda>tenant db.
     case visible_agent tenant db a of
       None \<Rightarrow> raise AgentUnavailable db
     | Some r \<Rightarrow>
         if \<not> eligible r then raise AgentUnavailable db
         else seqM (control_sequence (ag_lastControlSequence r)) (\<lambda>n.
              seqM (statement (\<lambda>db. db\<lparr>db_agents := map (\<lambda>r. if ag_id r = a
                then r\<lparr>ag_lastControlSequence := decimal (n + 1)\<rparr> else r) (db_agents db)\<rparr>))
              (\<lambda>_. returnM (decimal (n + 1)))) db)"

end
