(* ===== verification/Agent_Messages.thy ===== *)
theory Agent_Messages
  imports Agent_Jobs Execution_Policy
begin

text \<open>
  The signed messages between agents and the control plane: their schema and signing bytes
  (\<^verbatim>\<open>packages/contracts/src/agent-message.ts\<close>), the authenticator and the signer
  (\<^verbatim>\<open>apps/api/src/modules/agent-gateway/message-signer.ts\<close>). A payload is absent or a JSON value.
\<close>

subsection \<open>The message contract\<close>

datatype direction = ControlToAgent | AgentToControl

fun direction_value :: "direction \<Rightarrow> string" where
  "direction_value ControlToAgent = ''control_to_agent''"
| "direction_value AgentToControl = ''agent_to_control''"

record unsigned_agent_message =
  um_protocolVersion :: string
  um_messageType :: string
  um_messageId :: string
  um_keyId :: string
  um_environmentId :: string
  um_agentId :: string
  um_direction :: direction
  um_sequence :: string
  um_sentAt :: string
  um_payload :: "json option"

record agent_message = unsigned_agent_message +
  am_signature :: string

definition MAX_U64 :: nat where "MAX_U64 = 18446744073709551615"

definition sequence_pattern :: "string \<Rightarrow> bool" where
  "sequence_pattern s = class_match ''123456789'' digits 19 s"

definition agent_sequence :: "string \<Rightarrow> bool" where
  "agent_sequence s \<longleftrightarrow> sequence_pattern s \<and>
     (case number_from 0 s of None \<Rightarrow> False | Some n \<Rightarrow> n \<le> MAX_U64)"

definition zcheck :: "(string \<Rightarrow> bool) \<Rightarrow> string schema" where
  "zcheck P j = Option.bind (zstr j) (\<lambda>s. if P s then Some s else None)"

definition message_keys :: "string list" where
  "message_keys = [''type'', ''protocolVersion'', ''messageType'', ''messageId'', ''keyId'',
     ''environmentId'', ''agentId'', ''direction'', ''sequence'', ''sentAt'', ''payload'']"

text \<open>The members in the order of the schema; the first that does not fit decides.\<close>

definition parse_members :: "(string \<times> json) list \<Rightarrow> unsigned_agent_message option" where
  "parse_members ms =
     Option.bind (zfield ms ''type'' (zcheck (\<lambda>s. s = ''forgetops.agent-message''))) (\<lambda>_.
     Option.bind (zfield ms ''protocolVersion'' (zcheck (\<lambda>s. s = ''1.0''))) (\<lambda>version.
     Option.bind (zfield ms ''messageType'' (zcheck (\<lambda>s. s \<noteq> []))) (\<lambda>ty.
     Option.bind (zfield ms ''messageId'' (zcheck (\<lambda>s. s \<noteq> []))) (\<lambda>mid.
     Option.bind (zfield ms ''keyId'' (zcheck (\<lambda>s. s \<noteq> []))) (\<lambda>key.
     Option.bind (zfield ms ''environmentId'' (zcheck (\<lambda>s. s \<noteq> []))) (\<lambda>env.
     Option.bind (zfield ms ''agentId'' (zcheck (\<lambda>s. s \<noteq> []))) (\<lambda>agent.
     Option.bind (zfield ms ''direction'' (zenum
       [(''control_to_agent'', ControlToAgent), (''agent_to_control'', AgentToControl)])) (\<lambda>dir.
     Option.bind (zfield ms ''sequence'' (zcheck agent_sequence)) (\<lambda>sequence.
     Option.bind (zfield ms ''sentAt'' (zcheck datetime_text)) (\<lambda>sent.
     Some \<lparr>um_protocolVersion = version, um_messageType = ty, um_messageId = mid, um_keyId = key,
       um_environmentId = env, um_agentId = agent, um_direction = dir, um_sequence = sequence,
       um_sentAt = sent, um_payload = map_of ms ''payload''\<rparr>))))))))))"

definition UnsignedAgentMessageSchema :: "unsigned_agent_message schema" where
  "UnsignedAgentMessageSchema j = Option.bind (zobject message_keys j) parse_members"

definition signature_text :: "string \<Rightarrow> bool" where
  "signature_text s \<longleftrightarrow> length s = 86 \<and> list_all (\<lambda>c. c \<in> set b64_alphabet) s"

definition AgentMessageSchema :: "agent_message schema" where
  "AgentMessageSchema j =
     Option.bind (zobject (message_keys @ [''signature'']) j) (\<lambda>ms.
     Option.bind (parse_members ms) (\<lambda>m.
     map_option (\<lambda>s. unsigned_agent_message.extend m \<lparr>am_signature = s\<rparr>)
       (zfield ms ''signature'' (zcheck signature_text))))"

definition unsigned_part :: "'a unsigned_agent_message_scheme \<Rightarrow> unsigned_agent_message" where
  "unsigned_part m = unsigned_agent_message.truncate m"

definition message_json :: "'a unsigned_agent_message_scheme \<Rightarrow> json" where
  "message_json m = JObj
     ([(''type'', JStr ''forgetops.agent-message''), (''protocolVersion'', JStr (um_protocolVersion m)),
       (''messageType'', JStr (um_messageType m)), (''messageId'', JStr (um_messageId m)),
       (''keyId'', JStr (um_keyId m)), (''environmentId'', JStr (um_environmentId m)),
       (''agentId'', JStr (um_agentId m)), (''direction'', JStr (direction_value (um_direction m))),
       (''sequence'', JStr (um_sequence m)), (''sentAt'', JStr (um_sentAt m))] @
      (case um_payload m of None \<Rightarrow> [] | Some p \<Rightarrow> [(''payload'', p)]))"

type_synonym canonicalizer = "json \<Rightarrow> string option"

text \<open>\<open>None\<close>: the schema or the canonicaliser refuses the message and the function throws.\<close>

definition canonicalUnsignedBytes ::
  "canonicalizer \<Rightarrow> 'a unsigned_agent_message_scheme \<Rightarrow> bytes option" where
  "canonicalUnsignedBytes canonicalize m =
     Option.bind (UnsignedAgentMessageSchema (message_json m)) (\<lambda>parsed.
       map_option utf8 (canonicalize (message_json parsed)))"

definition MESSAGE_CONTEXT :: string where
  "MESSAGE_CONTEXT = ''forgetops.agent-message.v1''"

definition agentMessageSigningBytes ::
  "canonicalizer \<Rightarrow> 'a unsigned_agent_message_scheme \<Rightarrow> bytes option" where
  "agentMessageSigningBytes canonicalize m =
     map_option (\<lambda>bs. utf8 MESSAGE_CONTEXT @ [0] @ bs) (canonicalUnsignedBytes canonicalize m)"

subsection \<open>The signer\<close>

record message_signer =
  ms_sign :: "bytes \<Rightarrow> bytes"
  ms_keyId :: string

text \<open>\<open>ed_sign seed\<close> is signing with the key built from the seed; \<open>None\<close> is a \<open>TypeError\<close>.\<close>

definition fromSeed :: "(bytes \<Rightarrow> bytes \<Rightarrow> bytes) \<Rightarrow> bytes \<Rightarrow> string \<Rightarrow> message_signer option" where
  "fromSeed ed_sign seed keyId =
     (if length seed \<noteq> 32 then None else if keyId = [] then None
      else Some \<lparr>ms_sign = ed_sign seed, ms_keyId = keyId\<rparr>)"

definition sign_message ::
  "message_signer \<Rightarrow> canonicalizer \<Rightarrow> unsigned_agent_message \<Rightarrow> (gateway_error, agent_message) sql" where
  "sign_message sg canonicalize m =
     (if um_keyId m \<noteq> ms_keyId sg then raise MessageKeyMismatch
      else (case agentMessageSigningBytes canonicalize m of
              None \<Rightarrow> raise MessageNotCanonical
            | Some bs \<Rightarrow> returnM (unsigned_agent_message.extend m
                \<lparr>am_signature = b64_encode (ms_sign sg bs)\<rparr>)))"

definition verifyAgentMessage ::
  "ed25519 \<Rightarrow> canonicalizer \<Rightarrow> agent_message \<Rightarrow> string \<Rightarrow> bool" where
  "verifyAgentMessage ed canonicalize m publicKey =
     (case (decodeCanonicalBase64Url publicKey, decodeCanonicalBase64Url (am_signature m)) of
        (Some k, Some s) \<Rightarrow>
          if length k \<noteq> 32 \<or> length s \<noteq> 64 then False
          else (case agentMessageSigningBytes canonicalize m of
                  None \<Rightarrow> False | Some bs \<Rightarrow> ed k s bs = Some True)
      | _ \<Rightarrow> False)"

subsection \<open>The authenticator\<close>

definition MESSAGE_FRESHNESS_MS :: int where "MESSAGE_FRESHNESS_MS = 5 * 60 * 1000"

definition parseSequence :: "string \<Rightarrow> (gateway_error, nat) sql" where
  "parseSequence s =
     (if \<not> sequence_pattern s then raise (AgentGatewayAuthError AuthReplayDetected)
      else seqM (big_int s) (\<lambda>n.
             if MAX_U64 < n then raise (AgentGatewayAuthError AuthReplayDetected) else returnM n))"

record authenticator =
  at_sha :: "bytes \<Rightarrow> bytes"
  at_ed25519 :: ed25519
  at_canonicalize :: canonicalizer

definition fresh :: "int \<Rightarrow> string \<Rightarrow> bool" where
  "fresh now sentAt \<longleftrightarrow> (case date_parse sentAt of None \<Rightarrow> False
     | Some t \<Rightarrow> \<bar>now - t\<bar> \<le> MESSAGE_FRESHNESS_MS)"

definition signature_accepted ::
  "authenticator \<Rightarrow> agent_message \<Rightarrow> gateway_agent_identity option \<Rightarrow> bool" where
  "signature_accepted au m identity \<longleftrightarrow>
     (case identity of None \<Rightarrow> False
      | Some agent \<Rightarrow> um_keyId m = gi_signingKeyId agent \<and> um_direction m = AgentToControl \<and>
          verifyAgentMessage (at_ed25519 au) (at_canonicalize au) m (gi_publicSigningKey agent))"

definition claim_result ::
  "gateway_agent_identity \<Rightarrow> agent_message_claim_result \<Rightarrow> (gateway_error, gateway_agent_identity) sql" where
  "claim_result agent r =
     (case r of
        Accepted \<Rightarrow> returnM agent
      | EnvironmentMismatch \<Rightarrow> raise (AgentGatewayAuthError AuthEnvironmentMismatch)
      | Revoked \<Rightarrow> raise (AgentGatewayAuthError AuthAgentRevoked)
      | ReplayedMessage \<Rightarrow> raise (AgentGatewayAuthError AuthReplayDetected)
      | NotFound \<Rightarrow> raise (AgentGatewayAuthError AuthSignatureInvalid))"

definition message_claim ::
  "gateway_agent_identity \<Rightarrow> agent_message \<Rightarrow> nat \<Rightarrow> int \<Rightarrow> claim_agent_message_input" where
  "message_claim agent m sequence now =
     \<lparr>cm_tenantId = gi_tenantId agent, cm_agentId = um_agentId m,
      cm_environmentId = um_environmentId m, cm_messageId = um_messageId m,
      cm_sequence = decimal sequence, cm_receivedAt = toISOString now\<rparr>"

text \<open>The checks once the agent is looked up.\<close>

definition accept_message ::
  "authenticator \<Rightarrow> int \<Rightarrow> agent_message \<Rightarrow> nat \<Rightarrow> gateway_agent_identity option \<Rightarrow>
   (gateway_error, gateway_agent_identity) sql" where
  "accept_message au now m sequence identity =
     (if \<not> signature_accepted au m identity
      then raise (AgentGatewayAuthError AuthSignatureInvalid)
      else let agent = the identity in
        if gi_protocolVersion agent \<noteq> um_protocolVersion m
        then raise (AgentGatewayAuthError ProtocolVersionUnsupported)
        else if gi_environmentId agent \<noteq> um_environmentId m
        then raise (AgentGatewayAuthError AuthEnvironmentMismatch)
        else if gi_status agent = ''revoked''
        then raise (AgentGatewayAuthError AuthAgentRevoked)
        else seqM (claimAgentMessage (message_claim agent m sequence now)) (claim_result agent))"

definition authenticate ::
  "authenticator \<Rightarrow> int \<Rightarrow> agent_message \<Rightarrow> (gateway_error, gateway_agent_identity) sql" where
  "authenticate au now m =
     (if um_protocolVersion m \<noteq> ''1.0''
      then raise (AgentGatewayAuthError ProtocolVersionUnsupported)
      else if \<not> fresh now (um_sentAt m) then raise (AgentGatewayAuthError AuthSignatureInvalid)
      else seqM (parseSequence (um_sequence m)) (\<lambda>sequence.
           seqM (findAgentIdentity (at_sha au) (um_agentId m)) (accept_message au now m sequence)))"

subsection \<open>Lemmas\<close>

definition message_ok :: "'a unsigned_agent_message_scheme \<Rightarrow> bool" where
  "message_ok m \<longleftrightarrow> um_protocolVersion m = ''1.0'' \<and> um_messageType m \<noteq> [] \<and> um_messageId m \<noteq> [] \<and>
     um_keyId m \<noteq> [] \<and> um_environmentId m \<noteq> [] \<and> um_agentId m \<noteq> [] \<and>
     agent_sequence (um_sequence m) \<and> datetime_text (um_sentAt m)"

lemma zcheck_JStr [simp]: "zcheck P (JStr s) = (if P s then Some s else None)"
  by (simp add: zcheck_def)

lemma schema_message_json:
  "UnsignedAgentMessageSchema (message_json m) = (if message_ok m then Some (unsigned_part m) else None)"
proof -
  have obj: "zobject message_keys (message_json m) =
      Some (case message_json m of JObj ms \<Rightarrow> ms | _ \<Rightarrow> [])"
    by (cases "um_payload m") (simp_all add: message_json_def message_keys_def)
  show ?thesis
    by (cases "um_direction m"; cases "um_payload m")
      (simp_all add: UnsignedAgentMessageSchema_def obj,
       simp_all add: parse_members_def zfield_def zenum_def message_json_def message_ok_def
         unsigned_part_def unsigned_agent_message.truncate_def)
qed

end
