(* ===== verification/Agent_Jobs_Properties.thy ===== *)
theory Agent_Jobs_Properties
  imports Agent_Jobs
begin

text \<open>
  What the gateway's store guarantees: an unexpired lease excludes everybody else, what a poll
  offers can be leased, the message numbers accepted from an agent strictly increase over any
  interleaving of calls, and one transport session per agent is active. The last but one rests on
  the interface \<open>sequence_store\<close>, interpreted on the store's own operations.
\<close>

subsection \<open>Keys of the tables\<close>

lemma agent_key:
  "constraints db \<Longrightarrow> r \<in> set (db_agents db) \<Longrightarrow> s \<in> set (db_agents db) \<Longrightarrow> ag_id r = ag_id s \<Longrightarrow> r = s"
  by (auto simp: constraints_def agents_ok_def distinct_map dest: inj_onD)

lemma job_key:
  "constraints db \<Longrightarrow> r \<in> set (db_agentJobs db) \<Longrightarrow> s \<in> set (db_agentJobs db) \<Longrightarrow> aj_id r = aj_id s \<Longrightarrow> r = s"
  by (auto simp: constraints_def agent_jobs_ok_def distinct_map dest: inj_onD)

lemma session_key:
  "constraints db \<Longrightarrow> r \<in> set (db_agentTransportSessions db) \<Longrightarrow>
   s \<in> set (db_agentTransportSessions db) \<Longrightarrow> ts_agentId r = ts_agentId s \<Longrightarrow> r = s"
  by (auto simp: constraints_def agent_transport_sessions_ok_def distinct_map dest: inj_onD)

lemma visible_agent_Some:
  "visible_agent tenant db a = Some r \<Longrightarrow> r \<in> set (db_agents db) \<and> ag_id r = a \<and>
     environment_tenant db (ag_environmentId r) = Some tenant"
  using find_Some_mem unfolding visible_agent_def by fastforce

lemma visible_agent_find:
  assumes "constraints db" and "visible_agent tenant db a = Some r"
  shows "find (\<lambda>r. ag_id r = a) (db_agents db) = Some r"
proof (rule find_unique)
  note r = visible_agent_Some [OF assms(2)]
  from r show "r \<in> set (db_agents db)" "ag_id r = a" by auto
  fix y
  assume "y \<in> set (db_agents db)" "ag_id y = a"
  with r show "y = r" by (intro agent_key [OF assms(1)]) auto
qed

lemma agent_may_work_job [simp]:
  "agent_may_work tenant (db\<lparr>db_agentJobs := js\<rparr>) a e = agent_may_work tenant db a e"
  by (simp add: agent_may_work_def visible_agent_def environment_tenant_def)

lemma exists_frame [simp]:
  "tenant_exists (db\<lparr>db_agentJobs := js\<rparr>) = tenant_exists db"
  "request_exists (db\<lparr>db_agentJobs := js\<rparr>) = request_exists db"
  "environment_exists (db\<lparr>db_agentJobs := js\<rparr>) = environment_exists db"
  "agent_exists (db\<lparr>db_agentJobs := js\<rparr>) = agent_exists db"
  by (simp_all add: fun_eq_iff tenant_exists_def request_exists_def environment_exists_def agent_exists_def)

lemma jobs_frame [simp]:
  "tenants_ok (db\<lparr>db_agentJobs := js\<rparr>) = tenants_ok db"
  "projects_ok (db\<lparr>db_agentJobs := js\<rparr>) = projects_ok db"
  "environments_ok (db\<lparr>db_agentJobs := js\<rparr>) = environments_ok db"
  "agent_pairing_tokens_ok (db\<lparr>db_agentJobs := js\<rparr>) = agent_pairing_tokens_ok db"
  "agents_ok (db\<lparr>db_agentJobs := js\<rparr>) = agents_ok db"
  "agent_message_receipts_ok (db\<lparr>db_agentJobs := js\<rparr>) = agent_message_receipts_ok db"
  "agent_transport_sessions_ok (db\<lparr>db_agentJobs := js\<rparr>) = agent_transport_sessions_ok db"
  "privacy_requests_ok (db\<lparr>db_agentJobs := js\<rparr>) = privacy_requests_ok db"
  "execution_attempts_ok (db\<lparr>db_agentJobs := js\<rparr>) = execution_attempts_ok db"
  "subject_envelopes_ok (db\<lparr>db_agentJobs := js\<rparr>) = subject_envelopes_ok db"
  "subject_identity_aliases_ok (db\<lparr>db_agentJobs := js\<rparr>) = subject_identity_aliases_ok db"
  "idempotency_records_ok (db\<lparr>db_agentJobs := js\<rparr>) = idempotency_records_ok db"
  "audit_chain_heads_ok (db\<lparr>db_agentJobs := js\<rparr>) = audit_chain_heads_ok db"
  "audit_events_ok (db\<lparr>db_agentJobs := js\<rparr>) = audit_events_ok db"
  "outbox_events_ok (db\<lparr>db_agentJobs := js\<rparr>) = outbox_events_ok db"
  unfolding constraint_defs by (simp_all cong: option.case_cong)

subsection \<open>The lease of a job\<close>

lemma lease_outcome:
  assumes "lease i db = (Inr (Some j), db')"
  obtains r now t where "date_parse (lk_now i) = Some now"
    "agent_may_work (lk_tenantId i) db (lk_agentId i) (lk_environmentId i)"
    "r \<in> set (db_agentJobs db)" "aj_id r = lk_jobId i" "aj_tenantId r = lk_tenantId i"
    "aj_environmentId r = lk_environmentId i" "open_at now r"
    "(aj_leasedByAgentId r = Some (lk_agentId i) \<and> leased_at now r \<and> db' = db \<and> j = normalizeJob r) \<or>
     (\<not> leased_at now r \<and> date_parse (toISOString (now + JOB_LEASE_MS)) = Some t \<and>
      update_job (lk_tenantId i) i (take_lease (lk_agentId i) t) db = (Inr (), db') \<and>
      j = normalizeJob (take_lease (lk_agentId i) t r))"
proof -
  from assms obtain r where work: "agent_may_work (lk_tenantId i) db (lk_agentId i) (lk_environmentId i)"
    and find: "find (\<lambda>r. this_job (lk_tenantId i) i r \<and> aj_environmentId r = lk_environmentId i)
      (db_agentJobs db) = Some r"
    and can: "canLease r (lk_now i)"
    by (auto simp: lease_def inTenantTransaction_def split: if_splits option.splits)
  from can obtain now where now: "date_parse (lk_now i) = Some now" "open_at now r"
    by (auto simp: canLease_def split: option.splits)
  from find have r: "r \<in> set (db_agentJobs db)" "this_job (lk_tenantId i) i r"
    "aj_environmentId r = lk_environmentId i" using find_Some_mem by fastforce+
  from assms work find can now
  have act: "(if aj_leasedByAgentId r = Some (lk_agentId i) \<and> leased_at now r
        then returnM (Some (normalizeJob r)) db
        else if leased_at now r then returnM None db
        else seqM (as_timestamp (toISOString (now + JOB_LEASE_MS))) (\<lambda>t.
             seqM (update_job (lk_tenantId i) i (take_lease (lk_agentId i) t))
               (\<lambda>_. returnM (Some (normalizeJob (take_lease (lk_agentId i) t r))))) db)
      = (Inr (Some j), db')"
    by (simp add: lease_def inTenantTransaction_def)
  show ?thesis
  proof (cases "aj_leasedByAgentId r = Some (lk_agentId i) \<and> leased_at now r")
    case True
    with act that [OF now(1) work r(1) _ _ r(3) now(2)] r(2) show ?thesis by (simp add: this_job_def)
  next
    case False
    with act have "\<not> leased_at now r" by (auto split: if_splits)
    with False act that [OF now(1) work r(1) _ _ r(3) now(2)] r(2) show ?thesis
      by (auto simp: this_job_def)
  qed
qed

lemma heartbeat_outcome:
  assumes "heartbeat i db = (Inr (Some j), db')"
  obtains r now t where "date_parse (lk_now i) = Some now" "r \<in> set (db_agentJobs db)"
    "aj_id r = lk_jobId i" "aj_tenantId r = lk_tenantId i" "aj_leasedByAgentId r = Some (lk_agentId i)"
    "leased_at now r" "now < aj_expiresAt r" "aj_completedAt r = None"
    "date_parse (toISOString (now + JOB_LEASE_MS)) = Some t"
    "update_job (lk_tenantId i) i (\<lambda>r. r\<lparr>aj_leaseExpiresAt := Some t\<rparr>) db = (Inr (), db')"
    "j = normalizeJob (r\<lparr>aj_leaseExpiresAt := Some t\<rparr>)"
proof -
  from assms obtain now where now: "date_parse (lk_now i) = Some now"
    by (auto simp: heartbeat_def split: option.splits)
  with assms obtain t r where t: "date_parse (toISOString (now + JOB_LEASE_MS)) = Some t"
    and find: "find (\<lambda>r. this_job (lk_tenantId i) i r \<and> aj_environmentId r = lk_environmentId i \<and>
              aj_leasedByAgentId r = Some (lk_agentId i) \<and> leased_at now r \<and>
              now < aj_expiresAt r \<and> aj_completedAt r = None \<and>
              agent_may_work (lk_tenantId i) db (lk_agentId i) (aj_environmentId r)) (db_agentJobs db) = Some r"
    and upd: "update_job (lk_tenantId i) i (\<lambda>r. r\<lparr>aj_leaseExpiresAt := Some t\<rparr>) db = (Inr (), db')"
      "j = normalizeJob (r\<lparr>aj_leaseExpiresAt := Some t\<rparr>)"
    by (auto simp: heartbeat_def inTenantTransaction_def split: option.splits)
  from find_Some_mem [OF find] that [OF now _ _ _ _ _ _ _ t upd] show ?thesis
    by (auto simp: this_job_def)
qed

lemma failed_unchanged:
  "lease i db = (Inl e, db') \<Longrightarrow> db' = db" "heartbeat i db = (Inl e, db') \<Longrightarrow> db' = db"
  "lease i db = (Inr None, db') \<Longrightarrow> db' = db" "heartbeat i db = (Inr None, db') \<Longrightarrow> db' = db"
  by (auto simp: lease_def heartbeat_def inTenantTransaction_def
      split: if_splits option.splits)

lemma poll_Some:
  assumes "poll i db = (Inr (Some j), db')"
  obtains r now where "db' = db" "date_parse (lk_now i) = Some now" "r \<in> set (db_agentJobs db)"
    "j = normalizeJob r" "aj_tenantId r = lk_tenantId i" "aj_environmentId r = lk_environmentId i"
    "open_at now r" "\<not> leased_at now r"
    "agent_may_work (lk_tenantId i) db (lk_agentId i) (lk_environmentId i)"
proof -
  from assms obtain now where now: "date_parse (lk_now i) = Some now" "db' = db"
    and job: "(case available_jobs (lk_tenantId i) i now db of [] \<Rightarrow> None | r # _ \<Rightarrow> Some (normalizeJob r)) = Some j"
    by (auto simp: poll_def inTenantTransaction_def)
  from job obtain r rs where sort: "available_jobs (lk_tenantId i) i now db = r # rs" "j = normalizeJob r"
    by (auto split: list.splits)
  have "r \<in> set (available_jobs (lk_tenantId i) i now db)" unfolding sort(1) by simp
  with that [OF now(2,1) _ sort(2)] show ?thesis by (auto simp: available_jobs_def)
qed

text \<open>Taking a lease violates no constraint.\<close>

lemma update_job_possible:
  assumes ok: "constraints db"
    and same: "\<And>r. r \<in> set (db_agentJobs db) \<Longrightarrow> this_job tenant i r \<Longrightarrow>
      aj_id (f r) = aj_id r \<and> aj_tenantId (f r) = aj_tenantId r \<and> aj_requestId (f r) = aj_requestId r \<and>
      aj_environmentId (f r) = aj_environmentId r \<and> aj_kind (f r) = aj_kind r \<and>
      aj_planVersion (f r) = aj_planVersion r \<and> aj_attempt r \<le> aj_attempt (f r) \<and>
      (case aj_leasedByAgentId (f r) of None \<Rightarrow> True | Some a \<Rightarrow> agent_exists db a)"
  shows "update_job tenant i f db =
    (Inr (), db\<lparr>db_agentJobs := map (\<lambda>r. if this_job tenant i r then f r else r) (db_agentJobs db)\<rparr>)"
proof -
  let ?g = "\<lambda>r. if this_job tenant i r then f r else r"
  let ?db = "db\<lparr>db_agentJobs := map ?g (db_agentJobs db)\<rparr>"
  from ok have jobs: "agent_jobs_ok db" by (simp add: constraints_def)
  have ids: "map aj_id (map ?g (db_agentJobs db)) = map aj_id (db_agentJobs db)"
    using same by (simp cong: map_cong)
  have "agent_jobs_ok ?db"
    unfolding agent_jobs_ok_def
  proof
    show "distinct (map aj_id (db_agentJobs ?db))"
      using jobs ids by (simp add: agent_jobs_ok_def del: map_map)
    show "list_all (\<lambda>r. tenant_exists ?db (aj_tenantId r) \<and> request_exists ?db (aj_requestId r) \<and>
       environment_exists ?db (aj_environmentId r) \<and>
       (case aj_leasedByAgentId r of None \<Rightarrow> True | Some a \<Rightarrow> agent_exists ?db a) \<and>
       aj_kind r \<in> {''bind_subject'', ''plan'', ''execute'', ''lease_execution'', ''wrap_export_key'',
         ''cancel'', ''health_check''} \<and>
       positive_or_null (aj_planVersion r) \<and> 0 \<le> aj_attempt r) (db_agentJobs ?db)"
      unfolding list_all_iff
    proof
      fix x
      assume "x \<in> set (db_agentJobs ?db)"
      then obtain r where r: "r \<in> set (db_agentJobs db)" "x = ?g r" by auto
      with jobs have old: "tenant_exists db (aj_tenantId r)" "request_exists db (aj_requestId r)"
        "environment_exists db (aj_environmentId r)"
        "case aj_leasedByAgentId r of None \<Rightarrow> True | Some a \<Rightarrow> agent_exists db a"
        "aj_kind r \<in> {''bind_subject'', ''plan'', ''execute'', ''lease_execution'',
           ''wrap_export_key'', ''cancel'', ''health_check''}"
        "positive_or_null (aj_planVersion r)" "0 \<le> aj_attempt r"
        by (simp_all only: agent_jobs_ok_def list_all_iff)
      show "tenant_exists ?db (aj_tenantId x) \<and> request_exists ?db (aj_requestId x) \<and>
        environment_exists ?db (aj_environmentId x) \<and>
        (case aj_leasedByAgentId x of None \<Rightarrow> True | Some a \<Rightarrow> agent_exists ?db a) \<and>
        aj_kind x \<in> {''bind_subject'', ''plan'', ''execute'', ''lease_execution'', ''wrap_export_key'',
          ''cancel'', ''health_check''} \<and> positive_or_null (aj_planVersion x) \<and> 0 \<le> aj_attempt x"
      proof (cases "this_job tenant i r")
        case True
        with old same [OF r(1) True] show ?thesis by (simp only: r(2) if_True exists_frame) auto
      next
        case False
        with old show ?thesis by (simp only: r(2) if_False exists_frame)
      qed
    qed
  qed
  with ok have "constraints ?db" by (simp add: constraints_def)
  then show ?thesis by (simp add: update_job_def)
qed

subsection \<open>Transport sessions\<close>

lemma claimTransport_active:
  assumes run: "claimTransport i db = (Inr p, db')"
    and agent: "visible_agent (ti_tenantId i) db (ti_agentId i) = Some ag"
      "ag_environmentId ag = ti_environmentId i" "ag_status ag \<noteq> ''revoked''"
  shows "constraints db' \<and> (\<exists>r \<in> set (db_agentTransportSessions db'). this_session (ti_tenantId i) i r)"
proof -
  from run agent obtain at where up: "upsert_session (ti_tenantId i) (session_row i at) db = (Inr (), db')"
    by (auto simp: claimTransport_def inTenantTransaction_def Let_def split: option.splits if_splits)
  show ?thesis
  proof (cases "find (\<lambda>r. ts_agentId r = ti_agentId i) (db_agentTransportSessions db)")
    case None
    with up show ?thesis by (auto simp: upsert_session_def session_row_def this_session_def)
  next
    case (Some old)
    with up have db': "constraints db'" "db_agentTransportSessions db' =
        map (\<lambda>r. if ts_agentId r = ti_agentId i then (session_row i at)\<lparr>ts_startedAt := ts_startedAt r\<rparr> else r)
          (db_agentTransportSessions db)"
      by (auto simp: upsert_session_def session_row_def split: if_splits)
    have "old \<in> set (db_agentTransportSessions db)" "ts_agentId old = ti_agentId i"
      using find_Some_mem [OF Some] by auto
    then have "(session_row i at)\<lparr>ts_startedAt := ts_startedAt old\<rparr> \<in> set (db_agentTransportSessions db')"
      unfolding db' by force
    with db'(1) show ?thesis by (intro conjI bexI) (simp_all add: this_session_def session_row_def)
  qed
qed

subsection \<open>Message sequences\<close>

text \<open>
  What a store of messages promises its client: a message is accepted only when its number is past
  the last one of its agent, which it becomes; nothing else moves the last number of any agent.
\<close>

locale sequence_store =
  fixes step :: "'c \<Rightarrow> 's \<Rightarrow> 's"
    and accepts :: "'c \<Rightarrow> 's \<Rightarrow> ('a \<times> nat) option"
    and last_number :: "'s \<Rightarrow> 'a \<Rightarrow> nat option"
    and valid :: "'s \<Rightarrow> bool"
  assumes valid_step: "valid s \<Longrightarrow> valid (step c s)"
    and accepted: "valid s \<Longrightarrow> accepts c s = Some (a, n) \<Longrightarrow>
      (\<exists>m. last_number s a = Some m \<and> m < n) \<and> last_number (step c s) a = Some n"
    and others: "valid s \<Longrightarrow> (\<forall>n. accepts c s \<noteq> Some (a, n)) \<Longrightarrow>
      last_number (step c s) a = last_number s a"
begin

fun accepted_numbers :: "'a \<Rightarrow> 'c list \<Rightarrow> 's \<Rightarrow> nat list" where
  "accepted_numbers a [] s = []"
| "accepted_numbers a (c # cs) s =
     (case accepts c s of
        Some (b, n) \<Rightarrow> (if b = a then [n] else [])
      | None \<Rightarrow> []) @ accepted_numbers a cs (step c s)"

lemma numbers_above:
  "valid s \<Longrightarrow> last_number s a = Some m \<Longrightarrow>
     sorted_wrt (<) (accepted_numbers a cs s) \<and> (\<forall>n \<in> set (accepted_numbers a cs s). m < n)"
proof (induction cs arbitrary: s m)
  case (Cons c cs)
  show ?case
  proof (cases "\<exists>n. accepts c s = Some (a, n)")
    case True
    then obtain n where n: "accepts c s = Some (a, n)" by blast
    with accepted [OF Cons.prems(1) n] Cons.prems(2) have "m < n" "last_number (step c s) a = Some n" by auto
    with Cons.IH [OF valid_step [OF Cons.prems(1)]] n show ?thesis by fastforce
  next
    case False
    with others [OF Cons.prems(1), of c a] Cons.prems(2) have "last_number (step c s) a = Some m" by auto
    with Cons.IH [OF valid_step [OF Cons.prems(1)]] False show ?thesis
      by (auto split: option.splits)
  qed
qed simp

lemma numbers_absent:
  "valid s \<Longrightarrow> last_number s a = None \<Longrightarrow> accepted_numbers a cs s = []"
proof (induction cs arbitrary: s)
  case (Cons c cs)
  have "\<not> (\<exists>n. accepts c s = Some (a, n))" using accepted [OF Cons.prems(1)] Cons.prems(2) by fastforce
  with others [OF Cons.prems(1), of c a] Cons.prems(2) Cons.IH [OF valid_step [OF Cons.prems(1)], of c] show ?case
    by (auto split: option.splits)
qed simp

theorem numbers_increase: "valid s \<Longrightarrow> sorted_wrt (<) (accepted_numbers a cs s)"
  using numbers_above numbers_absent by (cases "last_number s a") auto

end

text \<open>The operations of the store as calls, in any interleaving of the connections they serve.\<close>

datatype gateway_call =
    ClaimMessage claim_agent_message_input
  | ClaimTransport agent_transport_input
  | ReleaseTransport agent_transport_input
  | EnqueueJob int enqueue_agent_job_input
  | LeaseJob agent_job_mutation
  | HeartbeatJob agent_job_mutation
  | NextControl string string

fun gateway_step :: "gateway_call \<Rightarrow> database \<Rightarrow> database" where
  "gateway_step (ClaimMessage i) db = snd (claimAgentMessage i db)"
| "gateway_step (ClaimTransport i) db = snd (claimTransport i db)"
| "gateway_step (ReleaseTransport i) db = snd (releaseTransport i db)"
| "gateway_step (EnqueueJob t i) db = snd (enqueue t i db)"
| "gateway_step (LeaseJob i) db = snd (lease i db)"
| "gateway_step (HeartbeatJob i) db = snd (heartbeat i db)"
| "gateway_step (NextControl t a) db = snd (nextControlSequence t a db)"

fun gateway_accepts :: "gateway_call \<Rightarrow> database \<Rightarrow> (string \<times> nat) option" where
  "gateway_accepts (ClaimMessage i) db =
     (if fst (claimAgentMessage i db) = Inr Accepted
      then map_option (\<lambda>n. (cm_agentId i, n)) (number_from 0 (cm_sequence i)) else None)"
| "gateway_accepts _ db = None"

definition last_sequence :: "database \<Rightarrow> string \<Rightarrow> nat option" where
  "last_sequence db a = Option.bind (find (\<lambda>r. ag_id r = a) (db_agents db)) (\<lambda>r. number_from 0 (ag_lastSequence r))"

lemma claimAgentMessage_outcome:
  assumes run: "claimAgentMessage i db = (Inr Accepted, db')" and ok: "constraints db"
  obtains agent n m at where "visible_agent (cm_tenantId i) db (cm_agentId i) = Some agent"
    "ag_environmentId agent = cm_environmentId i" "ag_status agent \<noteq> ''revoked''"
    "number_from 0 (cm_sequence i) = Some n" "number_from 0 (ag_lastSequence agent) = Some m" "m < n"
    "\<not> receipt_exists i db" "constraints db'"
    "db' = db\<lparr>db_agentMessageReceipts := db_agentMessageReceipts db @
       [\<lparr>mr_agentId = cm_agentId i, mr_messageId = cm_messageId i, mr_sequence = cm_sequence i,
         mr_receivedAt = at\<rparr>],
       db_agents := map (\<lambda>r. if ag_id r = cm_agentId i
         then r\<lparr>ag_lastSequence := cm_sequence i, ag_lastSeenAt := Some at\<rparr> else r) (db_agents db)\<rparr>"
proof -
  from run obtain agent where agent: "visible_agent (cm_tenantId i) db (cm_agentId i) = Some agent"
      "ag_environmentId agent = cm_environmentId i" "ag_status agent \<noteq> ''revoked''"
    by (auto simp: claimAgentMessage_def inTenantTransaction_def split: option.splits if_splits)
  with run obtain n m where nums: "number_from 0 (cm_sequence i) = Some n"
      "number_from 0 (ag_lastSequence agent) = Some m"
    by (auto simp: claimAgentMessage_def inTenantTransaction_def big_int_def split: option.splits)
  have mn: "m < n" and none: "\<not> receipt_exists i db"
    using run agent nums
    by (auto simp: claimAgentMessage_def inTenantTransaction_def big_int_def split: if_splits)
  from run agent nums mn none obtain at where "constraints db'"
    "db' = db\<lparr>db_agentMessageReceipts := db_agentMessageReceipts db @
       [\<lparr>mr_agentId = cm_agentId i, mr_messageId = cm_messageId i, mr_sequence = cm_sequence i,
         mr_receivedAt = at\<rparr>],
       db_agents := map (\<lambda>r. if ag_id r = cm_agentId i
         then r\<lparr>ag_lastSequence := cm_sequence i, ag_lastSeenAt := Some at\<rparr> else r) (db_agents db)\<rparr>"
    by (auto simp: claimAgentMessage_def inTenantTransaction_def big_int_def)
  then show ?thesis by (rule that [OF agent nums mn none])
qed

lemma claimAgentMessage_refused:
  "claimAgentMessage i db = (r, db') \<Longrightarrow> r \<noteq> Inr Accepted \<Longrightarrow> db' = db"
  by (cases r) (auto simp: claimAgentMessage_def inTenantTransaction_def big_int_def
      split: option.splits if_splits)

lemma other_calls:
  "claimTransport j db = (r1, db') \<Longrightarrow> constraints db \<Longrightarrow> constraints db' \<and> db_agents db' = db_agents db"
  "releaseTransport j db = (r2, db') \<Longrightarrow> constraints db \<Longrightarrow> constraints db' \<and> db_agents db' = db_agents db"
  "enqueue t e db = (r3, db') \<Longrightarrow> constraints db \<Longrightarrow> constraints db' \<and> db_agents db' = db_agents db"
  "lease l db = (r4, db') \<Longrightarrow> constraints db \<Longrightarrow> constraints db' \<and> db_agents db' = db_agents db"
  "heartbeat l db = (r4, db') \<Longrightarrow> constraints db \<Longrightarrow> constraints db' \<and> db_agents db' = db_agents db"
proof -
  show "claimTransport j db = (r1, db') \<Longrightarrow> constraints db \<Longrightarrow> constraints db' \<and> db_agents db' = db_agents db"
    by (cases r1) (auto simp: claimTransport_def inTenantTransaction_def upsert_session_def Let_def
        split: option.splits if_splits)
  show "releaseTransport j db = (r2, db') \<Longrightarrow> constraints db \<Longrightarrow> constraints db' \<and> db_agents db' = db_agents db"
    by (cases r2) (auto simp: releaseTransport_def inTenantTransaction_def)
  show "enqueue t e db = (r3, db') \<Longrightarrow> constraints db \<Longrightarrow> constraints db' \<and> db_agents db' = db_agents db"
    by (cases r3) (auto simp: enqueue_def inTenantTransaction_def split: if_splits)
  show "lease l db = (r4, db') \<Longrightarrow> constraints db \<Longrightarrow> constraints db' \<and> db_agents db' = db_agents db"
  proof (cases "\<exists>j. r4 = Inr (Some j)")
    case True
    assume run: "lease l db = (r4, db')" and ok: "constraints db"
    with True obtain j where "lease l db = (Inr (Some j), db')" by blast
    then show ?thesis by (rule lease_outcome) (use ok in \<open>auto simp: update_job_def\<close>)
  next
    case False
    assume run: "lease l db = (r4, db')" and ok: "constraints db"
    from False have "r4 = Inr None \<or> (\<exists>e. r4 = Inl e)" by (cases r4) auto
    with run failed_unchanged(1,3) have "db' = db" by blast
    with ok show ?thesis by simp
  qed
  show "heartbeat l db = (r4, db') \<Longrightarrow> constraints db \<Longrightarrow> constraints db' \<and> db_agents db' = db_agents db"
  proof (cases "\<exists>j. r4 = Inr (Some j)")
    case True
    assume run: "heartbeat l db = (r4, db')" and ok: "constraints db"
    with True obtain j where "heartbeat l db = (Inr (Some j), db')" by blast
    then show ?thesis by (rule heartbeat_outcome) (use ok in \<open>auto simp: update_job_def\<close>)
  next
    case False
    assume run: "heartbeat l db = (r4, db')" and ok: "constraints db"
    from False have "r4 = Inr None \<or> (\<exists>e. r4 = Inl e)" by (cases r4) auto
    with run failed_unchanged(2,4) have "db' = db" by blast
    with ok show ?thesis by simp
  qed
qed

lemma control_call:
  assumes "nextControlSequence t a db = (r, db')" and "constraints db"
  shows "constraints db' \<and> last_sequence db' b = last_sequence db b"
proof (cases "db' = db")
  case False
  with assms(1) obtain n where "constraints db'" and db': "db' = db\<lparr>db_agents := map (\<lambda>r. if ag_id r = a
                then r\<lparr>ag_lastControlSequence := decimal (n + 1)\<rparr> else r) (db_agents db)\<rparr>"
    by (cases r) (auto simp: nextControlSequence_def inTenantTransaction_def control_sequence_def
        big_int_def split: option.splits if_splits)
  moreover have "last_sequence db' b = last_sequence db b"
    by (simp add: db' last_sequence_def find_map_other)
      (cases "find (\<lambda>r. ag_id r = b) (db_agents db)"; simp)
  ultimately show ?thesis by simp
qed (use assms in simp)

interpretation gateway: sequence_store gateway_step gateway_accepts last_sequence constraints
proof
  fix db :: database and c :: gateway_call
  assume ok: "constraints db"
  show "constraints (gateway_step c db)"
  proof (cases c)
    case (ClaimMessage i)
    show ?thesis
    proof (cases "fst (claimAgentMessage i db) = Inr Accepted")
      case True
      then have "claimAgentMessage i db = (Inr Accepted, snd (claimAgentMessage i db))"
        by (simp add: prod_eq_iff)
      then show ?thesis using ok unfolding ClaimMessage gateway_step.simps
        by (rule claimAgentMessage_outcome)
    next
      case False
      with claimAgentMessage_refused [of i db] ok ClaimMessage show ?thesis
        by (cases "claimAgentMessage i db") simp
    qed
  qed (use ok other_calls [THEN conjunct1] control_call [THEN conjunct1] in
      \<open>simp, metis prod.collapse\<close>)+
next
  fix db :: database and c :: gateway_call and a n
  assume ok: "constraints db" and acc: "gateway_accepts c db = Some (a, n)"
  then obtain i where c: "c = ClaimMessage i" and i: "fst (claimAgentMessage i db) = Inr Accepted"
    "a = cm_agentId i" "number_from 0 (cm_sequence i) = Some n"
    by (cases c) (auto split: if_splits)
  then have run: "claimAgentMessage i db = (Inr Accepted, gateway_step c db)" by (simp add: prod_eq_iff)
  then obtain agent m at where agent: "visible_agent (cm_tenantId i) db a = Some agent"
    and m: "number_from 0 (ag_lastSequence agent) = Some m" "m < n"
    and db': "gateway_step c db = db\<lparr>db_agentMessageReceipts := db_agentMessageReceipts db @
       [\<lparr>mr_agentId = cm_agentId i, mr_messageId = cm_messageId i, mr_sequence = cm_sequence i,
         mr_receivedAt = at\<rparr>],
       db_agents := map (\<lambda>r. if ag_id r = cm_agentId i
         then r\<lparr>ag_lastSequence := cm_sequence i, ag_lastSeenAt := Some at\<rparr> else r) (db_agents db)\<rparr>"
    using ok i by (rule_tac claimAgentMessage_outcome) auto
  have find: "find (\<lambda>r. ag_id r = a) (db_agents db) = Some agent"
    by (rule visible_agent_find [OF ok agent])
  have "ag_id agent = a" using visible_agent_Some [OF agent] by simp
  then have "last_sequence (gateway_step c db) a = Some n"
    using find i by (simp add: last_sequence_def db' find_map_other)
  with find m show "(\<exists>m. last_sequence db a = Some m \<and> m < n) \<and> last_sequence (gateway_step c db) a = Some n"
    by (simp add: last_sequence_def)
next
  fix db :: database and c :: gateway_call and a
  assume ok: "constraints db" and none: "\<forall>n. gateway_accepts c db \<noteq> Some (a, n)"
  show "last_sequence (gateway_step c db) a = last_sequence db a"
  proof (cases c)
    case (ClaimMessage i)
    show ?thesis
    proof (cases "fst (claimAgentMessage i db) = Inr Accepted")
      case True
      then have run: "claimAgentMessage i db = (Inr Accepted, gateway_step c db)"
        by (simp add: ClaimMessage prod_eq_iff)
      then obtain n at where n: "number_from 0 (cm_sequence i) = Some n"
        and db': "gateway_step c db = db\<lparr>db_agentMessageReceipts := db_agentMessageReceipts db @
           [\<lparr>mr_agentId = cm_agentId i, mr_messageId = cm_messageId i, mr_sequence = cm_sequence i,
             mr_receivedAt = at\<rparr>],
           db_agents := map (\<lambda>r. if ag_id r = cm_agentId i
             then r\<lparr>ag_lastSequence := cm_sequence i, ag_lastSeenAt := Some at\<rparr> else r) (db_agents db)\<rparr>"
        using ok by (rule_tac claimAgentMessage_outcome) auto
      from none True n have "a \<noteq> cm_agentId i" by (simp add: ClaimMessage)
      then show ?thesis
        using find_Some_mem by (cases "find (\<lambda>r. ag_id r = a) (db_agents db)")
          (fastforce simp: last_sequence_def db' find_map_other)+
    next
      case False
      with claimAgentMessage_refused [of i db] ClaimMessage show ?thesis
        by (cases "claimAgentMessage i db") simp
    qed
  next
    case (NextControl t b)
    with control_call [of t b db _ _ a] ok show ?thesis by (cases "nextControlSequence t b db") simp
  qed (use ok other_calls in \<open>simp add: last_sequence_def, metis prod.collapse\<close>)+
qed

subsection \<open>A concrete environment\<close>

definition example_agent :: agent_row where
  "example_agent = \<lparr>ag_id = ''agt_1'', ag_environmentId = ''env_1'', ag_publicSigningKey = ''k'',
     ag_publicEncryptionKey = ''e'', ag_signingKeyId = Some ''sk_1'', ag_encryptionKeyId = Some ''ek_1'',
     ag_version = ''1.0.0'', ag_protocolVersion = ''1.0'', ag_instanceFingerprint = ''f'',
     ag_status = ''online'', ag_lastSeenAt = None, ag_lastSequence = ''0'',
     ag_lastControlSequence = ''0'', ag_createdAt = 0\<rparr>"

definition example_job :: agent_job_row where
  "example_job = \<lparr>aj_id = ''job_1'', aj_tenantId = ''ten_1'', aj_requestId = ''req_1'',
     aj_environmentId = ''env_1'', aj_kind = ''plan'', aj_planVersion = None,
     aj_payloadCiphertext = None, aj_payloadEncryptionKeyId = None, aj_authorization = None,
     aj_availableAt = 0, aj_expiresAt = 1000000, aj_leasedByAgentId = Some ''agt_1'',
     aj_leaseExpiresAt = Some 60000, aj_attempt = 1, aj_completedAt = None, aj_createdAt = 0\<rparr>"

definition example_request_row :: privacy_request_row where
  "example_request_row = \<lparr>rw_id = ''req_1'', rw_tenantId = ''ten_1'', rw_environmentId = ''env_1'',
     rw_type = ''delete'', rw_source = ''admin'', rw_subjectHash = None,
     rw_subjectHashKeyVersion = None, rw_subjectCanonicalizationVersion = None,
     rw_duplicateOverride = False, rw_duplicateOfRequestId = None, rw_currentAttemptId = None,
     rw_status = ''planning'', rw_policyVersion = 1, rw_deadlineAt = 1000000,
     rw_createdByActorId = ''usr_1'', rw_createdAt = 0, rw_completedAt = None, rw_version = 3\<rparr>"

definition example_gateway_db :: database where
  "example_gateway_db = example_db\<lparr>db_agents := [example_agent],
     db_privacyRequests := [example_request_row], db_agentJobs := [example_job]\<rparr>"

lemma example_gateway_ok: "constraints example_gateway_db"
  by (simp add: constraint_defs example_gateway_db_def example_db_def example_agent_def
      example_job_def example_request_row_def active_agent_def active_subject_def
      privacy_request_ok_def request_statuses_def positive_or_null_def)

lemma example_visible: "visible_agent ''ten_1'' example_gateway_db ''agt_1'' = Some example_agent"
  by (simp add: visible_agent_def environment_tenant_def example_gateway_db_def example_db_def
      example_agent_def)

subsection \<open>Properties\<close>

text \<open>C25. A leased job is out of reach of everybody else: as long as its lease has not expired, a
lease and a heartbeat by any other agent change nothing and get nothing, and no poll offers it,
whatever tenant or environment they name. Whoever does get a lease is an agent of the job's
tenant and environment that may work, on a job that is available, not expired and not
completed.\<close>

theorem lease_is_exclusive:
  assumes "constraints db" and "r \<in> set (db_agentJobs db)" and "aj_leasedByAgentId r = Some a"
    and "leased_at now r" and "lk_jobId i = aj_id r" and "lk_agentId i \<noteq> a"
    and "date_parse (lk_now i) = Some now" and "date_parse (lk_now p) = Some now"
  shows "(\<forall>j db'. lease i db \<noteq> (Inr (Some j), db')) \<and> (\<forall>j db'. heartbeat i db \<noteq> (Inr (Some j), db')) \<and>
    snd (lease i db) = db \<and> snd (heartbeat i db) = db \<and>
    (\<forall>j db'. poll p db = (Inr (Some j), db') \<longrightarrow> jr_id j \<noteq> aj_id r) \<and>
    (\<forall>k j d' d. lease k d = (Inr (Some j), d') \<longrightarrow>
       agent_may_work (lk_tenantId k) d (lk_agentId k) (lk_environmentId k) \<and>
       (\<exists>q \<in> set (db_agentJobs d). \<exists>t. aj_id q = jr_id j \<and> aj_tenantId q = lk_tenantId k \<and>
          aj_environmentId q = lk_environmentId k \<and> date_parse (lk_now k) = Some t \<and> open_at t q))"
proof (intro conjI allI impI)
  show no_lease: "lease i db \<noteq> (Inr (Some j), db')" for j db'
  proof
    assume "lease i db = (Inr (Some j), db')"
    then show False
    proof (rule lease_outcome)
      fix q t' n
      assume n: "date_parse (lk_now i) = Some n" and q: "q \<in> set (db_agentJobs db)" "aj_id q = lk_jobId i"
        and held: "aj_leasedByAgentId q = Some (lk_agentId i) \<and> leased_at n q \<and> db' = db \<and> j = normalizeJob q \<or>
          \<not> leased_at n q \<and> date_parse (toISOString (n + JOB_LEASE_MS)) = Some t' \<and>
          update_job (lk_tenantId i) i (take_lease (lk_agentId i) t') db = (Inr (), db') \<and>
          j = normalizeJob (take_lease (lk_agentId i) t' q)"
      have "q = r" using q assms(5) by (intro job_key [OF assms(1) _ assms(2)]) simp_all
      moreover have "n = now" using n assms(7) by simp
      ultimately show False using held assms(3,4,6) by simp
    qed
  qed
  show no_beat: "heartbeat i db \<noteq> (Inr (Some j), db')" for j db'
  proof
    assume "heartbeat i db = (Inr (Some j), db')"
    then show False
    proof (rule heartbeat_outcome)
      fix q
      assume q: "q \<in> set (db_agentJobs db)" "aj_id q = lk_jobId i"
        and "aj_leasedByAgentId q = Some (lk_agentId i)"
      moreover have "q = r" using q assms(5) by (intro job_key [OF assms(1) _ assms(2)]) simp_all
      ultimately show False using assms(3,6) by simp
    qed
  qed
  show "snd (lease i db) = db"
    using no_lease failed_unchanged(1,3) [of i db] by (metis option.exhaust old.sum.exhaust prod.collapse)
  show "snd (heartbeat i db) = db"
    using no_beat failed_unchanged(2,4) [of i db] by (metis option.exhaust old.sum.exhaust prod.collapse)
next
  fix j db'
  assume "poll p db = (Inr (Some j), db')"
  then show "jr_id j \<noteq> aj_id r"
  proof (rule poll_Some)
    fix q n
    assume q: "q \<in> set (db_agentJobs db)" "j = normalizeJob q" "date_parse (lk_now p) = Some n" "\<not> leased_at n q"
    then have "q \<noteq> r" using assms(4,8) by auto
    with q job_key [OF assms(1) q(1) assms(2)] show ?thesis by (auto simp: normalizeJob_def)
  qed
next
  fix k j d' d
  assume run: "lease k d = (Inr (Some j), d')"
  show "agent_may_work (lk_tenantId k) d (lk_agentId k) (lk_environmentId k)"
    using run by (rule lease_outcome)
  show "\<exists>q \<in> set (db_agentJobs d). \<exists>t. aj_id q = jr_id j \<and> aj_tenantId q = lk_tenantId k \<and>
          aj_environmentId q = lk_environmentId k \<and> date_parse (lk_now k) = Some t \<and> open_at t q"
    using run by (rule lease_outcome) (auto simp: normalizeJob_def take_lease_def)
qed

definition example_lookup :: "string \<Rightarrow> int \<Rightarrow> agent_job_mutation" where
  "example_lookup a t = \<lparr>lk_tenantId = ''ten_1'', lk_agentId = a, lk_environmentId = ''env_1'',
     lk_now = toISOString t, lk_jobId = ''job_1''\<rparr>"

lemma example_lookup_now: "0 \<le> t \<Longrightarrow> t < max_time \<Longrightarrow> date_parse (lk_now (example_lookup a t)) = Some t"
  by (simp add: example_lookup_def date_parse_toISOString)

theorem lease_is_exclusive_witness:
  "snd (lease (example_lookup ''agt_2'' 5000) example_gateway_db) = example_gateway_db"
proof -
  have "example_job \<in> set (db_agentJobs example_gateway_db)" by (simp add: example_gateway_db_def)
  moreover have "leased_at 5000 example_job" "aj_leasedByAgentId example_job = Some ''agt_1''"
    by (simp_all add: leased_at_def example_job_def)
  moreover have "lk_jobId (example_lookup ''agt_2'' 5000) = aj_id example_job"
    "lk_agentId (example_lookup ''agt_2'' 5000) \<noteq> ''agt_1''"
    by (simp_all add: example_lookup_def example_job_def)
  moreover have "date_parse (lk_now (example_lookup ''agt_2'' 5000)) = Some 5000"
    by (rule example_lookup_now) (simp_all add: max_time_def)
  moreover have "date_parse (lk_now (agent_job_lookup.truncate (example_lookup ''agt_2'' 5000))) = Some 5000"
    by (simp add: agent_job_lookup.truncate_def example_lookup_def date_parse_toISOString max_time_def)
  ultimately show ?thesis
    using lease_is_exclusive [OF example_gateway_ok, of example_job "''agt_1''" 5000
        "example_lookup ''agt_2'' 5000" "agent_job_lookup.truncate (example_lookup ''agt_2'' 5000)"] by blast
qed

text \<open>C26. What a poll offers can be had: the job a poll returns to an agent is leased to that agent by
a lease call at the same time, which cannot fail; it then belongs to the agent for exactly
\<open>JOB_LEASE_MS\<close> more, its attempt count is one higher, and every constraint holds.\<close>

theorem polled_job_can_be_leased:
  assumes "constraints db" and "poll (agent_job_lookup.truncate i) db = (Inr (Some j), db)"
    and "lk_jobId i = jr_id j" and "date_parse (lk_now i) = Some now" and "0 \<le> now"
    and "now + JOB_LEASE_MS < max_time"
  shows "\<exists>k db' r. lease i db = (Inr (Some k), db') \<and> r \<in> set (db_agentJobs db') \<and> aj_id r = jr_id j \<and>
    k = normalizeJob r \<and> aj_leasedByAgentId r = Some (lk_agentId i) \<and>
    aj_leaseExpiresAt r = Some (now + JOB_LEASE_MS) \<and> jr_attempt k = jr_attempt j + 1 \<and> constraints db'"
proof -
  let ?t = "lk_tenantId i"
  let ?T = "now + JOB_LEASE_MS"
  from assms(2) obtain r where r: "r \<in> set (db_agentJobs db)" "j = normalizeJob r" "aj_tenantId r = ?t"
    "aj_environmentId r = lk_environmentId i" "open_at now r" "\<not> leased_at now r"
    "agent_may_work ?t db (lk_agentId i) (lk_environmentId i)"
    by (rule poll_Some) (use assms(4) in \<open>auto simp: agent_job_lookup.truncate_def\<close>)
  have job: "this_job ?t i r" using r assms(3) by (simp add: this_job_def normalizeJob_def)
  have find: "find (\<lambda>r. this_job ?t i r \<and> aj_environmentId r = lk_environmentId i) (db_agentJobs db) = Some r"
  proof (rule find_unique [OF r(1)])
    fix y
    assume "y \<in> set (db_agentJobs db)" "this_job ?t i y \<and> aj_environmentId y = lk_environmentId i"
    then show "y = r" using job by (intro job_key [OF assms(1) _ r(1)]) (simp_all add: this_job_def)
  qed (use job r(4) in simp)
  have iso: "date_parse (toISOString ?T) = Some ?T"
    by (rule date_parse_toISOString) (use assms(5,6) in \<open>simp_all add: JOB_LEASE_MS_def\<close>)
  have agent: "agent_exists db (lk_agentId i)"
  proof -
    from r(7) obtain ag where "visible_agent ?t db (lk_agentId i) = Some ag"
      by (auto simp: agent_may_work_def split: option.splits)
    from visible_agent_Some [OF this] show ?thesis by (auto simp: agent_exists_def intro: rev_image_eqI)
  qed
  let ?db = "db\<lparr>db_agentJobs := map (\<lambda>r. if this_job ?t i r then take_lease (lk_agentId i) ?T r else r)
      (db_agentJobs db)\<rparr>"
  have upd: "update_job ?t i (take_lease (lk_agentId i) ?T) db = (Inr (), ?db)"
    by (rule update_job_possible [OF assms(1)]) (simp add: take_lease_def agent)
  have ok: "constraints ?db" using upd by (simp add: update_job_def)
  have "canLease r (lk_now i)" using r(5) assms(4) by (simp add: canLease_def)
  then have "lease i db = (Inr (Some (normalizeJob (take_lease (lk_agentId i) ?T r))), ?db)"
    using find r(6,7) assms(4) iso upd by (simp add: lease_def inTenantTransaction_def)
  moreover have "take_lease (lk_agentId i) ?T r \<in> set (db_agentJobs ?db)" using r(1) job by force
  ultimately show ?thesis using ok r(2)
    by (intro exI [of _ "normalizeJob (take_lease (lk_agentId i) ?T r)"] exI [of _ ?db]
        exI [of _ "take_lease (lk_agentId i) ?T r"]) (simp add: take_lease_def normalizeJob_def)
qed

lemma example_poll:
  "\<exists>j. poll (agent_job_lookup.truncate (example_lookup ''agt_1'' 70000)) example_gateway_db =
     (Inr (Some j), example_gateway_db) \<and> jr_id j = ''job_1''"
proof -
  have "available_jobs ''ten_1'' (agent_job_lookup.truncate (example_lookup ''agt_1'' 70000)) 70000
      example_gateway_db = [example_job]"
    using example_visible
    by (simp add: available_jobs_def agent_job_lookup.truncate_def example_lookup_def agent_may_work_def
        example_agent_def eligible_def)
      (simp add: example_gateway_db_def example_job_def open_at_def leased_at_def)
  then show ?thesis
    by (simp add: poll_def inTenantTransaction_def)
      (simp add: agent_job_lookup.truncate_def example_lookup_def date_parse_toISOString max_time_def
        normalizeJob_def example_job_def)
qed

theorem polled_job_can_be_leased_witness:
  "\<exists>k db'. lease (example_lookup ''agt_1'' 70000) example_gateway_db = (Inr (Some k), db')"
proof -
  obtain j where j: "poll (agent_job_lookup.truncate (example_lookup ''agt_1'' 70000)) example_gateway_db =
     (Inr (Some j), example_gateway_db)" "jr_id j = ''job_1''" using example_poll by blast
  have "lk_jobId (example_lookup ''agt_1'' 70000) = jr_id j" by (simp add: example_lookup_def j)
  moreover have "date_parse (lk_now (example_lookup ''agt_1'' 70000)) = Some 70000"
    by (rule example_lookup_now) (simp_all add: max_time_def)
  ultimately show ?thesis
    using polled_job_can_be_leased [OF example_gateway_ok j(1)] by (auto simp: JOB_LEASE_MS_def max_time_def)
qed

fun accepted_sequences :: "string \<Rightarrow> gateway_call list \<Rightarrow> database \<Rightarrow> nat list" where
  "accepted_sequences a [] db = []"
| "accepted_sequences a (c # cs) db =
     (case gateway_accepts c db of Some (b, n) \<Rightarrow> (if b = a then [n] else []) | None \<Rightarrow> []) @
     accepted_sequences a cs (gateway_step c db)"

lemma accepted_sequences_eq: "accepted_sequences a cs db = gateway.accepted_numbers a cs db"
  by (induction cs arbitrary: db) simp_all

text \<open>C24. No replay: over any interleaving of calls on the store (messages of all connections, transport
changes, jobs enqueued, leased and kept alive, control sequences drawn) the sequence numbers that
are accepted from one agent strictly increase, so that no message, and no number, is accepted
twice.\<close>

theorem accepted_sequences_increase:
  assumes "constraints db"
  shows "sorted_wrt (<) (accepted_sequences a calls db)"
  unfolding accepted_sequences_eq using assms by (rule gateway.numbers_increase)

definition example_claim_message :: claim_agent_message_input where
  "example_claim_message = \<lparr>cm_tenantId = ''ten_1'', cm_agentId = ''agt_1'',
     cm_environmentId = ''env_1'', cm_messageId = ''m'', cm_sequence = ''7'',
     cm_receivedAt = toISOString 5000\<rparr>"

theorem accepted_sequences_increase_witness:
  "sorted_wrt (<) (accepted_sequences ''agt_1'' [ClaimMessage example_claim_message,
     LeaseJob (example_lookup ''agt_1'' 70000), ClaimMessage example_claim_message] example_gateway_db)"
  by (rule accepted_sequences_increase [OF example_gateway_ok])

text \<open>One transport per agent: once a connection of an agent that may connect has claimed the
transport, exactly that connection is the active one: \<open>isTransportActive\<close> answers yes to the
claimed tenant, environment, transport and session and to nothing else, so every earlier
connection is handed off.\<close>

theorem one_transport_session:
  assumes "claimTransport i db = (Inr prev, db')"
    and "visible_agent (ti_tenantId i) db (ti_agentId i) = Some ag"
    and "ag_environmentId ag = ti_environmentId i" and "ag_status ag \<noteq> ''revoked''"
    and "ti_agentId j = ti_agentId i"
  shows "isTransportActive j db' = (Inr (ti_tenantId j = ti_tenantId i \<and>
    ti_environmentId j = ti_environmentId i \<and> ti_transport j = ti_transport i \<and>
    ti_sessionId j = ti_sessionId i), db')"
proof -
  from claimTransport_active [OF assms(1-4)] obtain r where ok: "constraints db'"
    and r: "r \<in> set (db_agentTransportSessions db')" "this_session (ti_tenantId i) i r" by blast
  have "(\<exists>s \<in> set (db_agentTransportSessions db'). this_session (ti_tenantId j) j s) \<longleftrightarrow>
      this_session (ti_tenantId j) j r"
  proof
    assume "\<exists>s \<in> set (db_agentTransportSessions db'). this_session (ti_tenantId j) j s"
    then obtain s where s: "s \<in> set (db_agentTransportSessions db')" "this_session (ti_tenantId j) j s" by blast
    have "s = r" using s r assms(5) by (intro session_key [OF ok s(1) r(1)]) (simp add: this_session_def)
    with s show "this_session (ti_tenantId j) j r" by simp
  qed (use r in blast)
  with r(2) assms(5) show ?thesis
    by (auto simp: isTransportActive_def inTenantTransaction_def this_session_def)
qed

definition example_transport :: "string \<Rightarrow> string \<Rightarrow> agent_transport_input" where
  "example_transport transport session = \<lparr>ti_tenantId = ''ten_1'', ti_agentId = ''agt_1'',
     ti_environmentId = ''env_1'', ti_transport = transport, ti_sessionId = session,
     ti_now = toISOString 5000\<rparr>"

lemma example_transport_claim:
  "\<exists>db'. claimTransport (example_transport ''websocket'' ''s1'') example_gateway_db = (Inr None, db')"
proof -
  have "constraints (example_gateway_db\<lparr>db_agentTransportSessions :=
      [session_row (example_transport ''websocket'' ''s1'') 5000]\<rparr>)"
    by (simp add: constraint_defs example_gateway_db_def example_db_def example_agent_def
      example_job_def example_request_row_def active_agent_def active_subject_def
      privacy_request_ok_def request_statuses_def positive_or_null_def session_row_def
      example_transport_def)
  moreover have "db_agentTransportSessions example_gateway_db = []"
    by (simp add: example_gateway_db_def example_db_def)
  moreover have "date_parse (toISOString 5000) = Some 5000"
    by (rule date_parse_toISOString) (simp_all add: max_time_def)
  ultimately show ?thesis
    using example_visible
    by (simp add: claimTransport_def inTenantTransaction_def upsert_session_def example_transport_def
        example_agent_def Let_def)
qed

theorem one_transport_session_witness:
  "\<exists>db'. isTransportActive (example_transport ''polling'' ''s0'') db' = (Inr False, db') \<and>
     isTransportActive (example_transport ''websocket'' ''s1'') db' = (Inr True, db')"
proof -
  obtain db' where run: "claimTransport (example_transport ''websocket'' ''s1'') example_gateway_db = (Inr None, db')"
    using example_transport_claim by blast
  have agent: "visible_agent (ti_tenantId (example_transport ''websocket'' ''s1'')) example_gateway_db
      (ti_agentId (example_transport ''websocket'' ''s1'')) = Some example_agent"
    "ag_environmentId example_agent = ti_environmentId (example_transport ''websocket'' ''s1'')"
    "ag_status example_agent \<noteq> ''revoked''"
    using example_visible by (simp_all add: example_transport_def example_agent_def)
  note one = one_transport_session [OF run agent]
  have "isTransportActive (example_transport ''polling'' ''s0'') db' = (Inr False, db')"
    by (subst one) (simp_all add: example_transport_def)
  moreover have "isTransportActive (example_transport ''websocket'' ''s1'') db' = (Inr True, db')"
    by (subst one) (simp_all add: example_transport_def)
  ultimately show ?thesis by blast
qed

end
