(* ===== verification/Agent_Gateway.thy ===== *)
theory Agent_Gateway
  imports Agent_Messages Agent_Jobs_Properties
begin

text \<open>
  The two transports of the agent gateway: the polling routes
  (\<^verbatim>\<open>apps/api/src/modules/agent-gateway/polling-routes.ts\<close>), a handler being an action on the
  database, and the WebSocket connection (\<^verbatim>\<open>websocket.ts\<close>), a state machine whose steps are the
  handlers of its events and the pieces of its hello between two awaits, interleaved with whatever
  other connections do to the database.
\<close>

subsection \<open>Dependencies\<close>

record gateway =
  gw_authenticator :: authenticator
  gw_signer :: message_signer
  gw_now :: "nat \<Rightarrow> int"
  gw_randomUUID :: string

abbreviation invalidMessage :: "(gateway_error, 'a) sql" where
  "invalidMessage \<equiv> raise (AgentGatewayError InvalidAgentMessage)"

definition parseMessage :: "json \<Rightarrow> string \<Rightarrow> (gateway_error, agent_message) sql" where
  "parseMessage body expectedType =
     (case AgentMessageSchema body of
        None \<Rightarrow> invalidMessage
      | Some m \<Rightarrow> if um_messageType m \<noteq> expectedType then invalidMessage else returnM m)"

definition MAX_POLL_WAIT_MS :: int where "MAX_POLL_WAIT_MS = 45000"

definition parsePollPayload :: "json option \<Rightarrow> (gateway_error, int) sql" where
  "parsePollPayload payload =
     (case payload of
        Some (JObj ms) \<Rightarrow>
          (case map_of ms ''waitMs'' of
             Some (JNum n) \<Rightarrow> if n < 0 \<or> MAX_POLL_WAIT_MS < n then invalidMessage else returnM n
           | _ \<Rightarrow> invalidMessage)
      | _ \<Rightarrow> invalidMessage)"

definition requirePayloadJobId :: "json option \<Rightarrow> string \<Rightarrow> (gateway_error, unit) sql" where
  "requirePayloadJobId payload jobId =
     (case payload of
        Some (JObj ms) \<Rightarrow> if map_of ms ''jobId'' \<noteq> Some (JStr jobId) then invalidMessage else returnM ()
      | _ \<Rightarrow> invalidMessage)"

definition jtext :: "string option \<Rightarrow> json" where
  "jtext v = (case v of None \<Rightarrow> JNull | Some s \<Rightarrow> JStr s)"

definition jobPayload :: "agent_job_record \<Rightarrow> json" where
  "jobPayload job = JObj
     [(''jobId'', JStr (jr_id job)), (''requestId'', JStr (jr_requestId job)),
      (''environmentId'', JStr (jr_environmentId job)), (''kind'', JStr (jr_kind job)),
      (''planVersion'', case jr_planVersion job of None \<Rightarrow> JNull | Some n \<Rightarrow> JNum n),
      (''payloadCiphertext'', jtext (jr_payloadCiphertext job)),
      (''authorization'', jtext (jr_authorization job)),
      (''availableAt'', JStr (jr_availableAt job)), (''expiresAt'', JStr (jr_expiresAt job)),
      (''attempt'', JNum (jr_attempt job)), (''leaseExpiresAt'', jtext (jr_leaseExpiresAt job))]"

definition signedResponse ::
  "gateway \<Rightarrow> string \<Rightarrow> string \<Rightarrow> string \<Rightarrow> string \<Rightarrow> json \<Rightarrow> int \<Rightarrow> (gateway_error, agent_message) sql" where
  "signedResponse gw tenantId agent_id environmentId messageType payload sentAt =
     seqM (nextControlSequence tenantId agent_id) (\<lambda>sequence.
       sign_message (gw_signer gw) (at_canonicalize (gw_authenticator gw))
         \<lparr>um_protocolVersion = ''1.0'', um_messageType = messageType,
          um_messageId = ''msg_'' @ gw_randomUUID gw, um_keyId = ms_keyId (gw_signer gw),
          um_environmentId = environmentId, um_agentId = agent_id, um_direction = ControlToAgent,
          um_sequence = sequence, um_sentAt = toISOString sentAt, um_payload = Some payload\<rparr>)"

definition signedJobAvailable ::
  "gateway \<Rightarrow> agent_job_record \<Rightarrow> string \<Rightarrow> int \<Rightarrow> (gateway_error, agent_message) sql" where
  "signedJobAvailable gw job agent_id sentAt =
     signedResponse gw (jr_tenantId job) agent_id (jr_environmentId job) ''job.available''
       (jobPayload job) sentAt"

definition transport_input ::
  "gateway_agent_identity \<Rightarrow> string \<Rightarrow> string \<Rightarrow> int \<Rightarrow> agent_transport_input" where
  "transport_input agent transport session now =
     \<lparr>ti_tenantId = gi_tenantId agent, ti_agentId = gi_agentId agent,
      ti_environmentId = gi_environmentId agent, ti_transport = transport, ti_sessionId = session,
      ti_now = toISOString now\<rparr>"

definition ensurePollingTransport :: "bool \<Rightarrow> (gateway_error, unit) sql" where
  "ensurePollingTransport active =
     (if \<not> active then raise (AgentGatewayAuthError AuthReplayDetected) else returnM ())"

definition claimPollingTransport ::
  "gateway_agent_identity \<Rightarrow> string \<Rightarrow> int \<Rightarrow> (gateway_error, unit) sql" where
  "claimPollingTransport agent session now =
     seqM (claimTransport (transport_input agent ''polling'' session now)) (\<lambda>_.
     seqM (isTransportActive (transport_input agent ''polling'' session now)) ensurePollingTransport)"

definition job_lookup :: "gateway_agent_identity \<Rightarrow> int \<Rightarrow> agent_job_lookup" where
  "job_lookup agent now = \<lparr>lk_tenantId = gi_tenantId agent, lk_agentId = gi_agentId agent,
     lk_environmentId = gi_environmentId agent, lk_now = toISOString now\<rparr>"

definition job_mutation :: "gateway_agent_identity \<Rightarrow> int \<Rightarrow> string \<Rightarrow> agent_job_mutation" where
  "job_mutation agent now jobId = \<lparr>lk_tenantId = gi_tenantId agent, lk_agentId = gi_agentId agent,
     lk_environmentId = gi_environmentId agent, lk_now = toISOString now, lk_jobId = jobId\<rparr>"

subsection \<open>Polling routes\<close>

text \<open>
  \<open>None\<close> is the empty 204 reply. The k-th reading of the clock is \<open>gw_now gw k\<close>; \<open>others\<close> is what
  other connections do to the database while the handler waits.
\<close>

definition second_poll ::
  "gateway \<Rightarrow> gateway_agent_identity \<Rightarrow> string \<Rightarrow> (database \<Rightarrow> database) \<Rightarrow>
   (gateway_error, agent_job_record option) sql" where
  "second_poll gw agent session others =
     seqM (modifyM others) (\<lambda>_.
     seqM (isTransportActive (transport_input agent ''polling'' session (gw_now gw 3))) (\<lambda>active.
     seqM (ensurePollingTransport active) (\<lambda>_. poll (job_lookup agent (gw_now gw 4)))))"

definition poll_route ::
  "gateway \<Rightarrow> (database \<Rightarrow> database) \<Rightarrow> json \<Rightarrow> (gateway_error, agent_message option) sql" where
  "poll_route gw others body =
     seqM (parseMessage body ''agent.poll'') (\<lambda>m.
     seqM (parsePollPayload (um_payload m)) (\<lambda>waitMs.
     seqM (authenticate (gw_authenticator gw) (gw_now gw 0) m) (\<lambda>agent.
     seqM (claimPollingTransport agent (um_messageId m) (gw_now gw 1)) (\<lambda>_.
     seqM (poll (job_lookup agent (gw_now gw 2))) (\<lambda>first.
     seqM (if first = None \<and> 0 < waitMs then second_poll gw agent (um_messageId m) others
           else returnM first) (\<lambda>job.
       case job of
         None \<Rightarrow> returnM None
       | Some j \<Rightarrow> seqM (signedResponse gw (gi_tenantId agent) (gi_agentId agent)
             (gi_environmentId agent) ''job.available'' (jobPayload j) (gw_now gw 5))
           (\<lambda>message. returnM (Some message))))))))"

text \<open>The lease and the heartbeat route differ in the store call and the two message types.\<close>

definition job_route ::
  "(agent_job_mutation \<Rightarrow> (gateway_error, agent_job_record option) sql) \<Rightarrow> string \<Rightarrow> string \<Rightarrow>
   gateway \<Rightarrow> string \<Rightarrow> json \<Rightarrow> (gateway_error, agent_message) sql" where
  "job_route operation request_type reply_type gw jobId body =
     seqM (parseMessage body request_type) (\<lambda>m.
     seqM (requirePayloadJobId (um_payload m) jobId) (\<lambda>_.
     seqM (authenticate (gw_authenticator gw) (gw_now gw 0) m) (\<lambda>agent.
     seqM (claimPollingTransport agent (um_messageId m) (gw_now gw 1)) (\<lambda>_.
     seqM (operation (job_mutation agent (gw_now gw 2) jobId)) (\<lambda>job.
       case job of
         None \<Rightarrow> raise (AgentGatewayError JobLeaseExpired)
       | Some j \<Rightarrow> signedResponse gw (gi_tenantId agent) (gi_agentId agent) (gi_environmentId agent)
           reply_type (jobPayload j) (gw_now gw 3))))))"

definition lease_route :: "gateway \<Rightarrow> string \<Rightarrow> json \<Rightarrow> (gateway_error, agent_message) sql" where
  "lease_route = job_route lease ''job.lease'' ''job.leased''"

definition heartbeat_route :: "gateway \<Rightarrow> string \<Rightarrow> json \<Rightarrow> (gateway_error, agent_message) sql" where
  "heartbeat_route = job_route heartbeat ''job.heartbeat'' ''job.lease_extended''"

subsection \<open>The WebSocket connection\<close>

definition CHALLENGE_TTL_MS :: int where "CHALLENGE_TTL_MS = 60000"
definition DEFAULT_IDLE_TIMEOUT_MS :: int where "DEFAULT_IDLE_TIMEOUT_MS = 90000"

text \<open>Where an unfinished \<open>authenticateHello\<close> stands; a text that is no JSON is \<open>None\<close>.\<close>

datatype hello_phase =
    NoHello
  | HelloReceived "json option"
  | HelloAuthenticated agent_transport_input
  | HelloClaimed agent_transport_input
  | HelloActive

text \<open>What a connection was sent: its challenge, then messages with jobs.\<close>

datatype socket_frame = SentChallenge json | SentJob agent_message

record socket =
  so_challenge :: string
  so_challengeExpiresAt :: int
  so_lastActivityAt :: int
  so_authenticated :: "gateway_agent_identity option"
  so_helloProcessing :: bool
  so_challengeConsumed :: bool
  so_scanTimer :: bool
  so_hello :: hello_phase
  so_open :: bool
  so_closeCode :: "nat option"
  so_sent :: "socket_frame list"

definition connection_challenge :: "string \<Rightarrow> int \<Rightarrow> json" where
  "connection_challenge challenge expiresAt = JObj [(''protocolVersion'', JStr ''1.0''),
     (''messageType'', JStr ''connection.challenge''), (''challenge'', JStr challenge),
     (''expiresAt'', JStr (toISOString expiresAt))]"

text \<open>A new connection is sent its challenge at once.\<close>

definition connect :: "bytes \<Rightarrow> int \<Rightarrow> int \<Rightarrow> socket" where
  "connect random now0 now1 =
     \<lparr>so_challenge = b64_encode random, so_challengeExpiresAt = now0 + CHALLENGE_TTL_MS,
      so_lastActivityAt = now1, so_authenticated = None, so_helloProcessing = False,
      so_challengeConsumed = False, so_scanTimer = False, so_hello = NoHello, so_open = True,
      so_closeCode = None,
      so_sent = [SentChallenge (connection_challenge (b64_encode random) (now0 + CHALLENGE_TTL_MS))]\<rparr>"

text \<open>\<open>socket.close\<close>: the connection leaves the open state; the first code stands.\<close>

definition close_socket :: "nat \<Rightarrow> socket \<Rightarrow> socket" where
  "close_socket code s = s\<lparr>so_open := False,
     so_closeCode := (case so_closeCode s of None \<Rightarrow> Some code | Some c \<Rightarrow> Some c)\<rparr>"

definition on_heartbeat :: "int \<Rightarrow> int \<Rightarrow> socket \<Rightarrow> socket" where
  "on_heartbeat idleTimeoutMs now s =
     (if idleTimeoutMs < now - so_lastActivityAt s then close_socket 1001 s else s)"

definition on_pong :: "int \<Rightarrow> socket \<Rightarrow> socket" where
  "on_pong now s = s\<lparr>so_lastActivityAt := now\<rparr>"

definition on_message :: "int \<Rightarrow> json option \<Rightarrow> socket \<Rightarrow> socket" where
  "on_message now raw s =
     (let s = s\<lparr>so_lastActivityAt := now\<rparr> in
      if so_helloProcessing s \<or> so_authenticated s \<noteq> None then close_socket 1008 s
      else s\<lparr>so_helloProcessing := True, so_hello := HelloReceived raw\<rparr>)"

definition hello_failed :: "socket \<Rightarrow> socket" where
  "hello_failed s = (close_socket 1008 s)\<lparr>so_helloProcessing := False, so_hello := NoHello\<rparr>"

definition hello_message :: "socket \<Rightarrow> json option \<Rightarrow> agent_message option" where
  "hello_message s raw =
     Option.bind raw (\<lambda>body. Option.bind (AgentMessageSchema body) (\<lambda>m.
       if um_messageType m \<noteq> ''agent.hello'' then None
       else (case um_payload m of
               Some (JObj ms) \<Rightarrow>
                 if map_of ms ''challenge'' \<noteq> Some (JStr (so_challenge s)) then None else Some m
             | _ \<Rightarrow> None)))"

definition hello_authenticate ::
  "gateway \<Rightarrow> int \<Rightarrow> int \<Rightarrow> int \<Rightarrow> json option \<Rightarrow> socket \<Rightarrow> database \<Rightarrow> socket \<times> database" where
  "hello_authenticate gw now0 now1 now2 raw s db =
     (if so_challengeConsumed s \<or> so_challengeExpiresAt s < now0 then (hello_failed s, db)
      else (case hello_message s raw of
              None \<Rightarrow> (hello_failed s, db)
            | Some m \<Rightarrow>
                (case authenticate (gw_authenticator gw) now1 m db of
                   (Inl _, db') \<Rightarrow> (hello_failed s, db')
                 | (Inr agent, db') \<Rightarrow>
                     (s\<lparr>so_challengeConsumed := True, so_authenticated := Some agent,
                        so_hello := HelloAuthenticated
                          (transport_input agent ''websocket'' (so_challenge s) now2)\<rparr>, db'))))"

definition hello_claim :: "agent_transport_input \<Rightarrow> socket \<Rightarrow> database \<Rightarrow> socket \<times> database" where
  "hello_claim t s db =
     (case claimTransport t db of
        (Inl _, db') \<Rightarrow> (hello_failed s, db')
      | (Inr _, db') \<Rightarrow> (s\<lparr>so_hello := HelloClaimed t\<rparr>, db'))"

definition hello_check :: "agent_transport_input \<Rightarrow> socket \<Rightarrow> database \<Rightarrow> socket \<times> database" where
  "hello_check t s db =
     (case isTransportActive t db of
        (Inr True, db') \<Rightarrow> (s\<lparr>so_hello := HelloActive\<rparr>, db')
      | (_, db') \<Rightarrow> (hello_failed s, db'))"

text \<open>
  The result tells whether the call threw. \<open>others k\<close> is what other connections do to the database
  during the k-th wait, \<open>still_open k\<close> whether the connection is open after it; a \<open>send\<close> on a
  connection that has closed sends nothing.
\<close>

definition sendAvailableJob ::
  "gateway \<Rightarrow> (nat \<Rightarrow> database \<Rightarrow> database) \<Rightarrow> (nat \<Rightarrow> bool) \<Rightarrow> gateway_agent_identity \<Rightarrow> int \<Rightarrow> socket \<Rightarrow>
   database \<Rightarrow> bool \<times> socket \<times> database" where
  "sendAvailableJob gw others still_open agent now s db =
     (case isTransportActive (transport_input agent ''websocket'' (so_challenge s) now) db of
        (Inl _, db') \<Rightarrow> (True, s, db')
      | (Inr False, db') \<Rightarrow> (False, close_socket 1001 s, db')
      | (Inr True, db') \<Rightarrow>
          (case poll (job_lookup agent now) (others 0 db') of
             (Inl _, db') \<Rightarrow> (True, s, db')
           | (Inr None, db') \<Rightarrow> (False, s, db')
           | (Inr (Some job), db') \<Rightarrow>
               if \<not> so_open s \<or> \<not> still_open 0 then (False, s, db')
               else (case signedJobAvailable gw job (gi_agentId agent) now (others 1 db') of
                       (Inl _, db') \<Rightarrow> (True, s, db')
                     | (Inr m, db') \<Rightarrow>
                         (False, if still_open 1 then s\<lparr>so_sent := so_sent s @ [SentJob m]\<rparr> else s, db'))))"

definition hello_deliver ::
  "gateway \<Rightarrow> (nat \<Rightarrow> database \<Rightarrow> database) \<Rightarrow> (nat \<Rightarrow> bool) \<Rightarrow> int \<Rightarrow> socket \<Rightarrow> database \<Rightarrow> socket \<times> database" where
  "hello_deliver gw others still_open now s db =
     (case so_authenticated s of
        None \<Rightarrow> (hello_failed s, db)
      | Some agent \<Rightarrow>
          (case sendAvailableJob gw others still_open agent now s db of
             (True, s', db') \<Rightarrow> (hello_failed s', db')
           | (False, s', db') \<Rightarrow>
               (s'\<lparr>so_scanTimer := True, so_helloProcessing := False, so_hello := NoHello\<rparr>, db')))"

definition on_scan ::
  "gateway \<Rightarrow> (nat \<Rightarrow> database \<Rightarrow> database) \<Rightarrow> (nat \<Rightarrow> bool) \<Rightarrow> int \<Rightarrow> socket \<Rightarrow> database \<Rightarrow> socket \<times> database" where
  "on_scan gw others still_open now s db =
     (case so_authenticated s of
        None \<Rightarrow> (s, db)
      | Some agent \<Rightarrow>
          if \<not> so_open s then (s, db)
          else (case sendAvailableJob gw others still_open agent now s db of
                  (True, s', db') \<Rightarrow> (close_socket 1011 s', db')
                | (False, s', db') \<Rightarrow> (s', db')))"

text \<open>The \<open>close\<close> event; an error of the release is ignored.\<close>

definition on_close :: "int \<Rightarrow> socket \<Rightarrow> database \<Rightarrow> socket \<times> database" where
  "on_close now s db =
     (let s' = s\<lparr>so_open := False, so_scanTimer := False\<rparr> in
      case so_authenticated s of
        None \<Rightarrow> (s', db)
      | Some agent \<Rightarrow>
          (s', snd (releaseTransport (transport_input agent ''websocket'' (so_challenge s) now) db)))"

inductive ws_step :: "gateway \<Rightarrow> socket \<times> database \<Rightarrow> socket \<times> database \<Rightarrow> bool" where
  message: "ws_step gw (s, db) (on_message now raw s, db)"
| authenticated: "so_hello s = HelloReceived raw \<Longrightarrow>
    ws_step gw (s, db) (hello_authenticate gw now0 now1 now2 raw s db)"
| claimed: "so_hello s = HelloAuthenticated t \<Longrightarrow> ws_step gw (s, db) (hello_claim t s db)"
| checked: "so_hello s = HelloClaimed t \<Longrightarrow> ws_step gw (s, db) (hello_check t s db)"
| delivered: "so_hello s = HelloActive \<Longrightarrow> ws_step gw (s, db) (hello_deliver gw wait alive now s db)"
| scanned: "so_scanTimer s \<Longrightarrow> ws_step gw (s, db) (on_scan gw wait alive now s db)"
| idle: "ws_step gw (s, db) (on_heartbeat t now s, db)"
| pong: "so_open s \<Longrightarrow> ws_step gw (s, db) (on_pong now s, db)"
| closed: "ws_step gw (s, db) (on_close now s db)"
| others: "ws_step gw (s, db) (s, db')"

inductive_cases ws_stepE: "ws_step gw (s, db) (s', db')"

lemmas ws_step_cases = ws_stepE [consumes 1, case_names message authenticated claimed checked
  delivered scanned idle pong closed others]

inductive ws_reachable :: "gateway \<Rightarrow> socket \<times> database \<Rightarrow> bool" where
  opened: "ws_reachable gw (connect random now0 now1, db)"
| stepped: "ws_reachable gw c \<Longrightarrow> ws_step gw c c' \<Longrightarrow> ws_reachable gw c'"

end
