(* ===== verification/Agent_Gateway_Properties.thy ===== *)
theory Agent_Gateway_Properties
  imports Agent_Gateway
begin

text \<open>
  What the gateway's messages and connections guarantee: an authenticated message is a fresh,
  unreplayed message of a registered agent, and a WebSocket connection serves the one agent that
  answered its challenge.
\<close>

subsection \<open>What an accepted message proves\<close>

lemma verifyAgentMessage_True:
  assumes "verifyAgentMessage ed canonicalize m k"
  obtains key sig bs where "k = b64_encode key" "am_signature m = b64_encode sig" "length key = 32"
    "length sig = 64" "agentMessageSigningBytes canonicalize m = Some bs" "ed key sig bs = Some True"
  using assms
  by (auto simp: verifyAgentMessage_def canonical_decode split: option.splits if_splits)

lemma signing_bytes_ok:
  "agentMessageSigningBytes canonicalize m = Some bs \<Longrightarrow> message_ok m \<and>
     (\<exists>s. canonicalize (message_json (unsigned_part m)) = Some s \<and> bs = utf8 MESSAGE_CONTEXT @ [0] @ utf8 s)"
  by (auto simp: agentMessageSigningBytes_def canonicalUnsignedBytes_def schema_message_json
      split: if_splits)

lemma findAgentIdentity_Some:
  assumes "findAgentIdentity sha a db = (Inr (Some agent), db')"
  obtains r where "find (\<lambda>r. ag_id r = a) (db_agents db) = Some r" "db' = db" "gi_agentId agent = a"
    "environment_tenant db (ag_environmentId r) = Some (gi_tenantId agent)"
    "gi_environmentId agent = ag_environmentId r" "gi_publicSigningKey agent = ag_publicSigningKey r"
    "gi_status agent = ag_status r"
  using assms find_Some_mem
  by (fastforce simp: findAgentIdentity_def split: option.splits)

lemma findAgentIdentity_same: "findAgentIdentity sha a db = (r, db') \<Longrightarrow> db' = db"
  by (cases r) (auto simp: findAgentIdentity_def split: option.splits)

lemma claimed_failed:
  assumes "seqM (claimAgentMessage i) (claim_result g) db = (Inl e, db')"
  shows "db' = db"
proof (cases "claimAgentMessage i db")
  case (Pair r d)
  have same: "r \<noteq> Inr Accepted \<Longrightarrow> d = db" using claimAgentMessage_refused [OF Pair] .
  show ?thesis
  proof (cases r)
    case (Inl x)
    with assms Pair same show ?thesis by (simp add: seqM_def)
  next
    case (Inr c)
    with assms Pair same show ?thesis
      by (cases c) (auto simp: seqM_def claim_result_def returnM_def raise_def throwM_def)
  qed
qed

lemma parseSequence_ok [simp]:
    "parseSequence s db = (Inr n, db') \<longleftrightarrow>
       sequence_pattern s \<and> number_from 0 s = Some n \<and> n \<le> MAX_U64 \<and> db' = db"
  and parseSequence_same: "parseSequence s db = (r, db') \<Longrightarrow> db' = db"
proof -
  show "parseSequence s db = (Inr n, db') \<longleftrightarrow>
       sequence_pattern s \<and> number_from 0 s = Some n \<and> n \<le> MAX_U64 \<and> db' = db"
    by (cases "sequence_pattern s"; cases "number_from 0 s") (auto simp: parseSequence_def big_int_def)
  show "parseSequence s db = (r, db') \<Longrightarrow> db' = db"
    by (cases r; cases "sequence_pattern s"; cases "number_from 0 s")
      (auto simp: parseSequence_def big_int_def split: if_splits)
qed

lemma accept_message_outcome:
  assumes "accept_message au now m sequence identity db = (Inr agent, db')"
  shows "identity = Some agent \<and> signature_accepted au m (Some agent) \<and>
    gi_environmentId agent = um_environmentId m \<and> gi_status agent \<noteq> ''revoked'' \<and>
    claimAgentMessage (message_claim agent m sequence now) db = (Inr Accepted, db')"
proof -
  from assms have acc: "signature_accepted au m identity"
    and rest: "gi_environmentId (the identity) = um_environmentId m" "gi_status (the identity) \<noteq> ''revoked''"
    and claim: "seqM (claimAgentMessage (message_claim (the identity) m sequence now))
       (claim_result (the identity)) db = (Inr agent, db')"
    by (auto simp: accept_message_def Let_def split: if_splits)
  from acc obtain g where g: "identity = Some g" by (cases identity) (auto simp: signature_accepted_def)
  from claim obtain c d where c: "claimAgentMessage (message_claim g m sequence now) db = (Inr c, d)"
    "claim_result g c d = (Inr agent, db')" by (auto simp: g)
  then have "c = Accepted \<and> agent = g \<and> d = db'" by (cases c) (auto simp: claim_result_def)
  with acc rest c g show ?thesis by simp
qed

lemma accept_message_failed: "accept_message au now m sequence identity db = (Inl e, db') \<Longrightarrow> db' = db"
  using claimed_failed by (auto simp: accept_message_def Let_def simp del: seqM_err split: if_splits)

lemma authenticate_outcome:
  assumes "authenticate au now m db = (Inr agent, db')"
  obtains sequence where "fresh now (um_sentAt m)" "sequence_pattern (um_sequence m)"
    "number_from 0 (um_sequence m) = Some sequence" "sequence \<le> MAX_U64"
    "findAgentIdentity (at_sha au) (um_agentId m) db = (Inr (Some agent), db)"
    "signature_accepted au m (Some agent)" "gi_environmentId agent = um_environmentId m"
    "gi_status agent \<noteq> ''revoked''"
    "claimAgentMessage (message_claim agent m sequence now) db = (Inr Accepted, db')"
proof -
  from assms obtain sequence identity d where "fresh now (um_sentAt m)" "sequence_pattern (um_sequence m)"
    "number_from 0 (um_sequence m) = Some sequence" "sequence \<le> MAX_U64"
    and find: "findAgentIdentity (at_sha au) (um_agentId m) db = (Inr identity, d)"
    and acc: "accept_message au now m sequence identity d = (Inr agent, db')"
    by (auto simp: authenticate_def split: if_splits)
  with that accept_message_outcome [OF acc] findAgentIdentity_same [OF find] show ?thesis by auto
qed

lemma authenticate_failed:
  assumes "authenticate au now m db = (Inl e, db')"
  shows "db' = db"
  using assms
  by (auto simp: authenticate_def split: if_splits
      dest: parseSequence_same findAgentIdentity_same accept_message_failed)

lemma number_from_decimal [simp]: "number_from 0 (decimal n) = Some n"
proof (induction n rule: decimal.induct)
  case (1 n)
  show ?case
  proof (cases "n < 10")
    case True
    then show ?thesis by (simp add: decimal.simps [of n])
  next
    case False
    with 1 show ?thesis by (simp add: decimal.simps [of n] number_from_append)
  qed
qed

lemma accepted_claim:
  assumes "claimAgentMessage i db = (Inr Accepted, db')" and "constraints db"
    and "number_from 0 (cm_sequence i) = Some n"
  shows "(\<exists>m. last_sequence db (cm_agentId i) = Some m \<and> m < n) \<and> last_sequence db' (cm_agentId i) = Some n
    \<and> constraints db'"
  using gateway.accepted [of db "ClaimMessage i" "cm_agentId i" n]
    gateway.valid_step [of db "ClaimMessage i"] assms by simp

subsection \<open>The connection: invariant\<close>

text \<open>The challenge goes first, and no job before somebody has authenticated.\<close>

definition sent_ok :: "json \<Rightarrow> socket_frame list \<Rightarrow> gateway_agent_identity option \<Rightarrow> bool" where
  "sent_ok challenge sent who \<longleftrightarrow>
     (\<exists>ms. sent = SentChallenge challenge # map SentJob ms \<and> (ms \<noteq> [] \<longrightarrow> who \<noteq> None))"

lemma sent_ok_first [simp]: "sent_ok c [SentChallenge c] who"
  by (simp add: sent_ok_def)

lemma sent_ok_authenticated: "sent_ok c l None \<Longrightarrow> sent_ok c l who"
  by (auto simp: sent_ok_def)

lemma sent_ok_job: "sent_ok c l (Some a) \<Longrightarrow> sent_ok c (l @ [SentJob m]) (Some a)"
  unfolding sent_ok_def by (metis append_Cons list.simps(8) list.simps(9) map_append option.distinct(1))

definition ws_inv :: "socket \<Rightarrow> bool" where
  "ws_inv s \<longleftrightarrow> (so_challengeConsumed s \<longleftrightarrow> so_authenticated s \<noteq> None) \<and>
     (so_helloProcessing s \<longleftrightarrow> so_hello s \<noteq> NoHello) \<and>
     (so_scanTimer s \<or> so_hello s = HelloActive \<longrightarrow> so_authenticated s \<noteq> None) \<and>
     sent_ok (connection_challenge (so_challenge s) (so_challengeExpiresAt s)) (so_sent s) (so_authenticated s) \<and>
     (\<forall>raw. so_hello s = HelloReceived raw \<longrightarrow> so_authenticated s = None) \<and>
     (\<forall>t. so_hello s = HelloAuthenticated t \<or> so_hello s = HelloClaimed t \<longrightarrow>
        (\<exists>agent now. so_authenticated s = Some agent \<and>
           t = transport_input agent ''websocket'' (so_challenge s) now))"

lemma close_simps [simp]:
  "so_authenticated (close_socket c s) = so_authenticated s" "so_sent (close_socket c s) = so_sent s"
  "so_hello (close_socket c s) = so_hello s" "so_scanTimer (close_socket c s) = so_scanTimer s"
  "so_helloProcessing (close_socket c s) = so_helloProcessing s"
  "so_challengeConsumed (close_socket c s) = so_challengeConsumed s"
  "so_challenge (close_socket c s) = so_challenge s"   "so_challengeExpiresAt (close_socket c s) = so_challengeExpiresAt s" "so_open (close_socket c s) = False"
  by (simp_all add: close_socket_def)

lemma hello_failed_simps [simp]:
  "so_authenticated (hello_failed s) = so_authenticated s" "so_sent (hello_failed s) = so_sent s"
  "so_hello (hello_failed s) = NoHello" "so_scanTimer (hello_failed s) = so_scanTimer s"
  "so_helloProcessing (hello_failed s) = False" "so_challenge (hello_failed s) = so_challenge s"
  "so_challengeExpiresAt (hello_failed s) = so_challengeExpiresAt s"
  "so_challengeConsumed (hello_failed s) = so_challengeConsumed s" "so_open (hello_failed s) = False"
  by (simp_all add: hello_failed_def)

lemma poll_scope:
  assumes "poll (job_lookup agent now) db = (Inr (Some j), db')"
  shows "jr_tenantId j = gi_tenantId agent \<and> jr_environmentId j = gi_environmentId agent \<and> db' = db"
  using assms by (rule poll_Some) (simp add: job_lookup_def normalizeJob_def)

lemma signed_message_scope:
  assumes "signedResponse gw tenant a e ty payload at db = (Inr m, db')"
  shows "um_agentId m = a \<and> um_environmentId m = e \<and> um_messageType m = ty \<and>
    um_direction m = ControlToAgent \<and> um_payload m = Some payload"
  using assms
  by (auto simp: signedResponse_def sign_message_def unsigned_agent_message.extend_def
      split: if_splits option.splits)

definition active_session :: "agent_transport_input \<Rightarrow> database \<Rightarrow> bool" where
  "active_session t db \<longleftrightarrow> (\<exists>r \<in> set (db_agentTransportSessions db). this_session (ti_tenantId t) t r)"

lemma isTransportActive_eq: "isTransportActive t db = (Inr (active_session t db), db)"
  by (simp add: isTransportActive_def active_session_def inTenantTransaction_def inTransaction_def query_def)

text \<open>Delivery: nothing, a close, or one job message while the session is the active one.\<close>

definition delivered_to ::
  "gateway_agent_identity \<Rightarrow> socket \<Rightarrow> database \<Rightarrow> agent_message \<Rightarrow> bool" where
  "delivered_to agent s db m \<longleftrightarrow> so_open s \<and> so_authenticated s = Some agent \<and>
     (\<exists>now. active_session (transport_input agent ''websocket'' (so_challenge s) now) db) \<and>
     um_agentId m = gi_agentId agent \<and> um_environmentId m = gi_environmentId agent \<and>
     um_messageType m = ''job.available''"

lemma sendAvailableJob_cases:
  assumes "sendAvailableJob gw others alive agent now s db = (threw, s', db')" and "so_authenticated s = Some agent"
  shows "s' = s \<or> s' = close_socket 1001 s \<or>
    (\<exists>m. s' = s\<lparr>so_sent := so_sent s @ [SentJob m]\<rparr> \<and> delivered_to agent s db m)"
proof (cases "active_session (transport_input agent ''websocket'' (so_challenge s) now) db")
  case False
  with assms show ?thesis by (simp add: sendAvailableJob_def isTransportActive_eq)
next
  case active: True
  show ?thesis
  proof (cases "poll (job_lookup agent now) (others 0 db)")
    case (Pair r d)
    show ?thesis
    proof (cases "\<exists>j. r = Inr (Some j)")
      case False
      then have "r = Inr None \<or> (\<exists>e. r = Inl e)" by (cases r) auto
      with assms active Pair show ?thesis by (auto simp: sendAvailableJob_def isTransportActive_eq)
    next
      case True
      then obtain j where r: "r = Inr (Some j)" by blast
      from poll_scope [of agent now "others 0 db" j d] Pair r
      have j: "jr_environmentId j = gi_environmentId agent" by simp
      show ?thesis
      proof (cases "signedJobAvailable gw j (gi_agentId agent) now (others 1 d)")
        case sent: (Pair x d')
        show ?thesis
        proof (cases x)
          case (Inl e)
          with assms active Pair r sent show ?thesis
            by (auto simp: sendAvailableJob_def isTransportActive_eq split: if_splits)
        next
          case (Inr m)
          with sent j signed_message_scope
          have "um_agentId m = gi_agentId agent \<and> um_environmentId m = gi_environmentId agent \<and>
              um_messageType m = ''job.available''"
            unfolding signedJobAvailable_def by metis
          with assms active Pair r sent Inr show ?thesis
            by (auto simp: sendAvailableJob_def isTransportActive_eq delivered_to_def split: if_splits)
        qed
      qed
    qed
  qed
qed

text \<open>What a step may do to what a connection has authenticated and sent.\<close>

definition progress :: "gateway \<Rightarrow> socket \<Rightarrow> database \<Rightarrow> socket \<Rightarrow> database \<Rightarrow> bool" where
  "progress gw s db s' db' \<longleftrightarrow> so_challenge s' = so_challenge s \<and>
     so_challengeExpiresAt s' = so_challengeExpiresAt s \<and>
     (so_authenticated s' = so_authenticated s \<or>
      (\<exists>raw m now agent. so_authenticated s = None \<and> so_authenticated s' = Some agent \<and>
         so_hello s = HelloReceived raw \<and> hello_message s raw = Some m \<and>
         authenticate (gw_authenticator gw) now m db = (Inr agent, db'))) \<and>
     (so_sent s' = so_sent s \<or> (\<exists>agent m. so_sent s' = so_sent s @ [SentJob m] \<and> delivered_to agent s db m))"

lemma hello_authenticate_step:
  assumes "ws_inv s" and "so_hello s = HelloReceived raw"
    and "hello_authenticate gw now0 now1 now2 raw s db = (s', db')"
  shows "ws_inv s' \<and> progress gw s db s' db'"
proof -
  have none: "so_authenticated s = None" "\<not> so_challengeConsumed s" "so_helloProcessing s"
    "\<not> so_scanTimer s"
    "sent_ok (connection_challenge (so_challenge s) (so_challengeExpiresAt s)) (so_sent s) None"
    using assms(1,2) by (auto simp: ws_inv_def)
  from assms(3) consider (failed) "s' = hello_failed s"
    | (ok) m agent where "s' = s\<lparr>so_challengeConsumed := True, so_authenticated := Some agent,
        so_hello := HelloAuthenticated (transport_input agent ''websocket'' (so_challenge s) now2)\<rparr>"
      "hello_message s raw = Some m" "authenticate (gw_authenticator gw) now1 m db = (Inr agent, db')"
    by (auto simp: hello_authenticate_def split: if_splits option.splits prod.splits sum.splits)
  then show ?thesis
  proof cases
    case failed
    with none show ?thesis by (simp add: ws_inv_def progress_def)
  next
    case ok
    then have "progress gw s db s' db'" unfolding progress_def using none(1) assms(2) by auto
    with ok none sent_ok_authenticated show ?thesis by (auto simp: ws_inv_def)
  qed
qed

lemma ws_step_inv:
  assumes inv: "ws_inv s" and step: "ws_step gw (s, db) (s', db')"
  shows "ws_inv s' \<and> progress gw s db s' db'"
  using step
proof (cases rule: ws_step_cases)
  case (message now raw)
  with inv show ?thesis
    by (auto simp: on_message_def Let_def ws_inv_def progress_def split: if_splits)
next
  case (authenticated raw now0 now1 now2)
  with hello_authenticate_step [OF inv] show ?thesis by metis
next
  case (claimed t)
  then have "s' = hello_failed s \<or> s' = s\<lparr>so_hello := HelloClaimed t\<rparr>"
    by (auto simp: hello_claim_def split: prod.splits sum.splits)
  with inv claimed show ?thesis by (auto simp: ws_inv_def progress_def)
next
  case (checked t)
  then have "s' = hello_failed s \<or> s' = s\<lparr>so_hello := HelloActive\<rparr>"
    by (auto simp: hello_check_def split: prod.splits sum.splits bool.splits)
  with inv checked show ?thesis by (auto simp: ws_inv_def progress_def)
next
  case (delivered wait alive now)
  then obtain agent where agent: "so_authenticated s = Some agent" using inv by (auto simp: ws_inv_def)
  obtain threw t d where send: "sendAvailableJob gw wait alive agent now s db = (threw, t, d)"
    by (cases "sendAvailableJob gw wait alive agent now s db") auto
  have "s' = hello_failed t \<or> s' = t\<lparr>so_scanTimer := True, so_helloProcessing := False, so_hello := NoHello\<rparr>"
    using delivered agent send by (cases threw) (auto simp: hello_deliver_def)
  with sendAvailableJob_cases [OF send agent] inv agent sent_ok_job show ?thesis
    by (auto simp: ws_inv_def progress_def)
next
  case (scanned wait alive now)
  then obtain agent where agent: "so_authenticated s = Some agent" using inv by (auto simp: ws_inv_def)
  show ?thesis
  proof (cases "so_open s")
    case True
    obtain threw t d where send: "sendAvailableJob gw wait alive agent now s db = (threw, t, d)"
      by (cases "sendAvailableJob gw wait alive agent now s db") auto
    have "s' = close_socket 1011 t \<or> s' = t"
      using scanned agent send True by (cases threw) (auto simp: on_scan_def)
    with sendAvailableJob_cases [OF send agent] inv agent sent_ok_job show ?thesis
      by (auto simp: ws_inv_def progress_def)
  next
    case False
    with scanned agent inv show ?thesis by (simp add: on_scan_def progress_def)
  qed
next
  case (closed now)
  with inv show ?thesis
    by (cases "so_authenticated s") (auto simp: on_close_def Let_def ws_inv_def progress_def)
qed (use inv in \<open>auto simp: on_heartbeat_def on_pong_def ws_inv_def progress_def split: if_splits\<close>)

lemma connect_inv: "ws_inv (connect random now0 now1)"
  by (simp add: ws_inv_def connect_def)

lemma ws_reachable_inv: "ws_reachable gw c \<Longrightarrow> ws_inv (fst c)"
proof (induction rule: ws_reachable.induct)
  case (stepped gw c c')
  then show ?case using ws_step_inv [of "fst c" gw "snd c" "fst c'" "snd c'"] by simp
qed (simp add: connect_inv)

subsection \<open>Properties\<close>

text \<open>C27. A message the gateway authenticates was signed with the key of a registered agent.\<close>

theorem authenticated_messages_are_genuine:
  assumes "constraints db" and "authenticate au now m db = (Inr agent, db')"
  shows "\<exists>row key sig bs n last.
    find (\<lambda>r. ag_id r = um_agentId m) (db_agents db) = Some row \<and>
    ag_publicSigningKey row = b64_encode key \<and> am_signature m = b64_encode sig \<and>
    agentMessageSigningBytes (at_canonicalize au) m = Some bs \<and> at_ed25519 au key sig bs = Some True \<and>
    um_direction m = AgentToControl \<and> um_environmentId m = ag_environmentId row \<and>
    ag_status row \<noteq> ''revoked'' \<and> gi_agentId agent = um_agentId m \<and>
    environment_tenant db (ag_environmentId row) = Some (gi_tenantId agent) \<and>
    fresh now (um_sentAt m) \<and> number_from 0 (um_sequence m) = Some n \<and> n \<le> MAX_U64 \<and>
    last_sequence db (um_agentId m) = Some last \<and> last < n \<and> last_sequence db' (um_agentId m) = Some n \<and>
    (\<forall>now' m'. um_agentId m' = um_agentId m \<and> um_sequence m' = um_sequence m \<longrightarrow>
       (\<exists>e. authenticate au now' m' db' = (Inl e, db')))"
proof -
  from authenticate_outcome [OF assms(2)] obtain n where fresh: "fresh now (um_sentAt m)"
    and n: "number_from 0 (um_sequence m) = Some n" "n \<le> MAX_U64"
    and find: "findAgentIdentity (at_sha au) (um_agentId m) db = (Inr (Some agent), db)"
    and acc: "signature_accepted au m (Some agent)" "gi_environmentId agent = um_environmentId m"
      "gi_status agent \<noteq> ''revoked''"
    and claim: "claimAgentMessage (message_claim agent m n now) db = (Inr Accepted, db')" by metis
  from findAgentIdentity_Some [OF find] obtain row where
    row: "find (\<lambda>r. ag_id r = um_agentId m) (db_agents db) = Some row" "gi_agentId agent = um_agentId m"
      "environment_tenant db (ag_environmentId row) = Some (gi_tenantId agent)"
      "gi_environmentId agent = ag_environmentId row" "gi_publicSigningKey agent = ag_publicSigningKey row"
      "gi_status agent = ag_status row" by metis
  from acc have verified: "um_direction m = AgentToControl"
    "verifyAgentMessage (at_ed25519 au) (at_canonicalize au) m (gi_publicSigningKey agent)"
    by (simp_all add: signature_accepted_def)
  from verifyAgentMessage_True [OF verified(2)] obtain key sig bs where
    sig: "gi_publicSigningKey agent = b64_encode key" "am_signature m = b64_encode sig"
      "agentMessageSigningBytes (at_canonicalize au) m = Some bs" "at_ed25519 au key sig bs = Some True"
    by metis
  have "number_from 0 (cm_sequence (message_claim agent m n now)) = Some n"
    by (simp add: message_claim_def)
  from accepted_claim [OF claim assms(1) this] obtain last where
    last: "last_sequence db (um_agentId m) = Some last" "last < n"
      "last_sequence db' (um_agentId m) = Some n" "constraints db'"
    by (auto simp: message_claim_def)
  have "\<exists>e. authenticate au now' m' db' = (Inl e, db')"
    if same: "um_agentId m' = um_agentId m" "um_sequence m' = um_sequence m" for now' m'
  proof (cases "authenticate au now' m' db'")
    case (Pair r d)
    show ?thesis
    proof (cases r)
      case (Inl e)
      with Pair authenticate_failed show ?thesis by blast
    next
      case (Inr g)
      with authenticate_outcome [of au now' m' db' g d] Pair same n(1)
      have "claimAgentMessage (message_claim g m' n now') db' = (Inr Accepted, d)" by auto
      from accepted_claim [OF this last(4), of n] last(3) same show ?thesis
        by (simp add: message_claim_def)
    qed
  qed
  moreover have "ag_publicSigningKey row = b64_encode key" using row(5) sig(1) by simp
  moreover have "um_environmentId m = ag_environmentId row" "ag_status row \<noteq> ''revoked''"
    using acc row by simp_all
  ultimately show ?thesis
    using fresh n row(1-3) sig(2-4) verified(1) last(1-3) by blast
qed

definition example_authenticator :: authenticator where
  "example_authenticator = \<lparr>at_sha = (\<lambda>_. []),
     at_ed25519 = (\<lambda>key sig bs. Some (key = replicate 32 9 \<and> sig = replicate 64 7 \<and> bs \<noteq> [])),
     at_canonicalize = (\<lambda>j. Some (if j = JNull then ''null'' else ''object''))\<rparr>"

definition example_signer_row :: agent_row where
  "example_signer_row = example_agent\<lparr>ag_publicSigningKey := b64_encode (replicate 32 9)\<rparr>"

definition example_signer_db :: database where
  "example_signer_db = example_gateway_db\<lparr>db_agents := [example_signer_row]\<rparr>"

definition example_hello :: agent_message where
  "example_hello = \<lparr>um_protocolVersion = ''1.0'', um_messageType = ''agent.hello'',
     um_messageId = ''msg_1'', um_keyId = ''sk_1'', um_environmentId = ''env_1'', um_agentId = ''agt_1'',
     um_direction = AgentToControl, um_sequence = ''1'', um_sentAt = toISOString 5000,
     um_payload = Some (JObj [(''challenge'', JStr (b64_encode (replicate 32 1)))]),
     am_signature = b64_encode (replicate 64 7)\<rparr>"

lemmas example_signer_defs = example_gateway_db_def example_db_def example_signer_db_def
  example_signer_row_def example_agent_def example_job_def example_request_row_def active_agent_def
  active_subject_def privacy_request_ok_def request_statuses_def positive_or_null_def

lemma example_signer_ok: "constraints example_signer_db"
  by (simp add: constraint_defs example_signer_defs)

lemma example_sent: "date_parse (toISOString 5000) = Some 5000"
  by (rule date_parse_toISOString) (simp_all add: max_time_def)

lemma one_text: "number_from 0 ''1'' = Some 1" by code_simp
lemma decimal_one: "decimal (Suc 0) = ''1''" by code_simp

lemma example_hello_ok: "message_ok example_hello"
  by (simp add: message_ok_def example_hello_def datetime_text_def example_sent agent_sequence_def
      sequence_pattern_def digits_def MAX_U64_def one_text del: number_from.simps)

lemma example_hello_fields:
  "um_protocolVersion example_hello = ''1.0''" "um_agentId example_hello = ''agt_1''"
  "um_environmentId example_hello = ''env_1''" "um_keyId example_hello = ''sk_1''"
  "um_direction example_hello = AgentToControl" "um_sequence example_hello = ''1''"
  "um_messageId example_hello = ''msg_1''" "um_sentAt example_hello = toISOString 5000"
  by (simp_all add: example_hello_def)

lemma example_hello_sig: "am_signature example_hello = b64_encode (replicate 64 7)"
  by (simp add: example_hello_def)

lemma example_hello_claimed:
  "claimAgentMessage \<lparr>cm_tenantId = ''ten_1'', cm_agentId = ''agt_1'', cm_environmentId = ''env_1'',
     cm_messageId = ''msg_1'', cm_sequence = ''1'', cm_receivedAt = toISOString 6000\<rparr> example_signer_db =
   (Inr Accepted, example_signer_db\<lparr>db_agentMessageReceipts := [\<lparr>mr_agentId = ''agt_1'',
      mr_messageId = ''msg_1'', mr_sequence = ''1'', mr_receivedAt = 6000\<rparr>],
      db_agents := [example_signer_row\<lparr>ag_lastSequence := ''1'', ag_lastSeenAt := Some 6000\<rparr>]\<rparr>)"
proof -
  have 1: "visible_agent ''ten_1'' example_signer_db ''agt_1'' = Some example_signer_row"
    by (simp add: visible_agent_def environment_tenant_def example_signer_defs)
  have 2: "ag_environmentId example_signer_row = ''env_1''" "ag_status example_signer_row = ''online''"
    "ag_lastSequence example_signer_row = ''0''" "db_agentMessageReceipts example_signer_db = []"
    "db_agents example_signer_db = [example_signer_row]" "ag_id example_signer_row = ''agt_1''"
    by (simp_all add: example_signer_defs)
  have 3: "number_from 0 ''0'' = Some 0" by code_simp
  have 4: "as_timestamp (toISOString 6000) db = (Inr 6000, db)" for db :: database
    by (simp add: as_timestamp_def date_parse_toISOString max_time_def)
  have ok: "constraints (example_signer_db\<lparr>db_agentMessageReceipts := [\<lparr>mr_agentId = ''agt_1'',
      mr_messageId = ''msg_1'', mr_sequence = ''1'', mr_receivedAt = 6000\<rparr>]\<rparr>)"
    "constraints (example_signer_db\<lparr>db_agentMessageReceipts := [\<lparr>mr_agentId = ''agt_1'',
      mr_messageId = ''msg_1'', mr_sequence = ''1'', mr_receivedAt = 6000\<rparr>],
      db_agents := [example_signer_row\<lparr>ag_lastSequence := ''1'', ag_lastSeenAt := Some 6000\<rparr>]\<rparr>)"
    by (simp_all add: constraint_defs example_signer_defs)
  show ?thesis
    by (simp add: claimAgentMessage_def inTenantTransaction_def inTransaction_def seqM_def 1 2 3 4 one_text
        big_int_def receipt_exists_def statement_def ok returnM_def del: number_from.simps)
qed

lemma example_hello_accepted:
  "\<exists>agent db'. authenticate example_authenticator 6000 example_hello example_signer_db = (Inr agent, db')"
proof -
  let ?agent = "\<lparr>gi_agentId = ''agt_1'', gi_tenantId = ''ten_1'', gi_environmentId = ''env_1'',
      gi_publicSigningKey = b64_encode (replicate 32 9), gi_signingKeyId = ''sk_1'',
      gi_protocolVersion = ''1.0'', gi_status = ''online''\<rparr>"
  let ?db = "example_signer_db\<lparr>db_agentMessageReceipts := [\<lparr>mr_agentId = ''agt_1'',
      mr_messageId = ''msg_1'', mr_sequence = ''1'', mr_receivedAt = 6000\<rparr>]\<rparr>"
  have find: "findAgentIdentity sha ''agt_1'' example_signer_db = (Inr (Some ?agent), example_signer_db)"
    for sha by (simp add: findAgentIdentity_def example_signer_defs environment_tenant_def)
  have "verifyAgentMessage (at_ed25519 example_authenticator) (at_canonicalize example_authenticator)
      example_hello (b64_encode (replicate 32 9))"
    using example_hello_ok
    by (simp add: verifyAgentMessage_def agentMessageSigningBytes_def canonicalUnsignedBytes_def
        schema_message_json example_authenticator_def codec example_hello_sig)
  then have "signature_accepted example_authenticator example_hello (Some ?agent)"
    by (simp add: signature_accepted_def example_hello_fields)
  moreover have "claimAgentMessage (message_claim ?agent example_hello 1 6000) example_signer_db =
      (Inr Accepted, ?db\<lparr>db_agents :=
        [example_signer_row\<lparr>ag_lastSequence := ''1'', ag_lastSeenAt := Some 6000\<rparr>]\<rparr>)"
    using example_hello_claimed by (simp add: message_claim_def example_hello_fields decimal_one)
  ultimately have "accept_message example_authenticator 6000 example_hello 1 (Some ?agent) example_signer_db =
      (Inr ?agent, ?db\<lparr>db_agents :=
        [example_signer_row\<lparr>ag_lastSequence := ''1'', ag_lastSeenAt := Some 6000\<rparr>]\<rparr>)"
    by (simp add: accept_message_def Let_def example_hello_fields seqM_def claim_result_def returnM_def)
  moreover have "parseSequence (um_sequence example_hello) example_signer_db = (Inr 1, example_signer_db)"
    by (simp add: parseSequence_def big_int_def example_hello_fields sequence_pattern_def digits_def
        one_text MAX_U64_def seqM_def returnM_def del: number_from.simps parseSequence_ok)
  moreover have "fresh 6000 (um_sentAt example_hello)"
    by (simp add: fresh_def example_hello_fields example_sent MESSAGE_FRESHNESS_MS_def)
  ultimately show ?thesis using find by (auto simp: authenticate_def seqM_def example_hello_fields simp del: parseSequence_ok)
qed



theorem authenticated_messages_are_genuine_witness:
  "\<exists>agent db' e. authenticate example_authenticator 6000 example_hello example_signer_db = (Inr agent, db') \<and>
     authenticate example_authenticator 6000 example_hello db' = (Inl e, db')"
proof -
  obtain agent db' where "authenticate example_authenticator 6000 example_hello example_signer_db = (Inr agent, db')"
    using example_hello_accepted by blast
  with authenticated_messages_are_genuine [OF example_signer_ok this] show ?thesis by auto
qed

text \<open>C28. The first frame of a connection is its challenge; every other one is a job message, and none of these
is sent before an agent has authenticated on the connection by answering that challenge, once. Each job
message goes to that agent and its environment, over a connection that is open and the active session of
the agent when the delivery begins.\<close>

theorem websocket_serves_one_authenticated_agent:
  assumes "ws_reachable gw (s, db)" and "ws_step gw (s, db) (s', db')"
  shows "(so_challengeConsumed s' \<longleftrightarrow> so_authenticated s' \<noteq> None) \<and>
    (\<exists>ms. so_sent s' = SentChallenge (connection_challenge (so_challenge s') (so_challengeExpiresAt s')) # map SentJob ms \<and>
      (ms \<noteq> [] \<longrightarrow> so_authenticated s' \<noteq> None)) \<and>
    (so_authenticated s' = so_authenticated s \<or>
      (\<exists>raw m now agent. so_authenticated s = None \<and> so_authenticated s' = Some agent \<and>
         so_hello s = HelloReceived raw \<and> hello_message s raw = Some m \<and>
         authenticate (gw_authenticator gw) now m db = (Inr agent, db'))) \<and>
    (so_sent s' = so_sent s \<or>
      (\<exists>agent m now. so_sent s' = so_sent s @ [SentJob m] \<and> so_open s \<and> so_authenticated s = Some agent \<and>
         active_session (transport_input agent ''websocket'' (so_challenge s) now) db \<and>
         um_agentId m = gi_agentId agent \<and> um_environmentId m = gi_environmentId agent \<and>
         um_messageType m = ''job.available''))"
proof -
  from ws_reachable_inv [OF assms(1)] have "ws_inv s" by simp
  from ws_step_inv [OF this assms(2)] have "ws_inv s'" and p: "progress gw s db s' db'" by auto
  then have "(so_challengeConsumed s' \<longleftrightarrow> so_authenticated s' \<noteq> None) \<and>
    (\<exists>ms. so_sent s' = SentChallenge (connection_challenge (so_challenge s') (so_challengeExpiresAt s')) # map SentJob ms \<and>
      (ms \<noteq> [] \<longrightarrow> so_authenticated s' \<noteq> None))" by (simp add: ws_inv_def sent_ok_def)
  moreover have "so_sent s' = so_sent s \<or>
      (\<exists>agent m now. so_sent s' = so_sent s @ [SentJob m] \<and> so_open s \<and> so_authenticated s = Some agent \<and>
         active_session (transport_input agent ''websocket'' (so_challenge s) now) db \<and>
         um_agentId m = gi_agentId agent \<and> um_environmentId m = gi_environmentId agent \<and>
         um_messageType m = ''job.available'')"
    using p unfolding progress_def delivered_to_def by blast
  ultimately show ?thesis using p unfolding progress_def by blast
qed

lemma b64_encode_size: "length (b64_encode bs) = (4 * length bs + 2) div 3"
  by (induction bs rule: b64_encode.induct) (auto simp: b64_digits_def)

definition example_hello_json :: json where
  "example_hello_json = (case message_json example_hello of
     JObj ms \<Rightarrow> JObj (ms @ [(''signature'', JStr (am_signature example_hello))]) | j \<Rightarrow> j)"

lemma example_hello_schema: "AgentMessageSchema example_hello_json = Some example_hello"
proof -
  have sig: "signature_text (am_signature example_hello)" 
    unfolding example_hello_sig signature_text_def list_all_iff b64_encode_size
    using b64_encode_alphabet [of "replicate 64 7"] by auto
  have ok: "agent_sequence (um_sequence example_hello)" "datetime_text (um_sentAt example_hello)"
    using example_hello_ok by (simp_all add: message_ok_def)
  show ?thesis
    by (simp add: AgentMessageSchema_def example_hello_json_def message_json_def message_keys_def
        parse_members_def zfield_def zenum_def sig sig [unfolded example_hello_sig] ok)
     (simp_all add: example_hello_def unsigned_agent_message.extend_def sig [unfolded example_hello_sig])
qed


definition example_gateway :: gateway where
  "example_gateway = \<lparr>gw_authenticator = example_authenticator,
     gw_signer = \<lparr>ms_sign = (\<lambda>_. replicate 64 3), ms_keyId = ''sk_control''\<rparr>, gw_now = (\<lambda>k. 6000 + int k),
     gw_randomUUID = ''u1''\<rparr>"

definition example_socket :: socket where
  "example_socket = on_message 5500 (Some example_hello_json) (connect (replicate 32 1) 5000 5000)"

theorem websocket_serves_one_authenticated_agent_witness:
  "\<exists>agent s' db'. ws_step example_gateway (example_socket, example_signer_db) (s', db') \<and>
     so_authenticated s' = Some agent \<and> so_challengeConsumed s'"
proof -
  obtain agent db' where run:
    "authenticate example_authenticator 6000 example_hello example_signer_db = (Inr agent, db')"
    using example_hello_accepted by blast
  have hello: "so_hello example_socket = HelloReceived (Some example_hello_json)"
    and open_challenge: "\<not> so_challengeConsumed example_socket" "\<not> so_challengeExpiresAt example_socket < 5500"
    and message: "hello_message example_socket (Some example_hello_json) = Some example_hello"
    by (simp_all add: example_socket_def on_message_def connect_def CHALLENGE_TTL_MS_def hello_message_def
        example_hello_schema)
      (simp add: example_hello_def)
  have reach: "ws_reachable example_gateway (example_socket, example_signer_db)"
    unfolding example_socket_def by (rule ws_reachable.stepped [OF ws_reachable.opened ws_step.message])
  obtain s' d where eq: "hello_authenticate example_gateway 5500 6000 6000 (Some example_hello_json)
      example_socket example_signer_db = (s', d)" by (metis surj_pair)
  then have auth: "so_authenticated s' = Some agent"
    using open_challenge message run by (auto simp: hello_authenticate_def example_gateway_def)
  have step: "ws_step example_gateway (example_socket, example_signer_db) (s', d)"
    unfolding eq [symmetric] by (rule ws_step.authenticated [OF hello])
  from websocket_serves_one_authenticated_agent [OF reach step] auth step show ?thesis by auto
qed

end
