(* ===== verification/Hierarchy.thy ===== *)
theory Hierarchy
  imports Agent_Jobs "HOL-Library.Multiset"
begin

text \<open>
  Tenants, projects and environments: the port and its use cases
  (\<^verbatim>\<open>packages/application/src/tenant-hierarchy\<close>), the store in memory
  (\<^verbatim>\<open>apps/api/src/hierarchy-store.ts\<close>) and the store on the tables
  (\<^verbatim>\<open>packages/database/src/repositories/hierarchy-store.ts\<close>). What a creation draws from outside,
  the random part of the identifier and the clock, is an argument.
\<close>

subsection \<open>Records of the port\<close>

record tenant_record =
  tr_id :: string
  tr_name :: string
  tr_plan :: string
  tr_createdAt :: string

record project_record =
  pc_id :: string
  pc_tenantId :: string
  pc_name :: string
  pc_slug :: string
  pc_createdAt :: string

record environment_record =
  ec_id :: string
  ec_projectId :: string
  ec_kind :: string
  ec_status :: string
  ec_subjectHashKeyVersion :: int
  ec_subjectCanonicalizationVersion :: int
  ec_createdAt :: string

record create_project_input =
  cp_name :: string
  cp_slug :: string

record create_environment_input =
  ce_kind :: string

datatype hierarchy_error = HierarchyNotFoundError | ProjectLimitError | EnvironmentConflictError

definition MAX_PROJECTS_PER_TENANT :: nat where "MAX_PROJECTS_PER_TENANT = 5"

definition project_id :: "string \<Rightarrow> string" where "project_id uuid = ''prj_'' @ uuid"
definition environment_id :: "string \<Rightarrow> string" where "environment_id uuid = ''env_'' @ uuid"

subsection \<open>The store in memory\<close>

text \<open>A \<open>Map\<close> from identifiers to records is the list of its records in the order of insertion.\<close>

definition map_put :: "('a \<Rightarrow> string) \<Rightarrow> 'a \<Rightarrow> 'a list \<Rightarrow> 'a list" where
  "map_put key r m = (if key r \<in> key ` set m then map (\<lambda>x. if key x = key r then r else x) m else m @ [r])"

definition map_get :: "('a \<Rightarrow> string) \<Rightarrow> string \<Rightarrow> 'a list \<Rightarrow> 'a option" where
  "map_get key k m = find (\<lambda>r. key r = k) m"

record memory_hierarchy =
  mh_tenants :: "tenant_record list"
  mh_projects :: "project_record list"
  mh_environments :: "environment_record list"

definition memory_hierarchy_seed :: "(string \<times> string \<times> string) list \<Rightarrow> memory_hierarchy" where
  "memory_hierarchy_seed seed =
     \<lparr>mh_tenants = fold (map_put tr_id) (map (\<lambda>(i, name, plan).
        \<lparr>tr_id = i, tr_name = name, tr_plan = plan, tr_createdAt = toISOString 0\<rparr>) seed) [],
      mh_projects = [], mh_environments = []\<rparr>"

type_synonym 'a memory_act = "(hierarchy_error, 'a, memory_hierarchy) act"

definition mem_getTenant :: "string \<Rightarrow> tenant_record option memory_act" where
  "mem_getTenant t s = returnM (map_get tr_id t (mh_tenants s)) s"

definition mem_projects_of :: "string \<Rightarrow> memory_hierarchy \<Rightarrow> project_record list" where
  "mem_projects_of t s = filter (\<lambda>p. pc_tenantId p = t) (mh_projects s)"

definition mem_listProjects :: "string \<Rightarrow> project_record list memory_act" where
  "mem_listProjects t s = returnM (mem_projects_of t s) s"

definition mem_project :: "string \<Rightarrow> string \<Rightarrow> memory_hierarchy \<Rightarrow> project_record option" where
  "mem_project t p s = (case map_get pc_id p (mh_projects s) of
     None \<Rightarrow> None | Some r \<Rightarrow> if pc_tenantId r = t then Some r else None)"

definition mem_getProject :: "string \<Rightarrow> string \<Rightarrow> project_record option memory_act" where
  "mem_getProject t p s = returnM (mem_project t p s) s"

definition mem_createProjectWithinLimit ::
  "string \<Rightarrow> int \<Rightarrow> string \<Rightarrow> create_project_input \<Rightarrow> nat \<Rightarrow> project_record memory_act" where
  "mem_createProjectWithinLimit uuid now t i maxProjects s =
     (if t \<notin> tr_id ` set (mh_tenants s) then throwM HierarchyNotFoundError s
      else if maxProjects \<le> length (mem_projects_of t s) then throwM ProjectLimitError s
      else let p = \<lparr>pc_id = project_id uuid, pc_tenantId = t, pc_name = cp_name i,
                    pc_slug = cp_slug i, pc_createdAt = toISOString now\<rparr>
           in (Inr p, s\<lparr>mh_projects := map_put pc_id p (mh_projects s)\<rparr>))"

definition mem_createProject ::
  "string \<Rightarrow> int \<Rightarrow> string \<Rightarrow> create_project_input \<Rightarrow> project_record memory_act" where
  "mem_createProject uuid now t i = mem_createProjectWithinLimit uuid now t i MAX_PROJECTS_PER_TENANT"

definition mem_listEnvironments :: "string \<Rightarrow> string \<Rightarrow> environment_record list memory_act" where
  "mem_listEnvironments t p s =
     (case mem_project t p s of
        None \<Rightarrow> returnM [] s
      | Some _ \<Rightarrow> returnM (filter (\<lambda>e. ec_projectId e = p) (mh_environments s)) s)"

definition mem_getEnvironment :: "string \<Rightarrow> string \<Rightarrow> environment_record option memory_act" where
  "mem_getEnvironment t e s =
     (case map_get ec_id e (mh_environments s) of
        None \<Rightarrow> returnM None s
      | Some r \<Rightarrow> (case mem_project t (ec_projectId r) s of
                     None \<Rightarrow> returnM None s | Some _ \<Rightarrow> returnM (Some r) s))"

definition mem_createEnvironment ::
  "string \<Rightarrow> int \<Rightarrow> string \<Rightarrow> string \<Rightarrow> create_environment_input \<Rightarrow> environment_record memory_act" where
  "mem_createEnvironment uuid now t p i s =
     (case mem_project t p s of
        None \<Rightarrow> throwM HierarchyNotFoundError s
      | Some _ \<Rightarrow>
          if \<exists>e \<in> set (mh_environments s). ec_projectId e = p \<and> ec_kind e = ce_kind i
          then throwM EnvironmentConflictError s
          else let e = \<lparr>ec_id = environment_id uuid, ec_projectId = p, ec_kind = ce_kind i,
                        ec_status = ''active'', ec_subjectHashKeyVersion = 1,
                        ec_subjectCanonicalizationVersion = 1, ec_createdAt = toISOString now\<rparr>
               in (Inr e, s\<lparr>mh_environments := map_put ec_id e (mh_environments s)\<rparr>))"

subsection \<open>The store on the tables\<close>

text \<open>\<open>normalizeCreatedAt\<close> of each kind of row.\<close>

definition tenant_of_row :: "tenant_row \<Rightarrow> tenant_record" where
  "tenant_of_row r = \<lparr>tr_id = tn_id r, tr_name = tn_name r, tr_plan = tn_plan r,
     tr_createdAt = toISOString (tn_createdAt r)\<rparr>"

definition project_of_row :: "project_row \<Rightarrow> project_record" where
  "project_of_row r = \<lparr>pc_id = pj_id r, pc_tenantId = pj_tenantId r, pc_name = pj_name r,
     pc_slug = pj_slug r, pc_createdAt = toISOString (pj_createdAt r)\<rparr>"

definition environment_of_row :: "environment_row \<Rightarrow> environment_record" where
  "environment_of_row r = \<lparr>ec_id = en_id r, ec_projectId = en_projectId r, ec_kind = en_kind r,
     ec_status = en_status r, ec_subjectHashKeyVersion = en_subjectHashKeyVersion r,
     ec_subjectCanonicalizationVersion = en_subjectCanonicalizationVersion r,
     ec_createdAt = toISOString (en_createdAt r)\<rparr>"

type_synonym 'a hierarchy_sql = "(hierarchy_error, 'a) sql"

definition pg_getTenant :: "string \<Rightarrow> tenant_record option hierarchy_sql" where
  "pg_getTenant t = inTenantTransaction t (\<lambda>tenant.
     query (\<lambda>db. map_option tenant_of_row (find (\<lambda>r. tn_id r = t) (db_tenants db))))"

definition project_order :: "project_row \<Rightarrow> queue_key" where
  "project_order r = QueueKey (pj_createdAt r) (pj_id r)"

definition environment_order :: "environment_row \<Rightarrow> queue_key" where
  "environment_order r = QueueKey (en_createdAt r) (en_id r)"

definition pg_listProjects :: "string \<Rightarrow> project_record list hierarchy_sql" where
  "pg_listProjects t = inTenantTransaction t (\<lambda>tenant.
     query (\<lambda>db. map project_of_row
       (sort_key project_order (filter (\<lambda>r. pj_tenantId r = t) (db_projects db)))))"

definition project_row_of :: "string \<Rightarrow> string \<Rightarrow> database \<Rightarrow> project_row option" where
  "project_row_of t p db = find (\<lambda>r. pj_id r = p \<and> pj_tenantId r = t) (db_projects db)"

definition pg_getProject :: "string \<Rightarrow> string \<Rightarrow> project_record option hierarchy_sql" where
  "pg_getProject t p = inTenantTransaction t (\<lambda>tenant.
     query (\<lambda>db. map_option project_of_row (project_row_of t p db)))"

definition new_project :: "string \<Rightarrow> int \<Rightarrow> string \<Rightarrow> create_project_input \<Rightarrow> project_row" where
  "new_project uuid now t i = \<lparr>pj_id = project_id uuid, pj_tenantId = t, pj_name = cp_name i,
     pj_slug = cp_slug i, pj_createdAt = now\<rparr>"

definition pg_createProjectWithinLimit ::
  "string \<Rightarrow> int \<Rightarrow> string \<Rightarrow> create_project_input \<Rightarrow> nat \<Rightarrow> project_record hierarchy_sql" where
  "pg_createProjectWithinLimit uuid now t i maxProjects = inTenantTransaction t (\<lambda>tenant db.
     if \<not> tenant_exists db t then raise HierarchyNotFoundError db
     else if maxProjects \<le> length (filter (\<lambda>r. pj_tenantId r = t) (db_projects db))
     then raise ProjectLimitError db
     else seqM (statement (\<lambda>db. db\<lparr>db_projects := db_projects db @ [new_project uuid now t i]\<rparr>))
       (\<lambda>_. returnM (project_of_row (new_project uuid now t i))) db)"

text \<open>The inner join with the projects of the tenant.\<close>

definition environment_visible :: "string \<Rightarrow> database \<Rightarrow> environment_row \<Rightarrow> bool" where
  "environment_visible t db e \<longleftrightarrow>
     (\<exists>p \<in> set (db_projects db). pj_id p = en_projectId e \<and> pj_tenantId p = t)"

definition pg_listEnvironments :: "string \<Rightarrow> string \<Rightarrow> environment_record list hierarchy_sql" where
  "pg_listEnvironments t p = inTenantTransaction t (\<lambda>tenant.
     query (\<lambda>db. map environment_of_row (sort_key environment_order
       (filter (\<lambda>e. en_projectId e = p \<and> environment_visible t db e) (db_environments db)))))"

definition pg_getEnvironment :: "string \<Rightarrow> string \<Rightarrow> environment_record option hierarchy_sql" where
  "pg_getEnvironment t e = inTenantTransaction t (\<lambda>tenant.
     query (\<lambda>db. map_option environment_of_row
       (find (\<lambda>r. en_id r = e \<and> environment_visible t db r) (db_environments db))))"

definition new_environment :: "string \<Rightarrow> int \<Rightarrow> string \<Rightarrow> create_environment_input \<Rightarrow> environment_row" where
  "new_environment uuid now p i = \<lparr>en_id = environment_id uuid, en_projectId = p, en_kind = ce_kind i,
     en_status = ''active'', en_subjectHashKeyVersion = 1, en_subjectCanonicalizationVersion = 1,
     en_createdAt = now\<rparr>"

text \<open>
  The error of a failed insert names the index \<open>environments_project_kind_uq\<close> when the checks and
  the primary key, which the server tries before, are satisfied.
\<close>

definition isEnvironmentKindConflict :: "environment_row \<Rightarrow> database \<Rightarrow> bool" where
  "isEnvironmentKindConflict e db \<longleftrightarrow> en_kind e \<in> {''staging'', ''production''} \<and>
     en_id e \<notin> en_id ` set (db_environments db) \<and>
     (\<exists>r \<in> set (db_environments db). en_projectId r = en_projectId e \<and> en_kind r = en_kind e)"

definition insert_environment :: "environment_row \<Rightarrow> unit hierarchy_sql" where
  "insert_environment e db =
     (case statement (\<lambda>db. db\<lparr>db_environments := db_environments db @ [e]\<rparr>) db of
        (Inl ConstraintViolation, db') \<Rightarrow>
          (if isEnvironmentKindConflict e db then (Inl (Raised EnvironmentConflictError), db')
           else (Inl ConstraintViolation, db'))
      | r \<Rightarrow> r)"

definition pg_createEnvironment ::
  "string \<Rightarrow> int \<Rightarrow> string \<Rightarrow> string \<Rightarrow> create_environment_input \<Rightarrow> environment_record hierarchy_sql" where
  "pg_createEnvironment uuid now t p i = inTenantTransaction t (\<lambda>tenant db.
     case project_row_of t p db of
       None \<Rightarrow> raise HierarchyNotFoundError db
     | Some _ \<Rightarrow> seqM (insert_environment (new_environment uuid now p i))
         (\<lambda>_. returnM (environment_of_row (new_environment uuid now p i))) db)"

subsection \<open>The port and its use cases\<close>

record ('e, 's) hierarchy_repository =
  hr_getTenant :: "string \<Rightarrow> ('e, tenant_record option, 's) act"
  hr_listProjects :: "string \<Rightarrow> ('e, project_record list, 's) act"
  hr_getProject :: "string \<Rightarrow> string \<Rightarrow> ('e, project_record option, 's) act"
  hr_createProjectWithinLimit ::
    "string \<Rightarrow> int \<Rightarrow> string \<Rightarrow> create_project_input \<Rightarrow> nat \<Rightarrow> ('e, project_record, 's) act"
  hr_listEnvironments :: "string \<Rightarrow> string \<Rightarrow> ('e, environment_record list, 's) act"
  hr_getEnvironment :: "string \<Rightarrow> string \<Rightarrow> ('e, environment_record option, 's) act"
  hr_createEnvironment ::
    "string \<Rightarrow> int \<Rightarrow> string \<Rightarrow> string \<Rightarrow> create_environment_input \<Rightarrow> ('e, environment_record, 's) act"

definition InMemoryHierarchyStore :: "(hierarchy_error, memory_hierarchy) hierarchy_repository" where
  "InMemoryHierarchyStore = \<lparr>hr_getTenant = mem_getTenant, hr_listProjects = mem_listProjects,
     hr_getProject = mem_getProject, hr_createProjectWithinLimit = mem_createProjectWithinLimit,
     hr_listEnvironments = mem_listEnvironments, hr_getEnvironment = mem_getEnvironment,
     hr_createEnvironment = mem_createEnvironment\<rparr>"

definition PostgresHierarchyStore :: "(hierarchy_error db_error, database) hierarchy_repository" where
  "PostgresHierarchyStore = \<lparr>hr_getTenant = pg_getTenant, hr_listProjects = pg_listProjects,
     hr_getProject = pg_getProject, hr_createProjectWithinLimit = pg_createProjectWithinLimit,
     hr_listEnvironments = pg_listEnvironments, hr_getEnvironment = pg_getEnvironment,
     hr_createEnvironment = pg_createEnvironment\<rparr>"

text \<open>The calls of \<open>TenantHierarchyUseCases\<close> and their answers.\<close>

datatype use_case =
    GetTenant string
  | ListProjects string
  | GetProject string string
  | CreateProject string int string create_project_input
  | ListEnvironments string string
  | GetEnvironment string string
  | CreateEnvironment string int string string create_environment_input

datatype answer =
    TenantAnswer "tenant_record option"
  | ProjectsAnswer "project_record list"
  | ProjectAnswer "project_record option"
  | EnvironmentsAnswer "environment_record list"
  | EnvironmentAnswer "environment_record option"

definition answering :: "('a \<Rightarrow> answer) \<Rightarrow> ('e, 'a, 's) act \<Rightarrow> ('e, answer, 's) act" where
  "answering f m = seqM m (\<lambda>x. returnM (f x))"

fun run_use_case :: "('e, 's) hierarchy_repository \<Rightarrow> use_case \<Rightarrow> ('e, answer, 's) act" where
  "run_use_case repo (GetTenant t) = answering TenantAnswer (hr_getTenant repo t)"
| "run_use_case repo (ListProjects t) = answering ProjectsAnswer (hr_listProjects repo t)"
| "run_use_case repo (GetProject t p) = answering ProjectAnswer (hr_getProject repo t p)"
| "run_use_case repo (CreateProject uuid now t i) = answering (\<lambda>p. ProjectAnswer (Some p))
     (hr_createProjectWithinLimit repo uuid now t i MAX_PROJECTS_PER_TENANT)"
| "run_use_case repo (ListEnvironments t p) = answering EnvironmentsAnswer (hr_listEnvironments repo t p)"
| "run_use_case repo (GetEnvironment t e) = answering EnvironmentAnswer (hr_getEnvironment repo t e)"
| "run_use_case repo (CreateEnvironment uuid now t p i) = answering (\<lambda>e. EnvironmentAnswer (Some e))
     (hr_createEnvironment repo uuid now t p i)"

definition use_case_step :: "('e, 's) hierarchy_repository \<Rightarrow> use_case \<Rightarrow> 's \<Rightarrow> 's" where
  "use_case_step repo c s = snd (run_use_case repo c s)"

definition run_use_cases :: "('e, 's) hierarchy_repository \<Rightarrow> use_case list \<Rightarrow> 's \<Rightarrow> 's" where
  "run_use_cases repo cs s = fold (use_case_step repo) cs s"

end
