(* ===== verification/Access.thy ===== *)
theory Access
  imports Hierarchy Json
begin

text \<open>
  Who may call the API: the fixed roles (\<^verbatim>\<open>packages/auth/src\<close>), the checks of the caller's context
  (\<^verbatim>\<open>apps/api/src/auth-context.ts\<close>), the request schemas (\<^verbatim>\<open>route-schema.ts\<close>), the routes on
  tenants, projects and environments (\<^verbatim>\<open>modules/{tenants,projects,environments}/routes.ts\<close>) and the
  replies to errors (\<^verbatim>\<open>app.ts\<close>). Who the caller is comes from the provider of the embedding
  application: the context is an argument.
\<close>

subsection \<open>Roles and permissions\<close>

datatype role = Owner | Admin | Reviewer

fun role_value :: "role \<Rightarrow> string" where
  "role_value Owner = ''owner''"
| "role_value Admin = ''admin''"
| "role_value Reviewer = ''reviewer''"

definition roles :: "role list" where "roles = [Owner, Admin, Reviewer]"

datatype permission =
    ManageBilling | ManageMembers | PairAgent | ConfigureConnectors | CreateRequest | ApproveRequest
  | ChangeExecutionPolicy | ReadAudit

fun permission_value :: "permission \<Rightarrow> string" where
  "permission_value ManageBilling = ''manage_billing''"
| "permission_value ManageMembers = ''manage_members''"
| "permission_value PairAgent = ''pair_agent''"
| "permission_value ConfigureConnectors = ''configure_connectors''"
| "permission_value CreateRequest = ''create_request''"
| "permission_value ApproveRequest = ''approve_request''"
| "permission_value ChangeExecutionPolicy = ''change_execution_policy''"
| "permission_value ReadAudit = ''read_audit''"

definition permissions :: "permission list" where
  "permissions = [ManageBilling, ManageMembers, PairAgent, ConfigureConnectors, CreateRequest,
     ApproveRequest, ChangeExecutionPolicy, ReadAudit]"

fun FIXED_ROLE_PERMISSIONS :: "role \<Rightarrow> permission list" where
  "FIXED_ROLE_PERMISSIONS Owner = permissions"
| "FIXED_ROLE_PERMISSIONS Admin = [ConfigureConnectors, CreateRequest, ApproveRequest, ReadAudit]"
| "FIXED_ROLE_PERMISSIONS Reviewer = [ApproveRequest, ReadAudit]"

text \<open>A value of any type is a role when it is one of the texts.\<close>

definition as_role :: "json \<Rightarrow> role option" where
  "as_role = zenum (map (\<lambda>r. (role_value r, r)) roles)"

definition isRole :: "json \<Rightarrow> bool" where
  "isRole v \<longleftrightarrow> as_role v \<noteq> None"

definition as_permission :: "json \<Rightarrow> permission option" where
  "as_permission = zenum (map (\<lambda>p. (permission_value p, p)) permissions)"

definition can :: "json \<Rightarrow> json \<Rightarrow> bool" where
  "can role permission =
     (case (as_role role, as_permission permission) of
        (Some r, Some p) \<Rightarrow> p \<in> set (FIXED_ROLE_PERMISSIONS r)
      | _ \<Rightarrow> False)"

record authorization_error =
  az_role :: json
  az_permission :: json

definition authorize :: "json \<Rightarrow> json \<Rightarrow> authorization_error + unit" where
  "authorize role permission =
     (if can role permission then Inr () else Inl \<lparr>az_role = role, az_permission = permission\<rparr>)"

datatype authorization_result = Allowed | Denied authorization_error

definition checkAuthorization :: "json \<Rightarrow> json \<Rightarrow> authorization_result" where
  "checkAuthorization role permission =
     (if can role permission then Allowed else Denied \<lparr>az_role = role, az_permission = permission\<rparr>)"

subsection \<open>The caller's context\<close>

record auth_context =
  ac_actor :: string
  ac_tenant :: string
  ac_role :: role

text \<open>A reply with a body, an error reply with its code, or an error the handler lets through.\<close>

datatype 'b reply = Reply nat 'b | ErrorReply nat string | Unhandled

text \<open>An absent and an empty requested tenant both ask for nothing.\<close>

definition requireTenantContext ::
  "auth_context option \<Rightarrow> string option \<Rightarrow> 'b reply + auth_context" where
  "requireTenantContext context requested =
     (case context of
        None \<Rightarrow> Inl (ErrorReply 401 ''UNAUTHENTICATED'')
      | Some c \<Rightarrow>
          (case requested of
             Some t \<Rightarrow> if t \<noteq> [] \<and> ac_tenant c \<noteq> t then Inl (ErrorReply 404 ''NOT_FOUND'') else Inr c
           | None \<Rightarrow> Inr c))"

definition requireAuthContext ::
  "auth_context option \<Rightarrow> permission \<Rightarrow> string option \<Rightarrow> 'b reply + auth_context" where
  "requireAuthContext context permission requested =
     (case requireTenantContext context requested of
        Inl r \<Rightarrow> Inl r
      | Inr c \<Rightarrow>
          (case authorize (JStr (role_value (ac_role c))) (JStr (permission_value permission)) of
             Inl _ \<Rightarrow> Inl (ErrorReply 403 ''FORBIDDEN'')
           | Inr _ \<Rightarrow> Inr c))"

definition requireRoleContext ::
  "auth_context option \<Rightarrow> role \<Rightarrow> string option \<Rightarrow> 'b reply + auth_context" where
  "requireRoleContext context requiredRole requested =
     (case requireTenantContext context requested of
        Inl r \<Rightarrow> Inl r
      | Inr c \<Rightarrow> if ac_role c \<noteq> requiredRole then Inl (ErrorReply 403 ''FORBIDDEN'') else Inr c)"

subsection \<open>Request schemas\<close>

definition text_within :: "nat \<Rightarrow> nat \<Rightarrow> string \<Rightarrow> bool" where
  "text_within lo hi s \<longleftrightarrow> lo \<le> length s \<and> length s \<le> hi"

text \<open>\<open>/^[a-z0-9]+(?:-[a-z0-9]+)*$/\<close>; the flag says that a segment has begun.\<close>

fun slug_rest :: "bool \<Rightarrow> string \<Rightarrow> bool" where
  "slug_rest begun [] = begun"
| "slug_rest begun (c # cs) =
     (if c = CHR ''-'' then begun \<and> slug_rest False cs
      else c \<in> set (lower @ digits) \<and> slug_rest True cs)"

definition slug_text :: "string \<Rightarrow> bool" where
  "slug_text s \<longleftrightarrow> slug_rest False s"

definition createProjectBodySchema :: "create_project_input \<Rightarrow> bool" where
  "createProjectBodySchema i \<longleftrightarrow> text_within 1 100 (cp_name i) \<and> text_within 1 64 (cp_slug i) \<and>
     slug_text (cp_slug i)"

definition createEnvironmentBodySchema :: "create_environment_input \<Rightarrow> bool" where
  "createEnvironmentBodySchema i \<longleftrightarrow> ce_kind i \<in> {''staging'', ''production''}"

subsection \<open>Routes\<close>

datatype body =
    TenantBody tenant_record
  | ProjectsBody "project_record list"
  | ProjectBody project_record
  | EnvironmentsBody "environment_record list"
  | EnvironmentBody environment_record

type_synonym ('e, 's) route = "('e, body reply, 's) act"

definition validated :: "bool \<Rightarrow> ('e, 's) route \<Rightarrow> ('e, 's) route" where
  "validated ok route = (if ok then route else returnM (ErrorReply 400 ''VALIDATION_ERROR''))"

definition with_context ::
  "body reply + auth_context \<Rightarrow> (auth_context \<Rightarrow> ('e, 's) route) \<Rightarrow> ('e, 's) route" where
  "with_context required route = (case required of Inl r \<Rightarrow> returnM r | Inr c \<Rightarrow> route c)"

abbreviation not_found :: "body reply" where
  "not_found \<equiv> ErrorReply 404 ''NOT_FOUND''"

definition get_tenant_route ::
  "('e, 's) hierarchy_repository \<Rightarrow> auth_context option \<Rightarrow> string \<Rightarrow> ('e, 's) route" where
  "get_tenant_route repo context tenantId = validated (text_within 1 128 tenantId)
     (with_context (requireTenantContext context (Some tenantId)) (\<lambda>c.
       seqM (hr_getTenant repo (ac_tenant c)) (\<lambda>t. returnM
         (case t of None \<Rightarrow> not_found | Some t \<Rightarrow> Reply 200 (TenantBody t)))))"

definition list_projects_route ::
  "('e, 's) hierarchy_repository \<Rightarrow> auth_context option \<Rightarrow> string \<Rightarrow> ('e, 's) route" where
  "list_projects_route repo context tenantId = validated (text_within 1 128 tenantId)
     (with_context (requireTenantContext context (Some tenantId)) (\<lambda>c.
       seqM (hr_getTenant repo (ac_tenant c)) (\<lambda>t.
         case t of None \<Rightarrow> returnM not_found
         | Some _ \<Rightarrow> seqM (hr_listProjects repo (ac_tenant c))
             (\<lambda>ps. returnM (Reply 200 (ProjectsBody ps))))))"

definition create_project_route ::
  "('e, 's) hierarchy_repository \<Rightarrow> auth_context option \<Rightarrow> string \<Rightarrow> int \<Rightarrow> string \<Rightarrow>
   create_project_input \<Rightarrow> ('e, 's) route" where
  "create_project_route repo context uuid now tenantId i =
     validated (text_within 1 128 tenantId \<and> createProjectBodySchema i)
       (with_context (requireRoleContext context Owner (Some tenantId)) (\<lambda>c.
         seqM (hr_createProjectWithinLimit repo uuid now (ac_tenant c) i MAX_PROJECTS_PER_TENANT)
           (\<lambda>p. returnM (Reply 201 (ProjectBody p)))))"

definition get_project_route ::
  "('e, 's) hierarchy_repository \<Rightarrow> auth_context option \<Rightarrow> string \<Rightarrow> ('e, 's) route" where
  "get_project_route repo context projectId = validated (text_within 1 128 projectId)
     (with_context (requireTenantContext context None) (\<lambda>c.
       seqM (hr_getProject repo (ac_tenant c) projectId) (\<lambda>p. returnM
         (case p of None \<Rightarrow> not_found | Some p \<Rightarrow> Reply 200 (ProjectBody p)))))"

definition list_environments_route ::
  "('e, 's) hierarchy_repository \<Rightarrow> auth_context option \<Rightarrow> string \<Rightarrow> ('e, 's) route" where
  "list_environments_route repo context projectId = validated (text_within 1 128 projectId)
     (with_context (requireTenantContext context None) (\<lambda>c.
       seqM (hr_getProject repo (ac_tenant c) projectId) (\<lambda>p.
         case p of None \<Rightarrow> returnM not_found
         | Some p \<Rightarrow> seqM (hr_listEnvironments repo (ac_tenant c) (pc_id p))
             (\<lambda>es. returnM (Reply 200 (EnvironmentsBody es))))))"

definition create_environment_route ::
  "('e, 's) hierarchy_repository \<Rightarrow> auth_context option \<Rightarrow> string \<Rightarrow> int \<Rightarrow> string \<Rightarrow>
   create_environment_input \<Rightarrow> ('e, 's) route" where
  "create_environment_route repo context uuid now projectId i =
     validated (text_within 1 128 projectId \<and> createEnvironmentBodySchema i)
       (with_context (requireRoleContext context Owner None) (\<lambda>c.
         seqM (hr_createEnvironment repo uuid now (ac_tenant c) projectId i)
           (\<lambda>e. returnM (Reply 201 (EnvironmentBody e)))))"

definition get_environment_route ::
  "('e, 's) hierarchy_repository \<Rightarrow> auth_context option \<Rightarrow> string \<Rightarrow> ('e, 's) route" where
  "get_environment_route repo context environmentId = validated (text_within 1 128 environmentId)
     (with_context (requireTenantContext context None) (\<lambda>c.
       seqM (hr_getEnvironment repo (ac_tenant c) environmentId) (\<lambda>e. returnM
         (case e of None \<Rightarrow> not_found | Some e \<Rightarrow> Reply 200 (EnvironmentBody e)))))"

text \<open>The error handler on the errors of the hierarchy; the database's own pass through.\<close>

fun hierarchy_error_reply :: "hierarchy_error \<Rightarrow> 'b reply" where
  "hierarchy_error_reply ProjectLimitError = ErrorReply 422 ''PROJECT_LIMIT_REACHED''"
| "hierarchy_error_reply EnvironmentConflictError = ErrorReply 409 ''ENVIRONMENT_ALREADY_EXISTS''"
| "hierarchy_error_reply HierarchyNotFoundError = ErrorReply 404 ''NOT_FOUND''"

definition handled :: "(hierarchy_error db_error, body reply, 's) act \<Rightarrow> 's \<Rightarrow> body reply \<times> 's" where
  "handled route s = (case route s of
     (Inr r, s') \<Rightarrow> (r, s')
   | (Inl (Raised e), s') \<Rightarrow> (hierarchy_error_reply e, s')
   | (Inl _, s') \<Rightarrow> (Unhandled, s'))"

datatype api_call =
    GetTenantCall string
  | ListProjectsCall string
  | CreateProjectCall string int string create_project_input
  | GetProjectCall string
  | ListEnvironmentsCall string
  | CreateEnvironmentCall string int string create_environment_input
  | GetEnvironmentCall string

fun route_of ::
  "('e, 's) hierarchy_repository \<Rightarrow> auth_context option \<Rightarrow> api_call \<Rightarrow> ('e, 's) route" where
  "route_of repo c (GetTenantCall t) = get_tenant_route repo c t"
| "route_of repo c (ListProjectsCall t) = list_projects_route repo c t"
| "route_of repo c (CreateProjectCall u at t i) = create_project_route repo c u at t i"
| "route_of repo c (GetProjectCall p) = get_project_route repo c p"
| "route_of repo c (ListEnvironmentsCall p) = list_environments_route repo c p"
| "route_of repo c (CreateEnvironmentCall u at p i) = create_environment_route repo c u at p i"
| "route_of repo c (GetEnvironmentCall e) = get_environment_route repo c e"

definition serve :: "auth_context option \<Rightarrow> api_call \<Rightarrow> database \<Rightarrow> body reply \<times> database" where
  "serve c call = handled (route_of PostgresHierarchyStore c call)"

end
