(* ===== verification/Hierarchy_Properties.thy ===== *)
theory Hierarchy_Properties
  imports Hierarchy Request_Store_Properties
begin

text \<open>
  What the use cases guarantee on any store that keeps the laws of the interface
  \<open>hierarchy_store\<close>, and that both stores do.
\<close>

subsection \<open>The interface\<close>

text \<open>
  Reads answer and change nothing, a creation that succeeds adds one record of the tenant and
  leaves the rest as it was, one that fails changes nothing. \<open>fresh u s\<close> says that the random
  part \<open>u\<close> names no record of \<open>s\<close> yet.
\<close>

fun drawn :: "use_case \<Rightarrow> string option" where
  "drawn (CreateProject u at t i) = Some u"
| "drawn (CreateEnvironment u at t p i) = Some u"
| "drawn _ = None"

fun caller :: "use_case \<Rightarrow> string" where
  "caller (GetTenant t) = t"
| "caller (ListProjects t) = t"
| "caller (GetProject t p) = t"
| "caller (CreateProject u at t i) = t"
| "caller (ListEnvironments t p) = t"
| "caller (GetEnvironment t e) = t"
| "caller (CreateEnvironment u at t p i) = t"

locale hierarchy_store =
  fixes repo :: "('e, 's) hierarchy_repository"
    and ok :: "'s \<Rightarrow> bool" and fresh :: "string \<Rightarrow> 's \<Rightarrow> bool"
    and projects :: "'s \<Rightarrow> string \<Rightarrow> project_record list"
    and environments :: "'s \<Rightarrow> string \<Rightarrow> string \<Rightarrow> environment_record list"
  assumes reads: "snd (hr_getTenant repo t s) = s" "snd (hr_getProject repo t p s) = s"
      "snd (hr_getEnvironment repo t e s) = s"
    and listed: "hr_listProjects repo t s = (Inr (projects s t), s)"
      "hr_listEnvironments repo t p s = (Inr (environments s t p), s)"
    and project_failed: "hr_createProjectWithinLimit repo u at t i n s = (Inl x, s') \<Longrightarrow> s' = s"
    and environment_failed: "hr_createEnvironment repo u at t p j s = (Inl x, s') \<Longrightarrow> s' = s"
    and project_created:
      "ok s \<Longrightarrow> fresh u s \<Longrightarrow> hr_createProjectWithinLimit repo u at t i n s = (Inr r, s') \<Longrightarrow>
        ok s' \<and> length (projects s t) < n \<and> mset (projects s' t) = add_mset r (mset (projects s t)) \<and>
        (\<forall>v. v \<noteq> t \<longrightarrow> projects s' v = projects s v) \<and> (\<forall>v q. environments s' v q = environments s v q)"
    and environment_created:
      "ok s \<Longrightarrow> fresh u s \<Longrightarrow> hr_createEnvironment repo u at t p j s = (Inr w, s') \<Longrightarrow>
        ok s' \<and> ec_kind w \<notin> ec_kind ` set (environments s t p) \<and>
        mset (environments s' t p) = add_mset w (mset (environments s t p)) \<and>
        (\<forall>v q. v \<noteq> t \<or> q \<noteq> p \<longrightarrow> environments s' v q = environments s v q) \<and>
        (\<forall>v. projects s' v = projects s v)"
begin

fun fresh_run :: "use_case list \<Rightarrow> 's \<Rightarrow> bool" where
  "fresh_run [] s = True"
| "fresh_run (c # cs) s \<longleftrightarrow> (case drawn c of None \<Rightarrow> True | Some u \<Rightarrow> fresh u s) \<and>
     fresh_run cs (use_case_step repo c s)"

definition within_limits :: "'s \<Rightarrow> bool" where
  "within_limits s \<longleftrightarrow> (\<forall>t. length (projects s t) \<le> MAX_PROJECTS_PER_TENANT \<and>
     (\<forall>p. distinct (map ec_kind (environments s t p))))"

lemma answering_step: "snd (answering f m s) = snd (m s)"
  by (cases "m s"; cases "fst (m s)") (auto simp: answering_def seqM_def returnM_def)

lemma read_step [simp]:
  "drawn c = None \<Longrightarrow> use_case_step repo c s = s"
  by (cases c) (simp_all add: use_case_step_def answering_step reads listed)

lemma step_cases:
  assumes "ok s" and "case drawn c of None \<Rightarrow> True | Some u \<Rightarrow> fresh u s"
  obtains (same) "use_case_step repo c s = s"
  | (project) u at i r where "c = CreateProject u at (caller c) i"
      "hr_createProjectWithinLimit repo u at (caller c) i MAX_PROJECTS_PER_TENANT s =
         (Inr r, use_case_step repo c s)" "fresh u s"
  | (environment) u at p i r where "c = CreateEnvironment u at (caller c) p i"
      "hr_createEnvironment repo u at (caller c) p i s = (Inr r, use_case_step repo c s)" "fresh u s"
proof (cases c)
  case (CreateProject u at t i)
  show ?thesis
  proof (cases "hr_createProjectWithinLimit repo u at t i MAX_PROJECTS_PER_TENANT s")
    case (Pair o1 s')
    show ?thesis
    proof (cases o1)
      case (Inl x)
      with Pair project_failed CreateProject show ?thesis
        by (intro same) (simp add: use_case_step_def answering_step)
    next
      case (Inr r)
      with Pair CreateProject assms(2) show ?thesis
        by (intro project [of u at i r]) (simp_all add: use_case_step_def answering_step)
    qed
  qed
next
  case (CreateEnvironment u at t p i)
  show ?thesis
  proof (cases "hr_createEnvironment repo u at t p i s")
    case (Pair o1 s')
    show ?thesis
    proof (cases o1)
      case (Inl x)
      with Pair environment_failed CreateEnvironment show ?thesis
        by (intro same) (simp add: use_case_step_def answering_step)
    next
      case (Inr r)
      with Pair CreateEnvironment assms(2) show ?thesis
        by (intro environment [of u at p i r]) (simp_all add: use_case_step_def answering_step)
    qed
  qed
qed (rule same, simp)+

lemma kinds_mset: "mset es' = add_mset r (mset es) \<Longrightarrow> ec_kind r \<notin> ec_kind ` set es \<Longrightarrow>
    distinct (map ec_kind es) \<Longrightarrow> distinct (map ec_kind es')"
proof -
  assume eq: "mset es' = add_mset r (mset es)" and new: "ec_kind r \<notin> ec_kind ` set es"
    and d: "distinct (map ec_kind es)"
  from eq have "mset (map ec_kind es') = mset (map ec_kind (r # es))" by simp
  from mset_eq_imp_distinct_iff [OF this] new d show ?thesis by simp
qed

lemma step_limits:
  assumes "ok s" and "within_limits s" and "case drawn c of None \<Rightarrow> True | Some u \<Rightarrow> fresh u s"
  shows "ok (use_case_step repo c s) \<and> within_limits (use_case_step repo c s)"
  using assms(1,3)
proof (cases rule: step_cases)
  case same
  with assms show ?thesis by simp
next
  case (project u at i r)
  let ?s = "use_case_step repo c s"
  note new = project_created [OF assms(1) project(3,2)]
  have "length (projects ?s t) \<le> MAX_PROJECTS_PER_TENANT" for t
  proof (cases "t = caller c")
    case True
    from new have "mset (projects ?s (caller c)) = add_mset r (mset (projects s (caller c)))" by simp
    then have "length (projects ?s (caller c)) = Suc (length (projects s (caller c)))"
      by (metis size_add_mset size_mset)
    with new True show ?thesis by simp
  next
    case False
    with new assms(2) show ?thesis by (simp add: within_limits_def)
  qed
  with new assms(2) show ?thesis by (simp add: within_limits_def)
next
  case (environment u at p i r)
  let ?s = "use_case_step repo c s"
  note new = environment_created [OF assms(1) environment(3,2)]
  have "distinct (map ec_kind (environments ?s t q))" for t q
    using new assms(2) kinds_mset [of "environments ?s t q" r "environments s t q"]
    by (cases "t = caller c \<and> q = p") (auto simp: within_limits_def)
  with new assms(2) show ?thesis by (simp add: within_limits_def)
qed

lemma run_limits:
  "ok s \<Longrightarrow> within_limits s \<Longrightarrow> fresh_run cs s \<Longrightarrow> ok (run_use_cases repo cs s) \<and>
    within_limits (run_use_cases repo cs s)"
proof (induction cs arbitrary: s)
  case (Cons c cs)
  with step_limits [of s c] show ?case by (simp add: run_use_cases_def)
qed (simp add: run_use_cases_def)

lemma step_isolated:
  assumes "ok s" and "case drawn c of None \<Rightarrow> True | Some u \<Rightarrow> fresh u s" and "caller c \<noteq> t"
  shows "ok (use_case_step repo c s) \<and> projects (use_case_step repo c s) t = projects s t \<and>
    environments (use_case_step repo c s) t p = environments s t p"
  using assms(1,2)
proof (cases rule: step_cases)
  case same
  with assms show ?thesis by simp
next
  case (project u at i r)
  with project_created [OF assms(1) project(3,2)] assms(3) show ?thesis by auto
next
  case (environment u at q i r)
  with environment_created [OF assms(1) environment(3,2)] assms(3) show ?thesis by auto
qed

lemma run_isolated:
  "ok s \<Longrightarrow> fresh_run cs s \<Longrightarrow> \<forall>c \<in> set cs. caller c \<noteq> t \<Longrightarrow>
    projects (run_use_cases repo cs s) t = projects s t \<and>
    environments (run_use_cases repo cs s) t p = environments s t p"
proof (induction cs arbitrary: s)
  case (Cons c cs)
  then have "ok (use_case_step repo c s)" "projects (use_case_step repo c s) t = projects s t"
    "environments (use_case_step repo c s) t p = environments s t p"
    using step_isolated [of s c t] by auto
  with Cons show ?case by (simp add: run_use_cases_def)
qed (simp add: run_use_cases_def)

end

subsection \<open>The store in memory\<close>

definition mem_ok :: "memory_hierarchy \<Rightarrow> bool" where
  "mem_ok s \<longleftrightarrow> distinct (map pc_id (mh_projects s)) \<and> distinct (map ec_id (mh_environments s)) \<and>
     (\<forall>e \<in> set (mh_environments s). ec_projectId e \<in> pc_id ` set (mh_projects s))"

definition mem_fresh :: "string \<Rightarrow> memory_hierarchy \<Rightarrow> bool" where
  "mem_fresh u s \<longleftrightarrow> project_id u \<notin> pc_id ` set (mh_projects s) \<and>
     environment_id u \<notin> ec_id ` set (mh_environments s)"

definition mem_environments_of :: "memory_hierarchy \<Rightarrow> string \<Rightarrow> string \<Rightarrow> environment_record list" where
  "mem_environments_of s t p =
     (case mem_project t p s of None \<Rightarrow> [] | Some _ \<Rightarrow> filter (\<lambda>e. ec_projectId e = p) (mh_environments s))"

lemma map_put_new: "key r \<notin> key ` set m \<Longrightarrow> map_put key r m = m @ [r]"
  by (simp add: map_put_def)

lemma mem_project_other:
  "pc_id r \<noteq> p \<Longrightarrow>
   mem_project t p (s\<lparr>mh_projects := mh_projects s @ [r]\<rparr>) = mem_project t p s"
  by (simp add: mem_project_def map_get_def find_append split: option.splits)

lemma mem_project_environments [simp]:
  "mem_project t p (s\<lparr>mh_environments := es\<rparr>) = mem_project t p s"
  by (simp add: mem_project_def)

lemma mem_project_id: "mem_project t p s = Some r \<Longrightarrow> r \<in> set (mh_projects s) \<and> pc_id r = p \<and> pc_tenantId r = t"
  using find_Some_mem [of "\<lambda>r. pc_id r = p" "mh_projects s"]
  by (auto simp: mem_project_def map_get_def split: option.splits if_splits)

lemma mem_project_made:
  assumes "mem_ok s" and "mem_fresh u s"
    and "mem_createProjectWithinLimit u at t i n s = (Inr r, s')"
  shows "mem_ok s' \<and> length (mem_projects_of t s) < n \<and> mem_projects_of t s' = mem_projects_of t s @ [r] \<and>
    (\<forall>v. v \<noteq> t \<longrightarrow> mem_projects_of v s' = mem_projects_of v s) \<and>
    (\<forall>v q. mem_environments_of s' v q = mem_environments_of s v q)"
proof -
  have s': "s' = s\<lparr>mh_projects := mh_projects s @ [r]\<rparr>" and r: "pc_id r = project_id u" "pc_tenantId r = t"
    and n: "length (mem_projects_of t s) < n"
    using assms by (auto simp: mem_createProjectWithinLimit_def mem_fresh_def map_put_def Let_def
        split: if_splits)
  have "mem_environments_of s' v q = mem_environments_of s v q" for v q
  proof (cases "q = project_id u")
    case True
    from assms(1,2) have "\<forall>e \<in> set (mh_environments s). ec_projectId e \<noteq> project_id u"
      unfolding mem_ok_def mem_fresh_def by metis
    with True have "filter (\<lambda>e. ec_projectId e = q) (mh_environments s) = []" by simp
    then show ?thesis by (simp add: mem_environments_of_def s' split: option.splits)
  next
    case False
    with r show ?thesis by (simp add: mem_environments_of_def s' mem_project_other split: option.splits)
  qed
  with assms(1,2) r n show ?thesis
    by (auto simp: s' mem_ok_def mem_fresh_def mem_projects_of_def)
qed

lemma mem_environment_made:
  assumes "mem_ok s" and "mem_fresh u s" and "mem_createEnvironment u at t p j s = (Inr r, s')"
  shows "mem_ok s' \<and> ec_kind r \<notin> ec_kind ` set (mem_environments_of s t p) \<and>
    mem_environments_of s' t p = mem_environments_of s t p @ [r] \<and>
    (\<forall>v q. v \<noteq> t \<or> q \<noteq> p \<longrightarrow> mem_environments_of s' v q = mem_environments_of s v q) \<and>
    (\<forall>v. mem_projects_of v s' = mem_projects_of v s)"
proof -
  obtain pr where pr: "mem_project t p s = Some pr"
    and s': "s' = s\<lparr>mh_environments := mh_environments s @ [r]\<rparr>"
    and r: "ec_id r = environment_id u" "ec_projectId r = p"
    and kind: "\<forall>e \<in> set (mh_environments s). ec_projectId e = p \<longrightarrow> ec_kind e \<noteq> ec_kind r"
    using assms by (auto simp: mem_createEnvironment_def mem_fresh_def map_put_def Let_def
        split: if_splits option.splits)
  have "mem_environments_of s' v q = mem_environments_of s v q" if "v \<noteq> t \<or> q \<noteq> p" for v q
  proof (cases "q = p")
    case True
    with that have "v \<noteq> t" by simp
    with mem_project_id [OF pr] True have "mem_project v q s = None"
      using pr by (auto simp: mem_project_def split: option.splits if_splits)
    then show ?thesis by (simp add: mem_environments_of_def s')
  qed (use r in \<open>simp add: mem_environments_of_def s' split: option.splits\<close>)
  moreover have "p \<in> pc_id ` set (mh_projects s)" using mem_project_id [OF pr] by force
  ultimately show ?thesis using assms(1,2) r kind pr
    by (auto simp: s' mem_ok_def mem_fresh_def mem_projects_of_def mem_environments_of_def)
qed

lemma mem_failed:
  "mem_createProjectWithinLimit u at t i n s = (Inl x, s') \<Longrightarrow> s' = s"
  "mem_createEnvironment u at t p j s = (Inl x, s') \<Longrightarrow> s' = s"
  by (auto simp: mem_createProjectWithinLimit_def mem_createEnvironment_def Let_def
      split: if_splits option.splits)

interpretation memory: hierarchy_store InMemoryHierarchyStore mem_ok mem_fresh
  "\<lambda>s t. mem_projects_of t s" mem_environments_of
proof (unfold_locales, goal_cases)
  case (1 t s)
  show ?case by (simp add: InMemoryHierarchyStore_def mem_getTenant_def returnM_def)
next
  case (2 t p s)
  show ?case by (simp add: InMemoryHierarchyStore_def mem_getProject_def returnM_def)
next
  case (3 t e s)
  show ?case
    by (simp add: InMemoryHierarchyStore_def mem_getEnvironment_def returnM_def split: option.splits)
next
  case (4 t s)
  show ?case by (simp add: InMemoryHierarchyStore_def mem_listProjects_def returnM_def)
next
  case (5 t p s)
  show ?case
    by (simp add: InMemoryHierarchyStore_def mem_listEnvironments_def mem_environments_of_def
        returnM_def split: option.splits)
next
  case (6 u at t i n s x s')
  then show ?case by (intro mem_failed(1)) (simp add: InMemoryHierarchyStore_def)
next
  case (7 u at t p j s x s')
  then show ?case by (intro mem_failed(2)) (simp add: InMemoryHierarchyStore_def)
next
  case (8 s u at t i n r s')
  with mem_project_made [of s u at t i n r s'] show ?case by (simp add: InMemoryHierarchyStore_def)
next
  case (9 s u at t p j w s')
  with mem_environment_made [of s u at t p j w s'] show ?case by (simp add: InMemoryHierarchyStore_def)
qed

subsection \<open>The store on the tables\<close>

definition pg_projects_of :: "database \<Rightarrow> string \<Rightarrow> project_record list" where
  "pg_projects_of db t = map project_of_row (sort_key project_order
     (filter (\<lambda>r. pj_tenantId r = t) (db_projects db)))"

definition pg_environments_of :: "database \<Rightarrow> string \<Rightarrow> string \<Rightarrow> environment_record list" where
  "pg_environments_of db t p = map environment_of_row (sort_key environment_order
     (filter (\<lambda>e. en_projectId e = p \<and> environment_visible t db e) (db_environments db)))"

lemma project_row_key:
  "constraints db \<Longrightarrow> r \<in> set (db_projects db) \<Longrightarrow> s \<in> set (db_projects db) \<Longrightarrow> pj_id r = pj_id s \<Longrightarrow> r = s"
  by (auto simp: constraints_def projects_ok_def distinct_map dest: inj_onD)

lemma environment_project:
  "constraints db \<Longrightarrow> e \<in> set (db_environments db) \<Longrightarrow> en_projectId e \<in> pj_id ` set (db_projects db)"
  by (simp add: constraints_def environments_ok_def list_all_iff)

lemma pg_project_cases:
  assumes "pg_createProjectWithinLimit u at t i n db = (Inr r, db')"
  shows "db' = db\<lparr>db_projects := db_projects db @ [new_project u at t i]\<rparr> \<and> constraints db' \<and>
    r = project_of_row (new_project u at t i) \<and> length (pg_projects_of db t) < n"
  using assms
  by (auto simp: pg_createProjectWithinLimit_def inTenantTransaction_def pg_projects_of_def
      split: if_splits)

lemma pg_project_made:
  assumes "constraints db" and "pg_createProjectWithinLimit u at t i n db = (Inr r, db')"
  shows "constraints db' \<and> length (pg_projects_of db t) < n \<and>
    mset (pg_projects_of db' t) = add_mset r (mset (pg_projects_of db t)) \<and>
    (\<forall>v. v \<noteq> t \<longrightarrow> pg_projects_of db' v = pg_projects_of db v) \<and>
    (\<forall>v q. pg_environments_of db' v q = pg_environments_of db v q)"
proof -
  note c = pg_project_cases [OF assms(2)]
  let ?new = "new_project u at t i"
  from c have "distinct (map pj_id (db_projects db @ [?new]))"
    by (auto simp: constraints_def projects_ok_def)
  then have new: "pj_id ?new \<notin> pj_id ` set (db_projects db)" by simp
  have "environment_visible v db' e \<longleftrightarrow> environment_visible v db e" if "e \<in> set (db_environments db)" for v e
    using environment_project [OF assms(1) that] new c by (auto simp: environment_visible_def)
  then have "filter (\<lambda>e. en_projectId e = q \<and> environment_visible v db' e) (db_environments db) =
      filter (\<lambda>e. en_projectId e = q \<and> environment_visible v db e) (db_environments db)" for v q
    by (intro filter_cong) auto
  with c have "pg_environments_of db' v q = pg_environments_of db v q" for v q
    by (simp add: pg_environments_of_def)
  moreover have "pj_tenantId ?new = t" by (simp add: new_project_def)
  ultimately show ?thesis using c by (auto simp: pg_projects_of_def)
qed

lemma insert_environment_ok [simp]:
    "insert_environment e db = (Inr x, db') \<longleftrightarrow>
       constraints (db\<lparr>db_environments := db_environments db @ [e]\<rparr>) \<and>
       db' = db\<lparr>db_environments := db_environments db @ [e]\<rparr>"
  and insert_environment_err: "insert_environment e db = (Inl y, db') \<Longrightarrow> db' = db"
  by (auto simp: insert_environment_def statement_def split: if_splits)

lemma project_row_of_Some:
  "project_row_of t p db = Some r \<Longrightarrow> r \<in> set (db_projects db) \<and> pj_id r = p \<and> pj_tenantId r = t"
  using find_Some_mem unfolding project_row_of_def by fastforce

lemma pg_environment_cases:
  assumes "pg_createEnvironment u at t p i db = (Inr r, db')"
  shows "(\<exists>pr. project_row_of t p db = Some pr) \<and>
    db' = db\<lparr>db_environments := db_environments db @ [new_environment u at p i]\<rparr> \<and>
    constraints db' \<and> r = environment_of_row (new_environment u at p i)"
  using assms by (auto simp: pg_createEnvironment_def inTenantTransaction_def split: option.splits)

lemma visible_environments_frame [simp]:
  "environment_visible t (db\<lparr>db_environments := es\<rparr>) e = environment_visible t db e"
  by (simp add: environment_visible_def)

lemma pg_environment_made:
  assumes "constraints db" and "pg_createEnvironment u at t p i db = (Inr r, db')"
  shows "constraints db' \<and> ec_kind r \<notin> ec_kind ` set (pg_environments_of db t p) \<and>
    mset (pg_environments_of db' t p) = add_mset r (mset (pg_environments_of db t p)) \<and>
    (\<forall>v q. v \<noteq> t \<or> q \<noteq> p \<longrightarrow> pg_environments_of db' v q = pg_environments_of db v q) \<and>
    (\<forall>v. pg_projects_of db' v = pg_projects_of db v)"
proof -
  note c = pg_environment_cases [OF assms(2)]
  let ?new = "new_environment u at p i"
  obtain pr where pr: "pr \<in> set (db_projects db)" "pj_id pr = p" "pj_tenantId pr = t"
    using c project_row_of_Some by blast
  have p: "en_projectId ?new = p" by (simp add: new_environment_def)
  from c have "environments_ok (db\<lparr>db_environments := db_environments db @ [?new]\<rparr>)"
    by (auto simp: constraints_def)
  then have "distinct (map (\<lambda>r. (en_projectId r, en_kind r)) (db_environments db @ [?new]))"
    unfolding environments_ok_def by simp
  then have "\<forall>e \<in> set (db_environments db). en_projectId e = p \<longrightarrow> en_kind e \<noteq> en_kind ?new"
    using p by force
  then have kind: "ec_kind r \<notin> ec_kind ` set (pg_environments_of db t p)"
    using c by (auto simp: pg_environments_of_def environment_of_row_def)
  have "environment_visible v db ?new \<longleftrightarrow> v = t" for v
  proof -
    have "q = pr" if "q \<in> set (db_projects db)" "pj_id q = p" for q
      using project_row_key [OF assms(1) that(1) pr(1)] that(2) pr(2) by simp
    with pr show ?thesis unfolding environment_visible_def p by metis
  qed
  then have "filter (\<lambda>e. en_projectId e = q \<and> environment_visible v db e) (db_environments db @ [?new]) =
      filter (\<lambda>e. en_projectId e = q \<and> environment_visible v db e) (db_environments db) @
      (if v = t \<and> q = p then [?new] else [])" for v q
    using p by simp
  moreover have db': "db_environments db' = db_environments db @ [?new]" "db_projects db' = db_projects db"
    "environment_visible v db' = environment_visible v db" "constraints db'" for v
    using c by (auto simp: fun_eq_iff)
  ultimately have "pg_environments_of db' v q = map environment_of_row (sort_key environment_order
      (filter (\<lambda>e. en_projectId e = q \<and> environment_visible v db e) (db_environments db) @
      (if v = t \<and> q = p then [?new] else [])))" for v q
    by (simp only: pg_environments_of_def)
  moreover have "pg_projects_of db' v = pg_projects_of db v" for v by (simp add: pg_projects_of_def db')
  ultimately show ?thesis using kind db' c by (simp add: pg_environments_of_def)
qed

lemma pg_failed:
  "pg_createProjectWithinLimit u at t i n db = (Inl x, db') \<Longrightarrow> db' = db"
  "pg_createEnvironment u at t p j db = (Inl x, db') \<Longrightarrow> db' = db"
  by (auto simp: pg_createProjectWithinLimit_def pg_createEnvironment_def inTenantTransaction_def)

interpretation postgres: hierarchy_store PostgresHierarchyStore constraints "\<lambda>_ _. True"
  pg_projects_of pg_environments_of
proof (unfold_locales, goal_cases)
  case (1 t s)
  show ?case by (simp add: PostgresHierarchyStore_def pg_getTenant_def inTenantTransaction_def
        inTransaction_def query_def)
next
  case (2 t p s)
  show ?case by (simp add: PostgresHierarchyStore_def pg_getProject_def inTenantTransaction_def
        inTransaction_def query_def)
next
  case (3 t e s)
  show ?case by (simp add: PostgresHierarchyStore_def pg_getEnvironment_def inTenantTransaction_def
        inTransaction_def query_def)
next
  case (4 t s)
  show ?case by (simp add: PostgresHierarchyStore_def pg_listProjects_def pg_projects_of_def
        inTenantTransaction_def)
next
  case (5 t p s)
  show ?case by (simp add: PostgresHierarchyStore_def pg_listEnvironments_def pg_environments_of_def
        inTenantTransaction_def)
next
  case (6 u at t i n s x s')
  then show ?case by (intro pg_failed(1)) (simp add: PostgresHierarchyStore_def)
next
  case (7 u at t p j s x s')
  then show ?case by (intro pg_failed(2)) (simp add: PostgresHierarchyStore_def)
next
  case (8 s u at t i n r s')
  with pg_project_made [of s u at t i n r s'] show ?case by (simp add: PostgresHierarchyStore_def)
next
  case (9 s u at t p j w s')
  with pg_environment_made [of s u at t p j w s'] show ?case by (simp add: PostgresHierarchyStore_def)
qed

lemma postgres_fresh_run: "postgres.fresh_run cs db"
  by (induction cs arbitrary: db) (simp_all split: option.splits)

lemma kinds_distinct: "constraints db \<Longrightarrow> distinct (map ec_kind (pg_environments_of db t p))"
proof -
  let ?es = "filter (\<lambda>e. en_projectId e = p \<and> environment_visible t db e) (db_environments db)"
  assume "constraints db"
  then have "inj_on (\<lambda>r. (en_projectId r, en_kind r)) (set (db_environments db))"
    "distinct (db_environments db)"
    by (simp_all add: constraints_def environments_ok_def distinct_map)
  then have "inj_on en_kind (set ?es)" "distinct ?es"
    by (auto simp: inj_on_def)
  then have "distinct (map en_kind (sort_key environment_order ?es))"
    by (simp add: distinct_map)
  then show ?thesis
    by (simp add: pg_environments_of_def environment_of_row_def comp_def)
qed

subsection \<open>The tables as the store in memory\<close>

definition memory_of :: "database \<Rightarrow> memory_hierarchy" where
  "memory_of db = \<lparr>mh_tenants = map tenant_of_row (db_tenants db),
     mh_projects = map project_of_row (db_projects db),
     mh_environments = map environment_of_row (db_environments db)\<rparr>"

lemma find_map: "find P (map f xs) = map_option f (find (\<lambda>x. P (f x)) xs)"
  by (induction xs) auto

lemma memory_project:
  assumes "constraints db"
  shows "mem_project t p (memory_of db) = map_option project_of_row (project_row_of t p db)"
proof (cases "find (\<lambda>r. pj_id r = p) (db_projects db)")
  case None
  then have "project_row_of t p db = None" by (auto simp: project_row_of_def find_None_iff)
  with None show ?thesis
    by (simp add: mem_project_def map_get_def memory_of_def find_map project_of_row_def)
next
  case (Some r)
  note r = find_Some_mem [OF Some]
  have "find (\<lambda>s. pj_id s = p \<and> pj_tenantId s = t) (db_projects db) =
      (if pj_tenantId r = t then Some r else None)"
  proof (cases "pj_tenantId r = t")
    case True
    with r have "find (\<lambda>s. pj_id s = p \<and> pj_tenantId s = t) (db_projects db) = Some r"
      by (intro find_unique) (use project_row_key [OF assms] r in auto)
    with True show ?thesis by simp
  next
    case False
    have "s = r" if "s \<in> set (db_projects db)" "pj_id s = p" for s
      using project_row_key [OF assms that(1), of r] that r by simp
    with False show ?thesis by (auto simp: find_None_iff)
  qed
  with Some show ?thesis
    by (simp add: mem_project_def map_get_def memory_of_def find_map project_of_row_def project_row_of_def)
qed

lemma visible_project:
  assumes "constraints db"
  shows "environment_visible t db e \<longleftrightarrow> project_row_of t (en_projectId e) db \<noteq> None"
  by (auto simp: environment_visible_def project_row_of_def find_None_iff)

text \<open>Answers are the same up to the order of a listing, outcomes up to the wrapping of errors.\<close>

fun same_answer :: "answer \<Rightarrow> answer \<Rightarrow> bool" where
  "same_answer (ProjectsAnswer xs) (ProjectsAnswer ys) \<longleftrightarrow> mset xs = mset ys"
| "same_answer (EnvironmentsAnswer xs) (EnvironmentsAnswer ys) \<longleftrightarrow> mset xs = mset ys"
| "same_answer a b \<longleftrightarrow> a = b"

fun same_outcome :: "hierarchy_error db_error + answer \<Rightarrow> hierarchy_error + answer \<Rightarrow> bool" where
  "same_outcome (Inr a) (Inr b) \<longleftrightarrow> same_answer a b"
| "same_outcome (Inl e) (Inl x) \<longleftrightarrow> e = Raised x"
| "same_outcome _ _ \<longleftrightarrow> False"

text \<open>The rows the two creations insert satisfy every constraint when the identifier is new.\<close>

lemma project_frame:
  "projects_ok (db\<lparr>db_projects := ps\<rparr>) \<Longrightarrow> environments_ok (db\<lparr>db_projects := ps\<rparr>) \<Longrightarrow> constraints db \<Longrightarrow>
   constraints (db\<lparr>db_projects := ps\<rparr>)"
  by (simp add: constraint_defs cong: option.case_cong)

lemma project_insertable:
  assumes "constraints db" and "tenant_exists db t" and "project_id u \<notin> pj_id ` set (db_projects db)"
  shows "constraints (db\<lparr>db_projects := db_projects db @ [new_project u at t i]\<rparr>)"
proof (rule project_frame)
  show "projects_ok (db\<lparr>db_projects := db_projects db @ [new_project u at t i]\<rparr>)"
    using assms by (auto simp: constraints_def projects_ok_def new_project_def tenant_exists_def)
  show "environments_ok (db\<lparr>db_projects := db_projects db @ [new_project u at t i]\<rparr>)"
    using assms(1) by (auto simp: constraints_def environments_ok_def list_all_iff)
qed (rule assms(1))

lemma environment_grows:
  "environment_exists db e \<Longrightarrow> environment_exists (db\<lparr>db_environments := db_environments db @ [r]\<rparr>) e"
  by (simp add: environment_exists_def)

lemma environment_frame:
  assumes "constraints db" and "environments_ok (db\<lparr>db_environments := db_environments db @ [r]\<rparr>)"
  shows "constraints (db\<lparr>db_environments := db_environments db @ [r]\<rparr>)"
proof -
  let ?d = "db\<lparr>db_environments := db_environments db @ [r]\<rparr>"
  note grows = environment_grows [of db _ r]
  from assms(1) have "tenants_ok ?d" "projects_ok ?d" "agent_pairing_tokens_ok ?d" "agents_ok ?d"
    "agent_message_receipts_ok ?d" "agent_transport_sessions_ok ?d" "privacy_requests_ok ?d"
    "execution_attempts_ok ?d" "agent_jobs_ok ?d" "subject_envelopes_ok ?d"
    "subject_identity_aliases_ok ?d" "idempotency_records_ok ?d" "audit_chain_heads_ok ?d"
    "audit_events_ok ?d" "outbox_events_ok ?d"
    by (auto simp: constraints_def tenants_ok_def projects_ok_def agent_pairing_tokens_ok_def
        agents_ok_def agent_message_receipts_ok_def agent_transport_sessions_ok_def
        privacy_requests_ok_def execution_attempts_ok_def agent_jobs_ok_def subject_envelopes_ok_def
        subject_identity_aliases_ok_def idempotency_records_ok_def audit_chain_heads_ok_def
        audit_events_ok_def outbox_events_ok_def tenant_exists_def request_exists_def agent_exists_def
        environment_exists_def list_all_iff cong: option.case_cong)
  with assms(2) show ?thesis by (simp add: constraints_def)
qed

lemma environment_insertable:
  assumes "constraints db" and "project_row_of t p db = Some pr"
    and "environment_id u \<notin> en_id ` set (db_environments db)" and "ce_kind i \<in> {''staging'', ''production''}"
  shows "constraints (db\<lparr>db_environments := db_environments db @ [new_environment u at p i]\<rparr>) \<longleftrightarrow>
    \<not> (\<exists>e \<in> set (db_environments db). en_projectId e = p \<and> en_kind e = ce_kind i)"
    (is "?ok \<longleftrightarrow> \<not> ?dup")
proof
  assume ?ok
  then have "distinct (map (\<lambda>r. (en_projectId r, en_kind r)) (db_environments db @ [new_environment u at p i]))"
    by (simp add: constraints_def environments_ok_def)
  then show "\<not> ?dup" by (force simp: new_environment_def)
next
  assume "\<not> ?dup"
  moreover have "p \<in> pj_id ` set (db_projects db)" using project_row_of_Some [OF assms(2)] by force
  ultimately show ?ok
    using assms by (intro environment_frame)
      (auto simp: constraints_def environments_ok_def new_environment_def)
qed

lemma create_project_refines:
  assumes "constraints db" and "mem_fresh u (memory_of db)"
  shows "case pg_createProjectWithinLimit u at t i n db of (r, db') \<Rightarrow>
    mem_createProjectWithinLimit u at t i n (memory_of db) =
      (case r of Inr p \<Rightarrow> Inr p | Inl (Raised e) \<Rightarrow> Inl e | _ \<Rightarrow> Inl HierarchyNotFoundError, memory_of db') \<and>
    r \<noteq> Inl ConstraintViolation \<and> r \<noteq> Inl InvalidTimestamp"
proof -
  have new: "project_id u \<notin> pj_id ` set (db_projects db)"
    using assms(2) by (force simp: mem_fresh_def memory_of_def project_of_row_def)
  have "tr_id ` set (mh_tenants (memory_of db)) = tn_id ` set (db_tenants db)"
    by (force simp: memory_of_def tenant_of_row_def)
  then have tenant: "t \<in> tr_id ` set (mh_tenants (memory_of db)) \<longleftrightarrow> tenant_exists db t"
    by (simp add: tenant_exists_def)
  have count: "length (mem_projects_of t (memory_of db)) = length (filter (\<lambda>r. pj_tenantId r = t) (db_projects db))"
    by (simp add: mem_projects_of_def memory_of_def filter_map comp_def project_of_row_def)
  have put: "map_put pc_id (project_of_row (new_project u at t i)) (mh_projects (memory_of db)) =
      mh_projects (memory_of db) @ [project_of_row (new_project u at t i)]"
    using assms(2) by (intro map_put_new) (simp add: mem_fresh_def new_project_def project_of_row_def)
  have row: "project_of_row (new_project u at t i) = \<lparr>pc_id = project_id u, pc_tenantId = t,
      pc_name = cp_name i, pc_slug = cp_slug i, pc_createdAt = toISOString at\<rparr>"
    by (simp add: project_of_row_def new_project_def)
  have after: "(memory_of db)\<lparr>mh_projects := mh_projects (memory_of db) @ [project_of_row r]\<rparr> =
      memory_of (db\<lparr>db_projects := db_projects db @ [r]\<rparr>)" for r
    by (simp add: memory_of_def)
  show ?thesis
    using project_insertable [OF assms(1) _ new, of t at i] put after
    by (auto simp: pg_createProjectWithinLimit_def mem_createProjectWithinLimit_def tenant count
        inTenantTransaction_def inTransaction_def seqM_def statement_def raise_def throwM_def
        returnM_def row [symmetric] Let_def)
qed

lemma memory_environment_exists:
  "(\<exists>e \<in> set (mh_environments (memory_of db)). ec_projectId e = p \<and> ec_kind e = k) \<longleftrightarrow>
   (\<exists>e \<in> set (db_environments db). en_projectId e = p \<and> en_kind e = k)"
  by (auto simp: memory_of_def environment_of_row_def)

lemma create_environment_refines:
  assumes "constraints db" and "mem_fresh u (memory_of db)" and "ce_kind i \<in> {''staging'', ''production''}"
  shows "case pg_createEnvironment u at t p i db of (r, db') \<Rightarrow>
    mem_createEnvironment u at t p i (memory_of db) =
      (case r of Inr e \<Rightarrow> Inr e | Inl (Raised e) \<Rightarrow> Inl e | _ \<Rightarrow> Inl HierarchyNotFoundError, memory_of db') \<and>
    r \<noteq> Inl ConstraintViolation \<and> r \<noteq> Inl InvalidTimestamp"
proof (cases "project_row_of t p db")
  case None
  then show ?thesis
    by (simp add: pg_createEnvironment_def mem_createEnvironment_def memory_project [OF assms(1)]
        inTenantTransaction_def inTransaction_def raise_def throwM_def)
next
  case (Some pr)
  have new: "environment_id u \<notin> en_id ` set (db_environments db)"
    using assms(2) by (force simp: mem_fresh_def memory_of_def environment_of_row_def)
  let ?e = "new_environment u at p i"
  have put: "map_put ec_id (environment_of_row ?e) (mh_environments (memory_of db)) =
      mh_environments (memory_of db) @ [environment_of_row ?e]"
    using assms(2) by (intro map_put_new) (simp add: mem_fresh_def new_environment_def environment_of_row_def)
  have row: "environment_of_row ?e = \<lparr>ec_id = environment_id u, ec_projectId = p, ec_kind = ce_kind i,
      ec_status = ''active'', ec_subjectHashKeyVersion = 1, ec_subjectCanonicalizationVersion = 1,
      ec_createdAt = toISOString at\<rparr>"
    by (simp add: environment_of_row_def new_environment_def)
  have after: "(memory_of db)\<lparr>mh_environments := mh_environments (memory_of db) @ [environment_of_row r]\<rparr> =
      memory_of (db\<lparr>db_environments := db_environments db @ [r]\<rparr>)" for r
    by (simp add: memory_of_def)
  have fields: "en_projectId ?e = p" "en_kind ?e = ce_kind i" "en_id ?e = environment_id u"
    by (simp_all add: new_environment_def)
  note dup = environment_insertable [OF assms(1) Some new assms(3), of at]
  have conflict: "isEnvironmentKindConflict ?e db \<longleftrightarrow>
      (\<exists>e \<in> set (db_environments db). en_projectId e = p \<and> en_kind e = ce_kind i)"
    using new assms(3) by (simp add: isEnvironmentKindConflict_def fields)
  show ?thesis
  proof (cases "\<exists>e \<in> set (db_environments db). en_projectId e = p \<and> en_kind e = ce_kind i")
    case True
    then show ?thesis
      using dup conflict
      by (simp add: pg_createEnvironment_def mem_createEnvironment_def memory_project [OF assms(1)] Some
          memory_environment_exists inTenantTransaction_def inTransaction_def seqM_def
          insert_environment_def statement_def throwM_def)
  next
    case False
    then show ?thesis
      using dup put after
      by (simp add: pg_createEnvironment_def mem_createEnvironment_def memory_project [OF assms(1)] Some
          memory_environment_exists inTenantTransaction_def inTransaction_def seqM_def returnM_def
          insert_environment_def statement_def row [symmetric] Let_def)
  qed
qed

lemma reads_refine:
  assumes "constraints db" and "drawn c = None"
  shows "\<exists>a b. run_use_case PostgresHierarchyStore c db = (Inr a, db) \<and>
    run_use_case InMemoryHierarchyStore c (memory_of db) = (Inr b, memory_of db) \<and> same_answer a b"
proof -
  note defs = answering_def seqM_def returnM_def PostgresHierarchyStore_def InMemoryHierarchyStore_def
    inTenantTransaction_def inTransaction_def query_def
  have projects: "mset (map project_of_row (filter (\<lambda>r. pj_tenantId r = t) (db_projects db))) =
      mset (mem_projects_of t (memory_of db))" for t
    by (simp add: mem_projects_of_def memory_of_def filter_map comp_def project_of_row_def)
  have environments: "filter (\<lambda>e. en_projectId e = p \<and> environment_visible t db e) (db_environments db) =
      (case project_row_of t p db of None \<Rightarrow> [] | Some _ \<Rightarrow> filter (\<lambda>e. en_projectId e = p) (db_environments db))"
    for t p
    by (auto simp: visible_project [OF assms(1)] filter_empty_conv split: option.splits intro!: filter_cong)
  have lists: "filter (\<lambda>e. ec_projectId e = p) (mh_environments (memory_of db)) =
      map environment_of_row (filter (\<lambda>e. en_projectId e = p) (db_environments db))" for p
    by (simp add: memory_of_def filter_map comp_def environment_of_row_def)
  show ?thesis
  proof (cases c)
    case (GetTenant t)
    then show ?thesis
      by (simp add: defs pg_getTenant_def mem_getTenant_def map_get_def memory_of_def find_map
          tenant_of_row_def)
  next
    case (ListProjects t)
    with projects show ?thesis by (simp add: defs pg_listProjects_def mem_listProjects_def)
  next
    case (GetProject t p)
    then show ?thesis
      by (simp add: defs pg_getProject_def mem_getProject_def memory_project [OF assms(1)])
  next
    case (ListEnvironments t p)
    then show ?thesis
      by (cases "project_row_of t p db")
        (simp_all add: defs pg_listEnvironments_def mem_listEnvironments_def memory_project [OF assms(1)]
          environments lists)
  next
    case (GetEnvironment t e)
    have key: "find (\<lambda>r. en_id r = e \<and> environment_visible t db r) (db_environments db) =
        (case find (\<lambda>r. en_id r = e) (db_environments db) of None \<Rightarrow> None
         | Some r \<Rightarrow> if environment_visible t db r then Some r else None)"
    proof (cases "find (\<lambda>r. en_id r = e) (db_environments db)")
      case None
      then have "find (\<lambda>r. en_id r = e \<and> environment_visible t db r) (db_environments db) = None"
        by (auto simp: find_None_iff)
      with None show ?thesis by simp
    next
      case (Some r)
      note r = find_Some_mem [OF Some]
      have only: "s = r" if "s \<in> set (db_environments db)" "en_id s = e" for s
        using assms(1) that r by (auto simp: constraints_def environments_ok_def distinct_map dest: inj_onD)
      show ?thesis
      proof (cases "environment_visible t db r")
        case True
        with r only have "find (\<lambda>r. en_id r = e \<and> environment_visible t db r) (db_environments db) = Some r"
          by (intro find_unique) auto
        with Some True show ?thesis by simp
      next
        case False
        with only have "find (\<lambda>r. en_id r = e \<and> environment_visible t db r) (db_environments db) = None"
          by (auto simp: find_None_iff)
        with Some False show ?thesis by simp
      qed
    qed
    have "map_get ec_id e (mh_environments (memory_of db)) =
        map_option environment_of_row (find (\<lambda>r. en_id r = e) (db_environments db))"
      by (simp add: map_get_def memory_of_def find_map environment_of_row_def)
    moreover have "ec_projectId (environment_of_row r) = en_projectId r" for r
      by (simp add: environment_of_row_def)
    ultimately show ?thesis using GetEnvironment
      by (cases "find (\<lambda>r. en_id r = e) (db_environments db)")
        (simp_all add: defs pg_getEnvironment_def mem_getEnvironment_def key memory_project [OF assms(1)],
         auto simp: visible_project [OF assms(1)] returnM_def split: option.splits)
  qed (use assms(2) in simp_all)
qed

subsection \<open>Properties\<close>

text \<open>C9. The store in memory is a reference for the store on the tables: every use case has the same
outcome on both, listings up to their order, and leaves corresponding states.\<close>

theorem postgres_hierarchy_refines_memory:
  assumes "constraints db"
    and "case drawn c of None \<Rightarrow> True | Some u \<Rightarrow> mem_fresh u (memory_of db)"
    and "case c of CreateEnvironment u at t p i \<Rightarrow> ce_kind i \<in> {''staging'', ''production''} | _ \<Rightarrow> True"
  shows "case run_use_case PostgresHierarchyStore c db of (r, db') \<Rightarrow>
    case run_use_case InMemoryHierarchyStore c (memory_of db) of (x, s) \<Rightarrow>
      same_outcome r x \<and> s = memory_of db'"
proof (cases "drawn c")
  case None
  from reads_refine [OF assms(1) None] show ?thesis by auto
next
  case (Some u)
  note defs = PostgresHierarchyStore_def InMemoryHierarchyStore_def answering_def seqM_def returnM_def
  from Some show ?thesis
  proof (cases c)
    case (CreateProject v at t i)
    with create_project_refines [of db v at t i MAX_PROJECTS_PER_TENANT] assms show ?thesis
      by (auto simp: defs split: prod.splits sum.splits db_error.splits)
  next
    case (CreateEnvironment v at t p i)
    with create_environment_refines [of db v i at t p] assms show ?thesis
      by (auto simp: defs split: prod.splits sum.splits db_error.splits)
  qed simp_all
qed

theorem postgres_hierarchy_refines_memory_witness:
  "case run_use_case PostgresHierarchyStore
      (CreateEnvironment ''u'' 7 ''ten_1'' ''prj_1'' \<lparr>ce_kind = ''staging''\<rparr>) example_db of (r, db') \<Rightarrow>
    case run_use_case InMemoryHierarchyStore
      (CreateEnvironment ''u'' 7 ''ten_1'' ''prj_1'' \<lparr>ce_kind = ''staging''\<rparr>) (memory_of example_db) of
      (x, s) \<Rightarrow> same_outcome r x \<and> s = memory_of db'"
proof (rule postgres_hierarchy_refines_memory)
  show "constraints example_db"
    by (simp add: constraint_defs example_db_def)
qed (simp_all add: mem_fresh_def memory_of_def example_db_def environment_id_def project_id_def
    environment_of_row_def project_of_row_def)

text \<open>C10. Over any sequence of calls no tenant exceeds its projects, no project has two environments of
one kind, and no tenant sees what the others do.\<close>

theorem hierarchy_limits_and_isolation:
  assumes "constraints db" and "\<forall>t. length (pg_projects_of db t) \<le> MAX_PROJECTS_PER_TENANT"
  shows "case run_use_cases PostgresHierarchyStore cs db of db' \<Rightarrow>
    constraints db' \<and>
    (\<forall>t. length (pg_projects_of db' t) \<le> MAX_PROJECTS_PER_TENANT) \<and>
    (\<forall>t p. distinct (map ec_kind (pg_environments_of db' t p))) \<and>
    (\<forall>t. (\<forall>c \<in> set cs. caller c \<noteq> t) \<longrightarrow> pg_projects_of db' t = pg_projects_of db t \<and>
       (\<forall>p. pg_environments_of db' t p = pg_environments_of db t p))"
proof -
  have "postgres.within_limits db"
    using assms kinds_distinct by (simp add: postgres.within_limits_def)
  from postgres.run_limits [OF assms(1) this postgres_fresh_run]
  have "constraints (run_use_cases PostgresHierarchyStore cs db)"
    "postgres.within_limits (run_use_cases PostgresHierarchyStore cs db)" by auto
  moreover note postgres.run_isolated [OF assms(1) postgres_fresh_run]
  ultimately show ?thesis unfolding postgres.within_limits_def by auto
qed

theorem hierarchy_limits_and_isolation_witness:
  "case run_use_cases PostgresHierarchyStore
      [CreateProject ''u'' 7 ''ten_1'' \<lparr>cp_name = ''N'', cp_slug = ''n''\<rparr>] example_db of db' \<Rightarrow>
    constraints db' \<and> length (pg_projects_of db' ''ten_1'') \<le> MAX_PROJECTS_PER_TENANT \<and>
    pg_projects_of db' ''ten_2'' = pg_projects_of example_db ''ten_2''"
proof -
  have ok: "constraints example_db" by (simp add: constraint_defs example_db_def)
  have few: "\<forall>t. length (pg_projects_of example_db t) \<le> MAX_PROJECTS_PER_TENANT"
    by (simp add: pg_projects_of_def example_db_def MAX_PROJECTS_PER_TENANT_def)
  show ?thesis
    using hierarchy_limits_and_isolation [OF ok few,
        of "[CreateProject ''u'' 7 ''ten_1'' \<lparr>cp_name = ''N'', cp_slug = ''n''\<rparr>]"] by simp
qed

end
