(* ===== verification/Access_Properties.thy ===== *)
theory Access_Properties
  imports Access Hierarchy_Properties
begin

text \<open>
  What the API's routes on the hierarchy guarantee: a caller without a context gets nothing, only an
  owner changes anything, and whatever is read or changed belongs to the caller's own tenant.
\<close>

subsection \<open>Roles\<close>

lemma as_role_value [simp]: "as_role (JStr (role_value r)) = Some r"
  by (cases r) (simp_all add: as_role_def zenum_def roles_def)

lemma as_permission_value [simp]: "as_permission (JStr (permission_value p)) = Some p"
  by (cases p) (simp_all add: as_permission_def zenum_def permissions_def)

lemma permissions_nested:
  "set (FIXED_ROLE_PERMISSIONS Reviewer) \<subseteq> set (FIXED_ROLE_PERMISSIONS Admin)"
  "set (FIXED_ROLE_PERMISSIONS Admin) \<subseteq> set (FIXED_ROLE_PERMISSIONS Owner)"
  "p \<in> set (FIXED_ROLE_PERMISSIONS Owner)"
  by (simp_all add: permissions_def) (cases p; simp)

lemma tenant_context_ok:
  "requireTenantContext context requested = Inr c \<Longrightarrow> context = Some c \<and>
     (\<forall>t. requested = Some t \<and> t \<noteq> [] \<longrightarrow> t = ac_tenant c)"
  by (auto simp: requireTenantContext_def split: option.splits if_splits)

lemma role_context_ok:
  "requireRoleContext context r requested = Inr c \<Longrightarrow> context = Some c \<and> ac_role c = r \<and>
     (\<forall>t. requested = Some t \<and> t \<noteq> [] \<longrightarrow> t = ac_tenant c)"
  using tenant_context_ok by (fastforce simp: requireRoleContext_def split: sum.splits if_splits)

lemma no_body:
  "requireTenantContext context requested = Inl r \<Longrightarrow> r \<noteq> Reply n b"
  "requireRoleContext context role requested = Inl r \<Longrightarrow> r \<noteq> Reply n b"
  by (auto simp: requireRoleContext_def requireTenantContext_def split: option.splits if_splits sum.splits)

subsection \<open>What a reply may show\<close>

fun body_of_tenant :: "database \<Rightarrow> string \<Rightarrow> body \<Rightarrow> bool" where
  "body_of_tenant db t (TenantBody r) \<longleftrightarrow> tr_id r = t"
| "body_of_tenant db t (ProjectsBody ps) \<longleftrightarrow> ps = pg_projects_of db t"
| "body_of_tenant db t (ProjectBody p) \<longleftrightarrow> p \<in> set (pg_projects_of db t)"
| "body_of_tenant db t (EnvironmentsBody es) \<longleftrightarrow> (\<exists>p. es = pg_environments_of db t p)"
| "body_of_tenant db t (EnvironmentBody e) \<longleftrightarrow> e \<in> set (pg_environments_of db t (ec_projectId e))"

definition own_tenant_only :: "string \<Rightarrow> database \<Rightarrow> database \<Rightarrow> bool" where
  "own_tenant_only t db db' \<longleftrightarrow> constraints db' \<and>
     (\<forall>v. v \<noteq> t \<longrightarrow> pg_projects_of db' v = pg_projects_of db v \<and>
       (\<forall>p. pg_environments_of db' v p = pg_environments_of db v p))"

definition guarded_route ::
  "auth_context option \<Rightarrow> database \<Rightarrow> (hierarchy_error db_error + body reply) \<times> database \<Rightarrow> bool" where
  "guarded_route context db o1 \<longleftrightarrow> (case o1 of (r, db') \<Rightarrow>
     (db' = db \<or> (\<exists>c. context = Some c \<and> ac_role c = Owner \<and> own_tenant_only (ac_tenant c) db db')) \<and>
     (\<forall>n b. r = Inr (Reply n b) \<longrightarrow> (\<exists>c. context = Some c \<and> body_of_tenant db' (ac_tenant c) b)))"

lemma guarded_validated: "guarded_route c db (route db) \<Longrightarrow> guarded_route c db (validated ok route db)"
  by (simp add: validated_def guarded_route_def returnM_def)

lemma guarded_context:
  assumes "\<And>r n b. required = Inl r \<Longrightarrow> r \<noteq> Reply n b"
    and "\<And>c. required = Inr c \<Longrightarrow> guarded_route context db (route c db)"
  shows "guarded_route context db (with_context required route db)"
  using assms by (auto simp: with_context_def guarded_route_def returnM_def split: sum.splits)

lemma pg_reads:
  "pg_getTenant t db = (Inr x, db') \<longleftrightarrow>
     x = map_option tenant_of_row (find (\<lambda>r. tn_id r = t) (db_tenants db)) \<and> db' = db"
  "pg_getProject t p db = (Inr y, db') \<longleftrightarrow> y = map_option project_of_row (project_row_of t p db) \<and> db' = db"
  "pg_getEnvironment t e db = (Inr z, db') \<longleftrightarrow> z = map_option environment_of_row
     (find (\<lambda>r. en_id r = e \<and> environment_visible t db r) (db_environments db)) \<and> db' = db"
  "pg_listProjects t db = (Inr ps, db') \<longleftrightarrow> ps = pg_projects_of db t \<and> db' = db"
  "pg_listEnvironments t p db = (Inr es, db') \<longleftrightarrow> es = pg_environments_of db t p \<and> db' = db"
  by (auto simp: pg_getTenant_def pg_getProject_def pg_getEnvironment_def pg_listProjects_def
      pg_listEnvironments_def pg_projects_of_def pg_environments_of_def inTenantTransaction_def)

lemma project_row_listed: "project_row_of t p db = Some r \<Longrightarrow> project_of_row r \<in> set (pg_projects_of db t)"
  using project_row_of_Some by (fastforce simp: pg_projects_of_def)

lemma environment_row_listed:
  "find (\<lambda>r. en_id r = e \<and> environment_visible t db r) (db_environments db) = Some r \<Longrightarrow>
   environment_of_row r \<in> set (pg_environments_of db t (ec_projectId (environment_of_row r)))"
  using find_Some_mem by (fastforce simp: pg_environments_of_def environment_of_row_def)

lemma created_listed:
  "mset xs' = add_mset x (mset xs) \<Longrightarrow> x \<in> set xs'"
  by (metis set_mset_mset union_single_eq_member)

lemmas store_ops = PostgresHierarchyStore_def hierarchy_repository.simps

lemma create_project_guarded:
  assumes "constraints db"
  shows "guarded_route context db (create_project_route PostgresHierarchyStore context u at t i db)"
  unfolding create_project_route_def
proof (rule guarded_validated, rule guarded_context [OF no_body(2)])
  fix c
  assume "requireRoleContext context Owner (Some t) = Inr c"
  note c = role_context_ok [OF this]
  show "guarded_route context db (seqM (hr_createProjectWithinLimit PostgresHierarchyStore u at
      (ac_tenant c) i MAX_PROJECTS_PER_TENANT) (\<lambda>p. returnM (Reply 201 (ProjectBody p))) db)"
  proof (cases "pg_createProjectWithinLimit u at (ac_tenant c) i MAX_PROJECTS_PER_TENANT db")
    case (Pair r db')
    show ?thesis
    proof (cases r)
      case (Inl e)
      with Pair pg_failed(1) show ?thesis by (simp add: guarded_route_def seqM_def store_ops)
    next
      case (Inr p)
      with Pair have run: "pg_createProjectWithinLimit u at (ac_tenant c) i MAX_PROJECTS_PER_TENANT db =
          (Inr p, db')" by simp
      note new = pg_project_made [OF assms run]
      then have "mset (pg_projects_of db' (ac_tenant c)) = add_mset p (mset (pg_projects_of db (ac_tenant c)))"
        by simp
      then have "p \<in> set (pg_projects_of db' (ac_tenant c))" by (rule created_listed)
      moreover have "own_tenant_only (ac_tenant c) db db'" using new by (simp add: own_tenant_only_def)
      ultimately show ?thesis
        using Pair Inr c by (simp add: guarded_route_def seqM_def store_ops returnM_def)
    qed
  qed
qed

lemma create_environment_guarded:
  assumes "constraints db"
  shows "guarded_route context db (create_environment_route PostgresHierarchyStore context u at q i db)"
  unfolding create_environment_route_def
proof (rule guarded_validated, rule guarded_context [OF no_body(2)])
  fix c
  assume "requireRoleContext context Owner None = Inr c"
  note c = role_context_ok [OF this]
  show "guarded_route context db (seqM (hr_createEnvironment PostgresHierarchyStore u at
      (ac_tenant c) q i) (\<lambda>e. returnM (Reply 201 (EnvironmentBody e))) db)"
  proof (cases "pg_createEnvironment u at (ac_tenant c) q i db")
    case (Pair r db')
    show ?thesis
    proof (cases r)
      case (Inl e)
      with Pair pg_failed(2) show ?thesis by (simp add: guarded_route_def seqM_def store_ops)
    next
      case (Inr e)
      with Pair have run: "pg_createEnvironment u at (ac_tenant c) q i db = (Inr e, db')" by simp
      note new = pg_environment_made [OF assms run]
      have "ec_projectId e = q"
        using pg_environment_cases [OF run] by (auto simp: environment_of_row_def new_environment_def)
      moreover have "e \<in> set (pg_environments_of db' (ac_tenant c) q)"
        by (rule created_listed [of _ _ "pg_environments_of db (ac_tenant c) q"]) (use new in simp)
      moreover have "own_tenant_only (ac_tenant c) db db'" using new by (simp add: own_tenant_only_def)
      ultimately show ?thesis
        using Pair Inr c by (simp add: guarded_route_def seqM_def store_ops returnM_def)
    qed
  qed
qed

lemma read_guarded:
  assumes "\<And>r db'. route db = (r, db') \<Longrightarrow> db' = db \<and> (\<forall>n b. r = Inr (Reply n b) \<longrightarrow> body_of_tenant db (ac_tenant c) b)"
    and "context = Some c"
  shows "guarded_route context db (route db)"
  using assms by (cases "route db") (auto simp: guarded_route_def)

lemma read_routes_guarded:
  "guarded_route context db (get_tenant_route PostgresHierarchyStore context t db)"
  "guarded_route context db (list_projects_route PostgresHierarchyStore context t db)"
  "guarded_route context db (get_project_route PostgresHierarchyStore context p db)"
  "guarded_route context db (list_environments_route PostgresHierarchyStore context p db)"
  "guarded_route context db (get_environment_route PostgresHierarchyStore context e db)"
proof -
  note eqs = pg_reads [THEN iffD2, OF conjI, OF refl refl]
  note defs = seqM_def returnM_def store_ops eqs
  show "guarded_route context db (get_tenant_route PostgresHierarchyStore context t db)"
    unfolding get_tenant_route_def
    by (rule guarded_validated, rule guarded_context [OF no_body(1)], assumption)
      (rule read_guarded [OF _ tenant_context_ok [THEN conjunct1]],
       auto simp: defs tenant_of_row_def dest!: find_Some_mem split: option.splits)
  show "guarded_route context db (list_projects_route PostgresHierarchyStore context t db)"
    unfolding list_projects_route_def
    by (rule guarded_validated, rule guarded_context [OF no_body(1)], assumption)
      (rule read_guarded [OF _ tenant_context_ok [THEN conjunct1]], auto simp: defs split: option.splits)
  show "guarded_route context db (get_project_route PostgresHierarchyStore context p db)"
    unfolding get_project_route_def
    by (rule guarded_validated, rule guarded_context [OF no_body(1)], assumption)
      (rule read_guarded [OF _ tenant_context_ok [THEN conjunct1]],
       auto simp: defs project_row_listed split: option.splits)
  show "guarded_route context db (list_environments_route PostgresHierarchyStore context p db)"
    unfolding list_environments_route_def
    by (rule guarded_validated, rule guarded_context [OF no_body(1)], assumption)
      (rule read_guarded [OF _ tenant_context_ok [THEN conjunct1]], auto simp: defs split: option.splits)
  show "guarded_route context db (get_environment_route PostgresHierarchyStore context e db)"
    unfolding get_environment_route_def
    by (rule guarded_validated, rule guarded_context [OF no_body(1)], assumption)
      (rule read_guarded [OF _ tenant_context_ok [THEN conjunct1]],
       auto simp: defs environment_row_listed split: option.splits)
qed

lemma routes_guarded:
  "constraints db \<Longrightarrow> guarded_route context db (route_of PostgresHierarchyStore context call db)"
  by (cases call) (simp_all add: read_routes_guarded create_project_guarded create_environment_guarded)

subsection \<open>Property\<close>

text \<open>C40. A call without a context, or by anyone but an owner, changes nothing; a change is invisible to
every other tenant; a body shows records of the caller's tenant only.\<close>

theorem api_calls_stay_in_tenant:
  assumes "constraints db" and "serve context call db = (r, db')"
  shows "(db' = db \<or> (\<exists>c. context = Some c \<and> ac_role c = Owner \<and> constraints db' \<and>
      (\<forall>t. t \<noteq> ac_tenant c \<longrightarrow> pg_projects_of db' t = pg_projects_of db t \<and>
        (\<forall>p. pg_environments_of db' t p = pg_environments_of db t p)))) \<and>
    (\<forall>n b. r = Reply n b \<longrightarrow> (\<exists>c. context = Some c \<and> body_of_tenant db' (ac_tenant c) b))"
proof -
  obtain o1 where o1: "route_of PostgresHierarchyStore context call db = (o1, db')"
    and r: "\<And>n b. r = Reply n b \<Longrightarrow> o1 = Inr (Reply n b)"
    using assms(2) that
    by (auto simp: serve_def handled_def split: prod.splits sum.splits db_error.splits
        elim!: hierarchy_error_reply.elims)
  from routes_guarded [OF assms(1), of "context" call] show ?thesis
    unfolding o1 guarded_route_def own_tenant_only_def using r by fastforce
qed

definition example_owner :: auth_context where
  "example_owner = \<lparr>ac_actor = ''usr_1'', ac_tenant = ''ten_1'', ac_role = Owner\<rparr>"

theorem api_calls_stay_in_tenant_witness:
  "\<exists>r db'. serve (Some example_owner) (GetProjectCall ''prj_1'') example_db = (Reply 200 r, db') \<and>
     body_of_tenant db' ''ten_1'' r"
proof -
  have ok: "constraints example_db" by (simp add: constraint_defs example_db_def)
  obtain r db' where run: "serve (Some example_owner) (GetProjectCall ''prj_1'') example_db = (Reply 200 r, db')"
    by (simp add: serve_def handled_def get_project_route_def validated_def text_within_def with_context_def
        requireTenantContext_def example_owner_def seqM_def store_ops pg_getProject_def
        inTenantTransaction_def inTransaction_def query_def returnM_def project_row_of_def example_db_def)
  from api_calls_stay_in_tenant [OF ok run] run show ?thesis by (auto simp: example_owner_def)
qed

end
