(* ===== verification/Pairing.thy ===== *)
theory Pairing
  imports Agent_Messages Access
begin

text \<open>
  Pairing an agent with an environment, \<^verbatim>\<open>apps/api/src/modules/agents/pairing-service.ts\<close>: the
  service with its checks of a registration, the repository in memory, the repository on the
  tables, and the routes of \<^verbatim>\<open>modules/agents/routes.ts\<close>. The proof payload is of
  \<^verbatim>\<open>signature-verifier.ts\<close>. Random values and clocks are arguments.
\<close>

subsection \<open>Records and errors\<close>

definition PAIRING_TOKEN_TTL_MS :: int where "PAIRING_TOKEN_TTL_MS = 15 * 60 * 1000"

datatype replacement_mode = NoReplacement | Drain | Force

fun mode_value :: "replacement_mode \<Rightarrow> string" where
  "mode_value NoReplacement = ''none''"
| "mode_value Drain = ''drain''"
| "mode_value Force = ''force''"

record agent_record =
  agr_id :: string
  agr_environmentId :: string
  agr_publicSigningKey :: string
  agr_publicEncryptionKey :: string
  agr_signingKeyId :: string
  agr_encryptionKeyId :: string
  agr_subjectHmacKeyVersion :: int
  agr_version :: string
  agr_protocolVersion :: string
  agr_instanceFingerprint :: string
  agr_status :: string
  agr_lastSeenAt :: "string option"
  agr_lastSequence :: string
  agr_createdAt :: string

record agent_registration =
  rg_pairingToken :: string
  rg_environmentId :: string
  rg_publicSigningKey :: string
  rg_publicEncryptionKey :: string
  rg_signingKeyId :: string
  rg_encryptionKeyId :: string
  rg_subjectHmacKeyVersion :: int
  rg_version :: string
  rg_protocolVersion :: string
  rg_instanceFingerprint :: string
  rg_proof :: string

record create_pairing_token_input =
  ct_tenantId :: string
  ct_environmentId :: string
  ct_actorId :: string
  ct_replacementMode :: "replacement_mode option"
  ct_allowReplacement :: "bool option"

record issued_pairing_token =
  it_plaintext :: string
  it_expiresAt :: string

record persist_pairing_token_input =
  pp_id :: string
  pp_tenantId :: string
  pp_environmentId :: string
  pp_tokenHash :: string
  pp_replacementMode :: replacement_mode
  pp_allowReplacement :: bool
  pp_createdByActorId :: string
  pp_createdAt :: string
  pp_expiresAt :: string

record pairing_token_record = persist_pairing_token_input +
  pp_consumedAt :: "string option"

record consume_and_pair_input =
  cn_tokenHash :: string
  cn_registration :: agent_registration
  cn_now :: string

text \<open>\<open>KeyDecodingError\<close> is the \<open>TypeError\<close> of the key decoder, \<open>ProofNotCanonical\<close> that of the payload.\<close>

datatype pairing_error =
    PairingTokenInvalidError
  | AgentReplacementRequiresOwnerConfirmationError
  | AgentReplacementBlockedActiveWorkError
  | AgentAlreadyActiveError
  | AgentNotFoundError
  | InvalidAgentKeyError
  | PairingResourceNotFoundError
  | KeyDecodingError
  | ProofNotCanonical

record ('e, 's) pairing_repository =
  prp_issueToken :: "persist_pairing_token_input \<Rightarrow> ('e, unit, 's) act"
  prp_findToken :: "string \<Rightarrow> ('e, pairing_token_record option, 's) act"
  prp_consumeAndPair :: "string \<Rightarrow> int \<Rightarrow> consume_and_pair_input \<Rightarrow> ('e, agent_record, 's) act"
  prp_findAgent :: "string \<Rightarrow> string \<Rightarrow> ('e, agent_record option, 's) act"
  prp_revokeAgent :: "string \<Rightarrow> string \<Rightarrow> ('e, unit, 's) act"

subsection \<open>The service\<close>

definition resolveReplacementMode :: "create_pairing_token_input \<Rightarrow> replacement_mode" where
  "resolveReplacementMode i =
     (case ct_replacementMode i of
        Some m \<Rightarrow> m
      | None \<Rightarrow> if ct_allowReplacement i = Some True then Drain else NoReplacement)"

definition token_input ::
  "(bytes \<Rightarrow> bytes) \<Rightarrow> int \<Rightarrow> string \<Rightarrow> string \<Rightarrow> int \<Rightarrow> create_pairing_token_input \<Rightarrow>
   persist_pairing_token_input" where
  "token_input sha ttl plaintext uuid now i =
     \<lparr>pp_id = ''apt_'' @ uuid, pp_tenantId = ct_tenantId i, pp_environmentId = ct_environmentId i,
      pp_tokenHash = sha256Token sha plaintext, pp_replacementMode = resolveReplacementMode i,
      pp_allowReplacement = (resolveReplacementMode i \<noteq> NoReplacement),
      pp_createdByActorId = ct_actorId i, pp_createdAt = toISOString now,
      pp_expiresAt = toISOString (now + ttl)\<rparr>"

definition createToken ::
  "('e, 's) pairing_repository \<Rightarrow> (bytes \<Rightarrow> bytes) \<Rightarrow> int \<Rightarrow> bytes \<Rightarrow> string \<Rightarrow> int \<Rightarrow>
   create_pairing_token_input \<Rightarrow> ('e, issued_pairing_token, 's) act" where
  "createToken repo sha ttl random uuid now i =
     (let plaintext = b64_encode random in
      seqM (prp_issueToken repo (token_input sha ttl plaintext uuid now i))
        (\<lambda>_. returnM \<lparr>it_plaintext = plaintext, it_expiresAt = toISOString (now + ttl)\<rparr>))"

definition required_fields_present :: "agent_registration \<Rightarrow> bool" where
  "required_fields_present r \<longleftrightarrow> rg_pairingToken r \<noteq> [] \<and> rg_environmentId r \<noteq> [] \<and>
     rg_publicSigningKey r \<noteq> [] \<and> rg_publicEncryptionKey r \<noteq> [] \<and> rg_signingKeyId r \<noteq> [] \<and>
     rg_encryptionKeyId r \<noteq> [] \<and> 0 < rg_subjectHmacKeyVersion r \<and> rg_version r \<noteq> [] \<and>
     rg_protocolVersion r \<noteq> [] \<and> rg_instanceFingerprint r \<noteq> [] \<and> rg_proof r \<noteq> []"

text \<open>\<open>Buffer.from(s, "base64url")\<close> skips characters outside the alphabet, so only the comparison with
its own encoding makes the proof canonical.\<close>

definition proof_text :: "string \<Rightarrow> bool" where
  "proof_text s \<longleftrightarrow> (case pairing_decodeBase64Url s of None \<Rightarrow> False | Some bs \<Rightarrow> length bs = 64)"

definition validateRegistration :: "(bytes \<Rightarrow> bytes) \<Rightarrow> agent_registration \<Rightarrow> bool" where
  "validateRegistration sha r \<longleftrightarrow> required_fields_present r \<and>
     decodeAgentKey (rg_publicSigningKey r) \<noteq> None \<and>
     (case decodeAgentKey (rg_publicEncryptionKey r) of None \<Rightarrow> False
      | Some k \<Rightarrow> \<not> list_all (\<lambda>b. b = 0) k) \<and>
     keyIdForPublicKey sha Ed25519 (rg_publicSigningKey r) = Some (rg_signingKeyId r) \<and>
     keyIdForPublicKey sha X25519 (rg_publicEncryptionKey r) = Some (rg_encryptionKeyId r) \<and>
     proof_text (rg_proof r)"

definition createPairingProofPayload :: "canonicalizer \<Rightarrow> agent_registration \<Rightarrow> string option" where
  "createPairingProofPayload canonicalize r = canonicalize (JObj
     [(''environmentId'', JStr (rg_environmentId r)),
      (''instanceFingerprint'', JStr (rg_instanceFingerprint r)),
      (''pairingToken'', JStr (rg_pairingToken r)), (''protocolVersion'', JStr (rg_protocolVersion r)),
      (''publicEncryptionKey'', JStr (rg_publicEncryptionKey r)),
      (''publicSigningKey'', JStr (rg_publicSigningKey r)),
      (''encryptionKeyId'', JStr (rg_encryptionKeyId r)), (''signingKeyId'', JStr (rg_signingKeyId r)),
      (''subjectHmacKeyVersion'', JNum (rg_subjectHmacKeyVersion r)),
      (''version'', JStr (rg_version r))])"

text \<open>\<open>raised\<close> is how the store's errors carry those of the service.\<close>

definition pair_agent ::
  "('e, 's) pairing_repository \<Rightarrow> (pairing_error \<Rightarrow> 'e) \<Rightarrow> authenticator \<Rightarrow> string \<Rightarrow> int \<Rightarrow> int \<Rightarrow>
   string \<Rightarrow> agent_registration \<Rightarrow> ('e, agent_record, 's) act" where
  "pair_agent repo raised au uuid now db_now pairingToken r =
     (if rg_pairingToken r \<noteq> pairingToken then throwM (raised PairingTokenInvalidError)
      else if \<not> validateRegistration (at_sha au) r then throwM (raised InvalidAgentKeyError)
      else case createPairingProofPayload (at_canonicalize au) r of
             None \<Rightarrow> throwM (raised ProofNotCanonical)
           | Some payload \<Rightarrow>
               if \<not> verifyAgentProof (at_ed25519 au) (rg_publicSigningKey r) (rg_proof r) payload
               then throwM (raised InvalidAgentKeyError)
               else prp_consumeAndPair repo uuid db_now
                 \<lparr>cn_tokenHash = sha256Token (at_sha au) pairingToken, cn_registration = r,
                  cn_now = toISOString now\<rparr>)"

subsection \<open>The repository on the tables\<close>

definition normalizeReplacementMode :: "string \<Rightarrow> bool \<Rightarrow> replacement_mode" where
  "normalizeReplacementMode v allow =
     (if v = ''none'' then NoReplacement else if v = ''drain'' then Drain
      else if v = ''force'' then Force else if allow then Drain else NoReplacement)"

definition token_mode :: "agent_pairing_token_row \<Rightarrow> replacement_mode" where
  "token_mode t = normalizeReplacementMode (pt_replacementMode t) (pt_allowReplacement t)"

definition normalizeToken :: "agent_pairing_token_row \<Rightarrow> pairing_token_record" where
  "normalizeToken t =
     \<lparr>pp_id = pt_id t, pp_tenantId = pt_tenantId t, pp_environmentId = pt_environmentId t,
      pp_tokenHash = pt_tokenHash t, pp_replacementMode = token_mode t,
      pp_allowReplacement = (token_mode t \<noteq> NoReplacement),
      pp_createdByActorId = pt_createdByActorId t, pp_createdAt = toISOString (pt_createdAt t),
      pp_expiresAt = toISOString (pt_expiresAt t), pp_consumedAt = map_option toISOString (pt_consumedAt t)\<rparr>"

definition or_key_id :: "(bytes \<Rightarrow> bytes) \<Rightarrow> key_purpose \<Rightarrow> string \<Rightarrow> string option \<Rightarrow> string option" where
  "or_key_id sha purpose key k = (case k of Some k \<Rightarrow> Some k | None \<Rightarrow> keyIdForPublicKey sha purpose key)"

definition normalizeAgent ::
  "(bytes \<Rightarrow> bytes) \<Rightarrow> int \<Rightarrow> agent_row \<Rightarrow> agent_record option" where
  "normalizeAgent sha version r =
     (case (or_key_id sha Ed25519 (ag_publicSigningKey r) (ag_signingKeyId r),
            or_key_id sha X25519 (ag_publicEncryptionKey r) (ag_encryptionKeyId r)) of
        (Some s, Some e) \<Rightarrow> Some
          \<lparr>agr_id = ag_id r, agr_environmentId = ag_environmentId r,
           agr_publicSigningKey = ag_publicSigningKey r,
           agr_publicEncryptionKey = ag_publicEncryptionKey r, agr_signingKeyId = s,
           agr_encryptionKeyId = e, agr_subjectHmacKeyVersion = version, agr_version = ag_version r,
           agr_protocolVersion = ag_protocolVersion r,
           agr_instanceFingerprint = ag_instanceFingerprint r, agr_status = ag_status r,
           agr_lastSeenAt = map_option toISOString (ag_lastSeenAt r),
           agr_lastSequence = ag_lastSequence r, agr_createdAt = toISOString (ag_createdAt r)\<rparr>
      | _ \<Rightarrow> None)"

definition normalized :: "agent_record option \<Rightarrow> (pairing_error, agent_record) sql" where
  "normalized a = (case a of None \<Rightarrow> raise KeyDecodingError | Some r \<Rightarrow> returnM r)"

definition new_token :: "persist_pairing_token_input \<Rightarrow> int \<Rightarrow> int \<Rightarrow> agent_pairing_token_row" where
  "new_token i created expires =
     \<lparr>pt_id = pp_id i, pt_tenantId = pp_tenantId i, pt_environmentId = pp_environmentId i,
      pt_tokenHash = pp_tokenHash i, pt_replacementMode = mode_value (pp_replacementMode i),
      pt_allowReplacement = pp_allowReplacement i, pt_createdByActorId = pp_createdByActorId i,
      pt_createdAt = created, pt_expiresAt = expires, pt_consumedAt = None\<rparr>"

definition pg_issueToken :: "persist_pairing_token_input \<Rightarrow> (pairing_error, unit) sql" where
  "pg_issueToken i = inTenantTransaction (pp_tenantId i) (\<lambda>tenant db.
     if environment_tenant db (pp_environmentId i) \<noteq> Some (pp_tenantId i)
     then raise PairingResourceNotFoundError db
     else seqM (as_timestamp (pp_createdAt i)) (\<lambda>created.
          seqM (as_timestamp (pp_expiresAt i)) (\<lambda>expires.
          statement (\<lambda>db. db\<lparr>db_agentPairingTokens := db_agentPairingTokens db @
            [new_token i created expires]\<rparr>))) db)"

text \<open>The database function \<open>lookup_agent_pairing_token\<close> reads across tenants.\<close>

definition lookup_token :: "string \<Rightarrow> database \<Rightarrow> agent_pairing_token_row option" where
  "lookup_token h db = find (\<lambda>t. pt_tokenHash t = h) (db_agentPairingTokens db)"

definition pg_findToken :: "string \<Rightarrow> (pairing_error, pairing_token_record option) sql" where
  "pg_findToken h = query (\<lambda>db. map_option normalizeToken (lookup_token h db))"

definition token_usable :: "consume_and_pair_input \<Rightarrow> agent_pairing_token_row \<Rightarrow> bool" where
  "token_usable i t \<longleftrightarrow> pt_consumedAt t = None \<and>
     \<not> (case date_parse (cn_now i) of None \<Rightarrow> False | Some now \<Rightarrow> pt_expiresAt t \<le> now) \<and>
     pt_environmentId t = rg_environmentId (cn_registration i)"

definition live_envelope :: "string \<Rightarrow> string \<Rightarrow> subject_envelope_row \<Rightarrow> bool" where
  "live_envelope tenant e r \<longleftrightarrow> se_tenantId r = tenant \<and> se_environmentId r = e \<and> se_consumedAt r = None"

definition open_attempt :: "execution_attempt_row \<Rightarrow> bool" where
  "open_attempt r \<longleftrightarrow> ea_status r = ''authorized'' \<or> ea_status r = ''running''"

definition affectedRequestIds :: "string \<Rightarrow> string \<Rightarrow> database \<Rightarrow> string list" where
  "affectedRequestIds tenant e db = remdups
     (map se_requestId (filter (live_envelope tenant e) (db_subjectEnvelopes db)) @
      map ea_requestId (filter (\<lambda>r. ea_tenantId r = tenant \<and> ea_environmentId r = e \<and> open_attempt r)
        (db_executionAttempts db)))"

definition suspend_request :: "privacy_request_row \<Rightarrow> privacy_request_row" where
  "suspend_request r = r\<lparr>rw_status := ''needs_review'', rw_version := rw_version r + 1,
     rw_completedAt := None\<rparr>"

definition suspend_requests :: "string \<Rightarrow> string list \<Rightarrow> database \<Rightarrow> database" where
  "suspend_requests tenant ids db = db\<lparr>db_privacyRequests := map (\<lambda>r.
     if rw_tenantId r = tenant \<and> rw_id r \<in> set ids \<and> rw_status r \<notin> {''completed'', ''cancelled''}
     then suspend_request r else r) (db_privacyRequests db)\<rparr>"

definition suspend_attempts :: "string \<Rightarrow> string list \<Rightarrow> int \<Rightarrow> database \<Rightarrow> database" where
  "suspend_attempts tenant ids now db = db\<lparr>db_executionAttempts := map (\<lambda>r.
     if ea_tenantId r = tenant \<and> ea_requestId r \<in> set ids \<and> open_attempt r
     then r\<lparr>ea_status := ''needs_review'', ea_completedAt := Some now\<rparr> else r) (db_executionAttempts db)\<rparr>"

definition delete_envelopes :: "string \<Rightarrow> string \<Rightarrow> database \<Rightarrow> database" where
  "delete_envelopes tenant e db = db\<lparr>db_subjectEnvelopes :=
     filter (\<lambda>r. \<not> live_envelope tenant e r) (db_subjectEnvelopes db)\<rparr>"

definition open_job :: "string \<Rightarrow> string \<Rightarrow> agent_job_row \<Rightarrow> bool" where
  "open_job tenant e r \<longleftrightarrow> aj_tenantId r = tenant \<and> aj_environmentId r = e \<and> aj_completedAt r = None"

definition close_jobs :: "string \<Rightarrow> string \<Rightarrow> int \<Rightarrow> database \<Rightarrow> database" where
  "close_jobs tenant e now db = db\<lparr>db_agentJobs := map (\<lambda>r. if open_job tenant e r
     then r\<lparr>aj_payloadCiphertext := None, aj_payloadEncryptionKeyId := None, aj_authorization := None,
            aj_leasedByAgentId := None, aj_leaseExpiresAt := None, aj_completedAt := Some now\<rparr>
     else r) (db_agentJobs db)\<rparr>"

definition force_replacement :: "string \<Rightarrow> string \<Rightarrow> string list \<Rightarrow> string \<Rightarrow> (pairing_error, unit) sql" where
  "force_replacement tenant e ids now =
     seqM (as_timestamp now) (\<lambda>at. block
       [whenM (ids \<noteq> []) (block
          [statement (suspend_requests tenant ids), statement (suspend_attempts tenant ids at)]),
        statement (delete_envelopes tenant e),
        statement (close_jobs tenant e at)])"

definition revoke_row :: "string \<Rightarrow> string \<Rightarrow> database \<Rightarrow> database" where
  "revoke_row a e db = db\<lparr>db_agents := map (\<lambda>r. if ag_id r = a \<and> ag_environmentId r = e
     then r\<lparr>ag_status := ''revoked''\<rparr> else r) (db_agents db)\<rparr>"

definition replace_agent ::
  "(bytes \<Rightarrow> bytes) \<Rightarrow> agent_pairing_token_row \<Rightarrow> consume_and_pair_input \<Rightarrow> int \<Rightarrow> agent_row \<Rightarrow>
   (pairing_error, unit) sql" where
  "replace_agent sha t i version active = seqM (normalized (normalizeAgent sha version active)) (\<lambda>a db.
     let tenant = pt_tenantId t; e = pt_environmentId t; ids = affectedRequestIds tenant e db in
     if agr_publicSigningKey a = rg_publicSigningKey (cn_registration i)
     then raise AgentAlreadyActiveError db
     else if token_mode t = NoReplacement then raise AgentReplacementRequiresOwnerConfirmationError db
     else if token_mode t = Drain \<and> ids \<noteq> [] then raise AgentReplacementBlockedActiveWorkError db
     else block [whenM (token_mode t = Force) (force_replacement tenant e ids (cn_now i)),
                 statement (revoke_row (agr_id a) e)] db)"

definition paired_row :: "string \<Rightarrow> int \<Rightarrow> string \<Rightarrow> agent_registration \<Rightarrow> agent_row" where
  "paired_row uuid db_now e r =
     \<lparr>ag_id = ''agt_'' @ uuid, ag_environmentId = e, ag_publicSigningKey = rg_publicSigningKey r,
      ag_publicEncryptionKey = rg_publicEncryptionKey r, ag_signingKeyId = Some (rg_signingKeyId r),
      ag_encryptionKeyId = Some (rg_encryptionKeyId r), ag_version = rg_version r,
      ag_protocolVersion = rg_protocolVersion r, ag_instanceFingerprint = rg_instanceFingerprint r,
      ag_status = ''pairing'', ag_lastSeenAt = None, ag_lastSequence = ''0'',
      ag_lastControlSequence = ''0'', ag_createdAt = db_now\<rparr>"

definition consume_row :: "string \<Rightarrow> int \<Rightarrow> database \<Rightarrow> database" where
  "consume_row token at db = db\<lparr>db_agentPairingTokens := map (\<lambda>t.
     if pt_id t = token \<and> pt_consumedAt t = None then t\<lparr>pt_consumedAt := Some at\<rparr> else t)
     (db_agentPairingTokens db)\<rparr>"

definition insert_agent ::
  "(bytes \<Rightarrow> bytes) \<Rightarrow> string \<Rightarrow> int \<Rightarrow> agent_pairing_token_row \<Rightarrow> consume_and_pair_input \<Rightarrow> int \<Rightarrow>
   (pairing_error, agent_record) sql" where
  "insert_agent sha uuid db_now t i version =
     (let row = paired_row uuid db_now (pt_environmentId t) (cn_registration i) in
      seqM (statement (\<lambda>db. db\<lparr>db_agents := db_agents db @ [row]\<rparr>)) (\<lambda>_.
      seqM (as_timestamp (cn_now i)) (\<lambda>at db.
        if \<not> (\<exists>r \<in> set (db_agentPairingTokens db). pt_id r = pt_id t \<and> pt_consumedAt r = None)
        then raise PairingTokenInvalidError db
        else seqM (statement (consume_row (pt_id t) at)) (\<lambda>_. normalized (normalizeAgent sha version row)) db)))"

definition active_row :: "string \<Rightarrow> database \<Rightarrow> agent_row option" where
  "active_row e db = find (\<lambda>r. ag_environmentId r = e \<and> active_agent r) (db_agents db)"

definition pair_with_token ::
  "(bytes \<Rightarrow> bytes) \<Rightarrow> string \<Rightarrow> int \<Rightarrow> agent_pairing_token_row \<Rightarrow> consume_and_pair_input \<Rightarrow>
   (pairing_error, agent_record) sql" where
  "pair_with_token sha uuid db_now t i db =
     (case find (\<lambda>e. en_id e = pt_environmentId t \<and> environment_visible (pt_tenantId t) db e)
          (db_environments db) of
        None \<Rightarrow> raise PairingTokenInvalidError db
      | Some e \<Rightarrow>
          if en_subjectHashKeyVersion e \<noteq> rg_subjectHmacKeyVersion (cn_registration i)
          then raise InvalidAgentKeyError db
          else seqM (case active_row (pt_environmentId t) db of
                       None \<Rightarrow> returnM ()
                     | Some a \<Rightarrow> replace_agent sha t i (en_subjectHashKeyVersion e) a)
                 (\<lambda>_. insert_agent sha uuid db_now t i (en_subjectHashKeyVersion e)) db)"

definition pg_consumeAndPair ::
  "(bytes \<Rightarrow> bytes) \<Rightarrow> string \<Rightarrow> int \<Rightarrow> consume_and_pair_input \<Rightarrow> (pairing_error, agent_record) sql" where
  "pg_consumeAndPair sha uuid db_now i = inTransaction (\<lambda>db.
     case lookup_token (cn_tokenHash i) db of
       None \<Rightarrow> raise PairingTokenInvalidError db
     | Some boot \<Rightarrow>
         (case find (\<lambda>t. pt_id t = pt_id boot \<and> pt_tenantId t = pt_tenantId boot)
              (db_agentPairingTokens db) of
            None \<Rightarrow> raise PairingTokenInvalidError db
          | Some t \<Rightarrow> if \<not> token_usable i t then raise PairingTokenInvalidError db
                      else pair_with_token sha uuid db_now t i db))"

definition pg_findAgent :: "(bytes \<Rightarrow> bytes) \<Rightarrow> string \<Rightarrow> string \<Rightarrow> (pairing_error, agent_record option) sql" where
  "pg_findAgent sha tenantId agent = inTenantTransaction tenantId (\<lambda>tenant db.
     case visible_agent tenant db agent of
       None \<Rightarrow> returnM None db
     | Some r \<Rightarrow> (case find (\<lambda>e. en_id e = ag_environmentId r) (db_environments db) of
         None \<Rightarrow> returnM None db
       | Some e \<Rightarrow> seqM (normalized (normalizeAgent sha (en_subjectHashKeyVersion e) r))
           (\<lambda>a. returnM (Some a)) db))"

definition pg_revokeAgent :: "string \<Rightarrow> string \<Rightarrow> (pairing_error, unit) sql" where
  "pg_revokeAgent tenantId agent = inTenantTransaction tenantId (\<lambda>tenant db.
     case visible_agent tenant db agent of
       None \<Rightarrow> raise AgentNotFoundError db
     | Some r \<Rightarrow> if ag_status r = ''revoked'' then returnM () db
                 else statement (revoke_row agent (ag_environmentId r)) db)"

definition PostgresPairingRepository ::
  "(bytes \<Rightarrow> bytes) \<Rightarrow> (pairing_error db_error, database) pairing_repository" where
  "PostgresPairingRepository sha = \<lparr>prp_issueToken = pg_issueToken, prp_findToken = pg_findToken,
     prp_consumeAndPair = pg_consumeAndPair sha, prp_findAgent = pg_findAgent sha,
     prp_revokeAgent = pg_revokeAgent\<rparr>"

subsection \<open>The repository in memory\<close>

text \<open>
  A \<open>Map\<close> to sets gives the empty list where it has no entry. The hierarchy is the lookup of an
  environment, absent when the repository was built without one.
\<close>

type_synonym environment_lookup = "(string \<Rightarrow> string \<Rightarrow> environment_record option) option"

record memory_pairing =
  mp_tokens :: "pairing_token_record list"
  mp_agents :: "agent_record list"
  mp_agentTenants :: "string \<Rightarrow> string option"
  mp_envelopeRequests :: "string \<Rightarrow> string list"
  mp_attemptRequests :: "string \<Rightarrow> string list"
  mp_requestStatuses :: "string \<Rightarrow> string option"
  mp_pendingCiphertexts :: "(string \<times> string \<times> string) list"

type_synonym 'a memory_pairing_act = "(pairing_error, 'a, memory_pairing) act"

definition token_record_of :: "persist_pairing_token_input \<Rightarrow> pairing_token_record" where
  "token_record_of i = persist_pairing_token_input.extend i \<lparr>pp_consumedAt = None\<rparr>"

definition mem_issueToken :: "environment_lookup \<Rightarrow> persist_pairing_token_input \<Rightarrow> unit memory_pairing_act" where
  "mem_issueToken hierarchy i s =
     (case hierarchy of
        Some lookup \<Rightarrow> if lookup (pp_tenantId i) (pp_environmentId i) = None
          then throwM PairingResourceNotFoundError s
          else (Inr (), s\<lparr>mp_tokens := map_put pp_tokenHash (token_record_of i) (mp_tokens s)\<rparr>)
      | None \<Rightarrow> (Inr (), s\<lparr>mp_tokens := map_put pp_tokenHash (token_record_of i) (mp_tokens s)\<rparr>))"

definition add_once :: "string \<Rightarrow> string list \<Rightarrow> string list" where
  "add_once x xs = (if x \<in> set xs then xs else xs @ [x])"

definition markSubjectEnvelopeActive :: "string \<Rightarrow> string \<Rightarrow> memory_pairing \<Rightarrow> memory_pairing" where
  "markSubjectEnvelopeActive e q s = s\<lparr>mp_envelopeRequests :=
     (mp_envelopeRequests s)(e := add_once q (mp_envelopeRequests s e))\<rparr>"

definition markAttemptRunning :: "string \<Rightarrow> string \<Rightarrow> memory_pairing \<Rightarrow> memory_pairing" where
  "markAttemptRunning e q s = s\<lparr>mp_attemptRequests :=
     (mp_attemptRequests s)(e := add_once q (mp_attemptRequests s e))\<rparr>"

definition addPendingCiphertext :: "string \<Rightarrow> string \<Rightarrow> string \<Rightarrow> memory_pairing \<Rightarrow> memory_pairing" where
  "addPendingCiphertext a j c s = s\<lparr>mp_pendingCiphertexts := map_put fst (j, a, c) (mp_pendingCiphertexts s)\<rparr>"

definition mem_findToken :: "string \<Rightarrow> pairing_token_record option memory_pairing_act" where
  "mem_findToken h s = returnM (map_get pp_tokenHash h (mp_tokens s)) s"

definition record_usable :: "consume_and_pair_input \<Rightarrow> pairing_token_record \<Rightarrow> bool" where
  "record_usable i t \<longleftrightarrow> pp_consumedAt t = None \<and>
     \<not> (case (date_parse (pp_expiresAt t), date_parse (cn_now i)) of
          (Some x, Some now) \<Rightarrow> x \<le> now | _ \<Rightarrow> False) \<and>
     pp_environmentId t = rg_environmentId (cn_registration i)"

definition required_key_version ::
  "environment_lookup \<Rightarrow> pairing_token_record \<Rightarrow> consume_and_pair_input \<Rightarrow> int option" where
  "required_key_version hierarchy t i =
     (case hierarchy of
        Some lookup \<Rightarrow> map_option ec_subjectHashKeyVersion (lookup (pp_tenantId t) (pp_environmentId t))
      | None \<Rightarrow> Some (rg_subjectHmacKeyVersion (cn_registration i)))"

definition revoke_record :: "agent_record \<Rightarrow> memory_pairing \<Rightarrow> memory_pairing" where
  "revoke_record a s = s\<lparr>mp_agents := map_put agr_id (a\<lparr>agr_status := ''revoked''\<rparr>) (mp_agents s)\<rparr>"

definition mem_force :: "string \<Rightarrow> string list \<Rightarrow> agent_record \<Rightarrow> memory_pairing \<Rightarrow> memory_pairing" where
  "mem_force e ids active s =
     s\<lparr>mp_requestStatuses := (\<lambda>q. if q \<in> set ids then Some ''needs_review'' else mp_requestStatuses s q),
       mp_envelopeRequests := (mp_envelopeRequests s)(e := []),
       mp_attemptRequests := (mp_attemptRequests s)(e := []),
       mp_pendingCiphertexts := filter (\<lambda>(j, a, c). a \<noteq> agr_id active) (mp_pendingCiphertexts s)\<rparr>"

definition mem_replace ::
  "pairing_token_record \<Rightarrow> consume_and_pair_input \<Rightarrow> agent_record \<Rightarrow> unit memory_pairing_act" where
  "mem_replace t i active s =
     (let e = pp_environmentId t; ids = mp_envelopeRequests s e @ mp_attemptRequests s e in
      if agr_publicSigningKey active = rg_publicSigningKey (cn_registration i)
      then throwM AgentAlreadyActiveError s
      else if pp_replacementMode t = NoReplacement
      then throwM AgentReplacementRequiresOwnerConfirmationError s
      else if pp_replacementMode t = Drain \<and> ids \<noteq> [] then throwM AgentReplacementBlockedActiveWorkError s
      else (Inr (), revoke_record active
        (if pp_replacementMode t = Force then mem_force e ids active s else s)))"

definition paired_record :: "string \<Rightarrow> pairing_token_record \<Rightarrow> consume_and_pair_input \<Rightarrow> agent_record" where
  "paired_record uuid t i = (let r = cn_registration i in
     \<lparr>agr_id = ''agt_'' @ uuid, agr_environmentId = pp_environmentId t,
      agr_publicSigningKey = rg_publicSigningKey r, agr_publicEncryptionKey = rg_publicEncryptionKey r,
      agr_signingKeyId = rg_signingKeyId r, agr_encryptionKeyId = rg_encryptionKeyId r,
      agr_subjectHmacKeyVersion = rg_subjectHmacKeyVersion r, agr_version = rg_version r,
      agr_protocolVersion = rg_protocolVersion r, agr_instanceFingerprint = rg_instanceFingerprint r,
      agr_status = ''pairing'', agr_lastSeenAt = None, agr_lastSequence = ''0'', agr_createdAt = cn_now i\<rparr>)"

definition mem_insert ::
  "string \<Rightarrow> pairing_token_record \<Rightarrow> consume_and_pair_input \<Rightarrow> agent_record memory_pairing_act" where
  "mem_insert uuid t i s =
     (let a = paired_record uuid t i in
      (Inr a, s\<lparr>mp_tokens := map_put pp_tokenHash (t\<lparr>pp_consumedAt := Some (cn_now i)\<rparr>) (mp_tokens s),
                mp_agents := map_put agr_id a (mp_agents s),
                mp_agentTenants := (mp_agentTenants s)(agr_id a := Some (pp_tenantId t))\<rparr>))"

definition mem_consumeAndPair ::
  "environment_lookup \<Rightarrow> string \<Rightarrow> int \<Rightarrow> consume_and_pair_input \<Rightarrow> agent_record memory_pairing_act" where
  "mem_consumeAndPair hierarchy uuid db_now i s =
     (case map_get pp_tokenHash (cn_tokenHash i) (mp_tokens s) of
        None \<Rightarrow> throwM PairingTokenInvalidError s
      | Some t \<Rightarrow>
          if \<not> record_usable i t then throwM PairingTokenInvalidError s
          else if required_key_version hierarchy t i \<noteq> Some (rg_subjectHmacKeyVersion (cn_registration i))
          then throwM InvalidAgentKeyError s
          else seqM (case find (\<lambda>a. agr_environmentId a = pp_environmentId t \<and> agr_status a \<noteq> ''revoked'')
                            (mp_agents s) of
                       None \<Rightarrow> returnM () | Some a \<Rightarrow> mem_replace t i a)
                 (\<lambda>_. mem_insert uuid t i) s)"

definition mem_findAgent :: "string \<Rightarrow> string \<Rightarrow> agent_record option memory_pairing_act" where
  "mem_findAgent tenantId a s =
     returnM (if mp_agentTenants s a \<noteq> Some tenantId then None else map_get agr_id a (mp_agents s)) s"

definition mem_revokeAgent :: "string \<Rightarrow> string \<Rightarrow> unit memory_pairing_act" where
  "mem_revokeAgent tenantId a s =
     (if mp_agentTenants s a \<noteq> Some tenantId then throwM AgentNotFoundError s
      else case map_get agr_id a (mp_agents s) of
             None \<Rightarrow> throwM AgentNotFoundError s
           | Some r \<Rightarrow> (Inr (), if agr_status r \<noteq> ''revoked'' then revoke_record r s else s))"

definition InMemoryPairingRepository ::
  "environment_lookup \<Rightarrow> (pairing_error, memory_pairing) pairing_repository" where
  "InMemoryPairingRepository hierarchy = \<lparr>prp_issueToken = mem_issueToken hierarchy,
     prp_findToken = mem_findToken, prp_consumeAndPair = mem_consumeAndPair hierarchy,
     prp_findAgent = mem_findAgent, prp_revokeAgent = mem_revokeAgent\<rparr>"

subsection \<open>Routes\<close>

definition pairBodySchema :: "agent_registration \<Rightarrow> bool" where
  "pairBodySchema r \<longleftrightarrow> text_within 1 512 (rg_pairingToken r) \<and> text_within 1 200 (rg_environmentId r) \<and>
     text_within 1 128 (rg_publicSigningKey r) \<and> text_within 1 128 (rg_publicEncryptionKey r) \<and>
     text_within 1 128 (rg_signingKeyId r) \<and> text_within 1 128 (rg_encryptionKeyId r) \<and>
     1 \<le> rg_subjectHmacKeyVersion r \<and> text_within 1 100 (rg_version r) \<and>
     text_within 1 100 (rg_protocolVersion r) \<and> text_within 1 256 (rg_instanceFingerprint r) \<and>
     text_within 1 256 (rg_proof r)"

datatype agent_body = TokenBody issued_pairing_token | AgentBody agent_record | NoBody

record pairing_app =
  pa_authenticator :: authenticator
  pa_random :: bytes
  pa_uuid :: string
  pa_now :: int
  pa_db_now :: int

definition agent_validated ::
  "bool \<Rightarrow> ('e, agent_body reply, 's) act \<Rightarrow> ('e, agent_body reply, 's) act" where
  "agent_validated ok route = (if ok then route else returnM (ErrorReply 400 ''VALIDATION_ERROR''))"

definition issue_token_route ::
  "('e, 's) pairing_repository \<Rightarrow> pairing_app \<Rightarrow> auth_context option \<Rightarrow> string \<Rightarrow>
   replacement_mode option \<Rightarrow> bool option \<Rightarrow> ('e, agent_body reply, 's) act" where
  "issue_token_route repo app context environmentId mode allow =
     agent_validated (text_within 1 200 environmentId)
       (case requireRoleContext context Owner None of
          Inl r \<Rightarrow> returnM r
        | Inr c \<Rightarrow> seqM (createToken repo (at_sha (pa_authenticator app)) PAIRING_TOKEN_TTL_MS
             (pa_random app) (pa_uuid app) (pa_now app)
             \<lparr>ct_tenantId = ac_tenant c, ct_environmentId = environmentId, ct_actorId = ac_actor c,
              ct_replacementMode = mode, ct_allowReplacement = allow\<rparr>)
             (\<lambda>t. returnM (Reply 201 (TokenBody t))))"

definition pair_route ::
  "('e, 's) pairing_repository \<Rightarrow> (pairing_error \<Rightarrow> 'e) \<Rightarrow> pairing_app \<Rightarrow> agent_registration \<Rightarrow>
   ('e, agent_body reply, 's) act" where
  "pair_route repo raised app r = agent_validated (pairBodySchema r)
     (seqM (pair_agent repo raised (pa_authenticator app) (pa_uuid app) (pa_now app) (pa_db_now app)
             (rg_pairingToken r) r)
       (\<lambda>a. returnM (Reply 201 (AgentBody a))))"

definition revoke_route ::
  "('e, 's) pairing_repository \<Rightarrow> auth_context option \<Rightarrow> string \<Rightarrow> ('e, agent_body reply, 's) act" where
  "revoke_route repo context agent = agent_validated (text_within 1 200 agent)
     (case requireRoleContext context Owner None of
        Inl r \<Rightarrow> returnM r
      | Inr c \<Rightarrow> seqM (prp_revokeAgent repo (ac_tenant c) agent) (\<lambda>_. returnM (Reply 204 NoBody)))"

end
