(* ===== verification/Pairing_Properties.thy ===== *)
theory Pairing_Properties
  imports Pairing Hierarchy_Properties Agent_Jobs_Properties
begin

text \<open>
  What pairing guarantees: a token pairs at most one agent, on any store that keeps the laws of the
  interface \<open>pairing_store\<close>, which both repositories do; a paired agent has proved that it holds
  its key, it is the only active one of its environment, and what the agent it replaces had under
  way was finished or is closed.
\<close>

subsection \<open>The interface\<close>

datatype pairing_call =
    IssueToken persist_pairing_token_input
  | ConsumeAndPair string int consume_and_pair_input
  | RevokeAgent string string

fun pairing_step :: "('e, 's) pairing_repository \<Rightarrow> pairing_call \<Rightarrow> 's \<Rightarrow> 's" where
  "pairing_step repo (IssueToken i) s = snd (prp_issueToken repo i s)"
| "pairing_step repo (ConsumeAndPair u at i) s = snd (prp_consumeAndPair repo u at i s)"
| "pairing_step repo (RevokeAgent t a) s = snd (prp_revokeAgent repo t a s)"

text \<open>The token hashes of the pairings that succeed in a run.\<close>

fun paired_now :: "('e, 's) pairing_repository \<Rightarrow> pairing_call \<Rightarrow> 's \<Rightarrow> string list" where
  "paired_now repo (ConsumeAndPair u at i) s =
     (case fst (prp_consumeAndPair repo u at i s) of Inl _ \<Rightarrow> [] | Inr _ \<Rightarrow> [cn_tokenHash i])"
| "paired_now repo _ s = []"

fun pairings :: "('e, 's) pairing_repository \<Rightarrow> pairing_call list \<Rightarrow> 's \<Rightarrow> string list" where
  "pairings repo [] s = []"
| "pairings repo (c # cs) s = paired_now repo c s @ pairings repo cs (pairing_step repo c s)"

locale pairing_store =
  fixes repo :: "('e, 's) pairing_repository"
    and ok :: "'s \<Rightarrow> bool" and issuable :: "'s \<Rightarrow> string \<Rightarrow> bool"
    and known :: "'s \<Rightarrow> string \<Rightarrow> bool" and spendable :: "'s \<Rightarrow> string \<Rightarrow> bool"
  assumes spendable_known: "spendable s h \<Longrightarrow> known s h"
    and issued: "ok s \<Longrightarrow> issuable s (pp_tokenHash i) \<Longrightarrow> prp_issueToken repo i s = (Inr u, s') \<Longrightarrow>
      ok s' \<and> \<not> known s (pp_tokenHash i) \<and> (\<forall>h. known s h \<longrightarrow> known s' h) \<and>
      (\<forall>h. spendable s' h \<longrightarrow> h = pp_tokenHash i \<or> spendable s h)"
    and issue_failed: "prp_issueToken repo i s = (Inl e, s') \<Longrightarrow> s' = s"
    and consumed: "ok s \<Longrightarrow> prp_consumeAndPair repo v at j s = (Inr a, s') \<Longrightarrow>
      ok s' \<and> spendable s (cn_tokenHash j) \<and> \<not> spendable s' (cn_tokenHash j) \<and>
      (\<forall>h. known s h \<longrightarrow> known s' h) \<and> (\<forall>h. spendable s' h \<longrightarrow> spendable s h)"
    and consume_failed: "prp_consumeAndPair repo v at j s = (Inl e, s') \<Longrightarrow> s' = s"
    and revoked: "ok s \<Longrightarrow> prp_revokeAgent repo t b s = (r, s') \<Longrightarrow>
      ok s' \<and> known s' = known s \<and> spendable s' = spendable s"
begin

fun issuable_run :: "pairing_call list \<Rightarrow> 's \<Rightarrow> bool" where
  "issuable_run [] s = True"
| "issuable_run (c # cs) s \<longleftrightarrow> (case c of IssueToken i \<Rightarrow> issuable s (pp_tokenHash i) | _ \<Rightarrow> True) \<and>
     issuable_run cs (pairing_step repo c s)"

lemma step_spends:
  assumes "ok s" and "case c of IssueToken i \<Rightarrow> issuable s (pp_tokenHash i) | _ \<Rightarrow> True"
  shows "ok (pairing_step repo c s) \<and> (\<forall>h. known s h \<longrightarrow> known (pairing_step repo c s) h) \<and>
    (\<forall>h. spendable (pairing_step repo c s) h \<longrightarrow> spendable s h \<or> \<not> known s h) \<and>
    (\<forall>h \<in> set (paired_now repo c s). spendable s h \<and> known s h \<and> \<not> spendable (pairing_step repo c s) h)"
proof (cases c)
  case (IssueToken i)
  obtain r s' where r: "prp_issueToken repo i s = (r, s')" by (cases "prp_issueToken repo i s")
  show ?thesis
  proof (cases r)
    case (Inl e)
    with issue_failed [of i s e s'] r assms(1) IssueToken show ?thesis by simp
  next
    case (Inr u)
    with issued [of s i u s'] r assms IssueToken show ?thesis by auto
  qed
next
  case (ConsumeAndPair v at j)
  obtain r s' where r: "prp_consumeAndPair repo v at j s = (r, s')"
    by (cases "prp_consumeAndPair repo v at j s")
  show ?thesis
  proof (cases r)
    case (Inl e)
    with consume_failed [of v at j s e s'] r assms(1) ConsumeAndPair show ?thesis by simp
  next
    case (Inr a)
    with consumed [of s v at j a s'] r assms(1) ConsumeAndPair spendable_known show ?thesis by auto
  qed
next
  case (RevokeAgent t b)
  obtain r s' where "prp_revokeAgent repo t b s = (r, s')" by (cases "prp_revokeAgent repo t b s")
  with revoked [of s t b r s'] assms(1) RevokeAgent show ?thesis by simp
qed

lemma spent_stays:
  "ok s \<Longrightarrow> issuable_run cs s \<Longrightarrow> known s h \<Longrightarrow> \<not> spendable s h \<Longrightarrow> h \<notin> set (pairings repo cs s)"
proof (induction cs arbitrary: s)
  case (Cons c cs)
  let ?s = "pairing_step repo c s"
  from Cons.prems(2) have c: "case c of IssueToken i \<Rightarrow> issuable s (pp_tokenHash i) | _ \<Rightarrow> True"
    "issuable_run cs ?s" by simp_all
  note step = step_spends [OF Cons.prems(1) c(1)]
  have "h \<notin> set (paired_now repo c s)" using step Cons.prems(4) by blast
  moreover have "h \<notin> set (pairings repo cs ?s)"
    using step Cons.prems(3,4) by (intro Cons.IH) (use c in auto)
  ultimately show ?case by simp
qed simp

lemma token_pairs_once: "ok s \<Longrightarrow> issuable_run cs s \<Longrightarrow> distinct (pairings repo cs s)"
proof (induction cs arbitrary: s)
  case (Cons c cs)
  let ?s = "pairing_step repo c s"
  from Cons.prems(2) have c: "case c of IssueToken i \<Rightarrow> issuable s (pp_tokenHash i) | _ \<Rightarrow> True"
    "issuable_run cs ?s" by simp_all
  note step = step_spends [OF Cons.prems(1) c(1)]
  have "distinct (paired_now repo c s)" by (cases c) (simp_all split: sum.splits)
  moreover have "h \<notin> set (pairings repo cs ?s)" if "h \<in> set (paired_now repo c s)" for h
    using step that by (intro spent_stays) (use c in auto)
  ultimately show ?case using Cons.IH [of ?s] step c(2) by auto
qed simp

end

subsection \<open>What a pairing on the tables does\<close>

lemma token_key:
  "constraints db \<Longrightarrow> t \<in> set (db_agentPairingTokens db) \<Longrightarrow> s \<in> set (db_agentPairingTokens db) \<Longrightarrow>
   pt_id t = pt_id s \<Longrightarrow> t = s"
  by (auto simp: constraints_def agent_pairing_tokens_ok_def distinct_map dest: inj_onD)

lemma token_hash_key:
  "constraints db \<Longrightarrow> t \<in> set (db_agentPairingTokens db) \<Longrightarrow> s \<in> set (db_agentPairingTokens db) \<Longrightarrow>
   pt_tokenHash t = pt_tokenHash s \<Longrightarrow> t = s"
  by (auto simp: constraints_def agent_pairing_tokens_ok_def distinct_map dest: inj_onD)

definition forced :: "string \<Rightarrow> string \<Rightarrow> string list \<Rightarrow> int \<Rightarrow> database \<Rightarrow> database" where
  "forced tenant e ids at db = close_jobs tenant e at (delete_envelopes tenant e
     (suspend_attempts tenant ids at (suspend_requests tenant ids db)))"

lemma suspend_nothing [simp]: "suspend_requests tenant [] db = db" "suspend_attempts tenant [] at db = db"
  by (simp_all add: suspend_requests_def suspend_attempts_def)

lemma force_outcome:
  "force_replacement tenant e ids now db = (Inr u, db') \<Longrightarrow>
     \<exists>at. date_parse now = Some at \<and> db' = forced tenant e ids at db"
  by (cases "ids = []") (auto simp: force_replacement_def forced_def)

lemma forced_frame [simp]:
  "db_agentPairingTokens (forced tenant e ids at db) = db_agentPairingTokens db"
  "db_agents (forced tenant e ids at db) = db_agents db"
  "db_environments (forced tenant e ids at db) = db_environments db"
  by (simp_all add: forced_def close_jobs_def delete_envelopes_def suspend_attempts_def suspend_requests_def)

lemma revoke_row_frame [simp]:
  "db_agentPairingTokens (revoke_row a e db) = db_agentPairingTokens db"
  "db_subjectEnvelopes (revoke_row a e db) = db_subjectEnvelopes db"
  "db_executionAttempts (revoke_row a e db) = db_executionAttempts db"
  "db_agentJobs (revoke_row a e db) = db_agentJobs db"
  "db_privacyRequests (revoke_row a e db) = db_privacyRequests db"
  by (simp_all add: revoke_row_def)

lemma normalized_ok [simp]: "normalized a db = (Inr r, db') \<longleftrightarrow> a = Some r \<and> db' = db"
  by (auto simp: normalized_def split: option.splits)

lemma normalizeAgent_fields:
  "normalizeAgent sha v r = Some a \<Longrightarrow> agr_id a = ag_id r \<and> agr_publicSigningKey a = ag_publicSigningKey r"
  by (auto simp: normalizeAgent_def split: option.splits)

lemma replace_outcome:
  assumes "replace_agent sha t i v active db = (Inr u, db')"
  defines "ids \<equiv> affectedRequestIds (pt_tenantId t) (pt_environmentId t) db"
  shows "ag_publicSigningKey active \<noteq> rg_publicSigningKey (cn_registration i) \<and> token_mode t \<noteq> NoReplacement \<and>
    (token_mode t = Drain \<and> ids = [] \<and> db' = revoke_row (ag_id active) (pt_environmentId t) db \<or>
     (\<exists>at. token_mode t = Force \<and> db' = revoke_row (ag_id active) (pt_environmentId t)
        (forced (pt_tenantId t) (pt_environmentId t) ids at db)))"
proof -
  obtain a where a: "normalizeAgent sha v active = Some a"
    and "agr_publicSigningKey a \<noteq> rg_publicSigningKey (cn_registration i)" "token_mode t \<noteq> NoReplacement"
      "\<not> (token_mode t = Drain \<and> ids \<noteq> [])"
    and run: "block [whenM (token_mode t = Force) (force_replacement (pt_tenantId t) (pt_environmentId t) ids (cn_now i)),
        statement (revoke_row (agr_id a) (pt_environmentId t))] db = (Inr (), db')"
    using assms by (auto simp: replace_agent_def Let_def split: if_splits)
  moreover note normalizeAgent_fields [OF a]
  ultimately show ?thesis
    by (cases "token_mode t") (auto dest!: force_outcome)
qed

lemma insert_outcome:
  assumes "insert_agent sha u at t i v db = (Inr a, db')"
  shows "\<exists>now. constraints db' \<and> agr_id a = ''agt_'' @ u \<and>
    db' = consume_row (pt_id t) now
      (db\<lparr>db_agents := db_agents db @ [paired_row u at (pt_environmentId t) (cn_registration i)]\<rparr>)"
  using assms
  by (auto simp: insert_agent_def Let_def paired_row_def dest!: normalizeAgent_fields split: if_splits)

lemma pg_consume_outcome:
  assumes "constraints db" and "pg_consumeAndPair sha u at i db = (Inr a, db')"
  obtains t db1 now where
    "t \<in> set (db_agentPairingTokens db)" "pt_tokenHash t = cn_tokenHash i" "token_usable i t"
    "case active_row (pt_environmentId t) db of None \<Rightarrow> db1 = db
       | Some old \<Rightarrow> \<exists>v. replace_agent sha t i v old db = (Inr (), db1)"
    "constraints db'" "agr_id a = ''agt_'' @ u"
    "db' = consume_row (pt_id t) now
      (db1\<lparr>db_agents := db_agents db1 @ [paired_row u at (pt_environmentId t) (cn_registration i)]\<rparr>)"
proof -
  obtain boot t where boot: "lookup_token (cn_tokenHash i) db = Some boot"
    and t: "find (\<lambda>t. pt_id t = pt_id boot \<and> pt_tenantId t = pt_tenantId boot) (db_agentPairingTokens db) = Some t"
    and usable: "token_usable i t" and run: "pair_with_token sha u at t i db = (Inr a, db')"
    using assms(2) by (auto simp: pg_consumeAndPair_def split: option.splits if_splits)
  have hash: "boot \<in> set (db_agentPairingTokens db)" "pt_tokenHash boot = cn_tokenHash i"
    using boot find_Some_mem unfolding lookup_token_def by fastforce+
  have t': "t \<in> set (db_agentPairingTokens db)" "pt_id t = pt_id boot"
    using find_Some_mem [OF t] by auto
  with token_key [OF assms(1) _ hash(1)] have "t = boot" by blast
  obtain v db1 where "(case active_row (pt_environmentId t) db of None \<Rightarrow> returnM ()
      | Some a \<Rightarrow> replace_agent sha t i v a) db = (Inr (), db1)"
    and ins: "insert_agent sha u at t i v db1 = (Inr a, db')"
    using run by (auto simp: pair_with_token_def split: option.splits if_splits)
  then have "case active_row (pt_environmentId t) db of None \<Rightarrow> db1 = db
       | Some old \<Rightarrow> \<exists>v. replace_agent sha t i v old db = (Inr (), db1)"
    by (auto split: option.splits)
  with insert_outcome [OF ins] that t' hash usable \<open>t = boot\<close> show ?thesis by blast
qed

subsection \<open>Tokens\<close>

definition pg_known :: "database \<Rightarrow> string \<Rightarrow> bool" where
  "pg_known db h \<longleftrightarrow> h \<in> pt_tokenHash ` set (db_agentPairingTokens db)"

definition pg_spendable :: "database \<Rightarrow> string \<Rightarrow> bool" where
  "pg_spendable db h \<longleftrightarrow> (\<exists>t \<in> set (db_agentPairingTokens db). pt_tokenHash t = h \<and> pt_consumedAt t = None)"

lemma replaced_tokens:
  "replace_agent sha t i v old db = (Inr u, db1) \<Longrightarrow> db_agentPairingTokens db1 = db_agentPairingTokens db"
  by (drule replace_outcome) auto

lemma consumed_tokens:
  assumes "constraints db" and "pg_consumeAndPair sha u at i db = (Inr a, db')"
  shows "constraints db' \<and> pg_spendable db (cn_tokenHash i) \<and> \<not> pg_spendable db' (cn_tokenHash i) \<and>
    (\<forall>h. pg_known db h \<longrightarrow> pg_known db' h) \<and> (\<forall>h. pg_spendable db' h \<longrightarrow> pg_spendable db h)"
proof (rule pg_consume_outcome [OF assms])
  fix t db1 now
  assume t: "t \<in> set (db_agentPairingTokens db)" "pt_tokenHash t = cn_tokenHash i" "token_usable i t"
    and "case active_row (pt_environmentId t) db of None \<Rightarrow> db1 = db
       | Some old \<Rightarrow> \<exists>v. replace_agent sha t i v old db = (Inr (), db1)"
    and ok: "constraints db'"
    and db': "db' = consume_row (pt_id t) now
      (db1\<lparr>db_agents := db_agents db1 @ [paired_row u at (pt_environmentId t) (cn_registration i)]\<rparr>)"
  then have same: "db_agentPairingTokens db1 = db_agentPairingTokens db"
    using replaced_tokens by (fastforce split: option.splits)
  have tokens: "db_agentPairingTokens db' = map (\<lambda>s. if pt_id s = pt_id t \<and> pt_consumedAt s = None
      then s\<lparr>pt_consumedAt := Some now\<rparr> else s) (db_agentPairingTokens db)"
    by (simp add: db' consume_row_def same)
  have only: "s = t" if "s \<in> set (db_agentPairingTokens db)" "pt_tokenHash s = cn_tokenHash i" for s
    using token_hash_key [OF assms(1) that(1) t(1)] that t(2) by simp
  have "pg_spendable db (cn_tokenHash i)" using t by (auto simp: pg_spendable_def token_usable_def)
  moreover have "\<not> pg_spendable db' (cn_tokenHash i)"
    using only by (auto simp: pg_spendable_def tokens)
  moreover have "map pt_tokenHash (db_agentPairingTokens db') = map pt_tokenHash (db_agentPairingTokens db)"
    by (simp add: tokens)
  then have "pg_known db' h" if "pg_known db h" for h
    using that unfolding pg_known_def by (metis set_map)
  moreover have "pg_spendable db h" if "pg_spendable db' h" for h
    using that by (auto simp: pg_spendable_def tokens split: if_splits)
  ultimately show ?thesis using ok by blast
qed

lemma issued_tokens:
  assumes "pg_issueToken i db = (Inr u, db')"
  shows "constraints db' \<and> \<not> pg_known db (pp_tokenHash i) \<and> (\<forall>h. pg_known db h \<longrightarrow> pg_known db' h) \<and>
    (\<forall>h. pg_spendable db' h \<longrightarrow> h = pp_tokenHash i \<or> pg_spendable db h)"
proof -
  obtain created expires where ok: "constraints db'"
    and db': "db' = db\<lparr>db_agentPairingTokens := db_agentPairingTokens db @ [new_token i created expires]\<rparr>"
    using assms by (auto simp: pg_issueToken_def inTenantTransaction_def split: if_splits)
  have hash: "pt_tokenHash (new_token i created expires) = pp_tokenHash i" by (simp add: new_token_def)
  from ok have "distinct (map pt_tokenHash (db_agentPairingTokens db'))"
    by (simp add: constraints_def agent_pairing_tokens_ok_def)
  then have "\<not> pg_known db (pp_tokenHash i)" by (simp add: db' hash pg_known_def)
  moreover have "\<forall>h. pg_spendable db' h \<longrightarrow> h = pp_tokenHash i \<or> pg_spendable db h"
    using hash by (auto simp: pg_spendable_def db')
  ultimately show ?thesis using ok by (simp add: pg_known_def db')
qed

lemma pg_issue_failed: "pg_issueToken i db = (Inl x, db') \<Longrightarrow> db' = db"
  by (auto simp: pg_issueToken_def inTenantTransaction_def)

lemma pg_consume_failed: "pg_consumeAndPair sha u at i db = (Inl x, db') \<Longrightarrow> db' = db"
  by (auto simp: pg_consumeAndPair_def)

lemma pg_revoked:
  assumes "constraints db" and "pg_revokeAgent t b db = (r, db')"
  shows "constraints db' \<and> db_agentPairingTokens db' = db_agentPairingTokens db"
  using assms
  by (cases r) (auto simp: pg_revokeAgent_def inTenantTransaction_def split: option.splits if_splits)

interpretation pg_pairing: pairing_store "PostgresPairingRepository sha" constraints "\<lambda>_ _. True"
  pg_known pg_spendable for sha
proof (unfold_locales, goal_cases)
  case (1 s h)
  then show ?case by (auto simp: pg_known_def pg_spendable_def)
next
  case (2 s i u s')
  with issued_tokens [of i s u s'] show ?case by (simp add: PostgresPairingRepository_def)
next
  case (3 i s e s')
  with pg_issue_failed [of i s e s'] show ?case by (simp add: PostgresPairingRepository_def)
next
  case (4 s v at j a s')
  with consumed_tokens [of s sha v at j a s'] show ?case by (simp add: PostgresPairingRepository_def)
next
  case (5 v at j s e s')
  with pg_consume_failed [of sha v at j s e s'] show ?case by (simp add: PostgresPairingRepository_def)
next
  case (6 s t b r s')
  with pg_revoked [of s t b r s'] show ?case
    by (simp add: PostgresPairingRepository_def pg_known_def pg_spendable_def fun_eq_iff)
qed

subsection \<open>The repository in memory\<close>

definition mp_ok :: "memory_pairing \<Rightarrow> bool" where
  "mp_ok s \<longleftrightarrow> distinct (map pp_tokenHash (mp_tokens s))"

definition mp_known :: "memory_pairing \<Rightarrow> string \<Rightarrow> bool" where
  "mp_known s h \<longleftrightarrow> h \<in> pp_tokenHash ` set (mp_tokens s)"

definition mp_spendable :: "memory_pairing \<Rightarrow> string \<Rightarrow> bool" where
  "mp_spendable s h \<longleftrightarrow> (\<exists>t \<in> set (mp_tokens s). pp_tokenHash t = h \<and> pp_consumedAt t = None)"

lemma mem_replace_tokens: "mem_replace t i a s = (Inr u, s') \<Longrightarrow> mp_tokens s' = mp_tokens s"
  by (auto simp: mem_replace_def Let_def revoke_record_def mem_force_def split: if_splits)

lemma map_put_old:
  "distinct (map key m) \<Longrightarrow> t \<in> set m \<Longrightarrow> key r = key t \<Longrightarrow>
   map key (map_put key r m) = map key m \<and> r \<in> set (map_put key r m) \<and>
   (\<forall>x \<in> set (map_put key r m). x = r \<or> x \<in> set m \<and> key x \<noteq> key r)"
  by (force simp: map_put_def)

lemma mem_consumed:
  assumes "mp_ok s" and "mem_consumeAndPair hierarchy u at i s = (Inr a, s')"
  shows "mp_ok s' \<and> mp_spendable s (cn_tokenHash i) \<and> \<not> mp_spendable s' (cn_tokenHash i) \<and>
    (\<forall>h. mp_known s h \<longrightarrow> mp_known s' h) \<and> (\<forall>h. mp_spendable s' h \<longrightarrow> mp_spendable s h)"
proof -
  obtain t where get: "map_get pp_tokenHash (cn_tokenHash i) (mp_tokens s) = Some t"
    and usable: "record_usable i t"
    and run: "seqM (case find (\<lambda>a. agr_environmentId a = pp_environmentId t \<and> agr_status a \<noteq> ''revoked'')
        (mp_agents s) of None \<Rightarrow> returnM () | Some a \<Rightarrow> mem_replace t i a) (\<lambda>_. mem_insert u t i) s = (Inr a, s')"
    using assms(2) by (auto simp: mem_consumeAndPair_def simp del: seqM_ok split: option.splits if_splits)
  from get have t: "t \<in> set (mp_tokens s)" "pp_tokenHash t = cn_tokenHash i"
    using find_Some_mem unfolding map_get_def by fastforce+
  obtain s1 where "mp_tokens s1 = mp_tokens s" "mem_insert u t i s1 = (Inr a, s')"
    using run by (auto split: option.splits dest: mem_replace_tokens)
  then have tokens: "mp_tokens s' =
      map_put pp_tokenHash (t\<lparr>pp_consumedAt := Some (cn_now i)\<rparr>) (mp_tokens s)"
    by (auto simp: mem_insert_def Let_def)
  have d: "distinct (map pp_tokenHash (mp_tokens s))" using assms(1) by (simp add: mp_ok_def)
  let ?t = "t\<lparr>pp_consumedAt := Some (cn_now i)\<rparr>"
  have "pp_tokenHash ?t = pp_tokenHash t" by simp
  from map_put_old [OF d t(1) this]
  have keys: "map pp_tokenHash (mp_tokens s') = map pp_tokenHash (mp_tokens s)"
    and new: "\<forall>x \<in> set (mp_tokens s'). x = ?t \<or> x \<in> set (mp_tokens s) \<and> pp_tokenHash x \<noteq> cn_tokenHash i"
    using t(2) by (simp_all add: tokens)
  have "mp_ok s'" using keys d by (simp add: mp_ok_def)
  moreover have "mp_known s' = mp_known s"
    unfolding mp_known_def fun_eq_iff using keys by (metis set_map)
  moreover have "mp_spendable s (cn_tokenHash i)"
    using t usable by (auto simp: mp_spendable_def record_usable_def)
  moreover have "mp_spendable s' h \<Longrightarrow> mp_spendable s h \<and> h \<noteq> cn_tokenHash i" for h
    using new by (auto simp: mp_spendable_def)
  ultimately show ?thesis by auto
qed

lemma mem_issued:
  assumes "mp_ok s" and "\<not> mp_known s (pp_tokenHash i)" and "mem_issueToken hierarchy i s = (Inr u, s')"
  shows "mp_ok s' \<and> (\<forall>h. mp_known s h \<longrightarrow> mp_known s' h) \<and>
    (\<forall>h. mp_spendable s' h \<longrightarrow> h = pp_tokenHash i \<or> mp_spendable s h)"
proof -
  have hash: "pp_tokenHash (token_record_of i) = pp_tokenHash i"
    by (simp add: token_record_of_def persist_pairing_token_input.extend_def)
  then have "map_put pp_tokenHash (token_record_of i) (mp_tokens s) = mp_tokens s @ [token_record_of i]"
    using assms(2) by (intro map_put_new) (simp add: mp_known_def)
  then have "mp_tokens s' = mp_tokens s @ [token_record_of i]"
    using assms(3) by (auto simp: mem_issueToken_def split: option.splits if_splits)
  with assms(1,2) hash show ?thesis by (auto simp: mp_ok_def mp_known_def mp_spendable_def)
qed

lemma mem_pairing_failed:
  "mem_issueToken hierarchy i s = (Inl x, s') \<Longrightarrow> s' = s"
  "mem_consumeAndPair hierarchy u at j s = (Inl x, s') \<Longrightarrow> s' = s"
  by (auto simp: mem_issueToken_def mem_consumeAndPair_def mem_replace_def mem_insert_def Let_def
      split: option.splits if_splits)

lemma mem_revoked:
  "mem_revokeAgent t b s = (r, s') \<Longrightarrow> mp_tokens s' = mp_tokens s"
  by (cases r) (auto simp: mem_revokeAgent_def revoke_record_def split: option.splits if_splits)

interpretation mem_pairing: pairing_store "InMemoryPairingRepository hierarchy" mp_ok
  "\<lambda>s h. \<not> mp_known s h" mp_known mp_spendable for hierarchy
proof (unfold_locales, goal_cases)
  case (1 s h)
  then show ?case by (auto simp: mp_known_def mp_spendable_def)
next
  case (2 s i u s')
  with mem_issued [of s i hierarchy u s'] show ?case by (simp add: InMemoryPairingRepository_def)
next
  case (3 i s e s')
  with mem_pairing_failed(1) [of hierarchy i s e s'] show ?case by (simp add: InMemoryPairingRepository_def)
next
  case (4 s v at j a s')
  with mem_consumed [of s hierarchy v at j a s'] show ?case by (simp add: InMemoryPairingRepository_def)
next
  case (5 v at j s e s')
  with mem_pairing_failed(2) [of hierarchy v at j s e s'] show ?case
    by (simp add: InMemoryPairingRepository_def)
next
  case (6 s t b r s')
  with mem_revoked [of t b s r s'] show ?case
    by (simp add: InMemoryPairingRepository_def mp_ok_def mp_known_def mp_spendable_def fun_eq_iff)
qed

subsection \<open>What a forced replacement leaves\<close>

lemma no_affected:
  "affectedRequestIds tenant e db = [] \<longleftrightarrow>
     (\<forall>r \<in> set (db_subjectEnvelopes db). \<not> live_envelope tenant e r) \<and>
     (\<forall>r \<in> set (db_executionAttempts db). ea_tenantId r = tenant \<and> ea_environmentId r = e \<longrightarrow> \<not> open_attempt r)"
  by (auto simp: affectedRequestIds_def filter_empty_conv)

lemma affected_attempt:
  "r \<in> set (db_executionAttempts db) \<Longrightarrow> ea_tenantId r = tenant \<Longrightarrow> ea_environmentId r = e \<Longrightarrow>
   open_attempt r \<Longrightarrow> ea_requestId r \<in> set (affectedRequestIds tenant e db)"
  by (auto simp: affectedRequestIds_def)

lemma forced_tables:
  "db_subjectEnvelopes (forced tenant e ids at db) =
     filter (\<lambda>r. \<not> live_envelope tenant e r) (db_subjectEnvelopes db)"
  "db_executionAttempts (forced tenant e ids at db) = db_executionAttempts (suspend_attempts tenant ids at db)"
  "db_agentJobs (forced tenant e ids at db) = db_agentJobs (close_jobs tenant e at db)"
  "db_privacyRequests (forced tenant e ids at db) = db_privacyRequests (suspend_requests tenant ids db)"
  by (simp_all add: forced_def close_jobs_def delete_envelopes_def suspend_attempts_def suspend_requests_def)

lemma map_if_mem:
  "r \<in> set (map (\<lambda>s. if P s then g s else s) xs) \<Longrightarrow> (\<exists>s \<in> set xs. P s \<and> r = g s) \<or> r \<in> set xs \<and> \<not> P r"
  by (induction xs) (auto split: if_splits)

lemma touched_tables:
  "db_executionAttempts (suspend_attempts tenant ids at db) = map (\<lambda>r.
     if ea_tenantId r = tenant \<and> ea_requestId r \<in> set ids \<and> open_attempt r
     then r\<lparr>ea_status := ''needs_review'', ea_completedAt := Some at\<rparr> else r) (db_executionAttempts db)"
  "db_agentJobs (close_jobs tenant e at db) = map (\<lambda>r. if open_job tenant e r
     then r\<lparr>aj_payloadCiphertext := None, aj_payloadEncryptionKeyId := None, aj_authorization := None,
            aj_leasedByAgentId := None, aj_leaseExpiresAt := None, aj_completedAt := Some at\<rparr>
     else r) (db_agentJobs db)"
  "db_privacyRequests (suspend_requests tenant ids db) = map (\<lambda>r.
     if rw_tenantId r = tenant \<and> rw_id r \<in> set ids \<and> rw_status r \<notin> {''completed'', ''cancelled''}
     then suspend_request r else r) (db_privacyRequests db)"
  by (simp_all add: suspend_attempts_def close_jobs_def suspend_requests_def)

lemma suspended_attempts:
  assumes "r \<in> set (db_executionAttempts (suspend_attempts tenant ids at db))"
  shows "\<not> open_attempt r \<or> r \<in> set (db_executionAttempts db) \<and> \<not> (ea_tenantId r = tenant \<and> ea_requestId r \<in> set ids)"
proof -
  from map_if_mem [OF assms [unfolded touched_tables]] show ?thesis
  proof
    assume "r \<in> set (db_executionAttempts db) \<and>
      \<not> (ea_tenantId r = tenant \<and> ea_requestId r \<in> set ids \<and> open_attempt r)"
    then show ?thesis by blast
  next
    assume "\<exists>s \<in> set (db_executionAttempts db). (ea_tenantId s = tenant \<and> ea_requestId s \<in> set ids \<and>
      open_attempt s) \<and> r = s\<lparr>ea_status := ''needs_review'', ea_completedAt := Some at\<rparr>"
    then obtain s where "r = s\<lparr>ea_status := ''needs_review'', ea_completedAt := Some at\<rparr>" by blast
    then show ?thesis by (simp add: open_attempt_def)
  qed
qed

lemma forced_affected:
  "affectedRequestIds tenant e (forced tenant e (affectedRequestIds tenant e db) at db) = []"
proof -
  have "\<not> open_attempt r" if "r \<in> set (db_executionAttempts (suspend_attempts tenant
      (affectedRequestIds tenant e db) at db))" "ea_tenantId r = tenant" "ea_environmentId r = e" for r
    using suspended_attempts [OF that(1)] affected_attempt [of r db tenant e] that(2,3) by blast
  then show ?thesis by (simp add: no_affected forced_tables)
qed

lemma forced_jobs:
  assumes "r \<in> set (db_agentJobs (forced tenant e ids at db))"
  shows "\<not> open_job tenant e r"
proof
  assume r: "open_job tenant e r"
  with map_if_mem [OF assms [unfolded forced_tables touched_tables]] obtain s where
    "r = s\<lparr>aj_payloadCiphertext := None, aj_payloadEncryptionKeyId := None, aj_authorization := None,
      aj_leasedByAgentId := None, aj_leaseExpiresAt := None, aj_completedAt := Some at\<rparr>" by blast
  with r show False by (simp add: open_job_def)
qed

lemma forced_requests:
  assumes "r \<in> set (db_privacyRequests (forced tenant e ids at db))" and "rw_tenantId r = tenant"
    and "rw_id r \<in> set ids"
  shows "rw_status r \<in> {''needs_review'', ''completed'', ''cancelled''}"
proof (rule ccontr)
  assume r: "rw_status r \<notin> {''needs_review'', ''completed'', ''cancelled''}"
  with map_if_mem [OF assms(1) [unfolded forced_tables touched_tables]] assms(2,3) obtain s where
    "r = suspend_request s" by blast
  with r show False by (simp add: suspend_request_def)
qed

lemma affected_frame [simp]:
  "affectedRequestIds tenant e (revoke_row a v db) = affectedRequestIds tenant e db"
  "affectedRequestIds tenant e (consume_row k at db) = affectedRequestIds tenant e db"
  "affectedRequestIds tenant e (db\<lparr>db_agents := as\<rparr>) = affectedRequestIds tenant e db"
  by (simp_all add: affectedRequestIds_def consume_row_def)

lemma consume_row_frame [simp]:
  "db_agents (consume_row k at db) = db_agents db" "db_agentJobs (consume_row k at db) = db_agentJobs db"
  "db_privacyRequests (consume_row k at db) = db_privacyRequests db"
  by (simp_all add: consume_row_def)

lemma only_active:
  assumes "constraints db" and "r \<in> set (db_agents db)" "s \<in> set (db_agents db)"
    and "active_agent r" "active_agent s" "ag_environmentId r = ag_environmentId s"
  shows "r = s"
proof -
  from assms(1) have "inj_on ag_environmentId (set (filter active_agent (db_agents db)))"
    by (simp add: constraints_def agents_ok_def distinct_map)
  with assms(2-) show ?thesis by (auto dest: inj_onD)
qed

lemma active_row_Some:
  "active_row e db = Some r \<Longrightarrow> r \<in> set (db_agents db) \<and> ag_environmentId r = e \<and> active_agent r"
  using find_Some_mem unfolding active_row_def by fastforce

lemma verifyAgentProof_True:
  assumes "verifyAgentProof ed k p payload"
  shows "\<exists>key sig. k = b64_encode key \<and> p = b64_encode sig \<and> ed key sig (utf8 payload) = Some True"
  using assms
  by (auto simp: verifyAgentProof_def decoders_same canonical_decode split: option.splits if_splits)

subsection \<open>Properties\<close>

text \<open>C11. Over any sequence of calls to the repository, at most one pairing succeeds per token.\<close>

theorem pairing_token_used_once:
  assumes "constraints db"
  shows "distinct (pairings (PostgresPairingRepository sha) cs db)"
proof -
  have "pg_pairing.issuable_run sha cs db"
    by (induction cs arbitrary: db) (simp_all split: pairing_call.splits)
  with assms show ?thesis by (rule pg_pairing.token_pairs_once)
qed

text \<open>C12. An agent is paired only on a fresh token of its environment and with a proof by its own key; then
it is the only active one there, and a replaced agent is revoked with nothing of its work left open.\<close>

theorem paired_agent_replaces_safely:
  assumes "constraints db"
    and "pair_agent (PostgresPairingRepository (at_sha au)) Raised au u now db_now token r db = (Inr a, db')"
  shows "\<exists>t row key sig payload.
    t \<in> set (db_agentPairingTokens db) \<and> pt_tokenHash t = sha256Token (at_sha au) token \<and>
    pt_consumedAt t = None \<and> (\<forall>n. date_parse (toISOString now) = Some n \<longrightarrow> n < pt_expiresAt t) \<and>
    rg_pairingToken r = token \<and> rg_publicSigningKey r = b64_encode key \<and> rg_proof r = b64_encode sig \<and>
    createPairingProofPayload (at_canonicalize au) r = Some payload \<and>
    at_ed25519 au key sig (utf8 payload) = Some True \<and>
    row \<in> set (db_agents db') \<and> ag_id row = agr_id a \<and> ag_environmentId row = pt_environmentId t \<and>
    pt_environmentId t = rg_environmentId r \<and> ag_publicSigningKey row = rg_publicSigningKey r \<and>
    (\<forall>x \<in> set (db_agents db'). active_agent x \<and> ag_environmentId x = pt_environmentId t \<longrightarrow> x = row) \<and>
    (\<forall>old. active_row (pt_environmentId t) db = Some old \<longrightarrow>
       ag_publicSigningKey old \<noteq> rg_publicSigningKey r \<and> token_mode t \<noteq> NoReplacement \<and>
       affectedRequestIds (pt_tenantId t) (pt_environmentId t) db' = [] \<and>
       (token_mode t = Drain \<longrightarrow> affectedRequestIds (pt_tenantId t) (pt_environmentId t) db = []) \<and>
       (token_mode t = Force \<longrightarrow>
          (\<forall>j \<in> set (db_agentJobs db'). \<not> open_job (pt_tenantId t) (pt_environmentId t) j) \<and>
          (\<forall>q \<in> set (db_privacyRequests db'). rw_tenantId q = pt_tenantId t \<and>
             rw_id q \<in> set (affectedRequestIds (pt_tenantId t) (pt_environmentId t) db) \<longrightarrow>
             rw_status q \<in> {''needs_review'', ''completed'', ''cancelled''})))"
proof -
  let ?i = "\<lparr>cn_tokenHash = sha256Token (at_sha au) token, cn_registration = r, cn_now = toISOString now\<rparr>"
  obtain payload where token: "rg_pairingToken r = token"
    and payload: "createPairingProofPayload (at_canonicalize au) r = Some payload"
    and verified: "verifyAgentProof (at_ed25519 au) (rg_publicSigningKey r) (rg_proof r) payload"
    and run: "pg_consumeAndPair (at_sha au) u db_now ?i db = (Inr a, db')"
    using assms(2) by (auto simp: pair_agent_def PostgresPairingRepository_def split: if_splits option.splits)
  obtain key sig where keys: "rg_publicSigningKey r = b64_encode key" "rg_proof r = b64_encode sig"
    "at_ed25519 au key sig (utf8 payload) = Some True" using verifyAgentProof_True [OF verified] by blast
  obtain t db1 at where t: "t \<in> set (db_agentPairingTokens db)" "pt_tokenHash t = sha256Token (at_sha au) token"
    and usable: "token_usable ?i t"
    and replaced: "case active_row (pt_environmentId t) db of None \<Rightarrow> db1 = db
       | Some old \<Rightarrow> \<exists>v. replace_agent (at_sha au) t ?i v old db = (Inr (), db1)"
    and ok: "constraints db'" and a: "agr_id a = ''agt_'' @ u"
    and db': "db' = consume_row (pt_id t) at
      (db1\<lparr>db_agents := db_agents db1 @ [paired_row u db_now (pt_environmentId t) r]\<rparr>)"
    by (rule pg_consume_outcome [OF assms(1) run]) simp_all
  let ?row = "paired_row u db_now (pt_environmentId t) r"
  have row: "?row \<in> set (db_agents db')" "ag_id ?row = agr_id a" "ag_environmentId ?row = pt_environmentId t"
    "ag_publicSigningKey ?row = rg_publicSigningKey r" "active_agent ?row"
    by (simp_all add: db' a paired_row_def active_agent_def)
  then have sole: "\<forall>x \<in> set (db_agents db'). active_agent x \<and> ag_environmentId x = pt_environmentId t \<longrightarrow> x = ?row"
    using only_active [OF ok] by simp
  have use: "pt_consumedAt t = None" "pt_environmentId t = rg_environmentId r"
    "\<forall>n. date_parse (toISOString now) = Some n \<longrightarrow> n < pt_expiresAt t"
    using usable by (auto simp: token_usable_def)
  have work: "ag_publicSigningKey old \<noteq> rg_publicSigningKey r \<and> token_mode t \<noteq> NoReplacement \<and>
       affectedRequestIds (pt_tenantId t) (pt_environmentId t) db' = [] \<and>
       (token_mode t = Drain \<longrightarrow> affectedRequestIds (pt_tenantId t) (pt_environmentId t) db = []) \<and>
       (token_mode t = Force \<longrightarrow>
          (\<forall>j \<in> set (db_agentJobs db'). \<not> open_job (pt_tenantId t) (pt_environmentId t) j) \<and>
          (\<forall>q \<in> set (db_privacyRequests db'). rw_tenantId q = pt_tenantId t \<and>
             rw_id q \<in> set (affectedRequestIds (pt_tenantId t) (pt_environmentId t) db) \<longrightarrow>
             rw_status q \<in> {''needs_review'', ''completed'', ''cancelled''}))"
    if old: "active_row (pt_environmentId t) db = Some old" for old
  proof -
    from replaced old obtain v where "replace_agent (at_sha au) t ?i v old db = (Inr (), db1)" by auto
    from replace_outcome [OF this] consider
      (drain) "token_mode t = Drain" "affectedRequestIds (pt_tenantId t) (pt_environmentId t) db = []"
        "db1 = revoke_row (ag_id old) (pt_environmentId t) db"
        "ag_publicSigningKey old \<noteq> rg_publicSigningKey r"
    | (force) n where "token_mode t = Force" "db1 = revoke_row (ag_id old) (pt_environmentId t)
          (forced (pt_tenantId t) (pt_environmentId t)
            (affectedRequestIds (pt_tenantId t) (pt_environmentId t) db) n db)"
        "ag_publicSigningKey old \<noteq> rg_publicSigningKey r"
      by auto
    then show ?thesis
    proof cases
      case drain
      then show ?thesis by (simp add: db')
    next
      case force
      have jobs: "\<forall>j \<in> set (db_agentJobs db'). \<not> open_job (pt_tenantId t) (pt_environmentId t) j"
        using forced_jobs by (simp add: db' force(2))
      have requests: "\<forall>q \<in> set (db_privacyRequests db'). rw_tenantId q = pt_tenantId t \<and>
          rw_id q \<in> set (affectedRequestIds (pt_tenantId t) (pt_environmentId t) db) \<longrightarrow>
          rw_status q \<in> {''needs_review'', ''completed'', ''cancelled''}"
        using forced_requests [of _ "pt_tenantId t" "pt_environmentId t"] by (simp add: db' force(2))
      have "affectedRequestIds (pt_tenantId t) (pt_environmentId t) db' = []"
        by (simp add: db' force(2) forced_affected)
      with jobs requests force(1,3) show ?thesis by simp
    qed
  qed
  show ?thesis
    by (intro exI [of _ t] exI [of _ ?row] exI [of _ key] exI [of _ sig] exI [of _ payload])
      (use t token payload keys row sole use work in blast)
qed

definition example_pairing_authenticator :: authenticator where
  "example_pairing_authenticator = \<lparr>at_sha = (\<lambda>_. [1]),
     at_ed25519 = (\<lambda>key sig bs. Some (key = replicate 32 9 \<and> sig = replicate 64 7)),
     at_canonicalize = (\<lambda>_. Some ''payload'')\<rparr>"

definition example_registration :: agent_registration where
  "example_registration = \<lparr>rg_pairingToken = ''tok'', rg_environmentId = ''env_1'',
     rg_publicSigningKey = b64_encode (replicate 32 9), rg_publicEncryptionKey = b64_encode (replicate 32 8),
     rg_signingKeyId = ''ed25519:sha256:01'', rg_encryptionKeyId = ''x25519:sha256:01'',
     rg_subjectHmacKeyVersion = 1, rg_version = ''1.0.0'', rg_protocolVersion = ''1.0'',
     rg_instanceFingerprint = ''f'', rg_proof = b64_encode (replicate 64 7)\<rparr>"

definition example_token :: agent_pairing_token_row where
  "example_token = \<lparr>pt_id = ''apt_1'', pt_tenantId = ''ten_1'', pt_environmentId = ''env_1'',
     pt_tokenHash = ''01'', pt_replacementMode = ''drain'', pt_allowReplacement = True,
     pt_createdByActorId = ''usr_1'', pt_createdAt = 0, pt_expiresAt = 900000, pt_consumedAt = None\<rparr>"

definition example_pairing_db :: database where
  "example_pairing_db = example_gateway_db\<lparr>db_agentPairingTokens := [example_token]\<rparr>"

lemmas example_pairing_defs = example_pairing_db_def example_token_def example_gateway_db_def example_db_def
  example_agent_def example_job_def example_request_row_def active_agent_def active_subject_def
  privacy_request_ok_def request_statuses_def positive_or_null_def

lemma example_pairing_ok: "constraints example_pairing_db"
  by (simp add: constraint_defs example_pairing_defs)

lemma hex_01: "hex_char 0 = CHR ''0''" "hex_char (Suc 0) = CHR ''1''" by code_simp+
lemma nonzero_key: "\<not> list_all (\<lambda>b. b = 0) (replicate 32 (8 :: byte))" by code_simp

lemma example_registration_valid:
  "validateRegistration (\<lambda>_. [1]) example_registration"
proof -
  have keys: "decodeAgentKey (b64_encode (replicate 32 9)) = Some (replicate 32 9)"
    "decodeAgentKey (b64_encode (replicate 32 8)) = Some (replicate 32 8)"
    by (simp_all add: decodeAgentKey_def decoders_same codec KEY_BYTES_def)
  have proof_ok: "proof_text (b64_encode (replicate 64 7))"
    by (simp add: proof_text_def decoders_same codec)
  show ?thesis
    by (simp add: validateRegistration_def required_fields_present_def keyIdForPublicKey_def keys proof_ok
        example_registration_def hex_01 nonzero_key)
qed

definition example_consume :: consume_and_pair_input where
  "example_consume = \<lparr>cn_tokenHash = ''01'', cn_registration = example_registration, cn_now = toISOString 5000\<rparr>"

lemma example_consumed:
  "\<exists>a db'. pg_consumeAndPair (\<lambda>_. [1]) ''u'' 5000 example_consume example_pairing_db = (Inr a, db')"
proof -
  let ?i = "\<lparr>cn_tokenHash = ''01'', cn_registration = example_registration, cn_now = toISOString 5000\<rparr>"
  let ?row = "paired_row ''u'' 5000 ''env_1'' example_registration"
  let ?db1 = "revoke_row ''agt_1'' ''env_1'' example_pairing_db"
  let ?db2 = "?db1\<lparr>db_agents := db_agents ?db1 @ [?row]\<rparr>"
  let ?db3 = "consume_row ''apt_1'' 5000 ?db2"
  have ok: "constraints ?db1" "constraints ?db2" "constraints ?db3"
    by (simp_all add: constraint_defs example_pairing_defs revoke_row_def paired_row_def consume_row_def)
  have now: "date_parse (toISOString 5000) = Some 5000"
    by (rule date_parse_toISOString) (simp_all add: max_time_def)
  obtain a where a: "normalizeAgent (\<lambda>_. [1]) 1 ?row = Some a"
    by (simp add: normalizeAgent_def or_key_id_def paired_row_def)
  obtain old where old: "normalizeAgent (\<lambda>_. [1]) 1 example_agent = Some old" "agr_id old = ''agt_1''"
      "agr_publicSigningKey old = ''k''"
    by (simp add: normalizeAgent_def or_key_id_def example_agent_def)
  have active: "active_row ''env_1'' example_pairing_db = Some example_agent"
    by (simp add: active_row_def example_pairing_defs)
  have ids: "affectedRequestIds ''ten_1'' ''env_1'' example_pairing_db = []"
    by (simp add: affectedRequestIds_def example_pairing_defs)
  have token: "pt_tenantId example_token = ''ten_1''" "pt_environmentId example_token = ''env_1''"
    "token_mode example_token = Drain" "pt_id example_token = ''apt_1''"
    by (simp_all add: example_token_def token_mode_def normalizeReplacementMode_def)
  have "b64_encode (replicate 32 9) \<noteq> ''k''"
  proof
    assume "b64_encode (replicate 32 9) = ''k''"
    then have "length (b64_encode (replicate 32 (9::byte))) = 1" by simp
    with b64_encode_length [of "replicate 32 (9::byte)"] show False by simp
  qed
  then have replace: "replace_agent (\<lambda>_. [1]) example_token ?i 1 example_agent example_pairing_db = (Inr (), ?db1)"
    using old ok ids by (simp add: replace_agent_def Let_def token example_registration_def)
  have tokens: "\<exists>r \<in> set (db_agentPairingTokens ?db2). pt_id r = ''apt_1'' \<and> pt_consumedAt r = None"
    by (simp add: example_pairing_defs)
  have insert: "insert_agent (\<lambda>_. [1]) ''u'' 5000 example_token ?i 1 ?db1 = (Inr a, ?db3)"
    unfolding insert_agent_def Let_def token
    using ok now a tokens by (auto simp: seqM_def statement_def as_timestamp_def returnM_def normalized_def)
  have env: "find (\<lambda>e. en_id e = ''env_1'' \<and> environment_visible ''ten_1'' example_pairing_db e)
      (db_environments example_pairing_db) = Some (hd (db_environments example_pairing_db))"
    "en_subjectHashKeyVersion (hd (db_environments example_pairing_db)) = 1"
    by (simp_all add: environment_visible_def example_pairing_defs)
  have "pair_with_token (\<lambda>_. [1]) ''u'' 5000 example_token ?i example_pairing_db = (Inr a, ?db3)"
    using env active replace insert by (auto simp: pair_with_token_def token seqM_def example_registration_def)
  moreover have "token_usable ?i example_token"
    by (simp add: token_usable_def now) (simp add: example_token_def example_registration_def)
  moreover have "lookup_token ''01'' example_pairing_db = Some example_token"
    "find (\<lambda>t. pt_id t = ''apt_1'' \<and> pt_tenantId t = ''ten_1'') (db_agentPairingTokens example_pairing_db) =
       Some example_token"
    by (simp_all add: lookup_token_def example_pairing_defs)
  ultimately have "pg_consumeAndPair (\<lambda>_. [1]) ''u'' 5000 ?i example_pairing_db = (Inr a, ?db3)"
    by (simp add: pg_consumeAndPair_def inTransaction_def token)
  then show ?thesis by (auto simp: example_consume_def)
qed

lemma example_pairing:
  "\<exists>a db'. pair_agent (PostgresPairingRepository (at_sha example_pairing_authenticator)) Raised
     example_pairing_authenticator ''u'' 5000 5000 ''tok'' example_registration example_pairing_db = (Inr a, db')"
proof -
  have "verifyAgentProof (at_ed25519 example_pairing_authenticator)
      (rg_publicSigningKey example_registration) (rg_proof example_registration) ''payload''"
    by (simp add: verifyAgentProof_def decoders_same codec SIGNATURE_BYTES_def
        example_registration_def example_pairing_authenticator_def)
  moreover have "rg_pairingToken example_registration = ''tok''" by (simp add: example_registration_def)
  ultimately show ?thesis
    using example_registration_valid example_consumed
    by (auto simp: example_consume_def pair_agent_def PostgresPairingRepository_def createPairingProofPayload_def
        sha256Token_def hex_01 example_pairing_authenticator_def)
qed

text \<open>Two pairings are attempted with one token, by different registrars at different times: the first succeeds.\<close>

theorem pairing_token_used_once_witness:
  "pairings (PostgresPairingRepository (\<lambda>_. [1])) [ConsumeAndPair ''u'' 5000 example_consume,
     ConsumeAndPair ''u2'' 6000 example_consume] example_pairing_db = [''01'']"
proof -
  let ?repo = "PostgresPairingRepository (\<lambda>_. [1])"
  let ?second = "ConsumeAndPair ''u2'' 6000 example_consume"
  have first: "paired_now ?repo (ConsumeAndPair ''u'' 5000 example_consume) example_pairing_db = [''01'']"
    using example_consumed by (auto simp: PostgresPairingRepository_def example_consume_def)
  have "paired_now ?repo ?second db = [] \<or> paired_now ?repo ?second db = [''01'']" for db
    by (simp add: example_consume_def split: prod.splits sum.splits)
  note second = this [of "pairing_step ?repo (ConsumeAndPair ''u'' 5000 example_consume) example_pairing_db"]
  with first pairing_token_used_once [OF example_pairing_ok, of "\<lambda>_. [1]"
      "[ConsumeAndPair ''u'' 5000 example_consume, ?second]"]
  show ?thesis by (auto simp del: paired_now.simps)
qed

theorem paired_agent_replaces_safely_witness:
  "\<exists>a db' row. pair_agent (PostgresPairingRepository (at_sha example_pairing_authenticator)) Raised
     example_pairing_authenticator ''u'' 5000 5000 ''tok'' example_registration example_pairing_db = (Inr a, db') \<and>
     row \<in> set (db_agents db') \<and> ag_id row = agr_id a"
proof -
  from example_pairing obtain a db' where run: "pair_agent (PostgresPairingRepository
      (at_sha example_pairing_authenticator)) Raised example_pairing_authenticator ''u'' 5000 5000 ''tok''
      example_registration example_pairing_db = (Inr a, db')" by blast
  from paired_agent_replaces_safely [OF example_pairing_ok run] run show ?thesis by blast
qed

end
