(* ===== verification/Subject_Envelope.thy ===== *)
theory Subject_Envelope
  imports Hierarchy Json
begin

text \<open>
  Subject envelopes, \<^verbatim>\<open>apps/api/src/modules/privacy-requests/subject-envelope-service.ts\<close>: storing the
  sealed identity of a data subject for an environment's agent, and binding the pseudonymous hash the
  agent answers with to the request, which detects duplicates. The service checks its input and calls
  the repository on the tables. \<open>JSON.parse\<close>, \<open>localeCompare\<close>, SHA-256, the canonicaliser, the event ids
  and the clocks are arguments; an advisory lock has no effect on serial transactions.
\<close>

subsection \<open>Types\<close>

record subject_alias_binding =
  sb_identifierKind :: string
  sb_subjectHash :: string
  sb_subjectHashKeyVersion :: int
  sb_canonicalizationVersion :: int

record store_subject_envelope_input =
  st_tenantId :: string
  st_environmentId :: string
  st_requestId :: string
  st_ciphertext :: string
  st_encryptionKeyId :: string
  st_expiresAt :: string

record duplicate_override =
  do_ownerActorId :: string
  do_reason :: string

record bind_subject_input =
  bi_tenantId :: string
  bi_environmentId :: string
  bi_requestId :: string
  bi_agentId :: string
  bi_subjectHash :: string
  bi_subjectHashKeyVersion :: int
  bi_canonicalizationVersion :: int
  bi_expectedVersion :: int
  bi_aliases :: "subject_alias_binding list option"
  bi_duplicateOverride :: "duplicate_override option"

record bind_subject_request = bind_subject_input +
  bi_now :: string

datatype binding_outcome = BoundOutcome | DuplicateCancelledOutcome | DuplicateOverrideOutcome

record subject_binding_result =
  br_requestId :: string
  br_environmentId :: string
  br_subjectHash :: string
  br_subjectHashKeyVersion :: int
  br_canonicalizationVersion :: int
  br_duplicateOfRequestId :: "string option"
  br_outcome :: binding_outcome

text \<open>The error of every failed check, with its code.\<close>

datatype subject_error = SubjectEnvelopeError string

record ('e, 's) subject_envelope_repository =
  sj_storeEnvelope :: "store_subject_envelope_input \<Rightarrow> ('e, unit, 's) act"
  sj_bindSubject :: "bind_subject_request \<Rightarrow> ('e, subject_binding_result, 's) act"

subsection \<open>Checks\<close>

definition isNonEmptyString :: "string \<Rightarrow> bool" where
  "isNonEmptyString s \<longleftrightarrow> trim s \<noteq> []"

definition validateScope :: "string \<Rightarrow> string \<Rightarrow> string \<Rightarrow> bool" where
  "validateScope tenant environment request \<longleftrightarrow>
     isNonEmptyString tenant \<and> isNonEmptyString environment \<and> isNonEmptyString request"

text \<open>\<open>SUBJECT_HASH_PATTERN\<close> is the pattern of the alias table.\<close>

definition validateSubjectHash :: "string \<Rightarrow> bool" where
  "validateSubjectHash h \<longleftrightarrow> hmac_text h"

definition agent_key_text :: "string \<Rightarrow> bool" where
  "agent_key_text s \<longleftrightarrow> take 14 s = ''x25519:sha256:'' \<and> length s = 78 \<and>
     list_all (\<lambda>c. c \<in> set hex_digits) (drop 14 s)"

definition validatePositiveInteger :: "int \<Rightarrow> bool" where
  "validatePositiveInteger n \<longleftrightarrow> 0 < n"

text \<open>The checks of the aliases, from the first on, with the keys seen so far.\<close>

fun check_aliases :: "bind_subject_input \<Rightarrow> string list \<Rightarrow> subject_alias_binding list \<Rightarrow> string option" where
  "check_aliases i seen [] = None"
| "check_aliases i seen (a # as) =
     (if sb_identifierKind a \<noteq> ''email'' then Some ''SUBJECT_ALIAS_KIND_INVALID''
      else if sb_subjectHash a = bi_subjectHash i then Some ''SUBJECT_ALIAS_MUST_BE_EXPLICIT''
      else if \<not> validateSubjectHash (sb_subjectHash a) then Some ''SUBJECT_HASH_INVALID''
      else if \<not> validatePositiveInteger (sb_subjectHashKeyVersion a)
      then Some ''SUBJECT_ALIAS_KEY_VERSION_INVALID''
      else if \<not> validatePositiveInteger (sb_canonicalizationVersion a)
      then Some ''SUBJECT_ALIAS_CANONICALIZATION_VERSION_INVALID''
      else if sb_subjectHashKeyVersion a \<noteq> bi_subjectHashKeyVersion i \<or>
          sb_canonicalizationVersion a \<noteq> bi_canonicalizationVersion i
      then Some ''SUBJECT_ALIAS_VERSION_MISMATCH''
      else let key = sb_identifierKind a @ '':'' @ sb_subjectHash a in
           if key \<in> set seen then Some ''SUBJECT_ALIAS_DUPLICATE'' else check_aliases i (key # seen) as)"

definition aliases_of :: "bind_subject_input \<Rightarrow> subject_alias_binding list" where
  "aliases_of i = (case bi_aliases i of None \<Rightarrow> [] | Some as \<Rightarrow> as)"

definition validateAliases :: "bind_subject_input \<Rightarrow> string option" where
  "validateAliases i =
     (if 8 < length (aliases_of i) then Some ''SUBJECT_ALIAS_LIMIT_EXCEEDED''
      else check_aliases i [] (aliases_of i))"

text \<open>\<open>Buffer.from\<close> ignores the bits a canonical encoding would not have.\<close>

fun isBase64UrlBytes :: "json option \<Rightarrow> nat option \<Rightarrow> nat \<Rightarrow> bool" where
  "isBase64UrlBytes (Some (JStr s)) exact least =
     (b64_text s \<and> (let n = length (b64_decode s) in (exact = None \<or> exact = Some n) \<and> least \<le> n))"
| "isBase64UrlBytes _ exact least = False"

definition envelope_keys :: "string list" where
  "envelope_keys = [''algorithm'', ''ciphertext'', ''encryptionKeyId'', ''environmentId'',
     ''ephemeralPublicKey'', ''iv'', ''requestId'', ''salt'', ''version'']"

fun join_nul :: "string list \<Rightarrow> string" where
  "join_nul [] = []"
| "join_nul [k] = k"
| "join_nul (k # ks) = k @ [CHR 0x00] @ join_nul ks"

definition sort_texts :: "string list \<Rightarrow> string list" where
  "sort_texts = sort_key (QueueKey 0)"

definition envelope_members_ok :: "store_subject_envelope_input \<Rightarrow> (string \<times> json) list \<Rightarrow> bool" where
  "envelope_members_ok i ms \<longleftrightarrow>
     join_nul (sort_texts (map fst ms)) = join_nul envelope_keys \<and>
     map_of ms ''version'' = Some (JNum 1) \<and>
     map_of ms ''algorithm'' = Some (JStr ''X25519-HKDF-SHA256-AES-256-GCM'') \<and>
     map_of ms ''environmentId'' = Some (JStr (st_environmentId i)) \<and>
     map_of ms ''requestId'' = Some (JStr (st_requestId i)) \<and>
     map_of ms ''encryptionKeyId'' = Some (JStr (st_encryptionKeyId i)) \<and>
     isBase64UrlBytes (map_of ms ''ephemeralPublicKey'') (Some 32) 0 \<and>
     isBase64UrlBytes (map_of ms ''salt'') (Some 32) 0 \<and>
     isBase64UrlBytes (map_of ms ''iv'') (Some 12) 0 \<and>
     isBase64UrlBytes (map_of ms ''ciphertext'') None 16"

definition validateSerializedEnvelope ::
  "(string \<Rightarrow> json option) \<Rightarrow> store_subject_envelope_input \<Rightarrow> bool" where
  "validateSerializedEnvelope parseJson i \<longleftrightarrow>
     (case parseJson (st_ciphertext i) of Some (JObj ms) \<Rightarrow> envelope_members_ok i ms | _ \<Rightarrow> False)"

subsection \<open>The service\<close>

definition after :: "string \<Rightarrow> int \<Rightarrow> bool" where
  "after s now \<longleftrightarrow> (case date_parse s of None \<Rightarrow> False | Some t \<Rightarrow> now < t)"

definition storeEnvelope ::
  "('e, 's) subject_envelope_repository \<Rightarrow> (subject_error \<Rightarrow> 'e) \<Rightarrow> (string \<Rightarrow> json option) \<Rightarrow> int \<Rightarrow>
   store_subject_envelope_input \<Rightarrow> ('e, unit, 's) act" where
  "storeEnvelope repo raised parseJson now i =
     (let fail = (\<lambda>code. throwM (raised (SubjectEnvelopeError code))) in
      if \<not> validateScope (st_tenantId i) (st_environmentId i) (st_requestId i)
      then fail ''SUBJECT_SCOPE_REQUIRED''
      else if trim (st_ciphertext i) = [] then fail ''SUBJECT_ENVELOPE_CIPHERTEXT_REQUIRED''
      else if 1024 * 1024 < length (st_ciphertext i) then fail ''SUBJECT_ENVELOPE_TOO_LARGE''
      else if \<not> agent_key_text (st_encryptionKeyId i) then fail ''SUBJECT_ENVELOPE_KEY_ID_REQUIRED''
      else if \<not> after (st_expiresAt i) now then fail ''SUBJECT_ENVELOPE_EXPIRED''
      else if \<not> validateSerializedEnvelope parseJson i then fail ''SUBJECT_ENVELOPE_FORMAT_INVALID''
      else sj_storeEnvelope repo i)"

definition override_ok :: "bind_subject_input \<Rightarrow> bool" where
  "override_ok i \<longleftrightarrow> (case bi_duplicateOverride i of None \<Rightarrow> True
     | Some o' \<Rightarrow> isNonEmptyString (do_ownerActorId o') \<and> isNonEmptyString (do_reason o'))"

definition stamped :: "bind_subject_input \<Rightarrow> int \<Rightarrow> bind_subject_request" where
  "stamped i now = bind_subject_input.extend i \<lparr>bi_now = toISOString now\<rparr>"

definition bindSubject ::
  "('e, 's) subject_envelope_repository \<Rightarrow> (subject_error \<Rightarrow> 'e) \<Rightarrow> int \<Rightarrow> bind_subject_input \<Rightarrow>
   ('e, subject_binding_result, 's) act" where
  "bindSubject repo raised now i =
     (let fail = (\<lambda>code. throwM (raised (SubjectEnvelopeError code))) in
      if \<not> validateScope (bi_tenantId i) (bi_environmentId i) (bi_requestId i)
      then fail ''SUBJECT_SCOPE_REQUIRED''
      else if \<not> validateSubjectHash (bi_subjectHash i) then fail ''SUBJECT_HASH_INVALID''
      else if \<not> validatePositiveInteger (bi_subjectHashKeyVersion i)
      then fail ''SUBJECT_HASH_KEY_VERSION_INVALID''
      else if \<not> validatePositiveInteger (bi_canonicalizationVersion i)
      then fail ''SUBJECT_CANONICALIZATION_VERSION_INVALID''
      else if bi_expectedVersion i < 1 then fail ''REQUEST_VERSION_INVALID''
      else case validateAliases i of
             Some code \<Rightarrow> fail code
           | None \<Rightarrow> if \<not> override_ok i then fail ''DUPLICATE_OVERRIDE_INVALID''
                     else sj_bindSubject repo (stamped i now))"

subsection \<open>The repository on the tables: storing\<close>

type_synonym 'a subject_sql = "(subject_error, 'a) sql"

definition reject :: "string \<Rightarrow> 'a subject_sql" where
  "reject code = raise (SubjectEnvelopeError code)"

definition scoped_environment :: "string \<Rightarrow> string \<Rightarrow> database \<Rightarrow> environment_row option" where
  "scoped_environment tenant environment db =
     find (\<lambda>e. en_id e = environment \<and> environment_visible tenant db e) (db_environments db)"

definition scoped_request :: "string \<Rightarrow> string \<Rightarrow> string \<Rightarrow> database \<Rightarrow> privacy_request_row option" where
  "scoped_request tenant environment request db =
     find (\<lambda>r. rw_id r = request \<and> rw_tenantId r = tenant \<and> rw_environmentId r = environment)
       (db_privacyRequests db)"

definition envelope_agent :: "store_subject_envelope_input \<Rightarrow> database \<Rightarrow> agent_row option" where
  "envelope_agent i db =
     (if scoped_request (st_tenantId i) (st_environmentId i) (st_requestId i) db = None \<or>
         scoped_environment (st_tenantId i) (st_environmentId i) db = None then None
      else find (\<lambda>a. ag_environmentId a = st_environmentId i \<and>
             ag_encryptionKeyId a = Some (st_encryptionKeyId i) \<and> active_agent a) (db_agents db))"

definition new_envelope :: "store_subject_envelope_input \<Rightarrow> int \<Rightarrow> int \<Rightarrow> subject_envelope_row" where
  "new_envelope i expires created =
     \<lparr>se_requestId = st_requestId i, se_tenantId = st_tenantId i, se_environmentId = st_environmentId i,
      se_ciphertext = st_ciphertext i, se_encryptionKeyId = st_encryptionKeyId i,
      se_expiresAt = expires, se_consumedAt = None, se_createdAt = created\<rparr>"

text \<open>\<open>on conflict (request_id) do update\<close>; another tenant's row is refused by the table's policy.\<close>

definition upsert_envelope :: "subject_envelope_row \<Rightarrow> unit subject_sql" where
  "upsert_envelope new db =
     (case find (\<lambda>r. se_requestId r = se_requestId new) (db_subjectEnvelopes db) of
        None \<Rightarrow> statement (\<lambda>db. db\<lparr>db_subjectEnvelopes := db_subjectEnvelopes db @ [new]\<rparr>) db
      | Some old \<Rightarrow>
          if se_tenantId old \<noteq> se_tenantId new then throwM ConstraintViolation db
          else statement (\<lambda>db. db\<lparr>db_subjectEnvelopes :=
            map (\<lambda>r. if se_requestId r = se_requestId new then new\<lparr>se_createdAt := se_createdAt r\<rparr> else r)
              (db_subjectEnvelopes db)\<rparr>) db)"

definition pg_storeEnvelope :: "int \<Rightarrow> store_subject_envelope_input \<Rightarrow> unit subject_sql" where
  "pg_storeEnvelope db_now i = inTenantTransaction (st_tenantId i) (\<lambda>_ db.
     case envelope_agent i db of
       None \<Rightarrow> reject ''SUBJECT_ENVELOPE_SCOPE_INVALID'' db
     | Some a \<Rightarrow>
         if ag_encryptionKeyId a \<noteq> Some (st_encryptionKeyId i)
         then reject ''SUBJECT_ENVELOPE_KEY_ID_MISMATCH'' db
         else seqM (as_timestamp (st_expiresAt i))
                (\<lambda>expires. upsert_envelope (new_envelope i expires db_now)) db)"

subsection \<open>The repository on the tables: binding\<close>

definition CANCELLABLE_DUPLICATE_STATUSES :: "string list" where
  "CANCELLABLE_DUPLICATE_STATUSES = [''created'', ''identity_verification_pending'',
     ''identity_verified'', ''planning'', ''awaiting_approval'']"

record subject_repository =
  sr_sha :: "bytes \<Rightarrow> bytes"
  sr_canonicalize :: "event_payload canon"
  sr_localeCompare :: "string \<Rightarrow> string \<Rightarrow> int"
  sr_newEventId :: "nat \<Rightarrow> string"
  sr_db_now :: int

definition findRequest ::
  "string \<Rightarrow> string \<Rightarrow> string \<Rightarrow> database \<Rightarrow> (privacy_request_row \<times> environment_row) option" where
  "findRequest tenant environment request db =
     (case scoped_request tenant environment request db of
        None \<Rightarrow> None
      | Some r \<Rightarrow> map_option (\<lambda>e. (r, e)) (scoped_environment tenant environment db))"

definition same_binding :: "bind_subject_request \<Rightarrow> privacy_request_row \<Rightarrow> bool" where
  "same_binding i r \<longleftrightarrow> rw_subjectHash r = Some (bi_subjectHash i) \<and>
     rw_subjectHashKeyVersion r = Some (bi_subjectHashKeyVersion i) \<and>
     rw_subjectCanonicalizationVersion r = Some (bi_canonicalizationVersion i)"

definition unbound :: "privacy_request_row \<Rightarrow> bool" where
  "unbound r \<longleftrightarrow> rw_subjectHash r = None \<and> rw_subjectHashKeyVersion r = None \<and>
     rw_subjectCanonicalizationVersion r = None"

text \<open>A text that is not \<open>null\<close> and not empty, the ones that count as true.\<close>

definition truthy :: "string option \<Rightarrow> bool" where
  "truthy s \<longleftrightarrow> s \<noteq> None \<and> s \<noteq> Some []"

definition existingOutcome :: "privacy_request_row \<Rightarrow> binding_outcome" where
  "existingOutcome r =
     (if truthy (rw_duplicateOfRequestId r) then DuplicateCancelledOutcome
      else if rw_duplicateOverride r then DuplicateOverrideOutcome else BoundOutcome)"

definition toBindingResult ::
  "privacy_request_row \<Rightarrow> binding_outcome \<Rightarrow> subject_binding_result subject_sql" where
  "toBindingResult r outcome =
     (case (rw_subjectHash r, rw_subjectHashKeyVersion r, rw_subjectCanonicalizationVersion r) of
        (Some h, Some k, Some c) \<Rightarrow>
          if h = [] then reject ''SUBJECT_BINDING_STATE_INVALID''
          else returnM \<lparr>br_requestId = rw_id r, br_environmentId = rw_environmentId r,
            br_subjectHash = h, br_subjectHashKeyVersion = k, br_canonicalizationVersion = c,
            br_duplicateOfRequestId = rw_duplicateOfRequestId r, br_outcome = outcome\<rparr>
      | _ \<Rightarrow> reject ''SUBJECT_BINDING_STATE_INVALID'')"

definition delete_envelope :: "string \<Rightarrow> string \<Rightarrow> unit subject_sql" where
  "delete_envelope tenant request = statement (\<lambda>db. db\<lparr>db_subjectEnvelopes :=
     filter (\<lambda>r. \<not> (se_requestId r = request \<and> se_tenantId r = tenant)) (db_subjectEnvelopes db)\<rparr>)"

definition already_bound :: "bind_subject_request \<Rightarrow> privacy_request_row \<Rightarrow> subject_binding_result subject_sql" where
  "already_bound i r =
     seqM (delete_envelope (bi_tenantId i) (bi_requestId i))
       (\<lambda>_. toBindingResult r (existingOutcome r))"

text \<open>The requests of the same subject and type that are open, oldest first.\<close>

definition duplicate_of :: "bind_subject_request \<Rightarrow> privacy_request_row \<Rightarrow> privacy_request_row \<Rightarrow> bool" where
  "duplicate_of i r c \<longleftrightarrow> rw_tenantId c = bi_tenantId i \<and> rw_environmentId c = bi_environmentId i \<and>
     rw_subjectHash c = Some (bi_subjectHash i) \<and> rw_type c = rw_type r \<and> rw_id c \<noteq> bi_requestId i \<and>
     \<not> rw_duplicateOverride c \<and> rw_status c \<notin> {''completed'', ''cancelled''}"

definition candidates :: "bind_subject_request \<Rightarrow> privacy_request_row \<Rightarrow> database \<Rightarrow> privacy_request_row list" where
  "candidates i r db =
     (if bi_duplicateOverride i \<noteq> None then []
      else sort_key (\<lambda>c. QueueKey (rw_createdAt c) (rw_id c))
             (filter (duplicate_of i r) (db_privacyRequests db)))"

definition first_candidate :: "bind_subject_request \<Rightarrow> privacy_request_row \<Rightarrow> database \<Rightarrow> privacy_request_row option" where
  "first_candidate i r db = (case candidates i r db of [] \<Rightarrow> None | c # _ \<Rightarrow> Some c)"

definition compareCreatedAt ::
  "(string \<Rightarrow> string \<Rightarrow> int) \<Rightarrow> int \<Rightarrow> int \<Rightarrow> string \<Rightarrow> string \<Rightarrow> int" where
  "compareCreatedAt localeCompare left right leftId rightId =
     (let byTime = left - right in if byTime \<noteq> 0 then byTime else localeCompare leftId rightId)"

text \<open>Whether the candidate stays open and the request being bound is its duplicate.\<close>

definition yields_to ::
  "subject_repository \<Rightarrow> privacy_request_row \<Rightarrow> privacy_request_row \<Rightarrow> bool" where
  "yields_to sr r c \<longleftrightarrow>
     0 < compareCreatedAt (sr_localeCompare sr) (rw_createdAt r) (rw_createdAt c) (rw_id r) (rw_id c) \<or>
     rw_status c \<notin> set CANCELLABLE_DUPLICATE_STATUSES"

definition cancel_row :: "string \<Rightarrow> int \<Rightarrow> privacy_request_row \<Rightarrow> privacy_request_row" where
  "cancel_row survivor at r = r\<lparr>rw_status := ''cancelled'', rw_duplicateOfRequestId := Some survivor,
     rw_completedAt := Some at, rw_version := rw_version r + 1\<rparr>"

definition cancelDuplicate ::
  "bind_subject_request \<Rightarrow> string \<Rightarrow> string \<Rightarrow> string \<Rightarrow> unit subject_sql" where
  "cancelDuplicate i request survivor now =
     seqM (as_timestamp now) (\<lambda>at. statement (\<lambda>db. db\<lparr>db_privacyRequests :=
       map (\<lambda>r. if rw_id r = request \<and> rw_tenantId r = bi_tenantId i \<and>
                  rw_status r \<notin> {''completed'', ''cancelled''}
                then cancel_row survivor at r else r) (db_privacyRequests db)\<rparr>))"

definition bind_row ::
  "bind_subject_request \<Rightarrow> bool \<Rightarrow> string option \<Rightarrow> string \<Rightarrow> int option \<Rightarrow> privacy_request_row \<Rightarrow>
   privacy_request_row" where
  "bind_row i override duplicateOf status done_at r =
     r\<lparr>rw_subjectHash := Some (bi_subjectHash i),
       rw_subjectHashKeyVersion := Some (bi_subjectHashKeyVersion i),
       rw_subjectCanonicalizationVersion := Some (bi_canonicalizationVersion i),
       rw_duplicateOverride := override, rw_duplicateOfRequestId := duplicateOf,
       rw_status := status, rw_completedAt := done_at, rw_version := rw_version r + 1\<rparr>"

definition bind_request ::
  "bind_subject_request \<Rightarrow> bool \<Rightarrow> string option \<Rightarrow> string \<Rightarrow> unit subject_sql" where
  "bind_request i override duplicateOf status =
     seqM (as_timestamp_or_null (if status = ''cancelled'' then Some (bi_now i) else None)) (\<lambda>done_at.
       statement (\<lambda>db. db\<lparr>db_privacyRequests :=
         map (\<lambda>r. if rw_id r = bi_requestId i \<and> rw_tenantId r = bi_tenantId i \<and>
                    rw_version r = bi_expectedVersion i
                  then bind_row i override duplicateOf status done_at r else r)
           (db_privacyRequests db)\<rparr>))"

definition alias_row :: "bind_subject_request \<Rightarrow> int \<Rightarrow> subject_alias_binding \<Rightarrow> subject_identity_alias_row" where
  "alias_row i created a =
     \<lparr>sa_requestId = bi_requestId i, sa_tenantId = bi_tenantId i, sa_environmentId = bi_environmentId i,
      sa_identifierKind = sb_identifierKind a, sa_subjectHash = sb_subjectHash a,
      sa_subjectHashKeyVersion = sb_subjectHashKeyVersion a,
      sa_canonicalizationVersion = sb_canonicalizationVersion a, sa_createdAt = created\<rparr>"

text \<open>\<open>on conflict (request_id, identifier_kind, subject_hash) do nothing\<close>.\<close>

definition insert_alias :: "subject_identity_alias_row \<Rightarrow> unit subject_sql" where
  "insert_alias new db =
     (if \<exists>r \<in> set (db_subjectIdentityAliases db). sa_requestId r = sa_requestId new \<and>
          sa_identifierKind r = sa_identifierKind new \<and> sa_subjectHash r = sa_subjectHash new
      then returnM () db
      else statement (\<lambda>db. db\<lparr>db_subjectIdentityAliases := db_subjectIdentityAliases db @ [new]\<rparr>) db)"

definition insertAliases :: "subject_repository \<Rightarrow> bind_subject_request \<Rightarrow> unit subject_sql" where
  "insertAliases sr i = block (map (\<lambda>a. insert_alias (alias_row i (sr_db_now sr) a))
     (aliases_of (bind_subject_input.truncate i)))"

record subject_audit =
  xa_requestId :: string
  xa_actorType :: actor_type
  xa_actorId :: string
  xa_action :: string
  xa_metadata :: event_payload

definition subject_body ::
  "subject_repository \<Rightarrow> bind_subject_request \<Rightarrow> nat \<Rightarrow> int \<Rightarrow> subject_audit \<Rightarrow> event_payload audit_body" where
  "subject_body sr i k sequence x =
     \<lparr>ae_id = sr_newEventId sr k, ae_tenantId = bi_tenantId i, ae_environmentId = bi_environmentId i,
      ae_sequence = decimal (nat sequence), ae_requestId = Some (xa_requestId x),
      ae_actorType = xa_actorType x, ae_actorId = xa_actorId x, ae_action = xa_action x,
      ae_metadata = xa_metadata x, ae_createdAt = bi_now i\<rparr>"

definition subject_outbox ::
  "subject_repository \<Rightarrow> bind_subject_request \<Rightarrow> nat \<Rightarrow> int \<Rightarrow> subject_audit \<Rightarrow> outbox_event_row" where
  "subject_outbox sr i k at x =
     \<lparr>ox_id = sr_newEventId sr k, ox_tenantId = bi_tenantId i, ox_environmentId = bi_environmentId i,
      ox_aggregateId = xa_requestId x, ox_type = xa_action x, ox_payload = xa_metadata x,
      ox_occurredAt = at, ox_publishedAt = None\<rparr>"

definition subject_hash_text ::
  "subject_repository \<Rightarrow> string option \<Rightarrow> event_payload audit_body \<Rightarrow> string subject_sql" where
  "subject_hash_text sr prev b =
     (case sr_canonicalize sr b of
        None \<Rightarrow> reject ''AUDIT_EVENT_NOT_CANONICAL''
      | Some canonical \<Rightarrow>
          (case previous_bytes prev of
             Inl _ \<Rightarrow> reject ''AUDIT_CHAIN_HEAD_INVALID''
           | Inr p \<Rightarrow> returnM (hex_encode (sr_sha sr (hash_input p (utf8 canonical))))))"

definition subject_ensure_head :: "bind_subject_request \<Rightarrow> unit subject_sql" where
  "subject_ensure_head i db =
     (if bi_environmentId i \<in> ch_environmentId ` set (db_auditChainHeads db) then returnM () db
      else statement (\<lambda>db. db\<lparr>db_auditChainHeads := db_auditChainHeads db @
        [\<lparr>ch_tenantId = bi_tenantId i, ch_environmentId = bi_environmentId i, ch_sequence = 0,
          ch_eventHash = None\<rparr>]\<rparr>) db)"

definition subject_head :: "bind_subject_request \<Rightarrow> audit_chain_head_row \<Rightarrow> bool" where
  "subject_head i r \<longleftrightarrow> ch_environmentId r = bi_environmentId i \<and> ch_tenantId r = bi_tenantId i"

definition write_subject_event ::
  "subject_repository \<Rightarrow> bind_subject_request \<Rightarrow> nat \<Rightarrow> subject_audit \<Rightarrow> audit_chain_head_row \<Rightarrow>
   unit subject_sql" where
  "write_subject_event sr i k x head =
     (let sequence = ch_sequence head + 1; b = subject_body sr i k sequence x in
      seqM (subject_hash_text sr (ch_eventHash head) b) (\<lambda>h.
      seqM (as_timestamp (bi_now i)) (\<lambda>at. block
        [insert_audit (audit_row b sequence (ch_eventHash head) h at),
         statement (\<lambda>db. db\<lparr>db_auditChainHeads :=
           map (\<lambda>r. if subject_head i r then r\<lparr>ch_sequence := sequence, ch_eventHash := Some h\<rparr> else r)
             (db_auditChainHeads db)\<rparr>),
         insert_outbox (subject_outbox sr i k at x)])))"

text \<open>The k-th event of the call.\<close>

definition appendAuditEvent ::
  "subject_repository \<Rightarrow> bind_subject_request \<Rightarrow> nat \<Rightarrow> subject_audit \<Rightarrow> unit subject_sql" where
  "appendAuditEvent sr i k x =
     seqM (subject_ensure_head i) (\<lambda>_ db.
       case find (subject_head i) (db_auditChainHeads db) of
         None \<Rightarrow> reject ''AUDIT_CHAIN_HEAD_MISSING'' db
       | Some head \<Rightarrow> write_subject_event sr i k x head db)"

definition cancelled_event :: "bind_subject_request \<Rightarrow> string \<Rightarrow> subject_audit" where
  "cancelled_event i c = \<lparr>xa_requestId = c, xa_actorType = AgentActor, xa_actorId = bi_agentId i,
     xa_action = ''PrivacyRequestDuplicateCancelled'',
     xa_metadata = [(''duplicateOfRequestId'', EStr (bi_requestId i))]\<rparr>"

definition binding_event :: "bind_subject_request \<Rightarrow> string option \<Rightarrow> binding_outcome \<Rightarrow> subject_audit" where
  "binding_event i duplicateOf outcome =
     (let override = bi_duplicateOverride i in
      \<lparr>xa_requestId = bi_requestId i,
       xa_actorType = (if override \<noteq> None then UserActor else AgentActor),
       xa_actorId = (case override of None \<Rightarrow> bi_agentId i | Some d \<Rightarrow> do_ownerActorId d),
       xa_action = (if override \<noteq> None then ''SubjectDuplicateOverrideApplied''
         else if outcome = DuplicateCancelledOutcome then ''PrivacyRequestDuplicateCancelled''
         else ''SubjectIdentityBound''),
       xa_metadata = [(''duplicateOfRequestId'', attempt_value duplicateOf),
         (''subjectHashKeyVersion'', ENum (bi_subjectHashKeyVersion i)),
         (''canonicalizationVersion'', ENum (bi_canonicalizationVersion i))] @
         (case override of None \<Rightarrow> [] | Some d \<Rightarrow> [(''reason'', EStr (do_reason d))])\<rparr>)"

text \<open>From the decision about the candidate on.\<close>

definition complete_binding ::
  "subject_repository \<Rightarrow> bind_subject_request \<Rightarrow> privacy_request_row \<Rightarrow> privacy_request_row option \<Rightarrow>
   subject_binding_result subject_sql" where
  "complete_binding sr i r candidate =
     (let yields = (case candidate of None \<Rightarrow> False | Some c \<Rightarrow> yields_to sr r c);
          duplicateOf = (if yields then map_option rw_id candidate else None);
          outcome = (if yields then DuplicateCancelledOutcome
            else if bi_duplicateOverride i \<noteq> None then DuplicateOverrideOutcome else BoundOutcome);
          cancelled = (candidate \<noteq> None \<and> \<not> yields);
          announce_cancelled = (candidate \<noteq> None \<and> \<not> truthy duplicateOf);
          c = (case candidate of None \<Rightarrow> [] | Some c \<Rightarrow> rw_id c) in
      seqM (block
        [whenM cancelled (cancelDuplicate i c (rw_id r) (bi_now i)),
         bind_request i (outcome = DuplicateOverrideOutcome) duplicateOf
           (if outcome = DuplicateCancelledOutcome then ''cancelled'' else ''identity_verified''),
         insertAliases sr i,
         delete_envelope (bi_tenantId i) (bi_requestId i),
         whenM announce_cancelled (appendAuditEvent sr i 0 (cancelled_event i c)),
         appendAuditEvent sr i (if announce_cancelled then 1 else 0) (binding_event i duplicateOf outcome)])
        (\<lambda>_. returnM \<lparr>br_requestId = bi_requestId i, br_environmentId = bi_environmentId i,
           br_subjectHash = bi_subjectHash i, br_subjectHashKeyVersion = bi_subjectHashKeyVersion i,
           br_canonicalizationVersion = bi_canonicalizationVersion i,
           br_duplicateOfRequestId = duplicateOf, br_outcome = outcome\<rparr>))"

definition expired_at :: "string \<Rightarrow> int \<Rightarrow> bool" where
  "expired_at now expires \<longleftrightarrow> (case date_parse now of None \<Rightarrow> False | Some n \<Rightarrow> expires \<le> n)"

definition bind_with_envelope ::
  "subject_repository \<Rightarrow> bind_subject_request \<Rightarrow> privacy_request_row \<Rightarrow> agent_row \<Rightarrow>
   subject_binding_result subject_sql" where
  "bind_with_envelope sr i r agent db =
     (case find (\<lambda>e. se_requestId e = bi_requestId i \<and> se_tenantId e = bi_tenantId i \<and>
             se_environmentId e = bi_environmentId i) (db_subjectEnvelopes db) of
        None \<Rightarrow> reject ''SUBJECT_ENVELOPE_NOT_FOUND'' db
      | Some e \<Rightarrow>
          if expired_at (bi_now i) (se_expiresAt e)
          then seqM (delete_envelope (bi_tenantId i) (bi_requestId i))
                 (\<lambda>_. reject ''SUBJECT_ENVELOPE_EXPIRED'') db
          else if \<not> truthy (ag_encryptionKeyId agent) \<or> ag_encryptionKeyId agent \<noteq> Some (se_encryptionKeyId e)
          then reject ''SUBJECT_ENVELOPE_KEY_MISMATCH'' db
          else complete_binding sr i r (first_candidate i r db) db)"

definition bind_unbound ::
  "subject_repository \<Rightarrow> bind_subject_request \<Rightarrow> privacy_request_row \<Rightarrow> environment_row \<Rightarrow>
   subject_binding_result subject_sql" where
  "bind_unbound sr i r e db =
     (if rw_version r \<noteq> bi_expectedVersion i then reject ''REQUEST_VERSION_CONFLICT'' db
      else if rw_status r \<notin> set CANCELLABLE_DUPLICATE_STATUSES
      then reject ''SUBJECT_BINDING_STATE_INVALID'' db
      else if rw_subjectHashKeyVersion r \<noteq> None \<or> rw_subjectCanonicalizationVersion r \<noteq> None
      then reject ''SUBJECT_BINDING_STATE_INVALID'' db
      else if en_subjectHashKeyVersion e \<noteq> bi_subjectHashKeyVersion i \<or>
          en_subjectCanonicalizationVersion e \<noteq> bi_canonicalizationVersion i
      then reject ''SUBJECT_KEY_VERSION_MISMATCH'' db
      else case find (\<lambda>a. ag_id a = bi_agentId i \<and> ag_environmentId a = bi_environmentId i \<and>
               active_agent a) (db_agents db) of
             None \<Rightarrow> reject ''SUBJECT_AGENT_NOT_ACTIVE'' db
           | Some a \<Rightarrow> bind_with_envelope sr i r a db)"

definition bindSubjectInTransaction ::
  "subject_repository \<Rightarrow> bind_subject_request \<Rightarrow> subject_binding_result subject_sql" where
  "bindSubjectInTransaction sr i db =
     (case findRequest (bi_tenantId i) (bi_environmentId i) (bi_requestId i) db of
        None \<Rightarrow> reject ''SUBJECT_REQUEST_NOT_FOUND'' db
      | Some (r0, _) \<Rightarrow>
          if same_binding i r0 then already_bound i r0 db
          else case findRequest (bi_tenantId i) (bi_environmentId i) (bi_requestId i) db of
                 None \<Rightarrow> reject ''SUBJECT_REQUEST_NOT_FOUND'' db
               | Some (r, e) \<Rightarrow>
                   if \<not> unbound r
                   then (if same_binding i r then already_bound i r
                         else reject ''SUBJECT_ALREADY_BOUND'') db
                   else bind_unbound sr i r e db)"

definition PostgresSubjectEnvelopeRepository ::
  "subject_repository \<Rightarrow> (subject_error db_error, database) subject_envelope_repository" where
  "PostgresSubjectEnvelopeRepository sr =
     \<lparr>sj_storeEnvelope = pg_storeEnvelope (sr_db_now sr),
      sj_bindSubject = (\<lambda>i. inTenantTransaction (bi_tenantId i) (\<lambda>_. bindSubjectInTransaction sr i))\<rparr>"

end
