(* ===== verification/Subject_Properties.thy ===== *)
theory Subject_Properties
  imports Subject_Envelope Agent_Jobs_Properties
begin

text \<open>
  What binding a subject does: it needs the envelope's agent, it leaves at most one of two open
  requests for the same subject open, every request it changes gets one audit event, and the audit
  chains stay valid. An envelope is only stored for an active agent that can open it.
\<close>

subsection \<open>The service\<close>

lemma stamped_fields [simp]:
  "bi_tenantId (stamped i now) = bi_tenantId i" "bi_environmentId (stamped i now) = bi_environmentId i"
  "bi_requestId (stamped i now) = bi_requestId i" "bi_agentId (stamped i now) = bi_agentId i"
  "bi_subjectHash (stamped i now) = bi_subjectHash i"
  "bi_subjectHashKeyVersion (stamped i now) = bi_subjectHashKeyVersion i"
  "bi_canonicalizationVersion (stamped i now) = bi_canonicalizationVersion i"
  "bi_expectedVersion (stamped i now) = bi_expectedVersion i"
  "bi_duplicateOverride (stamped i now) = bi_duplicateOverride i"
  "bi_now (stamped i now) = toISOString now" "bind_subject_input.truncate (stamped i now) = i"
  by (simp_all add: stamped_def bind_subject_input.defs)

lemma reject_ok [simp]: "reject c db \<noteq> (Inr a, db')"
  and reject_err [simp]: "reject c db = (Inl e, db') \<longleftrightarrow> e = Raised (SubjectEnvelopeError c) \<and> db' = db"
  by (simp_all add: reject_def)

lemma bind_service_ok:
  assumes "bindSubject (PostgresSubjectEnvelopeRepository sr) Raised now i db = (Inr res, db')"
  shows "bindSubjectInTransaction sr (stamped i now) db = (Inr res, db')"
    and "hmac_text (bi_subjectHash i)" and "override_ok i" and "validateAliases i = None"
  using assms by (auto simp: bindSubject_def Let_def PostgresSubjectEnvelopeRepository_def
      inTenantTransaction_def validateSubjectHash_def split: if_splits option.splits)

lemma bind_service_err:
  "bindSubject (PostgresSubjectEnvelopeRepository sr) Raised now i db = (Inl e, db') \<Longrightarrow> db' = db"
  by (auto simp: bindSubject_def Let_def PostgresSubjectEnvelopeRepository_def
      inTenantTransaction_def split: if_splits option.splits)

subsection \<open>The steps of a binding\<close>

text \<open>The tables a binding leaves as they are after the request rows are written.\<close>

definition same_requests :: "database \<Rightarrow> database \<Rightarrow> bool" where
  "same_requests db db' \<longleftrightarrow> db_privacyRequests db' = db_privacyRequests db"

lemma delete_envelope_ok [simp]:
  "delete_envelope t q db = (Inr u, db') \<longleftrightarrow> constraints db' \<and> db' = db\<lparr>db_subjectEnvelopes :=
     filter (\<lambda>r. \<not> (se_requestId r = q \<and> se_tenantId r = t)) (db_subjectEnvelopes db)\<rparr>"
  by (auto simp: delete_envelope_def)

lemma insertAliases_frame:
  "block (map (\<lambda>a. insert_alias (f a)) as) db = (Inr u, db') \<Longrightarrow> constraints db \<Longrightarrow>
   constraints db' \<and> same_audit db db' \<and> db_privacyRequests db' = db_privacyRequests db \<and>
   db_subjectEnvelopes db' = db_subjectEnvelopes db"
proof (induction as arbitrary: db)
  case (Cons a as)
  then obtain d where d: "insert_alias (f a) db = (Inr (), d)"
    "block (map (\<lambda>a. insert_alias (f a)) as) d = (Inr u, db')" by auto
  have "constraints d \<and> same_audit db d \<and> db_privacyRequests d = db_privacyRequests db \<and>
      db_subjectEnvelopes d = db_subjectEnvelopes db"
    using d(1) Cons.prems(2) by (auto simp: insert_alias_def same_audit_def split: if_splits)
  with Cons.IH [OF d(2)] show ?case by (simp add: same_audit_def)
qed (simp)

text \<open>The parameters of the audit chain of the repository.\<close>

definition audit_repository :: "subject_repository \<Rightarrow> repository" where
  "audit_repository sr = \<lparr>rp_tenantId = [], rp_newEventId = sr_newEventId sr, rp_now = (\<lambda>_. 0),
     rp_sha = sr_sha sr, rp_canonicalize = sr_canonicalize sr\<rparr>"

lemma subject_hash_ok [simp]:
  "subject_hash_text sr prev b db = (Inr h, db') \<longleftrightarrow>
     auditEventHash (sr_sha sr) (sr_canonicalize sr) prev b = Inr h \<and> db' = db"
  by (auto simp: subject_hash_text_def auditEventHash_def canonicalAuditEventBytes_def
      split: option.splits sum.splits)

definition audited_once ::
  "bind_subject_request \<Rightarrow> subject_audit \<Rightarrow> database \<Rightarrow> database \<Rightarrow> bool" where
  "audited_once i x db db' \<longleftrightarrow> (\<exists>row out. db_auditEvents db' = db_auditEvents db @ [row] \<and>
     db_outboxEvents db' = db_outboxEvents db @ [out] \<and> au_id row = ox_id out \<and>
     announced out = audited row \<and> audited row = ((bi_environmentId i, Some (xa_requestId x)), xa_action x, xa_metadata x))"

lemma append_subject_outcome:
  assumes "appendAuditEvent sr i k x db = (Inr u, db')"
  obtains d head h at where "subject_ensure_head i db = (Inr (), d)"
    "find (subject_head i) (db_auditChainHeads d) = Some head"
    "auditEventHash (sr_sha sr) (sr_canonicalize sr) (ch_eventHash head)
       (subject_body sr i k (ch_sequence head + 1) x) = Inr h"
    "date_parse (bi_now i) = Some at" "constraints db'"
    "db' = d\<lparr>db_auditEvents := db_auditEvents d @
         [next_row (subject_body sr i k (ch_sequence head + 1) x) head h at],
       db_auditChainHeads := map (\<lambda>r. if subject_head i r
         then r\<lparr>ch_sequence := ch_sequence head + 1, ch_eventHash := Some h\<rparr> else r) (db_auditChainHeads d),
       db_outboxEvents := db_outboxEvents d @ [subject_outbox sr i k at x]\<rparr>"
proof -
  from assms obtain d head where d: "subject_ensure_head i db = (Inr (), d)"
    and head: "find (subject_head i) (db_auditChainHeads d) = Some head"
    and run: "write_subject_event sr i k x head d = (Inr u, db')"
    unfolding appendAuditEvent_def by (auto split: option.splits)
  then show ?thesis
    by (auto simp: write_subject_event_def Let_def insert_audit_def insert_outbox_def next_row_def
        intro!: that [OF d head])
qed

lemma subject_ensure_head_frame:
  assumes "subject_ensure_head i db = (Inr u, d)"
  shows "db_auditEvents d = db_auditEvents db" "db_outboxEvents d = db_outboxEvents db"
    "db_privacyRequests d = db_privacyRequests db" "db_subjectEnvelopes d = db_subjectEnvelopes db"
  using assms unfolding subject_ensure_head_def by (auto split: if_splits)

lemma append_subject_event:
  assumes "appendAuditEvent sr i k x db = (Inr u, db')"
  shows "constraints db' \<and> db_privacyRequests db' = db_privacyRequests db \<and>
    db_subjectEnvelopes db' = db_subjectEnvelopes db \<and> audited_once i x db db'"
proof (rule append_subject_outcome [OF assms])
  fix d head h at
  assume d: "subject_ensure_head i db = (Inr (), d)" and "constraints db'"
    and db': "db' = d\<lparr>db_auditEvents := db_auditEvents d @
         [next_row (subject_body sr i k (ch_sequence head + 1) x) head h at],
       db_auditChainHeads := map (\<lambda>r. if subject_head i r
         then r\<lparr>ch_sequence := ch_sequence head + 1, ch_eventHash := Some h\<rparr> else r) (db_auditChainHeads d),
       db_outboxEvents := db_outboxEvents d @ [subject_outbox sr i k at x]\<rparr>"
  moreover have "audited_once i x db db'"
    by (simp add: audited_once_def db' subject_ensure_head_frame [OF d] audited_def announced_def
        next_row_def audit_row_def subject_outbox_def subject_body_def)
  ultimately show ?thesis using subject_ensure_head_frame [OF d] by (simp add: db')
qed

lemma append_subject_state:
  assumes run: "appendAuditEvent sr i k x db = (Inr u, db')"
    and inv: "audit_state (audit_repository sr) db"
    and now: "bi_now i = toISOString now" "0 \<le> now" "now < max_time"
  shows "audit_state (audit_repository sr) db'"
proof (rule append_subject_outcome [OF run])
  fix d head h at
  assume d: "subject_ensure_head i db = (Inr (), d)"
    and find: "find (subject_head i) (db_auditChainHeads d) = Some head"
    and h: "auditEventHash (sr_sha sr) (sr_canonicalize sr) (ch_eventHash head)
       (subject_body sr i k (ch_sequence head + 1) x) = Inr h"
    and at: "date_parse (bi_now i) = Some at" and ok: "constraints db'"
    and db': "db' = d\<lparr>db_auditEvents := db_auditEvents d @
         [next_row (subject_body sr i k (ch_sequence head + 1) x) head h at],
       db_auditChainHeads := map (\<lambda>r. if subject_head i r
         then r\<lparr>ch_sequence := ch_sequence head + 1, ch_eventHash := Some h\<rparr> else r) (db_auditChainHeads d),
       db_outboxEvents := db_outboxEvents d @ [subject_outbox sr i k at x]\<rparr>"
  let ?b = "subject_body sr i k (ch_sequence head + 1) x"
  have inv': "audit_state (audit_repository sr) d"
  proof (cases "bi_environmentId i \<in> ch_environmentId ` set (db_auditChainHeads db)")
    case True
    with d inv show ?thesis by (simp add: subject_ensure_head_def)
  next
    case False
    with d have "constraints d" "db_auditChainHeads d = db_auditChainHeads db @
        [\<lparr>ch_tenantId = bi_tenantId i, ch_environmentId = bi_environmentId i, ch_sequence = 0,
          ch_eventHash = None\<rparr>]"
      by (auto simp: subject_ensure_head_def)
    with started_state [OF inv False _ subject_ensure_head_frame(1) [OF d]] show ?thesis by blast
  qed
  then have "constraints d" by (simp add: audit_state_def)
  have mem: "head \<in> set (db_auditChainHeads d)" "subject_head i head" using find_Some_mem [OF find] by auto
  have keys: "distinct (map ch_environmentId (db_auditChainHeads d))"
    using \<open>constraints d\<close> by (simp add: constraints_def audit_chain_heads_ok_def)
  have head: "audit_head d (bi_environmentId i) = Some head"
    using find_distinct_key [OF keys mem(1)] mem(2) by (simp add: subject_head_def audit_head_def)
  have only: "r = head" if "r \<in> set (db_auditChainHeads d)" "subject_head i r" for r
    using distinct_key [OF keys that(1) mem(1)] that(2) mem(2) by (simp add: subject_head_def)
  have "next_event (bi_environmentId i) head ?b"
    using now by (auto simp: next_event_def subject_body_def)
  moreover have "date_parse (ae_createdAt ?b) = Some at" using at by (simp add: subject_body_def)
  moreover have "auditEventHash (rp_sha (audit_repository sr)) (rp_canonicalize (audit_repository sr))
      (ch_eventHash head) ?b = Inr h" using h by (simp add: audit_repository_def)
  moreover have "db_auditEvents db' = db_auditEvents d @ [next_row ?b head h at]" by (simp add: db')
  moreover have "db_auditChainHeads db' =
      map (\<lambda>r. if subject_head i r then next_head h head else r) (db_auditChainHeads d)"
    using only by (auto simp: db' next_head_def)
  ultimately show ?thesis
    using appended_state [OF inv' head _ _ _ ok, of ?b at h "subject_head i"] mem(2)
    by (simp add: subject_head_def)
qed

lemma bind_request_ok [simp]:
  "bind_request i override duplicateOf status db = (Inr u, db') \<longleftrightarrow>
     (\<exists>done_at. (if status = ''cancelled'' then date_parse (bi_now i) = done_at \<and> done_at \<noteq> None
        else done_at = None) \<and> constraints db' \<and>
      db' = db\<lparr>db_privacyRequests := map (\<lambda>r. if rw_id r = bi_requestId i \<and> rw_tenantId r = bi_tenantId i \<and>
          rw_version r = bi_expectedVersion i then bind_row i override duplicateOf status done_at r else r)
        (db_privacyRequests db)\<rparr>)"
  by (auto simp: bind_request_def)

lemma bind_tail:
  assumes "insertAliases sr i db = (Inr (), d)" and "constraints db"
    and "delete_envelope (bi_tenantId i) (bi_requestId i) d = (Inr (), d')"
  shows "constraints d' \<and> same_audit db d' \<and> db_privacyRequests d' = db_privacyRequests db \<and>
    db_subjectEnvelopes d' = filter (\<lambda>r. \<not> (se_requestId r = bi_requestId i \<and> se_tenantId r = bi_tenantId i))
      (db_subjectEnvelopes db)"
  using insertAliases_frame [OF assms(1,2) [unfolded insertAliases_def]] assms(3)
  by (auto simp: same_audit_def)

lemma set_candidates: "set (candidates i r db) =
    {c \<in> set (db_privacyRequests db). bi_duplicateOverride i = None \<and> duplicate_of i r c}"
  by (auto simp: candidates_def)

lemma first_candidate_mem:
  "first_candidate i r db = Some c \<Longrightarrow>
     c \<in> set (db_privacyRequests db) \<and> bi_duplicateOverride i = None \<and> duplicate_of i r c"
  using set_candidates [of i r db] by (auto simp: first_candidate_def split: list.splits)

lemma first_candidate_None:
  "first_candidate i r db = None \<Longrightarrow> c \<in> set (db_privacyRequests db) \<Longrightarrow> bi_duplicateOverride i = None \<Longrightarrow>
   \<not> duplicate_of i r c"
  using set_candidates [of i r db] by (auto simp: first_candidate_def split: list.splits)

text \<open>The three ways a binding ends, with the databases between its steps.\<close>

lemma complete_binding_cases [consumes 2, case_names alone yields replaces]:
  assumes "complete_binding sr i r (first_candidate i r db) db = (Inr res, db')"
    and "\<forall>c. first_candidate i r db = Some c \<longrightarrow> rw_id c \<noteq> []"
  obtains (alone) d2 d3 d4 out where "first_candidate i r db = None"
      "bind_request i (bi_duplicateOverride i \<noteq> None) None ''identity_verified'' db = (Inr (), d2)"
      "insertAliases sr i d2 = (Inr (), d3)"
      "delete_envelope (bi_tenantId i) (bi_requestId i) d3 = (Inr (), d4)"
      "appendAuditEvent sr i 0 (binding_event i None out) d4 = (Inr (), db')"
    | (yields) c d2 d3 d4 out where "first_candidate i r db = Some c" "yields_to sr r c"
      "bind_request i False (Some (rw_id c)) ''cancelled'' db = (Inr (), d2)"
      "insertAliases sr i d2 = (Inr (), d3)"
      "delete_envelope (bi_tenantId i) (bi_requestId i) d3 = (Inr (), d4)"
      "appendAuditEvent sr i 0 (binding_event i (Some (rw_id c)) out) d4 = (Inr (), db')"
    | (replaces) c d1 d2 d3 d4 d5 out where "first_candidate i r db = Some c" "\<not> yields_to sr r c"
      "cancelDuplicate i (rw_id c) (rw_id r) (bi_now i) db = (Inr (), d1)"
      "bind_request i False None ''identity_verified'' d1 = (Inr (), d2)"
      "insertAliases sr i d2 = (Inr (), d3)"
      "delete_envelope (bi_tenantId i) (bi_requestId i) d3 = (Inr (), d4)"
      "appendAuditEvent sr i 0 (cancelled_event i (rw_id c)) d4 = (Inr (), d5)"
      "appendAuditEvent sr i 1 (binding_event i None out) d5 = (Inr (), db')"
proof (cases "first_candidate i r db")
  case None
  with assms(1) alone show ?thesis
    by (cases "bi_duplicateOverride i")
      (auto simp: complete_binding_def Let_def simp del: bind_request_ok delete_envelope_ok)
next
  case (Some c)
  have id: "rw_id c \<noteq> []" and over: "bi_duplicateOverride i = None"
    using assms(2) Some first_candidate_mem [OF Some] by auto
  show ?thesis
  proof (cases "yields_to sr r c")
    case True
    with assms(1) Some id over yields [OF Some True] show ?thesis
      by (auto simp: complete_binding_def Let_def truthy_def simp del: bind_request_ok delete_envelope_ok)
  next
    case False
    with assms(1) Some over replaces [OF Some False] show ?thesis
      by (auto simp: complete_binding_def Let_def truthy_def simp del: bind_request_ok delete_envelope_ok)
  qed
qed

subsection \<open>A whole binding\<close>

definition answered :: "bind_subject_request \<Rightarrow> privacy_request_row \<Rightarrow> database \<Rightarrow> bool" where
  "answered i r db \<longleftrightarrow> unbound r \<and> rw_version r = bi_expectedVersion i \<and>
     rw_status r \<in> set CANCELLABLE_DUPLICATE_STATUSES \<and>
     (\<exists>e \<in> set (db_environments db). en_id e = bi_environmentId i \<and>
        en_subjectHashKeyVersion e = bi_subjectHashKeyVersion i \<and>
        en_subjectCanonicalizationVersion e = bi_canonicalizationVersion i) \<and>
     (\<exists>a \<in> set (db_agents db). \<exists>v \<in> set (db_subjectEnvelopes db). ag_id a = bi_agentId i \<and>
        ag_environmentId a = bi_environmentId i \<and> active_agent a \<and> se_requestId v = bi_requestId i \<and>
        \<not> expired_at (bi_now i) (se_expiresAt v) \<and> ag_encryptionKeyId a = Some (se_encryptionKeyId v))"

lemma bind_cases [consumes 1, case_names again fresh]:
  assumes "bindSubjectInTransaction sr i db = (Inr res, db')"
  obtains (again) r where
      "scoped_request (bi_tenantId i) (bi_environmentId i) (bi_requestId i) db = Some r" "same_binding i r"
      "constraints db'" "db' = db\<lparr>db_subjectEnvelopes := filter (\<lambda>v. \<not> (se_requestId v = bi_requestId i \<and>
         se_tenantId v = bi_tenantId i)) (db_subjectEnvelopes db)\<rparr>"
    | (fresh) r where
      "scoped_request (bi_tenantId i) (bi_environmentId i) (bi_requestId i) db = Some r" "answered i r db"
      "complete_binding sr i r (first_candidate i r db) db = (Inr res, db')"
proof -
  from assms obtain r e where r: "scoped_request (bi_tenantId i) (bi_environmentId i) (bi_requestId i) db = Some r"
    and e: "scoped_environment (bi_tenantId i) (bi_environmentId i) db = Some e"
    by (auto simp: bindSubjectInTransaction_def findRequest_def split: option.splits)
  show ?thesis
  proof (cases "same_binding i r")
    case True
    with assms r e have "already_bound i r db = (Inr res, db')"
      by (simp add: bindSubjectInTransaction_def findRequest_def)
    then have "constraints db'" "db' = db\<lparr>db_subjectEnvelopes := filter (\<lambda>v. \<not> (se_requestId v = bi_requestId i \<and>
         se_tenantId v = bi_tenantId i)) (db_subjectEnvelopes db)\<rparr>"
      by (auto simp: already_bound_def toBindingResult_def split: option.splits if_splits)
    with again [OF r True] show ?thesis by blast
  next
    case False
    with assms r e have "unbound r" and run: "bind_unbound sr i r e db = (Inr res, db')"
      by (auto simp: bindSubjectInTransaction_def findRequest_def split: if_splits)
    from run obtain a where a: "rw_version r = bi_expectedVersion i"
      "rw_status r \<in> set CANCELLABLE_DUPLICATE_STATUSES"
      "en_subjectHashKeyVersion e = bi_subjectHashKeyVersion i"
      "en_subjectCanonicalizationVersion e = bi_canonicalizationVersion i"
      "find (\<lambda>a. ag_id a = bi_agentId i \<and> ag_environmentId a = bi_environmentId i \<and> active_agent a)
         (db_agents db) = Some a"
      "bind_with_envelope sr i r a db = (Inr res, db')"
      by (auto simp: bind_unbound_def split: if_splits option.splits)
    from a(6) obtain v where v: "find (\<lambda>e. se_requestId e = bi_requestId i \<and> se_tenantId e = bi_tenantId i \<and>
         se_environmentId e = bi_environmentId i) (db_subjectEnvelopes db) = Some v"
      "\<not> expired_at (bi_now i) (se_expiresAt v)" "ag_encryptionKeyId a = Some (se_encryptionKeyId v)"
      and fin: "complete_binding sr i r (first_candidate i r db) db = (Inr res, db')"
      by (auto simp: bind_with_envelope_def split: if_splits option.splits)
    have "e \<in> set (db_environments db) \<and> en_id e = bi_environmentId i"
      using find_Some_mem [OF e [unfolded scoped_environment_def]] by simp
    then have "answered i r db"
      using \<open>unbound r\<close> a(1-4) find_Some_mem [OF a(5)] find_Some_mem [OF v(1)] v(2,3)
      unfolding answered_def by blast
    from fresh [OF r this fin] show ?thesis .
  qed
qed

lemma scoped_request_mem:
  "scoped_request t e q db = Some r \<Longrightarrow>
     r \<in> set (db_privacyRequests db) \<and> rw_id r = q \<and> rw_tenantId r = t \<and> rw_environmentId r = e"
  using find_Some_mem by (fastforce simp: scoped_request_def)

text \<open>The events a binding records, in order, and the request each is about.\<close>

definition recorded :: "bind_subject_request \<Rightarrow> string list \<Rightarrow> database \<Rightarrow> database \<Rightarrow> bool" where
  "recorded i qs db db' \<longleftrightarrow> (\<exists>as os. db_auditEvents db' = db_auditEvents db @ as \<and>
     db_outboxEvents db' = db_outboxEvents db @ os \<and> map audited as = map announced os \<and>
     map au_id as = map ox_id os \<and> map au_requestId as = map Some qs)"

lemma audited_request: "au_requestId r = snd (fst (audited r))"
  by (simp add: audited_def)

lemma audited_once_recorded:
  "audited_once i x d db' \<Longrightarrow> same_audit db d \<Longrightarrow> recorded i [xa_requestId x] db db'"
  unfolding audited_once_def recorded_def same_audit_def
  by (elim exE, rule_tac x = "[row]" in exI, rule_tac x = "[out]" in exI) (simp add: audited_request)

lemma audited_twice_recorded:
  "audited_once i x d d' \<Longrightarrow> audited_once i y d' db' \<Longrightarrow> same_audit db d \<Longrightarrow>
   recorded i [xa_requestId x, xa_requestId y] db db'"
  unfolding audited_once_def recorded_def same_audit_def
  by (elim exE, rule_tac x = "[row, rowa]" in exI, rule_tac x = "[out, outa]" in exI) (simp add: audited_request)

lemma event_request [simp]:
  "xa_requestId (binding_event i d out) = bi_requestId i" "xa_requestId (cancelled_event i c) = c"
  by (simp_all add: binding_event_def cancelled_event_def Let_def)

lemma same_audit_trans: "same_audit a b \<Longrightarrow> same_audit b c \<Longrightarrow> same_audit a c"
  by (simp add: same_audit_def)

text \<open>What a fresh binding writes to the request rows and records.\<close>

lemma fresh_rows [consumes 5, case_names alone yields replaces]:
  assumes "constraints db" and "\<not> request_exists db []"
    and "scoped_request (bi_tenantId i) (bi_environmentId i) (bi_requestId i) db = Some r"
    and "complete_binding sr i r (first_candidate i r db) db = (Inr res, db')" and "answered i r db"
  obtains (alone) "first_candidate i r db = None" "recorded i [rw_id r] db db'"
      "db_privacyRequests db' = map (\<lambda>q. if q = r then bind_row i (bi_duplicateOverride i \<noteq> None) None
         ''identity_verified'' None r else q) (db_privacyRequests db)"
    | (yields) c at where "first_candidate i r db = Some c" "yields_to sr r c" "recorded i [rw_id r] db db'"
      "date_parse (bi_now i) = Some at"
      "db_privacyRequests db' = map (\<lambda>q. if q = r then bind_row i False (Some (rw_id c)) ''cancelled'' (Some at) r
         else q) (db_privacyRequests db)"
    | (replaces) c at where "first_candidate i r db = Some c" "\<not> yields_to sr r c"
      "recorded i [rw_id c, rw_id r] db db'" "date_parse (bi_now i) = Some at"
      "db_privacyRequests db' = map (\<lambda>q. if q = r then bind_row i False None ''identity_verified'' None r
         else if q = c then cancel_row (rw_id r) at c else q) (db_privacyRequests db)"
proof -
  note keys = request_key [OF assms(1)]
  note mem = scoped_request_mem [OF assms(3)]
  have version: "rw_version r = bi_expectedVersion i" using assms(5) by (simp add: answered_def)
  let ?at = "\<lambda>q. rw_id q = bi_requestId i \<and> rw_tenantId q = bi_tenantId i \<and> rw_version q = bi_expectedVersion i"
  have row: "?at q \<longleftrightarrow> q = r" if "q \<in> set (db_privacyRequests db)" for q
    using keys [OF that] mem version by auto
  have no_empty: "\<forall>c. first_candidate i r db = Some c \<longrightarrow> rw_id c \<noteq> []"
    using first_candidate_mem assms(2) unfolding request_exists_def by (metis image_eqI)
  from assms(4) no_empty show ?thesis
  proof (cases rule: complete_binding_cases)
    case (alone d2 d3 d4 out)
    then have c2: "constraints d2" and rows: "db_privacyRequests d2 = map (\<lambda>q. if q = r then
         bind_row i (bi_duplicateOverride i \<noteq> None) None ''identity_verified'' None r else q) (db_privacyRequests db)"
      and same: "same_audit db d2" using row by (auto simp: same_audit_def)
    note tail = bind_tail [OF alone(3) c2 alone(4)]
    note fin = append_subject_event [OF alone(5)]
    have "recorded i [rw_id r] db db'"
      using audited_once_recorded [OF _ same_audit_trans [OF same, of d4]] fin tail mem by fastforce
    moreover have "db_privacyRequests db' = db_privacyRequests d2" using tail fin by simp
    ultimately show ?thesis using that(1) alone(1) rows by simp
  next
    case (yields c d2 d3 d4 out)
    then obtain at where c2: "constraints d2" and at: "date_parse (bi_now i) = Some at"
      and rows: "db_privacyRequests d2 = map (\<lambda>q. if q = r then
         bind_row i False (Some (rw_id c)) ''cancelled'' (Some at) r else q) (db_privacyRequests db)"
      and same: "same_audit db d2" using row by (auto simp: same_audit_def)
    note tail = bind_tail [OF yields(4) c2 yields(5)]
    note fin = append_subject_event [OF yields(6)]
    have "recorded i [rw_id r] db db'"
      using audited_once_recorded [OF _ same_audit_trans [OF same, of d4]] fin tail mem by fastforce
    moreover have "db_privacyRequests db' = db_privacyRequests d2" using tail fin by simp
    ultimately show ?thesis using that(2) yields(1,2) at rows by simp
  next
    case (replaces c d1 d2 d3 d4 d5 out)
    note c = first_candidate_mem [OF replaces(1)]
    then have other: "rw_id c \<noteq> rw_id r" using mem by (simp add: duplicate_of_def)
    have cand: "rw_id q = rw_id c \<and> rw_tenantId q = bi_tenantId i \<and>
        rw_status q \<notin> {''completed'', ''cancelled''} \<longleftrightarrow> q = c" if "q \<in> set (db_privacyRequests db)" for q
      using keys [OF that, of c] c by (auto simp: duplicate_of_def)
    from replaces(3) obtain at where at: "date_parse (bi_now i) = Some at"
      and d1: "db_privacyRequests d1 = map (\<lambda>q. if q = c then cancel_row (rw_id r) at c else q) (db_privacyRequests db)"
      and same1: "same_audit db d1"
      using cand by (auto simp: cancelDuplicate_def same_audit_def)
    from replaces(4) have c2: "constraints d2" and same: "same_audit d1 d2" and
      d2: "db_privacyRequests d2 = map (\<lambda>q. if ?at q then bind_row i False None ''identity_verified'' None q else q)
        (db_privacyRequests d1)" by (auto simp: same_audit_def)
    have rows: "db_privacyRequests d2 = map (\<lambda>q. if q = r then bind_row i False None ''identity_verified'' None r
         else if q = c then cancel_row (rw_id r) at c else q) (db_privacyRequests db)"
      using other mem row by (auto simp: d2 d1 cancel_row_def)
    note tail = bind_tail [OF replaces(5) c2 replaces(6)]
    note first = append_subject_event [OF replaces(7)]
    note fin = append_subject_event [OF replaces(8)]
    have "recorded i [rw_id c, rw_id r] db db'"
      using audited_twice_recorded [OF _ _ same_audit_trans [OF same_audit_trans [OF same1 same], of d4]]
        first fin tail mem by fastforce
    moreover have "db_privacyRequests db' = db_privacyRequests d2" using tail first fin by simp
    ultimately show ?thesis using that(3) replaces(1,2) at rows by simp
  qed
qed

lemma cancelDuplicate_audit:
  "cancelDuplicate i c q now db = (Inr u, db') \<Longrightarrow> constraints db' \<and> same_audit db db'"
  by (auto simp: cancelDuplicate_def same_audit_def)

lemma bind_request_audit:
  "bind_request i ov d st db = (Inr u, db') \<Longrightarrow> constraints db' \<and> same_audit db db'"
  by (auto simp: same_audit_def)

lemma complete_binding_state:
  assumes inv: "audit_state (audit_repository sr) db" and none: "\<not> request_exists db []"
    and run: "complete_binding sr i r (first_candidate i r db) db = (Inr res, db')"
    and now: "bi_now i = toISOString now" "0 \<le> now" "now < max_time"
  shows "audit_state (audit_repository sr) db'"
proof -
  have no_empty: "\<forall>c. first_candidate i r db = Some c \<longrightarrow> rw_id c \<noteq> []"
    using first_candidate_mem none unfolding request_exists_def by (metis image_eqI)
  have tail: "audit_state (audit_repository sr) d'"
    if "bind_request i ov du st a = (Inr (), b)" "insertAliases sr i b = (Inr (), d)"
      "delete_envelope (bi_tenantId i) (bi_requestId i) d = (Inr (), d')" "same_audit db a" for ov du st a b d d'
    using bind_request_audit [OF that(1)] bind_tail [OF that(2) _ that(3)] that(4) same_audit_state [OF inv]
    by (auto intro: same_audit_trans)
  from run no_empty show ?thesis
  proof (cases rule: complete_binding_cases)
    case (alone d2 d3 d4 out)
    from tail [OF alone(2-4)] show ?thesis by (intro append_subject_state [OF alone(5) _ now]) simp
  next
    case (yields c d2 d3 d4 out)
    from tail [OF yields(3-5)] show ?thesis by (intro append_subject_state [OF yields(6) _ now]) simp
  next
    case (replaces c d1 d2 d3 d4 d5 out)
    from tail [OF replaces(4-6)] cancelDuplicate_audit [OF replaces(3)]
    have "audit_state (audit_repository sr) d4" by simp
    from append_subject_state [OF replaces(8) append_subject_state [OF replaces(7) this now] now]
    show ?thesis .
  qed
qed

lemma complete_envelopes:
  assumes run: "complete_binding sr i r (first_candidate i r db) db = (Inr res, db')"
    and none: "\<not> request_exists db []"
  shows "\<forall>v \<in> set (db_subjectEnvelopes db'). se_requestId v = bi_requestId i \<longrightarrow> se_tenantId v \<noteq> bi_tenantId i"
proof -
  have no_empty: "\<forall>c. first_candidate i r db = Some c \<longrightarrow> rw_id c \<noteq> []"
    using first_candidate_mem none unfolding request_exists_def by (metis image_eqI)
  from run no_empty show ?thesis
    by (cases rule: complete_binding_cases) (auto dest!: append_subject_event)
qed

definition competes :: "bind_subject_input \<Rightarrow> privacy_request_row \<Rightarrow> privacy_request_row \<Rightarrow> bool" where
  "competes i r c \<longleftrightarrow> bi_duplicateOverride i = None \<and> duplicate_of (stamped i 0) r c"

text \<open>Of two requests the older is kept, by the order of their ids if they were created at one time; but a
request past approval is kept even if it is the newer one.\<close>

definition kept_open ::
  "subject_repository \<Rightarrow> privacy_request_row \<Rightarrow> privacy_request_row \<Rightarrow> bool" where
  "kept_open sr r c \<longleftrightarrow>
     rw_createdAt c < rw_createdAt r \<or>
     rw_createdAt c = rw_createdAt r \<and> 0 < sr_localeCompare sr (rw_id r) (rw_id c) \<or>
     rw_status c \<notin> {''created'', ''identity_verification_pending'', ''identity_verified'', ''planning'',
       ''awaiting_approval''}"

definition settled :: "subject_repository \<Rightarrow>
    privacy_request_row \<Rightarrow> privacy_request_row \<Rightarrow> privacy_request_row \<Rightarrow> database \<Rightarrow> bool" where
  "settled sr r r' c db' \<longleftrightarrow>
     (if kept_open sr r c
      then c \<in> set (db_privacyRequests db') \<and> rw_status r' = ''cancelled'' \<and>
        rw_duplicateOfRequestId r' = Some (rw_id c)
      else (\<exists>at. cancel_row (rw_id r) at c \<in> set (db_privacyRequests db')) \<and>
        rw_status r' = ''identity_verified'' \<and> rw_duplicateOfRequestId r' = None)"

lemma kept_open_yields: "kept_open sr r c \<longleftrightarrow> yields_to sr r c"
  by (auto simp: kept_open_def yields_to_def compareCreatedAt_def Let_def CANCELLABLE_DUPLICATE_STATUSES_def)

lemma competes_stamped: "competes i r c \<longleftrightarrow> bi_duplicateOverride i = None \<and> duplicate_of (stamped i now) r c"
  by (simp add: competes_def duplicate_of_def)

lemma one_competitor:
  assumes "constraints db" and "c \<in> set (db_privacyRequests db)" "competes i r c"
    and "d \<in> set (db_privacyRequests db)" "competes i r d"
  shows "c = d"
proof -
  let ?k = "\<lambda>r. (rw_environmentId r, rw_subjectHash r, rw_type r)"
  have "distinct (map ?k (filter active_subject (db_privacyRequests db)))"
    using assms(1) by (simp add: constraints_def privacy_requests_ok_def)
  moreover have "c \<in> set (filter active_subject (db_privacyRequests db))"
    "d \<in> set (filter active_subject (db_privacyRequests db))" "?k c = ?k d"
    using assms by (auto simp: competes_def duplicate_of_def active_subject_def)
  ultimately show ?thesis by (rule distinct_key)
qed

lemma bound_fields [simp]:
  "rw_id (bind_row i ov du st at r) = rw_id r" "rw_status (bind_row i ov du st at r) = st"
  "rw_version (bind_row i ov du st at r) = rw_version r + 1"
  "rw_duplicateOfRequestId (bind_row i ov du st at r) = du" "rw_duplicateOverride (bind_row i ov du st at r) = ov"
  "same_binding i (bind_row i ov du st at r)"
  "rw_id (cancel_row s t c) = rw_id c" "rw_version (cancel_row s t c) = rw_version c + 1"
  by (simp_all add: bind_row_def cancel_row_def same_binding_def)

lemma raised_versions:
  assumes "db_privacyRequests db' = map f (db_privacyRequests db)"
    and "\<And>q. q \<in> set (db_privacyRequests db) \<Longrightarrow> rw_id (f q) = rw_id q \<and>
       rw_version (f q) = rw_version q + (if rw_id q \<in> set qs then 1 else 0)"
  shows "\<forall>q \<in> set (db_privacyRequests db). \<exists>q' \<in> set (db_privacyRequests db'). rw_id q' = rw_id q \<and>
     rw_version q' = rw_version q + (if rw_id q \<in> set qs then 1 else 0)"
  using assms by auto

subsection \<open>Properties\<close>

text \<open>C13. A binding that succeeds leaves the request bound to the hash and its envelope gone. Unless it was
bound before, an active agent holding the envelope's key answered for an expected version before the
deadline of the envelope, and another open request of the same subject and type is settled. Without an
owner override one of the two is cancelled as the other's duplicate: the newer, except that the request
being bound is cancelled, even if it is the older, when the other is past approval. With an override
both stay open, the bound one marked. No other request changes.\<close>

theorem binding_resolves_duplicates:
  assumes "constraints db" and "\<not> request_exists db []"
    and "bindSubject (PostgresSubjectEnvelopeRepository sr) Raised now i db = (Inr res, db')"
  shows "\<exists>r r'. r \<in> set (db_privacyRequests db) \<and> r' \<in> set (db_privacyRequests db') \<and>
    rw_id r = bi_requestId i \<and> rw_tenantId r = bi_tenantId i \<and> rw_environmentId r = bi_environmentId i \<and>
    rw_id r' = rw_id r \<and> same_binding (stamped i now) r' \<and>
    (\<forall>v \<in> set (db_subjectEnvelopes db'). se_requestId v = bi_requestId i \<longrightarrow> se_tenantId v \<noteq> bi_tenantId i) \<and>
    (same_binding (stamped i now) r \<and> db_privacyRequests db' = db_privacyRequests db \<or>
     answered (stamped i now) r db \<and> rw_version r' = rw_version r + 1 \<and>
     (\<forall>q \<in> set (db_privacyRequests db). q \<noteq> r \<and> \<not> competes i r q \<longrightarrow> q \<in> set (db_privacyRequests db')) \<and>
     rw_duplicateOverride r' = (bi_duplicateOverride i \<noteq> None) \<and>
     (bi_duplicateOverride i \<noteq> None \<longrightarrow> (\<forall>q \<in> set (db_privacyRequests db). q \<noteq> r \<longrightarrow> q \<in> set (db_privacyRequests db'))) \<and>
     ((\<forall>c \<in> set (db_privacyRequests db). \<not> competes i r c) \<longrightarrow>
        rw_status r' = ''identity_verified'' \<and> rw_duplicateOfRequestId r' = None) \<and>
     (\<forall>c \<in> set (db_privacyRequests db). competes i r c \<longrightarrow> settled sr r r' c db'))"
proof -
  let ?j = "stamped i now"
  from bind_service_ok(1) [OF assms(3)] show ?thesis
  proof (cases rule: bind_cases)
    case (again r)
    with scoped_request_mem [OF again(1)] show ?thesis by (intro exI [of _ r]) auto
  next
    case (fresh r)
    note mem = scoped_request_mem [OF fresh(1)]
    have gone: "\<forall>v \<in> set (db_subjectEnvelopes db'). se_requestId v = bi_requestId i \<longrightarrow> se_tenantId v \<noteq> bi_tenantId i"
      using complete_envelopes [OF fresh(3) assms(2)] by simp
    note rows = assms(1,2) fresh(1) fresh(3) fresh(2)
    from rows show ?thesis
    proof (cases rule: fresh_rows)
      case alone
      have "\<not> competes i r c" if "c \<in> set (db_privacyRequests db)" for c
        using first_candidate_None [OF alone(1) that] by (auto simp: competes_stamped [of i r c now])
      moreover let ?s = "bind_row ?j (bi_duplicateOverride ?j \<noteq> None) None ''identity_verified'' None r"
      have "?s \<in> set (db_privacyRequests db')" using mem alone(3) by auto
      moreover have "q \<in> set (db_privacyRequests db')" if "q \<in> set (db_privacyRequests db)" "q \<noteq> r" for q
        using that alone(3) by auto
      ultimately show ?thesis using mem fresh(2) gone
        by - (rule exI [of _ r], rule exI [of _ ?s], intro conjI disjI2; simp)
    next
      case (yields c at)
      have c: "c \<in> set (db_privacyRequests db)" "competes i r c"
        using first_candidate_mem [OF yields(1)] by (auto simp: competes_stamped [of i r c now])
      then have only: "d = c" if "d \<in> set (db_privacyRequests db)" "competes i r d" for d
        using one_competitor [OF assms(1)] that by blast
      have "c \<noteq> r" using c(2) mem by (auto simp: competes_def duplicate_of_def)
      have plain: "bi_duplicateOverride i = None" using c(2) by (simp add: competes_def)
      let ?s = "bind_row ?j False (Some (rw_id c)) ''cancelled'' (Some at) r"
      have rest: "q \<in> set (db_privacyRequests db')" if "q \<in> set (db_privacyRequests db)" "q \<noteq> r" for q
        using that yields(5) by auto
      have "settled sr r ?s d db'" if "d \<in> set (db_privacyRequests db)" "competes i r d" for d
        using only [OF that] rest [OF c(1) \<open>c \<noteq> r\<close>] yields(2) by (simp add: settled_def kept_open_yields)
      moreover have "?s \<in> set (db_privacyRequests db')" using mem yields(5) by auto
      ultimately show ?thesis using mem fresh(2) gone rest c plain
        by - (rule exI [of _ r], rule exI [of _ ?s], intro conjI disjI2; (simp; fail | blast))
    next
      case (replaces c at)
      have c: "c \<in> set (db_privacyRequests db)" "competes i r c"
        using first_candidate_mem [OF replaces(1)] by (auto simp: competes_stamped [of i r c now])
      then have only: "d = c" if "d \<in> set (db_privacyRequests db)" "competes i r d" for d
        using one_competitor [OF assms(1)] that by blast
      have "c \<noteq> r" using c(2) mem by (auto simp: competes_def duplicate_of_def)
      have plain: "bi_duplicateOverride i = None" using c(2) by (simp add: competes_def)
      let ?s = "bind_row ?j False None ''identity_verified'' None r"
      have "cancel_row (rw_id r) at c \<in> set (db_privacyRequests db')" using replaces(5) c(1) \<open>c \<noteq> r\<close> by auto
      then have "settled sr r ?s d db'" if "d \<in> set (db_privacyRequests db)" "competes i r d" for d
        using only [OF that] replaces(2) by (auto simp: settled_def kept_open_yields)
      moreover have "q \<in> set (db_privacyRequests db')"
        if "q \<in> set (db_privacyRequests db)" "q \<noteq> r \<and> \<not> competes i r q" for q
      proof -
        from that(2) c(2) have "q \<noteq> c" by auto
        with that replaces(5) show ?thesis by auto
      qed
      moreover have "?s \<in> set (db_privacyRequests db')" using mem replaces(5) by auto
      ultimately show ?thesis using mem fresh(2) gone c plain
        by - (rule exI [of _ r], rule exI [of _ ?s], intro conjI disjI2; (simp; fail | blast))
    qed
  qed
qed

text \<open>C14. Every call of \<open>bindSubject\<close> keeps the audit chains valid. One that fails changes nothing, so that an
expired envelope is still stored after the failure that reports it; one that succeeds raises the version
of exactly the requests it records an event for, each once, in the audit log and the outbox.\<close>

theorem binding_keeps_audit_chains:
  assumes "audit_state (audit_repository sr) db" and "\<not> request_exists db []"
    and "0 \<le> now" "now < max_time"
    and "bindSubject (PostgresSubjectEnvelopeRepository sr) Raised now i db = (res, db')"
  shows "audit_state (audit_repository sr) db' \<and> (\<forall>e. res = Inl e \<longrightarrow> db' = db) \<and>
    (\<forall>b. res = Inr b \<longrightarrow> (\<exists>qs. distinct qs \<and> recorded (stamped i now) qs db db' \<and>
      (\<forall>q \<in> set (db_privacyRequests db). \<exists>q' \<in> set (db_privacyRequests db'). rw_id q' = rw_id q \<and>
         rw_version q' = rw_version q + (if rw_id q \<in> set qs then 1 else 0))))"
proof (cases res)
  case (Inl e)
  with bind_service_err assms(1,5) show ?thesis by blast
next
  case (Inr b)
  have ok: "constraints db" using assms(1) by (simp add: audit_state_def)
  from bind_service_ok(1) [OF assms(5) [unfolded Inr]] show ?thesis
  proof (cases rule: bind_cases)
    case (again r)
    then have "same_audit db db'" by (simp add: same_audit_def)
    then have "audit_state (audit_repository sr) db'" "recorded (stamped i now) [] db db'"
      using same_audit_state [OF assms(1)] again(3) by (auto simp: recorded_def same_audit_def)
    with again(4) Inr show ?thesis by (intro conjI allI impI exI [of _ "[]"]) auto
  next
    case (fresh r)
    note mem = scoped_request_mem [OF fresh(1)]
    have state: "audit_state (audit_repository sr) db'"
      by (rule complete_binding_state [OF assms(1,2) fresh(3) _ assms(3,4)]) simp
    have same: "rw_id q = rw_id s \<longleftrightarrow> q = s"
      if "q \<in> set (db_privacyRequests db)" "s \<in> set (db_privacyRequests db)" for q s
      using request_key [OF ok that] by blast
    have r: "r \<in> set (db_privacyRequests db)" using mem by simp
    from ok assms(2) fresh(1,3,2) have "\<exists>qs. distinct qs \<and> recorded (stamped i now) qs db db' \<and>
      (\<forall>q \<in> set (db_privacyRequests db). \<exists>q' \<in> set (db_privacyRequests db'). rw_id q' = rw_id q \<and>
         rw_version q' = rw_version q + (if rw_id q \<in> set qs then 1 else 0))"
    proof (cases rule: fresh_rows)
      case alone
      from raised_versions [OF alone(3), of "[rw_id r]"] alone(2) show ?thesis
        by (intro exI [of _ "[rw_id r]"]) (simp add: same [OF _ r])
    next
      case (yields c at)
      from raised_versions [OF yields(5), of "[rw_id r]"] yields(3) show ?thesis
        by (intro exI [of _ "[rw_id r]"]) (simp add: same [OF _ r])
    next
      case (replaces c at)
      have c: "c \<in> set (db_privacyRequests db)" "rw_id c \<noteq> rw_id r"
        using first_candidate_mem [OF replaces(1)] mem by (auto simp: duplicate_of_def)
      with raised_versions [OF replaces(5), of "[rw_id c, rw_id r]"] replaces(3) show ?thesis
        by (intro exI [of _ "[rw_id c, rw_id r]"]) (simp add: same [OF _ r] same [OF _ c(1)])
    qed
    with state Inr show ?thesis by blast
  qed
qed


subsection \<open>Storing\<close>

lemma join_nul_count: "length ks \<le> Suc (count_list (join_nul ks) (CHR 0x00))"
  by (induction ks rule: join_nul.induct) auto

text \<open>The text compared has one separator less than there are keys, so no key can hide in another.\<close>

lemma envelope_members_exact:
  assumes "envelope_members_ok i ms"
  shows "set (map fst ms) = set envelope_keys"
proof -
  have joined: "join_nul (sort_texts (map fst ms)) = join_nul envelope_keys"
    using assms by (simp add: envelope_members_ok_def)
  have "count_list (join_nul envelope_keys) (CHR 0x00) = 8" by code_simp
  moreover have "length (sort_texts (map fst ms)) = length ms" by (simp add: sort_texts_def)
  ultimately have "length ms \<le> 9" using join_nul_count [of "sort_texts (map fst ms)"] by (simp add: joined)
  then have "card (set (map fst ms)) \<le> 9"
    using card_length [of "map fst ms"] by simp
  moreover have "set envelope_keys \<subseteq> set (map fst ms)"
    using assms isBase64UrlBytes.elims(2)
    by (auto simp: envelope_members_ok_def envelope_keys_def dest!: map_of_SomeD elim!: isBase64UrlBytes.elims(2) intro: rev_image_eqI)
  moreover have "card (set envelope_keys) = 9" by (simp add: envelope_keys_def)
  ultimately show ?thesis by (intro card_seteq [symmetric]) simp_all
qed

lemma filter_key_update:
  assumes "distinct (map f xs)" and "y \<in> set xs" and "f y = k" and "\<And>x. f x = k \<Longrightarrow> f (g x) = k"
  shows "filter (\<lambda>x. f x = k) (map (\<lambda>x. if f x = k then g x else x) xs) = [g y]"
  using assms(1-3)
proof (induction xs)
  case (Cons x xs)
  show ?case
  proof (cases "f x = k")
    case True
    with Cons.prems have "x = y" by (auto simp: rev_image_eqI)
    moreover have "f z \<noteq> k" if "z \<in> set xs" for z using Cons.prems(1) True imageI [OF that, of f] by auto
    then have "filter (\<lambda>x. f x = k) (map (\<lambda>x. if f x = k then g x else x) xs) = []"
      by (auto simp: filter_empty_conv)
    ultimately show ?thesis using True assms(4) by simp
  next
    case False
    with Cons show ?thesis by auto
  qed
qed simp

lemma filter_other_update:
  assumes "\<And>x. f x = k \<Longrightarrow> f (g x) = k"
  shows "filter (\<lambda>x. f x \<noteq> k) (map (\<lambda>x. if f x = k then g x else x) xs) = filter (\<lambda>x. f x \<noteq> k) xs"
  using assms by (induction xs) auto

lemma upserted_rows:
  assumes "upsert_envelope new db = (Inr u, db')" and "distinct (map se_requestId (db_subjectEnvelopes db))"
  shows "\<exists>at. filter (\<lambda>x. se_requestId x = se_requestId new) (db_subjectEnvelopes db') = [new\<lparr>se_createdAt := at\<rparr>]"
    and "filter (\<lambda>x. se_requestId x \<noteq> se_requestId new) (db_subjectEnvelopes db') =
      filter (\<lambda>x. se_requestId x \<noteq> se_requestId new) (db_subjectEnvelopes db)"
    and "db' = db\<lparr>db_subjectEnvelopes := db_subjectEnvelopes db'\<rparr>"
proof -
  let ?k = "se_requestId new" and ?t = "db_subjectEnvelopes db"
  have "(\<exists>at. filter (\<lambda>x. se_requestId x = ?k) (db_subjectEnvelopes db') = [new\<lparr>se_createdAt := at\<rparr>]) \<and>
    filter (\<lambda>x. se_requestId x \<noteq> ?k) (db_subjectEnvelopes db') = filter (\<lambda>x. se_requestId x \<noteq> ?k) ?t \<and>
    db' = db\<lparr>db_subjectEnvelopes := db_subjectEnvelopes db'\<rparr>"
  proof (cases "find (\<lambda>r. se_requestId r = ?k) ?t")
    case None
    with assms(1) have "db' = db\<lparr>db_subjectEnvelopes := ?t @ [new]\<rparr>" by (simp add: upsert_envelope_def)
    moreover have "filter (\<lambda>x. se_requestId x = ?k) ?t = []" using None by (auto simp: find_None_iff filter_empty_conv)
    ultimately show ?thesis by (auto intro: exI [of _ "se_createdAt new"])
  next
    case (Some old)
    let ?g = "\<lambda>r. new\<lparr>se_createdAt := se_createdAt r\<rparr>"
    have old: "old \<in> set ?t" "se_requestId old = ?k" using find_Some_mem [OF Some] by auto
    from Some assms(1) have db': "db' = db\<lparr>db_subjectEnvelopes := map (\<lambda>r. if se_requestId r = ?k then ?g r else r) ?t\<rparr>"
      by (simp add: upsert_envelope_def split: if_splits)
    show ?thesis
      using filter_key_update [OF assms(2) old, of ?g] filter_other_update [of se_requestId ?k ?g ?t]
      by (auto simp: db')
  qed
  then show "\<exists>at. filter (\<lambda>x. se_requestId x = ?k) (db_subjectEnvelopes db') = [new\<lparr>se_createdAt := at\<rparr>]"
    "filter (\<lambda>x. se_requestId x \<noteq> ?k) (db_subjectEnvelopes db') = filter (\<lambda>x. se_requestId x \<noteq> ?k) ?t"
    "db' = db\<lparr>db_subjectEnvelopes := db_subjectEnvelopes db'\<rparr>" by blast+
qed

text \<open>The tables of a request whose envelope the agent's answer is awaited for.\<close>

definition example_key :: string where
  "example_key = ''x25519:sha256:'' @ replicate 64 CHR ''0''"

definition example_hmac :: string where
  "example_hmac = ''hmac-sha256:'' @ replicate 64 CHR ''a''"

definition example_envelope :: subject_envelope_row where
  "example_envelope = \<lparr>se_requestId = ''req_1'', se_tenantId = ''ten_1'', se_environmentId = ''env_1'',
     se_ciphertext = ''c'', se_encryptionKeyId = example_key, se_expiresAt = 9000, se_consumedAt = None,
     se_createdAt = 0\<rparr>"

definition example_subject_db :: database where
  "example_subject_db = example_db\<lparr>db_agents := [example_agent\<lparr>ag_encryptionKeyId := Some example_key\<rparr>],
     db_privacyRequests := [example_request_row\<lparr>rw_status := ''created''\<rparr>],
     db_subjectEnvelopes := [example_envelope]\<rparr>"

definition example_binding :: bind_subject_input where
  "example_binding = \<lparr>bi_tenantId = ''ten_1'', bi_environmentId = ''env_1'', bi_requestId = ''req_1'',
     bi_agentId = ''agt_1'', bi_subjectHash = example_hmac, bi_subjectHashKeyVersion = 1,
     bi_canonicalizationVersion = 1, bi_expectedVersion = 3, bi_aliases = None, bi_duplicateOverride = None\<rparr>"

definition example_subjects :: subject_repository where
  "example_subjects = \<lparr>sr_sha = toy_sha, sr_canonicalize = toy_canon, sr_localeCompare = (\<lambda>_ _. 0),
     sr_newEventId = (\<lambda>k. ''evt_'' @ decimal k), sr_db_now = 5000\<rparr>"

lemma example_hmac_ok: "hmac_text example_hmac"
  unfolding example_hmac_def by code_simp

lemma example_subject_ok: "constraints example_subject_db"
  by (simp add: constraint_defs example_subject_db_def example_db_def example_agent_def
      example_request_row_def active_agent_def active_subject_def example_envelope_def
      privacy_request_ok_def request_statuses_def positive_or_null_def)

lemma example_subject_state: "audit_state (audit_repository example_subjects) example_subject_db"
  by (simp add: audit_state_def example_subject_ok)
    (simp add: chain_fits_def head_fits_def audit_rows_def audit_head_def verifyChain_def
      example_subject_db_def example_db_def)

lemma example_no_empty_id: "\<not> request_exists example_subject_db []"
  by (simp add: request_exists_def example_subject_db_def example_request_row_def)

lemma example_request_found:
  "findRequest ''ten_1'' ''env_1'' ''req_1'' example_subject_db = Some (hd (db_privacyRequests example_subject_db),
     hd (db_environments example_subject_db))"
  by (simp add: findRequest_def scoped_request_def scoped_environment_def environment_visible_def
      example_subject_db_def example_db_def example_request_row_def)

lemma example_bound:
  "\<exists>res db'. bindSubject (PostgresSubjectEnvelopeRepository example_subjects) Raised 5000 example_binding
     example_subject_db = (Inr res, db')"
proof -
  let ?j = "stamped example_binding 5000"
  let ?r = "hd (db_privacyRequests example_subject_db)"
  let ?x = "binding_event ?j None BoundOutcome"
  let ?b = "subject_body example_subjects ?j 0 1 ?x"
  let ?r' = "bind_row ?j False None ''identity_verified'' None ?r"
  let ?d2 = "example_subject_db\<lparr>db_privacyRequests := [?r']\<rparr>"
  let ?d4 = "?d2\<lparr>db_subjectEnvelopes := []\<rparr>"
  let ?c0 = "\<lparr>ch_tenantId = ''ten_1'', ch_environmentId = ''env_1'', ch_sequence = 0, ch_eventHash = None\<rparr>"
  let ?d5 = "?d4\<lparr>db_auditChainHeads := [?c0]\<rparr>"
  obtain h where h: "auditEventHash toy_sha toy_canon None ?b = Inr h"
    using auditEventHash_total [of None toy_canon ?b toy_sha] by (auto simp: toy_canon_def)
  let ?d6 = "?d5\<lparr>db_auditEvents := [audit_row ?b 1 None h 5000]\<rparr>"
  let ?d7 = "?d6\<lparr>db_auditChainHeads := [?c0\<lparr>ch_sequence := 1, ch_eventHash := Some h\<rparr>]\<rparr>"
  let ?d8 = "?d7\<lparr>db_outboxEvents := [subject_outbox example_subjects ?j 0 5000 ?x]\<rparr>"
  have now: "date_parse (toISOString 5000) = Some 5000"
    by (rule date_parse_toISOString) (simp_all add: max_time_def)
  have fields: "bi_tenantId example_binding = ''ten_1''" "bi_environmentId example_binding = ''env_1''"
    "bi_requestId example_binding = ''req_1''" "bi_agentId example_binding = ''agt_1''"
    "bi_subjectHash example_binding = example_hmac" "bi_subjectHashKeyVersion example_binding = 1"
    "bi_canonicalizationVersion example_binding = 1" "bi_expectedVersion example_binding = 3"
    "bi_duplicateOverride example_binding = None" "aliases_of example_binding = []"
    by (simp_all add: example_binding_def aliases_of_def)
  have sr: "sr_sha example_subjects = toy_sha" "sr_canonicalize example_subjects = toy_canon"
    by (simp_all add: example_subjects_def)
  note tables = constraint_defs example_subject_db_def example_db_def example_agent_def
      example_request_row_def active_agent_def active_subject_def example_envelope_def
      privacy_request_ok_def request_statuses_def positive_or_null_def bind_row_def
  have ok2: "constraints ?d2" by (simp add: tables fields)
  have ok4: "constraints ?d4" by (simp add: tables fields)
  have ok5: "constraints ?d5" by (simp add: tables fields)
  have ok6: "constraints ?d6" by (simp add: tables fields audit_row_def subject_body_def binding_event_def)
  have ok7: "constraints ?d7" by (simp add: tables fields audit_row_def subject_body_def binding_event_def)
  have ok8: "constraints ?d8"
    by (simp add: tables fields audit_row_def subject_body_def binding_event_def subject_outbox_def)
  have head: "appendAuditEvent example_subjects ?j 0 ?x ?d4 = (Inr (), ?d8)"
  proof -
    have "subject_ensure_head ?j ?d4 = (Inr (), ?d5)"
      using ok5 by (simp add: subject_ensure_head_def fields example_subject_db_def example_db_def)
    moreover have "find (subject_head ?j) (db_auditChainHeads ?d5) = Some ?c0"
      by (simp add: subject_head_def fields)
    moreover have "write_subject_event example_subjects ?j 0 ?x ?c0 ?d5 = (Inr (), ?d8)"
      using ok6 ok7 ok8 h now
      by (simp add: write_subject_event_def Let_def insert_audit_def insert_outbox_def sr
        example_subject_db_def example_db_def subject_head_def fields)
    ultimately show ?thesis by (simp add: appendAuditEvent_def)
  qed
  have none: "first_candidate ?j ?r example_subject_db = None"
    by (simp add: first_candidate_def candidates_def duplicate_of_def fields example_subject_db_def example_request_row_def)
  have "bind_request ?j False None ''identity_verified'' example_subject_db = (Inr (), ?d2)"
    using ok2 by (simp add: fields example_subject_db_def example_request_row_def)
  moreover have "insertAliases example_subjects ?j ?d2 = (Inr (), ?d2)" by (simp add: insertAliases_def fields)
  moreover have "delete_envelope ''ten_1'' ''req_1'' ?d2 = (Inr (), ?d4)"
    using ok4 by (simp add: example_subject_db_def example_envelope_def)
  ultimately have "\<exists>res. complete_binding example_subjects ?j ?r None example_subject_db = (Inr res, ?d8)"
    using head by (simp add: complete_binding_def Let_def fields truthy_def del: bind_request_ok delete_envelope_ok)
  then obtain res where fin: "complete_binding example_subjects ?j ?r None example_subject_db = (Inr res, ?d8)" by blast
  have sealed: "find (\<lambda>e. se_requestId e = ''req_1'' \<and> se_tenantId e = ''ten_1'' \<and> se_environmentId e = ''env_1'')
      (db_subjectEnvelopes example_subject_db) = Some example_envelope"
    "se_expiresAt example_envelope = 9000" "se_encryptionKeyId example_envelope = example_key" "example_key \<noteq> []"
    "ag_encryptionKeyId (hd (db_agents example_subject_db)) = Some example_key"
    by (simp_all add: example_subject_db_def example_envelope_def example_key_def)
  have "bind_with_envelope example_subjects ?j ?r (hd (db_agents example_subject_db)) example_subject_db = (Inr res, ?d8)"
    using fin none now sealed by (simp add: bind_with_envelope_def expired_at_def truthy_def fields)
  moreover have row: "rw_version ?r = 3" "rw_status ?r \<in> set CANCELLABLE_DUPLICATE_STATUSES"
    "rw_subjectHashKeyVersion ?r = None" "rw_subjectCanonicalizationVersion ?r = None"
    "en_subjectHashKeyVersion (hd (db_environments example_subject_db)) = 1"
    "en_subjectCanonicalizationVersion (hd (db_environments example_subject_db)) = 1"
    "find (\<lambda>a. ag_id a = ''agt_1'' \<and> ag_environmentId a = ''env_1'' \<and> active_agent a)
       (db_agents example_subject_db) = Some (hd (db_agents example_subject_db))"
    by (simp_all add: example_subject_db_def example_request_row_def example_db_def example_agent_def
        active_agent_def CANCELLABLE_DUPLICATE_STATUSES_def)
  ultimately have "bind_unbound example_subjects ?j ?r (hd (db_environments example_subject_db)) example_subject_db = (Inr res, ?d8)"
    using row by (simp add: bind_unbound_def fields)
  moreover have "unbound ?r" "\<not> same_binding ?j ?r"
    by (simp_all add: unbound_def same_binding_def example_subject_db_def example_request_row_def)
  ultimately have run: "bindSubjectInTransaction example_subjects ?j example_subject_db = (Inr res, ?d8)"
    by (simp add: bindSubjectInTransaction_def fields example_request_found)
  have "validateScope ''ten_1'' ''env_1'' ''req_1''" by code_simp
  then show ?thesis
    using run example_hmac_ok by (simp add: bindSubject_def Let_def fields validateSubjectHash_def
        validatePositiveInteger_def validateAliases_def override_ok_def PostgresSubjectEnvelopeRepository_def
        inTenantTransaction_def)
qed

theorem binding_resolves_duplicates_witness:
  "\<exists>res db'. bindSubject (PostgresSubjectEnvelopeRepository example_subjects) Raised 5000 example_binding
     example_subject_db = (Inr res, db') \<and>
   (\<exists>r' \<in> set (db_privacyRequests db'). same_binding (stamped example_binding 5000) r')"
proof -
  obtain res db' where run: "bindSubject (PostgresSubjectEnvelopeRepository example_subjects) Raised 5000
    example_binding example_subject_db = (Inr res, db')" using example_bound by blast
  from binding_resolves_duplicates [OF example_subject_ok example_no_empty_id run] run show ?thesis by blast
qed

theorem binding_keeps_audit_chains_witness:
  "\<exists>res db'. bindSubject (PostgresSubjectEnvelopeRepository example_subjects) Raised 5000 example_binding
     example_subject_db = (Inr res, db') \<and> audit_state (audit_repository example_subjects) db'"
proof -
  obtain res db' where run: "bindSubject (PostgresSubjectEnvelopeRepository example_subjects) Raised 5000
    example_binding example_subject_db = (Inr res, db')" using example_bound by blast
  from binding_keeps_audit_chains [OF example_subject_state example_no_empty_id _ _ run] run
  show ?thesis by (auto simp: max_time_def)
qed

text \<open>C15. An envelope is stored only for a request of the tenant's environment and an active agent there that
holds the key it is sealed for; it names that request, environment and key and nothing else, is the only
one of the request, ends in the future, and no other row changes.\<close>

theorem envelope_stored_for_active_agent:
  assumes "constraints db"
    and "storeEnvelope (PostgresSubjectEnvelopeRepository sr) Raised parseJson now i db = (Inr u, db')"
  shows "(\<exists>a \<in> set (db_agents db). active_agent a \<and> ag_environmentId a = st_environmentId i \<and>
      ag_encryptionKeyId a = Some (st_encryptionKeyId i)) \<and>
    (\<exists>r \<in> set (db_privacyRequests db). rw_id r = st_requestId i \<and> rw_tenantId r = st_tenantId i \<and>
      rw_environmentId r = st_environmentId i) \<and>
    (\<exists>ms. parseJson (st_ciphertext i) = Some (JObj ms) \<and> set (map fst ms) = set envelope_keys \<and>
      map_of ms ''requestId'' = Some (JStr (st_requestId i)) \<and>
      map_of ms ''environmentId'' = Some (JStr (st_environmentId i)) \<and>
      map_of ms ''encryptionKeyId'' = Some (JStr (st_encryptionKeyId i))) \<and>
    (\<exists>e. filter (\<lambda>x. se_requestId x = st_requestId i) (db_subjectEnvelopes db') = [e] \<and>
      se_tenantId e = st_tenantId i \<and> se_environmentId e = st_environmentId i \<and>
      se_ciphertext e = st_ciphertext i \<and> se_encryptionKeyId e = st_encryptionKeyId i \<and>
      se_consumedAt e = None \<and> date_parse (st_expiresAt i) = Some (se_expiresAt e) \<and> now < se_expiresAt e) \<and>
    filter (\<lambda>x. se_requestId x \<noteq> st_requestId i) (db_subjectEnvelopes db') =
      filter (\<lambda>x. se_requestId x \<noteq> st_requestId i) (db_subjectEnvelopes db) \<and>
    db' = db\<lparr>db_subjectEnvelopes := db_subjectEnvelopes db'\<rparr>"
proof -
  from assms(2) obtain ms where later: "after (st_expiresAt i) now"
    and ms: "parseJson (st_ciphertext i) = Some (JObj ms)" "envelope_members_ok i ms"
    and run: "pg_storeEnvelope (sr_db_now sr) i db = (Inr u, db')"
    by (auto simp: storeEnvelope_def Let_def PostgresSubjectEnvelopeRepository_def
        validateSerializedEnvelope_def split: if_splits option.splits json.splits)
  from run obtain a expires where a: "envelope_agent i db = Some a"
    and expires: "date_parse (st_expiresAt i) = Some expires"
    and up: "upsert_envelope (new_envelope i expires (sr_db_now sr)) db = (Inr (), db')"
    by (auto simp: pg_storeEnvelope_def inTenantTransaction_def split: option.splits if_splits)
  from a have scoped: "find (\<lambda>a. ag_environmentId a = st_environmentId i \<and>
      ag_encryptionKeyId a = Some (st_encryptionKeyId i) \<and> active_agent a) (db_agents db) = Some a"
    and "scoped_request (st_tenantId i) (st_environmentId i) (st_requestId i) db \<noteq> None"
    by (auto simp: envelope_agent_def split: if_splits)
  then obtain r where r: "scoped_request (st_tenantId i) (st_environmentId i) (st_requestId i) db = Some r" by blast
  let ?mine = "\<lambda>x. se_requestId x = st_requestId i"
  have "distinct (map se_requestId (db_subjectEnvelopes db))"
    using assms(1) by (simp add: constraints_def subject_envelopes_ok_def)
  note upserted = upserted_rows [OF up this]
  have "now < expires" using later expires by (simp add: after_def)
  with upserted expires have stored: "\<exists>e. filter ?mine (db_subjectEnvelopes db') = [e] \<and>
      se_tenantId e = st_tenantId i \<and> se_environmentId e = st_environmentId i \<and>
      se_ciphertext e = st_ciphertext i \<and> se_encryptionKeyId e = st_encryptionKeyId i \<and>
      se_consumedAt e = None \<and> date_parse (st_expiresAt i) = Some (se_expiresAt e) \<and> now < se_expiresAt e"
    by (auto simp: new_envelope_def)
  show ?thesis
    using find_Some_mem [OF scoped] scoped_request_mem [OF r] ms envelope_members_exact [OF ms(2)] stored upserted
    by (auto simp: envelope_members_ok_def new_envelope_def)
qed

definition example_members :: "(string \<times> json) list" where
  "example_members = [(''algorithm'', JStr ''X25519-HKDF-SHA256-AES-256-GCM''),
     (''ciphertext'', JStr (b64_encode (replicate 16 1))), (''encryptionKeyId'', JStr example_key),
     (''environmentId'', JStr ''env_1''), (''ephemeralPublicKey'', JStr (b64_encode (replicate 32 2))),
     (''iv'', JStr (b64_encode (replicate 12 3))), (''requestId'', JStr ''req_1''),
     (''salt'', JStr (b64_encode (replicate 32 4))), (''version'', JNum 1)]"

definition example_sealed :: store_subject_envelope_input where
  "example_sealed = \<lparr>st_tenantId = ''ten_1'', st_environmentId = ''env_1'', st_requestId = ''req_1'',
     st_ciphertext = ''c'', st_encryptionKeyId = example_key, st_expiresAt = toISOString 9000\<rparr>"

lemma example_members_ok: "envelope_members_ok example_sealed example_members"
proof -
  have "sort_texts envelope_keys = envelope_keys" by code_simp
  moreover have "map fst example_members = envelope_keys" by (simp add: example_members_def envelope_keys_def)
  ultimately show ?thesis
    unfolding envelope_members_ok_def by (simp add: example_members_def example_sealed_def codec)
qed

lemma example_stored:
  "\<exists>db'. storeEnvelope (PostgresSubjectEnvelopeRepository example_subjects) Raised (\<lambda>_. Some (JObj example_members))
     5000 example_sealed example_subject_db = (Inr (), db')"
proof -
  let ?i = example_sealed
  let ?new = "new_envelope ?i 9000 5000"
  let ?db = "example_subject_db\<lparr>db_subjectEnvelopes := [?new\<lparr>se_createdAt := 0\<rparr>]\<rparr>"
  have fields: "st_tenantId ?i = ''ten_1''" "st_environmentId ?i = ''env_1''" "st_requestId ?i = ''req_1''"
    "st_ciphertext ?i = ''c''" "st_encryptionKeyId ?i = example_key" "st_expiresAt ?i = toISOString 9000"
    by (simp_all add: example_sealed_def)
  have expires: "date_parse (toISOString 9000) = Some 9000"
    by (rule date_parse_toISOString) (simp_all add: max_time_def)
  have ok: "constraints ?db"
    by (simp add: constraint_defs example_subject_db_def example_db_def example_agent_def
      example_request_row_def active_agent_def active_subject_def new_envelope_def fields
      privacy_request_ok_def request_statuses_def positive_or_null_def)
  have "envelope_agent ?i example_subject_db = Some (hd (db_agents example_subject_db))"
    using example_request_found
    by (simp add: envelope_agent_def fields findRequest_def split: option.splits)
      (simp add: example_subject_db_def example_agent_def active_agent_def)
  moreover have "ag_encryptionKeyId (hd (db_agents example_subject_db)) = Some example_key"
    by (simp add: example_subject_db_def)
  moreover have "upsert_envelope ?new example_subject_db = (Inr (), ?db)"
    using ok by (simp add: upsert_envelope_def new_envelope_def fields example_subject_db_def example_envelope_def)
  moreover have "sr_db_now example_subjects = 5000" by (simp add: example_subjects_def)
  ultimately have "pg_storeEnvelope (sr_db_now example_subjects) ?i example_subject_db = (Inr (), ?db)"
    by (simp add: pg_storeEnvelope_def inTenantTransaction_def fields expires)
  moreover have "validateScope ''ten_1'' ''env_1'' ''req_1''" "trim ''c'' \<noteq> []" by code_simp+
  moreover have "agent_key_text example_key" unfolding example_key_def by code_simp
  ultimately show ?thesis
    using example_members_ok by (simp add: storeEnvelope_def Let_def PostgresSubjectEnvelopeRepository_def fields
        after_def expires validateSerializedEnvelope_def)
qed

theorem envelope_stored_for_active_agent_witness:
  "\<exists>db' e. storeEnvelope (PostgresSubjectEnvelopeRepository example_subjects) Raised
       (\<lambda>_. Some (JObj example_members)) 5000 example_sealed example_subject_db = (Inr (), db') \<and>
     e \<in> set (db_subjectEnvelopes db') \<and> se_requestId e = ''req_1''"
proof -
  obtain db' where run: "storeEnvelope (PostgresSubjectEnvelopeRepository example_subjects) Raised
    (\<lambda>_. Some (JObj example_members)) 5000 example_sealed example_subject_db = (Inr (), db')"
    using example_stored by blast
  from envelope_stored_for_active_agent [OF example_subject_ok run] obtain e
    where "filter (\<lambda>x. se_requestId x = st_requestId example_sealed) (db_subjectEnvelopes db') = [e]" by blast
  then have "e \<in> set (filter (\<lambda>x. se_requestId x = st_requestId example_sealed) (db_subjectEnvelopes db'))" by simp
  with run show ?thesis by (auto simp: example_sealed_def)
qed

end
