(* ===== verification/Planning.thy ===== *)
theory Planning
  imports Json Bytes Dates
begin

text \<open>
  Execution plans, approvals and export capabilities of the API:
  \<^verbatim>\<open>modules/execution-plans/plan-service.ts\<close>, \<^verbatim>\<open>modules/approvals/approval-service.ts\<close> and
  \<^verbatim>\<open>modules/exports/export-capability-service.ts\<close>. Each service keeps a map from the request to its
  current object and is a group of actions on that map. The clock of a call, random bytes, the
  canonicaliser and SHA-256 are arguments; frozen copies are values.
\<close>

subsection \<open>Plans\<close>

datatype plan_risk = LowRisk | MediumRisk | HighRisk

fun risk_value :: "plan_risk \<Rightarrow> string" where
  "risk_value LowRisk = ''low''"
| "risk_value MediumRisk = ''medium''"
| "risk_value HighRisk = ''high''"

datatype plan_action = DiscoverAction | ExportAction | EraseAction | VerifyAction

fun action_value :: "plan_action \<Rightarrow> string" where
  "action_value DiscoverAction = ''discover''"
| "action_value ExportAction = ''export''"
| "action_value EraseAction = ''erase''"
| "action_value VerifyAction = ''verify''"

record plan_step =
  sp_id :: string
  sp_connector :: string
  sp_resource :: string
  sp_action :: plan_action
  sp_estimatedCount :: int
  sp_risk :: plan_risk
  sp_dependencies :: "string list"

datatype plan_status = PlanDraft | PlanAwaitingApproval | PlanApproved | PlanExpiredStatus

record plan_projection =
  pn_id :: string
  pn_requestId :: string
  pn_version :: int
  pn_fingerprint :: string
  pn_connectorConfigurationFingerprint :: string
  pn_steps :: "plan_step list"
  pn_requiresApproval :: bool
  pn_status :: plan_status
  pn_createdAt :: string
  pn_expiresAt :: string

record create_plan_input =
  cp_id :: string
  cp_requestId :: string
  cp_version :: int
  cp_connectorConfigurationFingerprint :: string
  cp_steps :: "plan_step list"
  cp_requiresApproval :: "bool option"
  cp_now :: int
  cp_ttlMs :: "int option"

datatype plan_error = PlanInvalid | PlanVersionMismatch | PlanNotFound | PlanExpired

type_synonym plans = "string \<rightharpoonup> plan_projection"

text \<open>The first loop over the steps, with the ids seen so far, and the second.\<close>

fun steps_distinct :: "string list \<Rightarrow> plan_step list \<Rightarrow> bool" where
  "steps_distinct ids [] = True"
| "steps_distinct ids (s # ss) =
     (if sp_id s = [] \<or> sp_id s \<in> set ids \<or> sp_connector s = [] \<or> sp_resource s = [] \<or>
         sp_estimatedCount s < 0 \<or> sp_id s \<in> set (sp_dependencies s)
      then False else steps_distinct (sp_id s # ids) ss)"

definition validateSteps :: "plan_step list \<Rightarrow> bool" where
  "validateSteps steps \<longleftrightarrow> steps \<noteq> [] \<and> steps_distinct [] steps \<and>
     list_all (\<lambda>s. list_all (\<lambda>d. d \<in> sp_id ` set steps) (sp_dependencies s)) steps"

definition step_json :: "plan_step \<Rightarrow> json" where
  "step_json s = JObj [(''id'', JStr (sp_id s)), (''connector'', JStr (sp_connector s)),
     (''resource'', JStr (sp_resource s)), (''action'', JStr (action_value (sp_action s))),
     (''estimatedCount'', JNum (sp_estimatedCount s)), (''risk'', JStr (risk_value (sp_risk s))),
     (''dependencies'', JArr (map JStr (sp_dependencies s)))]"

definition normalized_plan :: "string \<Rightarrow> plan_step list \<Rightarrow> json" where
  "normalized_plan connector steps = JObj [(''connectorConfigurationFingerprint'', JStr connector),
     (''steps'', JArr (map step_json steps))]"

definition planFingerprint ::
  "(json \<Rightarrow> string option) \<Rightarrow> (bytes \<Rightarrow> bytes) \<Rightarrow> json \<Rightarrow> plan_error + string" where
  "planFingerprint canonicalize sha value =
     (case canonicalize value of
        None \<Rightarrow> Inl PlanInvalid
      | Some serialized \<Rightarrow> Inr (''sha256:'' @ hex_encode (sha (utf8 serialized))))"

definition plan_ttl :: "create_plan_input \<Rightarrow> int" where
  "plan_ttl i = (case cp_ttlMs i of None \<Rightarrow> 30 * 60 * 1000 | Some t \<Rightarrow> t)"

definition new_plan :: "create_plan_input \<Rightarrow> string \<Rightarrow> plan_projection" where
  "new_plan i fingerprint =
     \<lparr>pn_id = cp_id i, pn_requestId = cp_requestId i, pn_version = cp_version i,
      pn_fingerprint = fingerprint,
      pn_connectorConfigurationFingerprint = cp_connectorConfigurationFingerprint i,
      pn_steps = cp_steps i,
      pn_requiresApproval = (case cp_requiresApproval i of None \<Rightarrow> True | Some b \<Rightarrow> b),
      pn_status = (if cp_requiresApproval i = Some False then PlanDraft else PlanAwaitingApproval),
      pn_createdAt = toISOString (cp_now i),
      pn_expiresAt = toISOString (cp_now i + plan_ttl i)\<rparr>"

definition create_plan ::
  "(json \<Rightarrow> string option) \<Rightarrow> (bytes \<Rightarrow> bytes) \<Rightarrow> create_plan_input \<Rightarrow>
   (plan_error, plan_projection, plans) act" where
  "create_plan canonicalize sha i s =
     (if \<exists>old. s (cp_requestId i) = Some old \<and> cp_version i \<le> pn_version old
      then throwM PlanVersionMismatch s
      else if \<not> validateSteps (cp_steps i) then throwM PlanInvalid s
      else if cp_version i \<le> 0 then throwM PlanInvalid s
      else if plan_ttl i \<le> 0 \<or> 24 * 60 * 60 * 1000 < plan_ttl i then throwM PlanInvalid s
      else case planFingerprint canonicalize sha
                  (normalized_plan (cp_connectorConfigurationFingerprint i) (cp_steps i)) of
             Inl e \<Rightarrow> throwM e s
           | Inr fp \<Rightarrow> (Inr (new_plan i fp), s(cp_requestId i \<mapsto> new_plan i fp)))"

text \<open>\<open>Date.parse(s) <= now\<close>.\<close>

definition passed :: "string \<Rightarrow> int \<Rightarrow> bool" where
  "passed s now \<longleftrightarrow> (case date_parse s of None \<Rightarrow> False | Some t \<Rightarrow> t \<le> now)"

text \<open>A call that finds the plan expired stores that before it throws.\<close>

definition get_plan :: "string \<Rightarrow> int \<Rightarrow> (plan_error, plan_projection, plans) act" where
  "get_plan r now s =
     (case s r of
        None \<Rightarrow> throwM PlanNotFound s
      | Some p \<Rightarrow>
          if passed (pn_expiresAt p) now
          then (Inl PlanExpired, if pn_status p \<noteq> PlanExpiredStatus
                  then s(r \<mapsto> p\<lparr>pn_status := PlanExpiredStatus\<rparr>) else s)
          else returnM p s)"

definition markApproved :: "string \<Rightarrow> int \<Rightarrow> int \<Rightarrow> (plan_error, plan_projection, plans) act" where
  "markApproved r expectedVersion now =
     seqM (get_plan r now) (\<lambda>p s.
       if pn_version p \<noteq> expectedVersion then throwM PlanVersionMismatch s
       else (Inr (p\<lparr>pn_status := PlanApproved\<rparr>), s(r \<mapsto> p\<lparr>pn_status := PlanApproved\<rparr>)))"

definition selectSteps :: "string \<Rightarrow> string list \<Rightarrow> int \<Rightarrow> (plan_error, plan_step list, plans) act" where
  "selectSteps r stepIds now =
     seqM (get_plan r now) (\<lambda>p.
       if \<not> distinct stepIds \<or> stepIds = [] \<or> (\<exists>i \<in> set stepIds. i \<notin> sp_id ` set (pn_steps p))
       then throwM PlanInvalid
       else returnM (filter (\<lambda>s. sp_id s \<in> set stepIds) (pn_steps p)))"

subsection \<open>Approvals\<close>

record approval_evidence =
  ap_challengeId :: string
  ap_evidenceHash :: string
  ap_requestId :: string
  ap_requestVersion :: int
  ap_planId :: string
  ap_planVersion :: int
  ap_planFingerprint :: string
  ap_decidedBy :: string
  ap_decidedAt :: string

datatype approval_error =
    ApprovalEvidenceInvalid
  | SeparationOfDutyViolation
  | ApprovalPlanVersionMismatch
  | ApprovalNotFound

type_synonym approvals = "string \<rightharpoonup> approval_evidence"

record approve_input =
  ip_requestId :: string
  ip_requestVersion :: int
  ip_plan :: plan_projection
  ip_requesterActorId :: string
  ip_approverActorId :: string
  ip_challengeId :: "string option"
  ip_now :: int

definition challenge_of :: "bytes \<Rightarrow> approve_input \<Rightarrow> string" where
  "challenge_of random i = (case ip_challengeId i of None \<Rightarrow> hex_encode random | Some c \<Rightarrow> c)"

definition evidence_json :: "bytes \<Rightarrow> approve_input \<Rightarrow> json" where
  "evidence_json random i = JObj [(''challengeId'', JStr (challenge_of random i)),
     (''requestId'', JStr (ip_requestId i)), (''requestVersion'', JNum (ip_requestVersion i)),
     (''planId'', JStr (pn_id (ip_plan i))), (''planVersion'', JNum (pn_version (ip_plan i))),
     (''planFingerprint'', JStr (pn_fingerprint (ip_plan i))),
     (''decidedBy'', JStr (ip_approverActorId i)), (''decidedAt'', JStr (toISOString (ip_now i)))]"

definition evidence_of :: "bytes \<Rightarrow> approve_input \<Rightarrow> string \<Rightarrow> approval_evidence" where
  "evidence_of random i h =
     \<lparr>ap_challengeId = challenge_of random i, ap_evidenceHash = h, ap_requestId = ip_requestId i,
      ap_requestVersion = ip_requestVersion i, ap_planId = pn_id (ip_plan i),
      ap_planVersion = pn_version (ip_plan i), ap_planFingerprint = pn_fingerprint (ip_plan i),
      ap_decidedBy = ip_approverActorId i, ap_decidedAt = toISOString (ip_now i)\<rparr>"

definition approve ::
  "(json \<Rightarrow> string option) \<Rightarrow> (bytes \<Rightarrow> bytes) \<Rightarrow> bytes \<Rightarrow> approve_input \<Rightarrow>
   (approval_error, approval_evidence, approvals) act" where
  "approve canonicalize sha random i s =
     (if ip_requesterActorId i = ip_approverActorId i then throwM SeparationOfDutyViolation s
      else if pn_status (ip_plan i) = PlanExpiredStatus then throwM ApprovalPlanVersionMismatch s
      else case canonicalize (evidence_json random i) of
             None \<Rightarrow> throwM ApprovalEvidenceInvalid s
           | Some serialized \<Rightarrow>
               (let a = evidence_of random i (''sha256:'' @ hex_encode (sha (utf8 serialized))) in
                (Inr a, s(ip_requestId i \<mapsto> a))))"

definition get_approval :: "string \<Rightarrow> (approval_error, approval_evidence, approvals) act" where
  "get_approval r s = (case s r of None \<Rightarrow> throwM ApprovalNotFound s | Some a \<Rightarrow> returnM a s)"

definition assertCurrent ::
  "string \<Rightarrow> int \<Rightarrow> plan_projection \<Rightarrow> (approval_error, approval_evidence, approvals) act" where
  "assertCurrent r requestVersion plan =
     seqM (get_approval r) (\<lambda>a.
       if ap_requestVersion a \<noteq> requestVersion \<or> ap_planId a \<noteq> pn_id plan \<or>
          ap_planVersion a \<noteq> pn_version plan \<or> ap_planFingerprint a \<noteq> pn_fingerprint plan
       then throwM ApprovalEvidenceInvalid else returnM a)"

definition clear_approval :: "string \<Rightarrow> (approval_error, unit, approvals) act" where
  "clear_approval r s = (Inr (), s(r := None))"

subsection \<open>Export capabilities\<close>

record export_capability =
  ec_requestId :: string
  ec_objectKeyHash :: string
  ec_downloadUrl :: string
  ec_expiresAt :: string
  ec_encryptedArchiveKey :: string
  ec_archiveSizeBytes :: int
  ec_browserKeyId :: "string option"
  ec_keyWrapVersion :: int

datatype export_error = ExportCapabilityNotFound | ExportCapabilityExpired | ExportKeyInvalid

record create_capability_input =
  cc_requestId :: string
  cc_objectKey :: string
  cc_downloadUrl :: string
  cc_encryptedArchiveKey :: string
  cc_archiveSizeBytes :: int
  cc_browserKeyId :: string
  cc_keyWrapVersion :: int
  cc_expiresAt :: int

type_synonym capabilities = "string \<rightharpoonup> export_capability"

definition createCapability ::
  "(bytes \<Rightarrow> bytes) \<Rightarrow> int \<Rightarrow> create_capability_input \<Rightarrow>
   (export_error, export_capability, capabilities) act" where
  "createCapability sha now i s =
     (if cc_encryptedArchiveKey i = [] \<or> cc_browserKeyId i = [] \<or> cc_keyWrapVersion i \<noteq> 1 \<or>
         cc_expiresAt i \<le> now
      then throwM ExportKeyInvalid s
      else let c = \<lparr>ec_requestId = cc_requestId i,
             ec_objectKeyHash = ''sha256:'' @ hex_encode (sha (utf8 (cc_objectKey i))),
             ec_downloadUrl = cc_downloadUrl i, ec_expiresAt = toISOString (cc_expiresAt i),
             ec_encryptedArchiveKey = cc_encryptedArchiveKey i,
             ec_archiveSizeBytes = cc_archiveSizeBytes i, ec_browserKeyId = Some (cc_browserKeyId i),
             ec_keyWrapVersion = cc_keyWrapVersion i\<rparr>
           in (Inr c, s(cc_requestId i \<mapsto> c)))"

definition requireActive :: "int \<Rightarrow> string \<Rightarrow> (export_error, export_capability, capabilities) act" where
  "requireActive now r s =
     (case s r of
        None \<Rightarrow> throwM ExportCapabilityNotFound s
      | Some c \<Rightarrow> if passed (ec_expiresAt c) now then throwM ExportCapabilityExpired s else returnM c s)"

definition get_capability :: "int \<Rightarrow> string \<Rightarrow> (export_error, export_capability, capabilities) act" where
  "get_capability = requireActive"

end
