(* ===== verification/Planning_Properties.thy ===== *)
theory Planning_Properties
  imports Planning
begin

text \<open>
  Plans only move forward and an approval covers one plan: what the services store over any
  sequence of calls, and what an approval that is still current says about the plan it is used for.
\<close>

subsection \<open>Sequences of calls to the plan service\<close>

datatype plan_call =
    CreatePlan create_plan_input
  | GetPlan string int
  | MarkApproved string int int
  | SelectSteps string "string list" int

fun plan_call_step :: "(json \<Rightarrow> string option) \<Rightarrow> (bytes \<Rightarrow> bytes) \<Rightarrow> plan_call \<Rightarrow> plans \<Rightarrow> plans" where
  "plan_call_step canon sha (CreatePlan i) s = snd (create_plan canon sha i s)"
| "plan_call_step canon sha (GetPlan r now) s = snd (get_plan r now s)"
| "plan_call_step canon sha (MarkApproved r v now) s = snd (markApproved r v now s)"
| "plan_call_step canon sha (SelectSteps r ids now) s = snd (selectSteps r ids now s)"

definition plan_run :: "(json \<Rightarrow> string option) \<Rightarrow> (bytes \<Rightarrow> bytes) \<Rightarrow> plan_call list \<Rightarrow> plans \<Rightarrow> plans" where
  "plan_run canon sha cs s = foldl (\<lambda>s c. plan_call_step canon sha c s) s cs"

lemma plan_run_simps [simp]:
  "plan_run canon sha [] s = s"
  "plan_run canon sha (c # cs) s = plan_run canon sha cs (plan_call_step canon sha c s)"
  "plan_run canon sha (cs @ ds) s = plan_run canon sha ds (plan_run canon sha cs s)"
  by (simp_all add: plan_run_def)

text \<open>What the service promises of every plan it holds.\<close>

definition fingerprinted :: "(json \<Rightarrow> string option) \<Rightarrow> (bytes \<Rightarrow> bytes) \<Rightarrow> plan_projection \<Rightarrow> bool" where
  "fingerprinted canon sha p \<longleftrightarrow> planFingerprint canon sha
     (normalized_plan (pn_connectorConfigurationFingerprint p) (pn_steps p)) = Inr (pn_fingerprint p)"

definition sound_plan :: "(json \<Rightarrow> string option) \<Rightarrow> (bytes \<Rightarrow> bytes) \<Rightarrow> string \<Rightarrow> plan_projection \<Rightarrow> bool" where
  "sound_plan canon sha r p \<longleftrightarrow> pn_requestId p = r \<and> 0 < pn_version p \<and> fingerprinted canon sha p \<and>
     pn_steps p \<noteq> [] \<and> distinct (map sp_id (pn_steps p)) \<and>
     (\<forall>st \<in> set (pn_steps p). sp_id st \<noteq> [] \<and> 0 \<le> sp_estimatedCount st \<and>
        set (sp_dependencies st) \<subseteq> sp_id ` set (pn_steps p) - {sp_id st})"

lemma steps_distinct_ok:
  "steps_distinct ids ss \<Longrightarrow> distinct (map sp_id ss) \<and> (\<forall>st \<in> set ss. sp_id st \<notin> set ids \<and> sp_id st \<noteq> [] \<and>
     0 \<le> sp_estimatedCount st \<and> sp_id st \<notin> set (sp_dependencies st))"
proof (induction ss arbitrary: ids)
  case (Cons a ss)
  from Cons.prems have a: "sp_id a \<noteq> []" "sp_id a \<notin> set ids" "0 \<le> sp_estimatedCount a"
    "sp_id a \<notin> set (sp_dependencies a)" and "steps_distinct (sp_id a # ids) ss"
    by (simp_all split: if_splits)
  from Cons.IH [OF this(5)] a show ?case by auto
qed simp

lemma created_plan_sound:
  assumes "create_plan canon sha i s = (Inr p, s')"
  shows "sound_plan canon sha (cp_requestId i) p" and "s' = s(cp_requestId i \<mapsto> p)"
    and "pn_version p = cp_version i" and "pn_status p \<noteq> PlanApproved"
    and "\<forall>old. s (cp_requestId i) = Some old \<longrightarrow> pn_version old < pn_version p"
proof -
  from assms obtain fp where p: "p = new_plan i fp" and s': "s' = s(cp_requestId i \<mapsto> p)"
    and fp: "planFingerprint canon sha (normalized_plan (cp_connectorConfigurationFingerprint i) (cp_steps i)) = Inr fp"
    and ok: "validateSteps (cp_steps i)" "0 < cp_version i"
    and old: "\<forall>old. s (cp_requestId i) = Some old \<longrightarrow> pn_version old < cp_version i"
    by (auto simp: create_plan_def not_le split: if_splits sum.splits)
  show "sound_plan canon sha (cp_requestId i) p"
    using steps_distinct_ok [of "[]" "cp_steps i"] ok fp
    by (auto simp: p new_plan_def sound_plan_def fingerprinted_def validateSteps_def list_all_iff)
  show "s' = s(cp_requestId i \<mapsto> p)" "pn_version p = cp_version i" "pn_status p \<noteq> PlanApproved"
    "\<forall>old. s (cp_requestId i) = Some old \<longrightarrow> pn_version old < pn_version p"
    using s' old by (auto simp: p new_plan_def)
qed

lemma create_plan_err: "create_plan canon sha i s = (Inl e, s') \<Longrightarrow> s' = s"
  by (auto simp: create_plan_def split: if_splits sum.splits)

text \<open>Every call replaces the plan of a request by a later one or changes its status.\<close>

definition plan_moves :: "plan_call \<Rightarrow> string \<Rightarrow> plan_projection option \<Rightarrow> plan_projection option \<Rightarrow> bool" where
  "plan_moves c r old new \<longleftrightarrow> (case (old, new) of
     (None, None) \<Rightarrow> True
   | (Some p, None) \<Rightarrow> False
   | (None, Some q) \<Rightarrow> pn_status q \<noteq> PlanApproved
   | (Some p, Some q) \<Rightarrow>
       pn_version p < pn_version q \<and> pn_status q \<noteq> PlanApproved \<or>
       q = p\<lparr>pn_status := pn_status q\<rparr> \<and> (pn_status q = PlanApproved \<longrightarrow>
         pn_status p = PlanApproved \<or> (\<exists>now. c = MarkApproved r (pn_version q) now)))"

lemma plan_moves_refl [simp]: "plan_moves c r x x"
  by (simp add: plan_moves_def split: option.splits)

lemma get_plan_cases:
  "snd (get_plan r now s) = s \<or>
   (\<exists>p. s r = Some p \<and> snd (get_plan r now s) = s(r \<mapsto> p\<lparr>pn_status := PlanExpiredStatus\<rparr>))"
  by (auto simp: get_plan_def throwM_def returnM_def split: option.splits)

lemma get_plan_ok [simp]:
  "get_plan r now s = (Inr p, s') \<longleftrightarrow> s r = Some p \<and> \<not> passed (pn_expiresAt p) now \<and> s' = s"
  by (auto simp: get_plan_def split: option.splits)

lemma markApproved_cases:
  "snd (markApproved r v now s) = snd (get_plan r now s) \<or>
   (\<exists>p. s r = Some p \<and> pn_version p = v \<and> snd (markApproved r v now s) = s(r \<mapsto> p\<lparr>pn_status := PlanApproved\<rparr>))"
proof (cases "get_plan r now s")
  case (Pair a s')
  then show ?thesis
    by (cases a) (auto simp: markApproved_def seqM_def throwM_def simp del: get_plan_ok dest: get_plan_ok [THEN iffD1])
qed

lemma selectSteps_state: "snd (selectSteps r ids now s) = snd (get_plan r now s)"
  by (cases "get_plan r now s") (auto simp: selectSteps_def seqM_def throwM_def returnM_def split: sum.split)

lemma get_plan_moves: "plan_moves c x (s x) (snd (get_plan r now s) x)"
  using get_plan_cases [of r now s] by (auto simp: plan_moves_def split: option.splits if_splits)

lemma plan_step_moves: "plan_moves c r (s r) (plan_call_step canon sha c s r)"
proof (cases c)
  case (CreatePlan i)
  show ?thesis
  proof (cases "create_plan canon sha i s")
    case (Pair a s')
    then show ?thesis
      using created_plan_sound [of canon sha i s _ s'] create_plan_err [of canon sha i s _ s']
      by (cases a) (auto simp: CreatePlan plan_moves_def split: option.splits if_splits)
  qed
next
  case (MarkApproved q v now)
  show ?thesis
    using markApproved_cases [of q v now s] get_plan_moves [of c r s q now]
    by (auto simp: MarkApproved plan_moves_def split: option.splits if_splits)
qed (simp_all add: get_plan_moves selectSteps_state)

lemma sound_status [simp]: "sound_plan canon sha r (p\<lparr>pn_status := st\<rparr>) \<longleftrightarrow> sound_plan canon sha r p"
  by (simp add: sound_plan_def fingerprinted_def)

lemma plan_step_sound:
  assumes "\<And>r p. s r = Some p \<Longrightarrow> sound_plan canon sha r p" and "plan_call_step canon sha c s r = Some q"
  shows "sound_plan canon sha r q"
proof (cases c)
  case (CreatePlan i)
  show ?thesis
  proof (cases "create_plan canon sha i s")
    case (Pair a s')
    show ?thesis
    proof (cases a)
      case (Inl e)
      with Pair create_plan_err [of canon sha i s e s'] assms CreatePlan show ?thesis by simp
    next
      case (Inr p)
      with Pair have run: "create_plan canon sha i s = (Inr p, s')" by simp
      from created_plan_sound(1,2) [OF run] assms CreatePlan run show ?thesis
        by (cases "r = cp_requestId i") auto
    qed
  qed
next
  case (GetPlan x now)
  with assms get_plan_cases [of x now s] show ?thesis by (auto split: if_splits)
next
  case (MarkApproved x v now)
  with assms get_plan_cases [of x now s] markApproved_cases [of x v now s] show ?thesis
    by (auto split: if_splits)
next
  case (SelectSteps x ids now)
  with assms get_plan_cases [of x now s] show ?thesis by (auto simp: selectSteps_state split: if_splits)
qed

lemma plan_run_sound:
  "(\<And>r p. s r = Some p \<Longrightarrow> sound_plan canon sha r p) \<Longrightarrow> plan_run canon sha cs s r = Some q \<Longrightarrow>
   sound_plan canon sha r q"
proof (induction cs arbitrary: s)
  case (Cons c cs)
  show ?case
    by (rule Cons.IH [of "plan_call_step canon sha c s"])
      (use Cons.prems plan_step_sound [of s canon sha c] in auto)
qed simp

lemma plan_run_forward:
  "s r = Some p \<Longrightarrow> \<exists>q. plan_run canon sha ds s r = Some q \<and>
     (pn_version p < pn_version q \<or> q = p\<lparr>pn_status := pn_status q\<rparr>)"
proof (induction ds arbitrary: s p)
  case (Cons c ds)
  from plan_step_moves [of c r s canon sha] Cons.prems obtain m where
    m: "plan_call_step canon sha c s r = Some m" "pn_version p < pn_version m \<or> m = p\<lparr>pn_status := pn_status m\<rparr>"
    by (auto simp: plan_moves_def split: option.splits)
  from Cons.IH [of "plan_call_step canon sha c s" m] m(1) obtain q where q: "plan_run canon sha (c # ds) s r = Some q"
    "pn_version m < pn_version q \<or> q = m\<lparr>pn_status := pn_status q\<rparr>" by auto
  have same: "pn_version (x\<lparr>pn_status := st\<rparr>) = pn_version x" for x :: plan_projection and st by simp
  have "pn_version p < pn_version q \<or> q = p\<lparr>pn_status := pn_status q\<rparr>"
  proof (cases "m = p\<lparr>pn_status := pn_status m\<rparr>")
    case True
    have "pn_version m = pn_version p" by (subst True) simp
    moreover have "m\<lparr>pn_status := x\<rparr> = p\<lparr>pn_status := x\<rparr>" for x by (subst True) simp
    ultimately show ?thesis using q(2) by metis
  next
    case False
    with m(2) q(2) show ?thesis by (metis same less_trans)
  qed
  with q(1) show ?case by blast
qed simp

lemma plan_run_approved:
  "plan_run canon sha cs Map.empty r = Some q \<Longrightarrow> pn_status q = PlanApproved \<Longrightarrow>
   \<exists>now. MarkApproved r (pn_version q) now \<in> set cs"
proof (induction cs arbitrary: q rule: rev_induct)
  case (snoc c cs)
  let ?s = "plan_run canon sha cs Map.empty"
  from plan_step_moves [of c r ?s canon sha] snoc.prems
  have "(\<exists>p. ?s r = Some p \<and> pn_version p = pn_version q \<and> pn_status p = PlanApproved) \<or>
      (\<exists>now. c = MarkApproved r (pn_version q) now)"
    by (auto simp: plan_moves_def split: option.splits)
  then show ?case
  proof
    assume "\<exists>p. ?s r = Some p \<and> pn_version p = pn_version q \<and> pn_status p = PlanApproved"
    with snoc.IH show ?thesis by fastforce
  qed auto
qed simp

subsection \<open>Sequences of calls to the approval service\<close>

datatype approval_call = Approve bytes approve_input | ClearApproval string

fun approval_step ::
  "(json \<Rightarrow> string option) \<Rightarrow> (bytes \<Rightarrow> bytes) \<Rightarrow> approval_call \<Rightarrow> approvals \<Rightarrow> approvals" where
  "approval_step canon sha (Approve random i) s = snd (approve canon sha random i s)"
| "approval_step canon sha (ClearApproval r) s = snd (clear_approval r s)"

definition approval_run ::
  "(json \<Rightarrow> string option) \<Rightarrow> (bytes \<Rightarrow> bytes) \<Rightarrow> approval_call list \<Rightarrow> approvals" where
  "approval_run canon sha cs = foldl (\<lambda>s c. approval_step canon sha c s) Map.empty cs"

lemma approve_cases:
  "approval_step canon sha (Approve random i) s = s \<or>
   ip_requesterActorId i \<noteq> ip_approverActorId i \<and> pn_status (ip_plan i) \<noteq> PlanExpiredStatus \<and>
   (\<exists>h. approval_step canon sha (Approve random i) s = s(ip_requestId i \<mapsto> evidence_of random i h))"
  by (auto simp: approve_def throwM_def Let_def split: option.splits)

lemma approval_origin:
  "approval_run canon sha cs r = Some a \<Longrightarrow> \<exists>before random i h after. cs = before @ Approve random i # after \<and>
     ClearApproval r \<notin> set after \<and> ip_requestId i = r \<and> ip_requesterActorId i \<noteq> ip_approverActorId i \<and>
     pn_status (ip_plan i) \<noteq> PlanExpiredStatus \<and> a = evidence_of random i h"
proof (induction cs rule: rev_induct)
  case (snoc c cs)
  let ?s = "approval_run canon sha cs"
  have run: "approval_run canon sha (cs @ [c]) = approval_step canon sha c ?s" by (simp add: approval_run_def)
  have kept: ?case if "?s r = Some a" and "c \<noteq> ClearApproval r"
  proof -
    from snoc.IH [OF that(1)] obtain before random i h after where o: "cs = before @ Approve random i # after"
      "ClearApproval r \<notin> set after" "ip_requestId i = r" "ip_requesterActorId i \<noteq> ip_approverActorId i"
      "pn_status (ip_plan i) \<noteq> PlanExpiredStatus" "a = evidence_of random i h" by blast
    show ?thesis
      by (rule exI [of _ before], rule exI [of _ random], rule exI [of _ i], rule exI [of _ h],
          rule exI [of _ "after @ [c]"]) (use o that(2) in auto)
  qed
  show ?case
  proof (cases c)
    case (Approve random i)
    from approve_cases [of canon sha random i ?s] show ?thesis
    proof
      assume "approval_step canon sha (Approve random i) ?s = ?s"
      with run snoc.prems Approve have "?s r = Some a" by simp
      then show ?thesis using Approve by (intro kept) auto
    next
      assume new: "ip_requesterActorId i \<noteq> ip_approverActorId i \<and> pn_status (ip_plan i) \<noteq> PlanExpiredStatus \<and>
        (\<exists>h. approval_step canon sha (Approve random i) ?s = ?s(ip_requestId i \<mapsto> evidence_of random i h))"
      then obtain h where h: "approval_step canon sha (Approve random i) ?s = ?s(ip_requestId i \<mapsto> evidence_of random i h)"
        by blast
      show ?thesis
      proof (cases "ip_requestId i = r")
        case True
        with h run snoc.prems Approve have "a = evidence_of random i h" by simp
        with True new Approve show ?thesis
          by (intro exI [of _ cs] exI [of _ random] exI [of _ i] exI [of _ h] exI [of _ "[]"]) simp
      next
        case False
        with h run snoc.prems Approve have "?s r = Some a" by simp
        then show ?thesis using Approve by (intro kept) auto
      qed
    qed
  next
    case (ClearApproval q)
    with run snoc.prems have "?s r = Some a" "q \<noteq> r" by (auto simp: clear_approval_def split: if_splits)
    then show ?thesis using ClearApproval by (intro kept) auto
  qed
qed (simp add: approval_run_def)

lemma step_json_inj: "step_json a = step_json b \<Longrightarrow> a = b"
proof -
  have acts: "action_value x = action_value y \<Longrightarrow> x = y" for x y by (cases x; cases y) simp_all
  have risks: "risk_value x = risk_value y \<Longrightarrow> x = y" for x y by (cases x; cases y) simp_all
  have strs: "map JStr xs = map JStr ys \<Longrightarrow> xs = ys" for xs ys
    by (simp add: inj_map_eq_map inj_def)
  assume "step_json a = step_json b"
  then show "a = b" by (cases a; cases b) (auto simp: step_json_def dest: acts risks strs)
qed

lemma normalized_plan_inj: "normalized_plan c ss = normalized_plan d ts \<longleftrightarrow> c = d \<and> ss = ts"
  using step_json_inj by (auto simp: normalized_plan_def inj_map_eq_map inj_def)

text \<open>Two plans with one fingerprint are the same work, unless the digest or the canonicaliser collides.\<close>

definition fingerprint_collision ::
  "(json \<Rightarrow> string option) \<Rightarrow> (bytes \<Rightarrow> bytes) \<Rightarrow> json \<Rightarrow> json \<Rightarrow> bool" where
  "fingerprint_collision canon sha x y \<longleftrightarrow> x \<noteq> y \<and> canon x \<noteq> None \<and> canon y \<noteq> None \<and>
     (canon x = canon y \<or> (\<exists>s t. canon x = Some s \<and> canon y = Some t \<and> utf8 s \<noteq> utf8 t \<and> sha (utf8 s) = sha (utf8 t)))"

lemma same_fingerprint:
  assumes "fingerprinted canon sha p" "fingerprinted canon sha q" "pn_fingerprint p = pn_fingerprint q"
  shows "pn_connectorConfigurationFingerprint p = pn_connectorConfigurationFingerprint q \<and> pn_steps p = pn_steps q \<or>
    fingerprint_collision canon sha (normalized_plan (pn_connectorConfigurationFingerprint p) (pn_steps p))
      (normalized_plan (pn_connectorConfigurationFingerprint q) (pn_steps q))"
proof -
  let ?x = "normalized_plan (pn_connectorConfigurationFingerprint p) (pn_steps p)"
  let ?y = "normalized_plan (pn_connectorConfigurationFingerprint q) (pn_steps q)"
  from assms obtain s t where st: "canon ?x = Some s" "canon ?y = Some t"
    and fp: "''sha256:'' @ hex_encode (sha (utf8 s)) = pn_fingerprint p"
      "''sha256:'' @ hex_encode (sha (utf8 t)) = pn_fingerprint q"
    by (auto simp: fingerprinted_def planFingerprint_def split: option.splits)
  have "''sha256:'' @ hex_encode (sha (utf8 s)) = ''sha256:'' @ hex_encode (sha (utf8 t))"
    using fp assms(3) by (simp only:)
  then have "sha (utf8 s) = sha (utf8 t)" by (simp add: hex_encode_inj)
  then show ?thesis using st by (auto simp: fingerprint_collision_def normalized_plan_inj utf8_inj)
qed

subsection \<open>Properties\<close>

text \<open>C16. Whatever sequence of calls the plan service gets, each plan it holds is valid work with its own
fingerprint; it is approved only by a call that named its version; and it is replaced only by a plan of a
later version, never altered but in its status.\<close>

theorem plans_only_move_forward:
  assumes "plan_run canon sha cs Map.empty r = Some p"
  shows "sound_plan canon sha r p \<and>
    (pn_status p = PlanApproved \<longrightarrow> (\<exists>now. MarkApproved r (pn_version p) now \<in> set cs)) \<and>
    (\<exists>q. plan_run canon sha (cs @ ds) Map.empty r = Some q \<and>
       (pn_version p < pn_version q \<or> q = p\<lparr>pn_status := pn_status q\<rparr>))"
  using plan_run_sound [OF _ assms] plan_run_approved [OF assms]
    plan_run_forward [of "plan_run canon sha cs Map.empty" r p] assms by auto

text \<open>C17. An approval that is current for a plan was given for that request at that version, by somebody other
than the requester, for a plan that was not expired and has the same id, version and fingerprint, and has
not been withdrawn since; if both plans are the service's, they are the same steps or a collision.\<close>

theorem current_approval_covers_plan:
  assumes "assertCurrent r v plan (approval_run canon sha cs) = (Inr a, s)"
  shows "\<exists>before random i after. cs = before @ Approve random i # after \<and> ClearApproval r \<notin> set after \<and>
    ip_requestId i = r \<and> ip_requestVersion i = v \<and> ip_requesterActorId i \<noteq> ip_approverActorId i \<and>
    ap_decidedBy a = ip_approverActorId i \<and> pn_status (ip_plan i) \<noteq> PlanExpiredStatus \<and>
    pn_id (ip_plan i) = pn_id plan \<and> pn_version (ip_plan i) = pn_version plan \<and>
    pn_fingerprint (ip_plan i) = pn_fingerprint plan \<and>
    (fingerprinted canon sha (ip_plan i) \<and> fingerprinted canon sha plan \<longrightarrow>
       pn_steps (ip_plan i) = pn_steps plan \<or>
       fingerprint_collision canon sha
         (normalized_plan (pn_connectorConfigurationFingerprint (ip_plan i)) (pn_steps (ip_plan i)))
         (normalized_plan (pn_connectorConfigurationFingerprint plan) (pn_steps plan)))"
proof -
  from assms have a: "approval_run canon sha cs r = Some a" "ap_requestVersion a = v" "ap_planId a = pn_id plan"
    "ap_planVersion a = pn_version plan" "ap_planFingerprint a = pn_fingerprint plan"
    by (auto simp: assertCurrent_def get_approval_def split: option.splits if_splits)
  from approval_origin [OF a(1)] obtain before random i h after where o: "cs = before @ Approve random i # after"
    "ClearApproval r \<notin> set after" "ip_requestId i = r" "ip_requesterActorId i \<noteq> ip_approverActorId i"
    "pn_status (ip_plan i) \<noteq> PlanExpiredStatus" "a = evidence_of random i h" by blast
  have fields: "ip_requestVersion i = v" "pn_id (ip_plan i) = pn_id plan" "pn_version (ip_plan i) = pn_version plan"
    "pn_fingerprint (ip_plan i) = pn_fingerprint plan" "ap_decidedBy a = ip_approverActorId i"
    using a o(6) by (auto simp: evidence_of_def)
  show ?thesis
    by (rule exI [of _ before], rule exI [of _ random], rule exI [of _ i], rule exI [of _ after])
      (use o fields same_fingerprint [of canon sha "ip_plan i" plan] in auto)
qed

definition example_step :: plan_step where
  "example_step = \<lparr>sp_id = ''s1'', sp_connector = ''c'', sp_resource = ''users'', sp_action = EraseAction,
     sp_estimatedCount = 1, sp_risk = HighRisk, sp_dependencies = []\<rparr>"

definition example_plan_input :: create_plan_input where
  "example_plan_input = \<lparr>cp_id = ''plan_1'', cp_requestId = ''req_1'', cp_version = 1,
     cp_connectorConfigurationFingerprint = ''cf'', cp_steps = [example_step], cp_requiresApproval = None,
     cp_now = 5000, cp_ttlMs = None\<rparr>"

definition example_fingerprint :: string where
  "example_fingerprint = ''sha256:'' @ hex_encode [1]"

abbreviation example_canon :: "json \<Rightarrow> string option" where
  "example_canon \<equiv> (\<lambda>_. Some [])"

abbreviation example_sha :: "bytes \<Rightarrow> bytes" where
  "example_sha \<equiv> (\<lambda>_. [1])"

abbreviation example_plan :: plan_projection where
  "example_plan \<equiv> new_plan example_plan_input example_fingerprint"

lemma example_planned:
  "plan_run example_canon example_sha [CreatePlan example_plan_input] Map.empty ''req_1'' = Some example_plan"
  by (simp add: create_plan_def planFingerprint_def validateSteps_def plan_ttl_def example_fingerprint_def)
    (simp add: example_plan_input_def example_step_def)

theorem plans_only_move_forward_witness:
  "\<exists>q. plan_run example_canon example_sha ([CreatePlan example_plan_input] @ [MarkApproved ''req_1'' 1 6000])
     Map.empty ''req_1'' = Some q"
  using plans_only_move_forward [OF example_planned, of "[MarkApproved ''req_1'' 1 6000]"] by blast

definition example_approval :: approve_input where
  "example_approval = \<lparr>ip_requestId = ''req_1'', ip_requestVersion = 3, ip_plan = example_plan,
     ip_requesterActorId = ''usr_1'', ip_approverActorId = ''usr_2'', ip_challengeId = None, ip_now = 6000\<rparr>"

theorem current_approval_covers_plan_witness:
  "\<exists>a s before random i after. assertCurrent ''req_1'' 3 example_plan
      (approval_run example_canon example_sha [Approve [] example_approval]) = (Inr a, s) \<and>
    [Approve [] example_approval] = before @ Approve random i # after \<and> ap_decidedBy a = ip_approverActorId i"
proof -
  let ?a = "evidence_of [] example_approval (''sha256:'' @ hex_encode [1])"
  have "approval_run example_canon example_sha [Approve [] example_approval] ''req_1'' = Some ?a"
    by (simp add: approval_run_def approve_def Let_def)
      (simp add: example_approval_def example_plan_input_def new_plan_def)
  then have "assertCurrent ''req_1'' 3 example_plan
      (approval_run example_canon example_sha [Approve [] example_approval]) =
      (Inr ?a, approval_run example_canon example_sha [Approve [] example_approval])"
    by (simp add: assertCurrent_def get_approval_def evidence_of_def example_approval_def)
  with current_approval_covers_plan [OF this] show ?thesis by blast
qed

end
