(* ===== verification/Identity.thy ===== *)
theory Identity
  imports Agent_Messages
begin

text \<open>
  How a data subject is identified and looks at the request: the signed assertions of
  \<^verbatim>\<open>modules/identity-verification/assertion-verifier.ts\<close>, the magic links of
  \<^verbatim>\<open>magic-link-service.ts\<close> and the portal's capability tokens of \<^verbatim>\<open>modules/privacy-portal/routes.ts\<close>.
  Ed25519, SHA-256, HMAC, the canonicaliser, \<open>JSON.parse\<close>, \<open>URL\<close>, clocks, random bytes, the key
  resolver, the replay store and the magic-link adapter are arguments.
\<close>

subsection \<open>Assertions\<close>

definition ASSERTION_CONTEXT :: string where
  "ASSERTION_CONTEXT = ''forgetops.subject-assertion.v1''"

record subject_assertion =
  sx_issuer :: string
  sx_keyId :: string
  sx_assertionId :: string
  sx_projectId :: string
  sx_environmentId :: string
  sx_requestType :: string
  sx_challengeId :: string
  sx_subjectEnvelope :: string
  sx_issuedAt :: string
  sx_expiresAt :: string
  sx_nonce :: string

definition assertion_keys :: "string list" where
  "assertion_keys = [''type'', ''version'', ''issuer'', ''audience'', ''keyId'', ''assertionId'',
     ''projectId'', ''environmentId'', ''requestType'', ''challengeId'', ''subjectEnvelope'',
     ''authenticationMethod'', ''issuedAt'', ''expiresAt'', ''nonce'']"

definition at_least :: "nat \<Rightarrow> string schema" where
  "at_least n = zcheck (\<lambda>s. n \<le> length s)"

definition literal_text :: "string \<Rightarrow> string schema" where
  "literal_text t = zcheck (\<lambda>s. s = t)"

definition SubjectAssertionSchema :: "subject_assertion schema" where
  "SubjectAssertionSchema j = Option.bind (zobject assertion_keys j) (\<lambda>ms.
     Option.bind (zfield ms ''type'' (literal_text ''forgetops.subject-assertion'')) (\<lambda>_.
     Option.bind (if map_of ms ''version'' = Some (JNum 1) then Some () else None) (\<lambda>_.
     Option.bind (zfield ms ''issuer'' (at_least 1)) (\<lambda>issuer.
     Option.bind (zfield ms ''audience'' (literal_text ''forgetops-privacy-portal'')) (\<lambda>_.
     Option.bind (zfield ms ''keyId'' (at_least 1)) (\<lambda>key.
     Option.bind (zfield ms ''assertionId'' (at_least 16)) (\<lambda>assertion.
     Option.bind (zfield ms ''projectId'' (at_least 1)) (\<lambda>project.
     Option.bind (zfield ms ''environmentId'' (at_least 1)) (\<lambda>environment.
     Option.bind (zfield ms ''requestType'' (zcheck (\<lambda>s. s \<in> {''delete'', ''export''}))) (\<lambda>type.
     Option.bind (zfield ms ''challengeId'' (at_least 16)) (\<lambda>challenge.
     Option.bind (zfield ms ''subjectEnvelope'' (at_least 32)) (\<lambda>envelope.
     Option.bind (zfield ms ''authenticationMethod'' (literal_text ''clerk_reauthentication'')) (\<lambda>_.
     Option.bind (zfield ms ''issuedAt'' (zcheck datetime_text)) (\<lambda>issued.
     Option.bind (zfield ms ''expiresAt'' (zcheck datetime_text)) (\<lambda>expires.
     Option.bind (zfield ms ''nonce'' (at_least 16)) (\<lambda>nonce.
       Some \<lparr>sx_issuer = issuer, sx_keyId = key, sx_assertionId = assertion, sx_projectId = project,
         sx_environmentId = environment, sx_requestType = type, sx_challengeId = challenge,
         sx_subjectEnvelope = envelope, sx_issuedAt = issued, sx_expiresAt = expires,
         sx_nonce = nonce\<rparr>))))))))))))))))"

definition assertion_json :: "subject_assertion \<Rightarrow> json" where
  "assertion_json c = JObj
     [(''type'', JStr ''forgetops.subject-assertion''), (''version'', JNum 1), (''issuer'', JStr (sx_issuer c)),
      (''audience'', JStr ''forgetops-privacy-portal''), (''keyId'', JStr (sx_keyId c)),
      (''assertionId'', JStr (sx_assertionId c)), (''projectId'', JStr (sx_projectId c)),
      (''environmentId'', JStr (sx_environmentId c)), (''requestType'', JStr (sx_requestType c)),
      (''challengeId'', JStr (sx_challengeId c)), (''subjectEnvelope'', JStr (sx_subjectEnvelope c)),
      (''authenticationMethod'', JStr ''clerk_reauthentication''), (''issuedAt'', JStr (sx_issuedAt c)),
      (''expiresAt'', JStr (sx_expiresAt c)), (''nonce'', JStr (sx_nonce c))]"

datatype assertion_error =
    AssertionInvalid
  | AssertionSignatureInvalid
  | AssertionReplayed
  | AssertionExpired
  | AssertionContextMismatch

record expected_assertion =
  xp_projectId :: string
  xp_environmentId :: string
  xp_requestType :: string
  xp_challengeId :: string
  xp_subjectEnvelope :: string

text \<open>What \<open>verifyAssertion\<close> signs over, and its test: the two texts decode canonically, to 32 and 64 bytes.\<close>

definition assertion_material :: "canonicalizer \<Rightarrow> subject_assertion \<Rightarrow> bytes option" where
  "assertion_material canonicalize c =
     map_option (\<lambda>s. utf8 ASSERTION_CONTEXT @ [0] @ utf8 s) (canonicalize (assertion_json c))"

definition verifyAssertion ::
  "ed25519 \<Rightarrow> canonicalizer \<Rightarrow> subject_assertion \<Rightarrow> string \<Rightarrow> string \<Rightarrow> bool" where
  "verifyAssertion ed canonicalize c signature publicKey =
     (case assertion_material canonicalize c of
        None \<Rightarrow> False
      | Some material \<Rightarrow>
          (let keyBytes = buffer_base64url publicKey; signatureBytes = buffer_base64url signature in
           if length keyBytes \<noteq> 32 \<or> length signatureBytes \<noteq> 64 \<or>
              b64_encode keyBytes \<noteq> publicKey \<or> b64_encode signatureBytes \<noteq> signature
           then False else ed keyBytes signatureBytes material = Some True))"

definition assertion_window_ok :: "subject_assertion \<Rightarrow> int \<Rightarrow> bool" where
  "assertion_window_ok c now \<longleftrightarrow>
     (case (date_parse (sx_issuedAt c), date_parse (sx_expiresAt c)) of
        (Some issued, Some expires) \<Rightarrow>
          \<not> (expires \<le> issued \<or> 5 * 60 * 1000 < expires - issued \<or> now < issued \<or> expires \<le> now)
      | _ \<Rightarrow> False)"

definition assertion_matches :: "expected_assertion \<Rightarrow> subject_assertion \<Rightarrow> bool" where
  "assertion_matches x c \<longleftrightarrow> sx_projectId c = xp_projectId x \<and> sx_environmentId c = xp_environmentId x \<and>
     sx_requestType c = xp_requestType x \<and> sx_challengeId c = xp_challengeId x \<and>
     sx_subjectEnvelope c = xp_subjectEnvelope x"

text \<open>\<open>resolve project keyId\<close> is the issuer and its public key; \<open>consume id nonce expiry\<close> an act of the replay store.\<close>

record 's assertion_verifier =
  av_ed25519 :: ed25519
  av_canonicalize :: canonicalizer
  av_resolve :: "string \<Rightarrow> string \<Rightarrow> (string \<times> string) option"
  av_consume :: "string \<Rightarrow> string \<Rightarrow> string \<Rightarrow> 's \<Rightarrow> bool \<times> 's"

definition signature_of_issuer :: "'s assertion_verifier \<Rightarrow> subject_assertion \<Rightarrow> string \<Rightarrow> bool" where
  "signature_of_issuer av c signature \<longleftrightarrow>
     (case av_resolve av (sx_projectId c) (sx_keyId c) of
        None \<Rightarrow> False
      | Some (issuer, publicKey) \<Rightarrow>
          issuer = sx_issuer c \<and> verifyAssertion (av_ed25519 av) (av_canonicalize av) c signature publicKey)"

definition verify_assertion ::
  "'s assertion_verifier \<Rightarrow> int \<Rightarrow> json \<Rightarrow> string \<Rightarrow> expected_assertion \<Rightarrow>
   (assertion_error, subject_assertion, 's) act" where
  "verify_assertion av now claims signature expected s =
     (case SubjectAssertionSchema claims of
        None \<Rightarrow> throwM AssertionInvalid s
      | Some c \<Rightarrow>
          if \<not> assertion_window_ok c now then throwM AssertionExpired s
          else if \<not> assertion_matches expected c then throwM AssertionContextMismatch s
          else if \<not> signature_of_issuer av c signature then throwM AssertionSignatureInvalid s
          else (case av_consume av (sx_assertionId c) (sx_nonce c) (sx_expiresAt c) s of
                  (ok, s') \<Rightarrow> if ok then returnM c s' else throwM AssertionReplayed s'))"

subsection \<open>Magic links\<close>

record magic_link_challenge =
  mc_id :: string
  mc_projectId :: string
  mc_expiresAt :: string
  mc_consumedAt :: "string option"
  mc_tokenHash :: string

text \<open>The codes of \<open>MagicLinkError\<close>, and what \<open>URL\<close> and the adapter throw.\<close>

datatype magic_link_error =
    MagicLinkInvalid
  | MagicLinkExpired
  | MagicLinkReplayed
  | UrlThrows
  | AdapterThrows

type_synonym challenges = "string \<rightharpoonup> magic_link_challenge"

definition digest :: "(bytes \<Rightarrow> bytes) \<Rightarrow> string \<Rightarrow> string" where
  "digest sha value = hex_encode (sha (utf8 value))"

record created_link =
  cl_challengeId :: string
  cl_token :: string
  cl_challengeUrl :: string

text \<open>
  \<open>url path base\<close> is \<open>new URL(path, base).toString()\<close>, \<open>None\<close> where it throws; \<open>send\<close> is whether the adapter
  sends the link. A link that could not be sent stays stored.
\<close>

definition create_link ::
  "(bytes \<Rightarrow> bytes) \<Rightarrow> (string \<Rightarrow> string \<Rightarrow> string option) \<Rightarrow> (string \<Rightarrow> string \<Rightarrow> bool) \<Rightarrow> bytes \<Rightarrow> bytes \<Rightarrow> int \<Rightarrow>
   string \<Rightarrow> string \<Rightarrow> int option \<Rightarrow> (magic_link_error, created_link, challenges) act" where
  "create_link sha url send r16 r32 now projectId portalBaseUrl ttl s =
     (let ttlMs = (case ttl of None \<Rightarrow> 15 * 60 * 1000 | Some t \<Rightarrow> t);
          challengeId = hex_encode r16; token = b64_encode r32 in
      if ttlMs \<le> 0 \<or> 30 * 60 * 1000 < ttlMs then throwM MagicLinkInvalid s
      else case url (''/portal/verify?challenge='' @ challengeId @ ''&token='' @ token) portalBaseUrl of
             None \<Rightarrow> throwM UrlThrows s
           | Some challengeUrl \<Rightarrow>
               (let s' = s(challengeId \<mapsto> \<lparr>mc_id = challengeId, mc_projectId = projectId,
                      mc_expiresAt = toISOString (now + ttlMs), mc_consumedAt = None,
                      mc_tokenHash = digest sha token\<rparr>) in
                if send challengeId challengeUrl
                then returnM \<lparr>cl_challengeId = challengeId, cl_token = token, cl_challengeUrl = challengeUrl\<rparr> s'
                else throwM AdapterThrows s'))"

text \<open>
  \<open>consume\<close> awaits the adapter between its checks and the note that the link is used, so other calls
  may run there: \<open>begin_consume\<close> is the part before, \<open>finish_consume\<close> the one after the adapter has said
  whether the token is good, or has thrown (\<open>None\<close>).
\<close>

definition truthy_text :: "string option \<Rightarrow> bool" where
  "truthy_text t \<longleftrightarrow> t \<noteq> None \<and> t \<noteq> Some []"

definition begin_consume ::
  "(bytes \<Rightarrow> bytes) \<Rightarrow> int \<Rightarrow> string \<Rightarrow> string \<Rightarrow> (magic_link_error, magic_link_challenge, challenges) act" where
  "begin_consume sha now challengeId token s =
     (case s challengeId of
        None \<Rightarrow> throwM MagicLinkInvalid s
      | Some c \<Rightarrow>
          if mc_tokenHash c \<noteq> digest sha token then throwM MagicLinkInvalid s
          else if truthy_text (mc_consumedAt c) then throwM MagicLinkReplayed s
          else if (case date_parse (mc_expiresAt c) of None \<Rightarrow> False | Some e \<Rightarrow> e \<le> now)
          then throwM MagicLinkExpired s
          else returnM c s)"

definition finish_consume ::
  "magic_link_challenge \<Rightarrow> bool option \<Rightarrow> int \<Rightarrow> (magic_link_error, string, challenges) act" where
  "finish_consume c good now s =
     (if good = None then throwM AdapterThrows s
      else if good = Some False then throwM MagicLinkInvalid s
      else (Inr (mc_projectId c), s(mc_id c \<mapsto> c\<lparr>mc_consumedAt := Some (toISOString now)\<rparr>)))"

text \<open>A call nobody else gets in between of; \<open>good\<close> is what the adapter answers this call.\<close>

definition consume_link ::
  "(bytes \<Rightarrow> bytes) \<Rightarrow> bool option \<Rightarrow> int \<Rightarrow> int \<Rightarrow> string \<Rightarrow> string \<Rightarrow>
   (magic_link_error, string, challenges) act" where
  "consume_link sha good now0 now1 challengeId token =
     seqM (begin_consume sha now0 challengeId token) (\<lambda>c. finish_consume c good now1)"

subsection \<open>Portal capabilities\<close>

record portal_request_view =
  pv_id :: string
  pv_projectId :: string
  pv_status :: string
  pv_type :: string
  pv_deadlineAt :: string

record portal_capability_input =
  pc_requestId :: string
  pc_projectId :: string
  pc_portalSessionId :: string
  pc_permissions :: "string list"
  pc_ttlMs :: "int option"

definition CAPABILITY_CONTEXT :: string where
  "CAPABILITY_CONTEXT = ''forgetops.portal-capability.v1''"

text \<open>The service: its secret, at least 32 bytes, with HMAC, the canonicaliser and the parser of bytes.\<close>

record portal_service =
  ps_secret :: bytes
  ps_hmac :: "bytes \<Rightarrow> bytes \<Rightarrow> bytes"
  ps_canonicalize :: canonicalizer
  ps_parse :: "bytes \<Rightarrow> json option"

definition new_portal_service ::
  "(bytes \<Rightarrow> bytes \<Rightarrow> bytes) \<Rightarrow> canonicalizer \<Rightarrow> (bytes \<Rightarrow> json option) \<Rightarrow> bytes \<Rightarrow> portal_service option" where
  "new_portal_service hmac canonicalize parse secret =
     (if length secret < 32 then None
      else Some \<lparr>ps_secret = secret, ps_hmac = hmac, ps_canonicalize = canonicalize, ps_parse = parse\<rparr>)"

text \<open>\<open>[...new Set(xs)]\<close> keeps the first of equal elements.\<close>

definition unique :: "string list \<Rightarrow> string list" where
  "unique xs = rev (remdups (rev xs))"

definition capability_json :: "bytes \<Rightarrow> int \<Rightarrow> int \<Rightarrow> portal_capability_input \<Rightarrow> json" where
  "capability_json r16 now ttlMs i = JObj
     [(''type'', JStr ''forgetops.portal-capability''), (''version'', JNum 1),
      (''audience'', JStr ''forgetops-privacy-portal''), (''requestId'', JStr (pc_requestId i)),
      (''projectId'', JStr (pc_projectId i)), (''portalSessionId'', JStr (pc_portalSessionId i)),
      (''tokenId'', JStr (hex_encode r16)), (''permissions'', JArr (map JStr (unique (pc_permissions i)))),
      (''issuedAt'', JStr (toISOString now)), (''expiresAt'', JStr (toISOString (now + ttlMs)))]"

definition capability_mac :: "portal_service \<Rightarrow> string \<Rightarrow> bytes" where
  "capability_mac ps payload = ps_hmac ps (ps_secret ps) (utf8 CAPABILITY_CONTEXT @ [0] @ utf8 payload)"

text \<open>\<open>None\<close> where \<open>issue\<close> throws.\<close>

definition issue_capability :: "portal_service \<Rightarrow> bytes \<Rightarrow> int \<Rightarrow> portal_capability_input \<Rightarrow> string option" where
  "issue_capability ps r16 now i =
     (let ttlMs = (case pc_ttlMs i of None \<Rightarrow> 60 * 60 * 1000 | Some t \<Rightarrow> t) in
      if ttlMs \<le> 0 \<or> 60 * 60 * 1000 < ttlMs then None
      else map_option (\<lambda>claims. let payload = b64_encode (utf8 claims) in
             payload @ ''.'' @ b64_encode (capability_mac ps payload))
           (ps_canonicalize ps (capability_json r16 now ttlMs i)))"

text \<open>A member of an object; reading it of \<open>null\<close> throws, of another value there is none.\<close>

fun member :: "json \<Rightarrow> string \<Rightarrow> json option" where
  "member (JObj ms) k = map_of ms k"
| "member _ k = None"

definition expired_claim :: "json option \<Rightarrow> int \<Rightarrow> bool" where
  "expired_claim e now \<longleftrightarrow>
     (case e of Some (JStr s) \<Rightarrow> (case date_parse s of None \<Rightarrow> False | Some t \<Rightarrow> t \<le> now) | _ \<Rightarrow> False)"

definition part :: "string list \<Rightarrow> nat \<Rightarrow> string" where
  "part ws n = (if n < length ws then ws ! n else [])"

definition verify_capability :: "portal_service \<Rightarrow> int \<Rightarrow> string \<Rightarrow> json option" where
  "verify_capability ps now token =
     (let ws = split_at (CHR ''.'') token; payload = part ws 0; signature = part ws 1; extra = part ws 2 in
      if payload = [] \<or> signature = [] \<or> extra \<noteq> [] then None
      else if buffer_base64url signature \<noteq> capability_mac ps payload then None
      else (case ps_parse ps (buffer_base64url payload) of
              None \<Rightarrow> None
            | Some claims \<Rightarrow>
                if claims = JNull \<or> member claims ''type'' \<noteq> Some (JStr ''forgetops.portal-capability'') \<or>
                   member claims ''version'' \<noteq> Some (JNum 1) \<or>
                   member claims ''audience'' \<noteq> Some (JStr ''forgetops-privacy-portal'') \<or>
                   expired_claim (member claims ''expiresAt'') now
                then None else Some claims))"

subsection \<open>The portal route\<close>

text \<open>\<open>replace(/^Bearer\s+/i, "")\<close>.\<close>

definition strip_bearer :: "string \<Rightarrow> string" where
  "strip_bearer h =
     (if map ascii_lower (take 6 h) = ''bearer'' \<and> drop 6 h \<noteq> [] \<and> white (hd (drop 6 h))
      then dropWhile white (drop 6 h) else h)"

datatype portal_reply =
    PortalUnauthenticated
  | PortalNotFound
  | PortalRequest portal_request_view
  | PortalThrows

text \<open>\<open>claims.permissions.includes(p)\<close>; it throws where there is no list or text of permissions.\<close>

fun includes_permission :: "json option \<Rightarrow> string \<Rightarrow> bool option" where
  "includes_permission (Some (JArr xs)) p = Some (JStr p \<in> set xs)"
| "includes_permission (Some (JStr s)) p = Some (\<exists>a b. s = a @ p @ b)"
| "includes_permission _ p = None"

definition portal_request_route ::
  "portal_service \<Rightarrow> (string \<Rightarrow> portal_request_view option) \<Rightarrow> int \<Rightarrow> string option \<Rightarrow> string \<Rightarrow> portal_reply" where
  "portal_request_route ps findRequest now authorization requestId =
     (case map_option strip_bearer authorization of
        None \<Rightarrow> PortalUnauthenticated
      | Some token \<Rightarrow>
          if token = [] then PortalUnauthenticated
          else (case verify_capability ps now token of
                  None \<Rightarrow> PortalUnauthenticated
                | Some claims \<Rightarrow>
                    if member claims ''requestId'' \<noteq> Some (JStr requestId) then PortalNotFound
                    else (case includes_permission (member claims ''permissions'') ''read_status'' of
                            None \<Rightarrow> PortalThrows
                          | Some False \<Rightarrow> PortalNotFound
                          | Some True \<Rightarrow>
                              (case findRequest requestId of
                                 None \<Rightarrow> PortalNotFound
                               | Some view \<Rightarrow>
                                   if Some (JStr (pv_projectId view)) \<noteq> member claims ''projectId''
                                   then PortalNotFound else PortalRequest view))))"

end
