(* ===== verification/Identity_Properties.thy ===== *)
theory Identity_Properties
  imports Identity Agent_Gateway_Properties
begin

text \<open>
  An assertion is accepted once, in its window and for the request it names; a magic link is used
  once when its calls do not overlap (and twice when they do); the portal shows a request only to
  the holder of a capability the service signed for it.
\<close>

subsection \<open>Assertions\<close>

definition signed_by ::
  "ed25519 \<Rightarrow> canonicalizer \<Rightarrow> subject_assertion \<Rightarrow> string \<Rightarrow> string \<Rightarrow> bool" where
  "signed_by ed canonicalize c signature publicKey \<longleftrightarrow> (\<exists>key sig material.
     publicKey = b64_encode key \<and> signature = b64_encode sig \<and> length key = 32 \<and> length sig = 64 \<and>
     assertion_material canonicalize c = Some material \<and> ed key sig material = Some True)"

lemma verifyAssertion_iff: "verifyAssertion ed canon c signature publicKey \<longleftrightarrow> signed_by ed canon c signature publicKey"
proof
  assume "verifyAssertion ed canon c signature publicKey"
  then obtain material where "assertion_material canon c = Some material" "length (buffer_base64url publicKey) = 32"
    "length (buffer_base64url signature) = 64" "b64_encode (buffer_base64url publicKey) = publicKey"
    "b64_encode (buffer_base64url signature) = signature" "ed (buffer_base64url publicKey) (buffer_base64url signature) material = Some True"
    by (auto simp: verifyAssertion_def Let_def split: option.splits if_splits)
  then show "signed_by ed canon c signature publicKey" unfolding signed_by_def by metis
qed (auto simp: verifyAssertion_def signed_by_def Let_def)

text \<open>What an accepted assertion has been checked for.\<close>

definition genuine_assertion ::
  "'s assertion_verifier \<Rightarrow> int \<Rightarrow> json \<Rightarrow> string \<Rightarrow> expected_assertion \<Rightarrow> subject_assertion \<Rightarrow> bool" where
  "genuine_assertion av now claims signature expected c \<longleftrightarrow>
     SubjectAssertionSchema claims = Some c \<and> assertion_matches expected c \<and>
     (\<exists>issued expires. date_parse (sx_issuedAt c) = Some issued \<and> date_parse (sx_expiresAt c) = Some expires \<and>
        issued \<le> now \<and> now < expires \<and> expires - issued \<le> 5 * 60 * 1000) \<and>
     (\<exists>publicKey. av_resolve av (sx_projectId c) (sx_keyId c) = Some (sx_issuer c, publicKey) \<and>
        signed_by (av_ed25519 av) (av_canonicalize av) c signature publicKey)"

lemma verify_assertion_ok:
  assumes "verify_assertion av now claims signature expected s = (Inr c, s')"
  shows "genuine_assertion av now claims signature expected c"
    and "av_consume av (sx_assertionId c) (sx_nonce c) (sx_expiresAt c) s = (True, s')"
  using assms
  by (auto simp: verify_assertion_def genuine_assertion_def assertion_window_ok_def signature_of_issuer_def
      verifyAssertion_iff split: option.splits if_splits prod.splits)

lemma verify_assertion_err:
  assumes "verify_assertion av now claims signature expected s = (Inl e, s')"
  obtains "s' = s" | i n x ok where "av_consume av i n x s = (ok, s')"
  using assms
  by (auto simp: verify_assertion_def split: option.splits if_splits prod.splits)

record assertion_call =
  vc_now :: int
  vc_claims :: json
  vc_signature :: string
  vc_expected :: expected_assertion

fun accepted_assertions :: "'s assertion_verifier \<Rightarrow> assertion_call list \<Rightarrow> 's \<Rightarrow> (assertion_call \<times> subject_assertion) list" where
  "accepted_assertions av [] s = []"
| "accepted_assertions av (v # vs) s =
     (case verify_assertion av (vc_now v) (vc_claims v) (vc_signature v) (vc_expected v) s of
        (Inl _, s') \<Rightarrow> accepted_assertions av vs s'
      | (Inr c, s') \<Rightarrow> (v, c) # accepted_assertions av vs s')"

definition assertion_identity :: "subject_assertion \<Rightarrow> string \<times> string" where
  "assertion_identity c = (sx_assertionId c, sx_nonce c)"

text \<open>The documented behaviour of a replay store: what it has accepted it remembers and refuses.\<close>

definition remembers ::
  "('s \<Rightarrow> string \<times> string \<Rightarrow> bool) \<Rightarrow> 's assertion_verifier \<Rightarrow> bool" where
  "remembers used av \<longleftrightarrow> (\<forall>i n x s ok s'. av_consume av i n x s = (ok, s') \<longrightarrow>
     (ok \<longrightarrow> \<not> used s (i, n) \<and> used s' (i, n)) \<and> (\<forall>k. used s k \<longrightarrow> used s' k))"

lemma accepted_unused:
  assumes "remembers used av"
  shows "used s k \<Longrightarrow> k \<notin> (assertion_identity \<circ> snd) ` set (accepted_assertions av vs s)"
proof (induction vs arbitrary: s)
  case (Cons v vs)
  obtain r s' where r: "verify_assertion av (vc_now v) (vc_claims v) (vc_signature v) (vc_expected v) s = (r, s')"
    by (cases "verify_assertion av (vc_now v) (vc_claims v) (vc_signature v) (vc_expected v) s")
  show ?case
  proof (cases r)
    case (Inl e)
    have "used s' k"
    proof (rule verify_assertion_err [OF r [unfolded Inl]])
      fix i n x ok
      assume "av_consume av i n x s = (ok, s')"
      with assms Cons.prems show ?thesis unfolding remembers_def by blast
    qed (use Cons.prems in simp)
    with Cons.IH [of s'] r Inl show ?thesis by simp
  next
    case (Inr c)
    note ok = verify_assertion_ok(2) [OF r [unfolded Inr]]
    with assms Cons.prems have "used s' k" "assertion_identity c \<noteq> k"
      unfolding remembers_def assertion_identity_def by blast+
    with Cons.IH [of s'] r Inr show ?thesis by auto
  qed
qed simp

lemma accepted_distinct:
  assumes "remembers used av"
  shows "distinct (map (assertion_identity \<circ> snd) (accepted_assertions av vs s))"
proof (induction vs arbitrary: s)
  case (Cons v vs)
  obtain r s' where r: "verify_assertion av (vc_now v) (vc_claims v) (vc_signature v) (vc_expected v) s = (r, s')"
    by (cases "verify_assertion av (vc_now v) (vc_claims v) (vc_signature v) (vc_expected v) s")
  show ?case
  proof (cases r)
    case (Inr c)
    note ok = verify_assertion_ok(2) [OF r [unfolded Inr]]
    with assms have "used s' (assertion_identity c)"
      unfolding remembers_def assertion_identity_def by blast
    from accepted_unused [OF assms this] Cons.IH [of s'] r Inr show ?thesis by simp
  qed (use r Cons.IH in simp)
qed simp

lemma accepted_genuine:
  "(v, c) \<in> set (accepted_assertions av vs s) \<Longrightarrow>
   v \<in> set vs \<and> genuine_assertion av (vc_now v) (vc_claims v) (vc_signature v) (vc_expected v) c"
proof (induction vs arbitrary: s)
  case (Cons w vs)
  obtain r s' where r: "verify_assertion av (vc_now w) (vc_claims w) (vc_signature w) (vc_expected w) s = (r, s')"
    by (cases "verify_assertion av (vc_now w) (vc_claims w) (vc_signature w) (vc_expected w) s")
  with Cons verify_assertion_ok(1) show ?case by (cases r) fastforce+
qed simp

subsection \<open>Magic links\<close>

datatype link_call =
    CreateLink bytes bytes int string string "int option"
  | ConsumeLink int int "bool option" string string

record link_world =
  lw_sha :: "bytes \<Rightarrow> bytes"
  lw_url :: "string \<Rightarrow> string \<Rightarrow> string option"
  lw_send :: "string \<Rightarrow> string \<Rightarrow> bool"

fun link_step :: "link_world \<Rightarrow> link_call \<Rightarrow> challenges \<Rightarrow> challenges" where
  "link_step w (CreateLink a b now p u t) s = snd (create_link (lw_sha w) (lw_url w) (lw_send w) a b now p u t s)"
| "link_step w (ConsumeLink n0 n1 good i t) s = snd (consume_link (lw_sha w) good n0 n1 i t s)"

fun consumed_now :: "link_world \<Rightarrow> link_call \<Rightarrow> challenges \<Rightarrow> (string \<times> string) list" where
  "consumed_now w (ConsumeLink n0 n1 good i t) s =
     (case fst (consume_link (lw_sha w) good n0 n1 i t s) of Inl _ \<Rightarrow> [] | Inr p \<Rightarrow> [(i, p)])"
| "consumed_now w _ s = []"

fun consumed_links :: "link_world \<Rightarrow> link_call list \<Rightarrow> challenges \<Rightarrow> (string \<times> string) list" where
  "consumed_links w [] s = []"
| "consumed_links w (c # cs) s = consumed_now w c s @ consumed_links w cs (link_step w c s)"

fun created_id :: "link_call \<Rightarrow> string list" where
  "created_id (CreateLink a b now p u t) = [hex_encode a]"
| "created_id _ = []"

definition created_ids :: "link_call list \<Rightarrow> string list" where
  "created_ids cs = concat (map created_id cs)"

text \<open>A stored link is used, or still to be used by one call.\<close>

definition used_link :: "challenges \<Rightarrow> string \<Rightarrow> bool" where
  "used_link s i \<longleftrightarrow> (\<exists>c. s i = Some c \<and> truthy_text (mc_consumedAt c))"

definition links_ok :: "challenges \<Rightarrow> bool" where
  "links_ok s \<longleftrightarrow> (\<forall>i c. s i = Some c \<longrightarrow> mc_id c = i)"

lemma begin_consume_ok [simp]:
  "begin_consume sha now i t s = (Inr c, s') \<longleftrightarrow> s i = Some c \<and> mc_tokenHash c = digest sha t \<and>
     \<not> truthy_text (mc_consumedAt c) \<and>
     \<not> (case date_parse (mc_expiresAt c) of None \<Rightarrow> False | Some e \<Rightarrow> e \<le> now) \<and> s' = s"
  by (auto simp: begin_consume_def split: option.splits)

lemma begin_consume_err: "begin_consume sha now i t s = (Inl e, s') \<Longrightarrow> s' = s"
  by (auto simp: begin_consume_def split: option.splits if_splits)

lemma finish_consume_ok [simp]:
  "finish_consume c good now s = (Inr p, s') \<longleftrightarrow> good = Some True \<and> p = mc_projectId c \<and>
     s' = s(mc_id c \<mapsto> c\<lparr>mc_consumedAt := Some (toISOString now)\<rparr>)"
  by (cases good) (auto simp: finish_consume_def)

lemma finish_consume_err: "finish_consume c good now s = (Inl e, s') \<Longrightarrow> s' = s"
  by (auto simp: finish_consume_def split: if_splits)

lemma toISOString_truthy: "truthy_text (Some (toISOString n))"
  by (simp add: truthy_text_def toISOString_def Let_def split: prod.split)

lemma consume_link_ok:
  assumes "consume_link sha good n0 n1 i t s = (Inr p, s')" and "links_ok s"
  obtains c where "s i = Some c" "mc_tokenHash c = digest sha t" "\<not> truthy_text (mc_consumedAt c)" "good = Some True"
    "\<forall>e. date_parse (mc_expiresAt c) = Some e \<longrightarrow> n0 < e" "p = mc_projectId c"
    "s' = s(i \<mapsto> c\<lparr>mc_consumedAt := Some (toISOString n1)\<rparr>)"
  using assms by (auto simp: consume_link_def links_ok_def not_le split: option.splits)

lemma consume_link_err: "consume_link sha good n0 n1 i t s = (Inl e, s') \<Longrightarrow> s' = s"
  by (auto simp: consume_link_def dest: begin_consume_err finish_consume_err)

lemma create_link_cases:
  "link_step w (CreateLink a b now p u t) s = s \<or>
   (link_step w (CreateLink a b now p u t) s = s(hex_encode a \<mapsto> \<lparr>mc_id = hex_encode a, mc_projectId = p,
      mc_expiresAt = toISOString (now + (case t of None \<Rightarrow> 15 * 60 * 1000 | Some x \<Rightarrow> x)), mc_consumedAt = None,
      mc_tokenHash = digest (lw_sha w) (b64_encode b)\<rparr>))"
  by (auto simp: create_link_def Let_def throwM_def returnM_def split: option.splits)

lemma consume_step_cases:
  assumes "links_ok s"
  shows "link_step w (ConsumeLink n0 n1 good i t) s = s \<and> consumed_now w (ConsumeLink n0 n1 good i t) s = [] \<or>
   (\<exists>c. s i = Some c \<and> mc_tokenHash c = digest (lw_sha w) t \<and> \<not> truthy_text (mc_consumedAt c) \<and>
      good = Some True \<and> (\<forall>e. date_parse (mc_expiresAt c) = Some e \<longrightarrow> n0 < e) \<and>
      consumed_now w (ConsumeLink n0 n1 good i t) s = [(i, mc_projectId c)] \<and>
      link_step w (ConsumeLink n0 n1 good i t) s = s(i \<mapsto> c\<lparr>mc_consumedAt := Some (toISOString n1)\<rparr>))"
proof (cases "consume_link (lw_sha w) good n0 n1 i t s")
  case (Pair r s')
  then show ?thesis
    by (cases r) (auto dest: consume_link_err elim!: consume_link_ok [OF _ assms])
qed

lemma link_step_ok: "links_ok s \<Longrightarrow> links_ok (link_step w c s)"
proof (cases c)
  case (CreateLink a b now p u t)
  assume "links_ok s"
  with create_link_cases [of w a b now p u t s] show ?thesis
    by (auto simp: CreateLink links_ok_def simp del: link_step.simps split: if_splits)
next
  case (ConsumeLink n0 n1 good i t)
  assume ok: "links_ok s"
  with consume_step_cases [OF ok, of w n0 n1 good i t] show ?thesis
    by (auto simp: ConsumeLink links_ok_def simp del: link_step.simps split: if_splits)
qed

lemma used_link_stays:
  assumes "links_ok s" "used_link s i" "i \<notin> set (created_id c)"
  shows "used_link (link_step w c s) i" and "i \<notin> fst ` set (consumed_now w c s)"
proof -
  have "used_link (link_step w c s) i \<and> i \<notin> fst ` set (consumed_now w c s)"
  proof (cases c)
    case (CreateLink a b now p u t)
    with create_link_cases [of w a b now p u t s] assms show ?thesis
      by (auto simp: used_link_def simp del: link_step.simps)
  next
    case (ConsumeLink n0 n1 good j t)
    with consume_step_cases [OF assms(1), of w n0 n1 good j t] assms(2) show ?thesis
      by (auto simp: used_link_def simp del: link_step.simps consumed_now.simps)
  qed
  then show "used_link (link_step w c s) i" "i \<notin> fst ` set (consumed_now w c s)" by auto
qed

lemma used_link_final:
  "links_ok s \<Longrightarrow> used_link s i \<Longrightarrow> i \<notin> set (created_ids cs) \<Longrightarrow> i \<notin> fst ` set (consumed_links w cs s)"
proof (induction cs arbitrary: s)
  case (Cons c cs)
  then have "i \<notin> set (created_id c)" "i \<notin> set (created_ids cs)" by (simp_all add: created_ids_def)
  with Cons used_link_stays [of s i c w] link_step_ok [of s w c] show ?case by auto
qed simp

lemma consumed_once:
  "links_ok s \<Longrightarrow> distinct (created_ids cs) \<Longrightarrow> (\<forall>i \<in> set (created_ids cs). s i = None) \<Longrightarrow>
   distinct (map fst (consumed_links w cs s))"
proof (induction cs arbitrary: s)
  case (Cons c cs)
  have ok: "links_ok (link_step w c s)" by (rule link_step_ok [OF Cons.prems(1)])
  have rest: "distinct (created_ids cs)" using Cons.prems(2) by (simp add: created_ids_def)
  show ?case
  proof (cases c)
    case (CreateLink a b now p u t)
    have "hex_encode a \<notin> set (created_ids cs)" using Cons.prems(2) by (simp add: CreateLink created_ids_def)
    then have "\<forall>i \<in> set (created_ids cs). link_step w c s i = None"
      using create_link_cases [of w a b now p u t s] Cons.prems(3)
      by (auto simp: CreateLink created_ids_def simp del: link_step.simps)
    from Cons.IH [OF ok rest this] show ?thesis by (simp add: CreateLink)
  next
    case (ConsumeLink n0 n1 good i t)
    have later: "created_ids (c # cs) = created_ids cs" by (simp add: ConsumeLink created_ids_def)
    from consume_step_cases [OF Cons.prems(1), of w n0 n1 good i t] show ?thesis
    proof (elim disjE exE conjE)
      assume "link_step w (ConsumeLink n0 n1 good i t) s = s" "consumed_now w (ConsumeLink n0 n1 good i t) s = []"
      with Cons.IH [OF Cons.prems(1) rest] Cons.prems(3) later ConsumeLink show ?thesis by simp
    next
      fix ch
      assume ch: "s i = Some ch" "consumed_now w (ConsumeLink n0 n1 good i t) s = [(i, mc_projectId ch)]"
        and step: "link_step w (ConsumeLink n0 n1 good i t) s = s(i \<mapsto> ch\<lparr>mc_consumedAt := Some (toISOString n1)\<rparr>)"
      have new: "i \<notin> set (created_ids cs)" using ch(1) Cons.prems(3) later by auto
      then have "\<forall>j \<in> set (created_ids cs). link_step w c s j = None"
        using Cons.prems(3) later step by (auto simp: ConsumeLink simp del: link_step.simps)
      note ih = Cons.IH [OF ok rest this]
      have "used_link (link_step w c s) i"
        by (simp add: ConsumeLink step used_link_def toISOString_truthy del: link_step.simps)
      from used_link_final [OF ok this new] ih ch(2) show ?thesis
        by (simp add: ConsumeLink del: consumed_now.simps link_step.simps)
    qed
  qed
qed simp

text \<open>Every stored challenge is one a call made.\<close>

definition made :: "link_world \<Rightarrow> link_call list \<Rightarrow> string \<Rightarrow> magic_link_challenge \<Rightarrow> bool" where
  "made w cs i c \<longleftrightarrow> (\<exists>a b now u t. CreateLink a b now (mc_projectId c) u t \<in> set cs \<and> hex_encode a = i \<and>
     mc_tokenHash c = digest (lw_sha w) (b64_encode b) \<and>
     mc_expiresAt c = toISOString (now + (case t of None \<Rightarrow> 15 * 60 * 1000 | Some x \<Rightarrow> x)))"

lemma made_append: "made w cs i c \<Longrightarrow> made w (cs @ ds) i c" "made w ds i c \<Longrightarrow> made w (cs @ ds) i c"
  unfolding made_def by fastforce+

lemma made_update [simp]: "made w cs i (c\<lparr>mc_consumedAt := x\<rparr>) \<longleftrightarrow> made w cs i c"
  by (simp add: made_def)

lemma link_step_made:
  assumes "links_ok s" "\<And>i c. s i = Some c \<Longrightarrow> made w cs i c" and "link_step w c s i = Some ch"
  shows "made w (cs @ [c]) i ch"
proof (cases c)
  case (CreateLink a b now p u t)
  let ?new = "\<lparr>mc_id = hex_encode a, mc_projectId = p,
      mc_expiresAt = toISOString (now + (case t of None \<Rightarrow> 15 * 60 * 1000 | Some x \<Rightarrow> x)), mc_consumedAt = None,
      mc_tokenHash = digest (lw_sha w) (b64_encode b)\<rparr>"
  have new: "made w (cs @ [c]) (hex_encode a) ?new"
    by (rule made_append(2)) (auto simp: made_def CreateLink)
  from create_link_cases [of w a b now p u t s] show ?thesis
  proof (elim disjE exE)
    assume "link_step w (CreateLink a b now p u t) s = s"
    with assms(3) CreateLink have "s i = Some ch" by (simp del: link_step.simps)
    then show ?thesis by (rule made_append(1) [OF assms(2)])
  next
    assume "link_step w (CreateLink a b now p u t) s = s(hex_encode a \<mapsto> ?new)"
    with assms(3) CreateLink have "(s(hex_encode a \<mapsto> ?new)) i = Some ch" by (simp del: link_step.simps)
    then show ?thesis using new made_append(1) [OF assms(2)] by (auto split: if_splits)
  qed
next
  case (ConsumeLink n0 n1 good j t)
  from consume_step_cases [OF assms(1), of w n0 n1 good j t] obtain before where
    "s i = Some before" "made w cs i before \<longrightarrow> made w cs i ch"
    using assms(3) by (auto simp: ConsumeLink simp del: link_step.simps split: if_splits)
  with assms(2) show ?thesis by (blast intro: made_append(1))
qed

lemma consumed_made:
  "links_ok s \<Longrightarrow> (\<And>i c. s i = Some c \<Longrightarrow> made w ds i c) \<Longrightarrow> (i, p) \<in> set (consumed_links w cs s) \<Longrightarrow>
   \<exists>n0 n1 t c. ConsumeLink n0 n1 (Some True) i t \<in> set cs \<and> made w (ds @ cs) i c \<and> mc_projectId c = p \<and>
     mc_tokenHash c = digest (lw_sha w) t \<and> (\<forall>e. date_parse (mc_expiresAt c) = Some e \<longrightarrow> n0 < e)"
proof (induction cs arbitrary: s ds)
  case (Cons c cs)
  have ok: "links_ok (link_step w c s)" by (rule link_step_ok [OF Cons.prems(1)])
  show ?case
  proof (cases "(i, p) \<in> set (consumed_now w c s)")
    case True
    then obtain n0 n1 good t where c: "c = ConsumeLink n0 n1 good i t" by (cases c) (auto split: sum.splits)
    from consume_step_cases [OF Cons.prems(1), of w n0 n1 good i t] True obtain ch where
      "s i = Some ch" "mc_tokenHash ch = digest (lw_sha w) t" "good = Some True" "p = mc_projectId ch"
      "\<forall>e. date_parse (mc_expiresAt ch) = Some e \<longrightarrow> n0 < e"
      by (auto simp: c simp del: consumed_now.simps link_step.simps)
    with c Cons.prems(2) made_append(1) show ?thesis by (metis list.set_intros(1))
  next
    case False
    with Cons.prems(3) have "(i, p) \<in> set (consumed_links w cs (link_step w c s))" by simp
    from Cons.IH [OF ok _ this, of "ds @ [c]"] link_step_made [OF Cons.prems(1,2)] obtain n0 n1 t ch where
      "ConsumeLink n0 n1 (Some True) i t \<in> set cs" "made w ((ds @ [c]) @ cs) i ch" "mc_projectId ch = p"
      "mc_tokenHash ch = digest (lw_sha w) t" "\<forall>e. date_parse (mc_expiresAt ch) = Some e \<longrightarrow> n0 < e" by blast
    then show ?thesis by (metis append.assoc append_Cons append_Nil list.set_intros(2))
  qed
qed simp

text \<open>Two calls that overlap, both past their checks before either has noted the use, both succeed.\<close>

lemma overlapping_consumes_both_succeed:
  assumes "begin_consume sha n0 i t s = (Inr c, s)"
  shows "begin_consume sha n0 i t s = (Inr c, s) \<and>
    (\<exists>s' s''. finish_consume c (Some True) n1 s = (Inr (mc_projectId c), s') \<and>
       finish_consume c (Some True) n1 s' = (Inr (mc_projectId c), s''))"
  using assms by simp

subsection \<open>Portal capabilities\<close>

lemma verify_capability_Some:
  assumes "verify_capability ps now token = Some claims"
  shows "\<exists>payload signature. payload = part (split_at (CHR ''.'') token) 0 \<and>
    signature = part (split_at (CHR ''.'') token) 1 \<and> payload \<noteq> [] \<and>
    buffer_base64url signature = capability_mac ps payload \<and> ps_parse ps (buffer_base64url payload) = Some claims \<and>
    member claims ''type'' = Some (JStr ''forgetops.portal-capability'') \<and>
    \<not> expired_claim (member claims ''expiresAt'') now"
  using assms by (auto simp: verify_capability_def Let_def split: option.splits if_splits)

lemma no_dot: "CHR ''.'' \<notin> set (b64_encode bs)"
proof -
  have "CHR ''.'' \<notin> set b64_alphabet" by code_simp
  with b64_encode_alphabet [of bs] show ?thesis by blast
qed

text \<open>What is issued verifies until it expires.\<close>

lemma issued_capability_verifies:
  assumes "issue_capability ps r16 now i = Some token"
    and "\<And>s. ps_canonicalize ps j = Some s \<Longrightarrow> ps_parse ps (utf8 s) = Some j"
    and "\<And>s. ps_canonicalize ps j = Some s \<Longrightarrow> s \<noteq> []" and "\<And>k m. ps_hmac ps k m \<noteq> []"
    and "0 \<le> now" "now + 60 * 60 * 1000 < max_time" "later < now + (case pc_ttlMs i of None \<Rightarrow> 60 * 60 * 1000 | Some t \<Rightarrow> t)"
    and "j = capability_json r16 now (case pc_ttlMs i of None \<Rightarrow> 60 * 60 * 1000 | Some t \<Rightarrow> t) i"
  shows "verify_capability ps later token = Some j"
proof -
  let ?ttl = "case pc_ttlMs i of None \<Rightarrow> 60 * 60 * 1000 | Some t \<Rightarrow> t"
  from assms(1,8) obtain s where ttl: "0 < ?ttl" "?ttl \<le> 60 * 60 * 1000" and s: "ps_canonicalize ps j = Some s"
    and token: "token = b64_encode (utf8 s) @ ''.'' @ b64_encode (capability_mac ps (b64_encode (utf8 s)))"
    by (auto simp: issue_capability_def Let_def split: if_splits)
  have "utf8 s \<noteq> []" using assms(3) [OF s] utf8_inj [of s "[]"] by (simp add: utf8_inj)
  moreover have "capability_mac ps (b64_encode (utf8 s)) \<noteq> []" using assms(4) by (simp add: capability_mac_def)
  moreover have "split_at (CHR ''.'') token =
      [b64_encode (utf8 s), b64_encode (capability_mac ps (b64_encode (utf8 s)))]"
    using split_at_join no_dot by (simp add: token)
  moreover have "date_parse (toISOString (now + ?ttl)) = Some (now + ?ttl)"
    by (rule date_parse_toISOString) (use assms(5,6) ttl in simp_all)
  then have "\<not> expired_claim (member j ''expiresAt'') later"
    using assms(7) by (simp add: assms(8) capability_json_def expired_claim_def)
  ultimately show ?thesis
    using assms(2) [OF s] by (simp add: verify_capability_def Let_def part_def)
      (simp add: assms(8) capability_json_def)
qed

subsection \<open>Properties\<close>

text \<open>C18. No assertion is accepted twice, given a replay store that remembers; an accepted one fits the
schema and the expected request, is inside its window of at most five minutes, and carries a canonical
Ed25519 signature of its issuer's key over its canonical bytes.\<close>

theorem assertion_accepted_once:
  assumes "remembers used av"
  shows "distinct (map (assertion_identity \<circ> snd) (accepted_assertions av vs s)) \<and>
    (\<forall>(v, c) \<in> set (accepted_assertions av vs s). v \<in> set vs \<and>
       genuine_assertion av (vc_now v) (vc_claims v) (vc_signature v) (vc_expected v) c)"
  using accepted_distinct [OF assms] accepted_genuine by fast

text \<open>C19. Of calls that do not overlap, at most one uses up a magic link, and it presents a token with the hash
of the one created for that challenge, before its expiry and with the adapter's consent; the project it
answers is the one the link was created for.\<close>

theorem magic_link_used_once:
  assumes "distinct (created_ids cs)"
  shows "distinct (map fst (consumed_links w cs Map.empty)) \<and>
    (\<forall>(i, p) \<in> set (consumed_links w cs Map.empty). \<exists>n0 n1 t c. ConsumeLink n0 n1 (Some True) i t \<in> set cs \<and>
        made w cs i c \<and> mc_projectId c = p \<and> mc_tokenHash c = digest (lw_sha w) t \<and>
       (\<forall>e. date_parse (mc_expiresAt c) = Some e \<longrightarrow> n0 < e))"
proof -
  have ok: "links_ok Map.empty" by (simp add: links_ok_def)
  from consumed_once [OF ok assms] consumed_made [OF ok, of w "[]" _ _ cs] show ?thesis by auto
qed

text \<open>C20. The portal answers with a request only to a token whose first part the service has signed with its
secret: a capability of the right type that has not expired, names this request, grants reading the status
and names the project the request belongs to.\<close>

theorem portal_request_needs_capability:
  assumes "portal_request_route ps findRequest now authorization requestId = PortalRequest view"
  shows "\<exists>header payload claims. authorization = Some header \<and>
    payload = part (split_at (CHR ''.'') (strip_bearer header)) 0 \<and>
    buffer_base64url (part (split_at (CHR ''.'') (strip_bearer header)) 1) =
      ps_hmac ps (ps_secret ps) (utf8 ''forgetops.portal-capability.v1'' @ [0] @ utf8 payload) \<and>
    ps_parse ps (buffer_base64url payload) = Some claims \<and>
    member claims ''type'' = Some (JStr ''forgetops.portal-capability'') \<and>
    (\<forall>s t. member claims ''expiresAt'' = Some (JStr s) \<and> date_parse s = Some t \<longrightarrow> now < t) \<and>
    member claims ''requestId'' = Some (JStr requestId) \<and>
    includes_permission (member claims ''permissions'') ''read_status'' = Some True \<and>
    findRequest requestId = Some view \<and> member claims ''projectId'' = Some (JStr (pv_projectId view))"
proof -
  from assms obtain header claims where h: "authorization = Some header"
    "verify_capability ps now (strip_bearer header) = Some claims"
    "member claims ''requestId'' = Some (JStr requestId)"
    "includes_permission (member claims ''permissions'') ''read_status'' = Some True"
    "findRequest requestId = Some view" "member claims ''projectId'' = Some (JStr (pv_projectId view))"
    by (auto simp: portal_request_route_def split: option.splits if_splits bool.splits)
  from verify_capability_Some [OF h(2)] h show ?thesis
    by (auto simp: capability_mac_def CAPABILITY_CONTEXT_def expired_claim_def not_le)
qed

subsection \<open>Witnesses\<close>

definition example_assertion :: subject_assertion where
  "example_assertion = \<lparr>sx_issuer = ''issuer'', sx_keyId = ''key_1'', sx_assertionId = ''assertion_000001'',
     sx_projectId = ''prj_1'', sx_environmentId = ''env_1'', sx_requestType = ''delete'',
     sx_challengeId = ''challenge_000001'', sx_subjectEnvelope = ''envelope_00000000000000000000001'',
     sx_issuedAt = toISOString 1000, sx_expiresAt = toISOString 9000, sx_nonce = ''nonce_0000000001''\<rparr>"

definition example_verifier :: "(string \<times> string) list assertion_verifier" where
  "example_verifier = \<lparr>av_ed25519 = (\<lambda>_ _ _. Some True), av_canonicalize = (\<lambda>_. Some ''claims''),
     av_resolve = (\<lambda>_ _. Some (''issuer'', b64_encode (replicate 32 0))),
     av_consume = (\<lambda>i n x s. if (i, n) \<in> set s then (False, s) else (True, (i, n) # s))\<rparr>"

definition example_expected :: expected_assertion where
  "example_expected = \<lparr>xp_projectId = ''prj_1'', xp_environmentId = ''env_1'', xp_requestType = ''delete'',
     xp_challengeId = ''challenge_000001'', xp_subjectEnvelope = ''envelope_00000000000000000000001''\<rparr>"

definition example_assertion_call :: assertion_call where
  "example_assertion_call = \<lparr>vc_now = 2000, vc_claims = assertion_json example_assertion,
     vc_signature = b64_encode (replicate 64 0), vc_expected = example_expected\<rparr>"

lemma example_date_texts [simp]:
  "date_parse (toISOString 1000) = Some 1000" "date_parse (toISOString 9000) = Some 9000"
  by (simp_all add: date_parse_toISOString max_time_def)

lemma example_schema: "SubjectAssertionSchema (assertion_json example_assertion) = Some example_assertion"
  by (simp add: SubjectAssertionSchema_def assertion_json_def zfield_def assertion_keys_def
      at_least_def literal_text_def datetime_text_def example_assertion_def)

lemma example_signed:
  "signature_of_issuer example_verifier example_assertion (b64_encode (replicate 64 0))"
proof -
  have "signed_by (\<lambda>_ _ _. Some True) (\<lambda>_. Some ''claims'') example_assertion (b64_encode (replicate 64 0))
      (b64_encode (replicate 32 0))"
    unfolding signed_by_def assertion_material_def
    by (rule exI [of _ "replicate 32 0"], rule exI [of _ "replicate 64 0"]) simp
  then show ?thesis
    by (simp add: signature_of_issuer_def verifyAssertion_iff example_verifier_def example_assertion_def)
qed

lemma example_verified:
  "verify_assertion example_verifier 2000 (assertion_json example_assertion) (b64_encode (replicate 64 0))
     example_expected s =
   (if assertion_identity example_assertion \<in> set s then (Inl AssertionReplayed, s)
    else (Inr example_assertion, assertion_identity example_assertion # s))"
proof -
  have "assertion_window_ok example_assertion 2000" "assertion_matches example_expected example_assertion"
    by (simp_all add: assertion_window_ok_def assertion_matches_def example_assertion_def example_expected_def)
  then show ?thesis
    using example_signed
    by (simp add: verify_assertion_def example_schema assertion_identity_def throwM_def returnM_def)
      (simp add: example_verifier_def)
qed

lemma example_remembers: "remembers (\<lambda>s k. k \<in> set s) example_verifier"
  by (auto simp: remembers_def example_verifier_def split: if_splits)

theorem assertion_accepted_once_witness:
  "accepted_assertions example_verifier [example_assertion_call, example_assertion_call] [] =
     [(example_assertion_call, example_assertion)] \<and>
   distinct (map (assertion_identity \<circ> snd)
     (accepted_assertions example_verifier [example_assertion_call, example_assertion_call] []))"
  using assertion_accepted_once [OF example_remembers, of "[example_assertion_call, example_assertion_call]" "[]"]
  by (simp add: example_assertion_call_def example_verified)

definition example_link_world :: link_world where
  "example_link_world = \<lparr>lw_sha = id, lw_url = (\<lambda>p b. Some (b @ p)), lw_send = (\<lambda>_ _. True)\<rparr>"

definition example_link_calls :: "link_call list" where
  "example_link_calls = [CreateLink [1] [2] 1000 ''prj_1'' ''https://p'' (Some 8000),
     ConsumeLink 2000 2001 (Some True) (hex_encode [1]) (b64_encode [2]), ConsumeLink 3000 3001 (Some True) (hex_encode [1]) (b64_encode [2])]"

lemma consume_fresh:
  assumes "s i = Some c" "mc_id c = i" "mc_tokenHash c = digest sha t" "mc_consumedAt c = None"
    "date_parse (mc_expiresAt c) = Some e" "n0 < e" "good = Some True"
  shows "consume_link sha good n0 n1 i t s =
    (Inr (mc_projectId c), s(i \<mapsto> c\<lparr>mc_consumedAt := Some (toISOString n1)\<rparr>))"
  using assms by (simp add: consume_link_def finish_consume_def begin_consume_def seqM_def returnM_def truthy_text_def)

lemma consume_used: "used_link s i \<Longrightarrow> \<exists>e. consume_link sha good n0 n1 i t s = (Inl e, s)"
  by (auto simp: used_link_def consume_link_def begin_consume_def seqM_def throwM_def)

lemma example_links:
  "consumed_links example_link_world example_link_calls Map.empty = [(hex_encode [1], ''prj_1'')]"
proof -
  let ?w = example_link_world and ?i = "hex_encode [1]" and ?t = "b64_encode [2]"
  let ?c = "\<lparr>mc_id = ?i, mc_projectId = ''prj_1'', mc_expiresAt = toISOString 9000, mc_consumedAt = None,
      mc_tokenHash = digest id ?t\<rparr>"
  let ?s = "[?i \<mapsto> ?c]" and ?used = "[?i \<mapsto> ?c\<lparr>mc_consumedAt := Some (toISOString 2001)\<rparr>]"
  have create: "link_step ?w (CreateLink [1] [2] 1000 ''prj_1'' ''https://p'' (Some 8000)) Map.empty = ?s"
    by (simp add: example_link_world_def create_link_def Let_def returnM_def
        del: hex_encode_simps b64_encode.simps)
  have use: "consume_link id (Some True) 2000 2001 ?i ?t ?s = (Inr ''prj_1'', ?used)"
    by (subst consume_fresh [where c = ?c and e = 9000]) (simp_all del: hex_encode_simps b64_encode.simps)
  have "used_link ?used ?i" by (simp add: used_link_def toISOString_truthy del: hex_encode_simps b64_encode.simps)
  from consume_used [OF this] obtain e where "consume_link id (Some True) 3000 3001 ?i ?t ?used = (Inl e, ?used)"
    by blast
  with create use show ?thesis
    by (simp add: example_link_calls_def del: link_step.simps(1) hex_encode_simps b64_encode.simps)
      (simp add: example_link_world_def del: hex_encode_simps b64_encode.simps)
qed

theorem magic_link_used_once_witness:
  "consumed_links example_link_world example_link_calls Map.empty = [(hex_encode [1], ''prj_1'')] \<and>
   (\<exists>n0 n1 t. ConsumeLink n0 n1 (Some True) (hex_encode [1]) t \<in> set example_link_calls \<and> n0 < 9000)"
proof -
  have "distinct (created_ids example_link_calls)" by (simp add: created_ids_def example_link_calls_def)
  from magic_link_used_once [OF this, of example_link_world] obtain n0 n1 t c where
    "ConsumeLink n0 n1 (Some True) (hex_encode [1]) t \<in> set example_link_calls"
    "made example_link_world example_link_calls (hex_encode [1]) c"
    "\<forall>e. date_parse (mc_expiresAt c) = Some e \<longrightarrow> n0 < e"
    unfolding example_links by (auto simp del: hex_encode_simps)
  moreover from this(2) have "mc_expiresAt c = toISOString 9000"
    by (auto simp: made_def example_link_calls_def)
  ultimately show ?thesis using example_links by auto
qed

definition example_portal_input :: portal_capability_input where
  "example_portal_input = \<lparr>pc_requestId = ''req_1'', pc_projectId = ''prj_1'', pc_portalSessionId = ''ses_1'',
     pc_permissions = [''read_status''], pc_ttlMs = None\<rparr>"

definition example_claims :: json where
  "example_claims = capability_json [1] 1000 (60 * 60 * 1000) example_portal_input"

definition example_portal :: portal_service where
  "example_portal = \<lparr>ps_secret = replicate 32 7, ps_hmac = (\<lambda>_ _. [1]), ps_canonicalize = (\<lambda>_. Some ''claims''),
     ps_parse = (\<lambda>_. Some example_claims)\<rparr>"

definition example_view :: portal_request_view where
  "example_view = \<lparr>pv_id = ''req_1'', pv_projectId = ''prj_1'', pv_status = ''planning'', pv_type = ''delete'',
     pv_deadlineAt = toISOString 9000\<rparr>"

lemma no_white: "list_all (\<lambda>c. \<not> white c) (b64_encode bs)"
proof -
  have "list_all (\<lambda>c. \<not> white c) b64_alphabet" by code_simp
  with b64_encode_alphabet [of bs] show ?thesis by (auto simp: list_all_iff)
qed

lemma strip_bearer_token:
  "list_all (\<lambda>c. \<not> white c) token \<Longrightarrow> strip_bearer (''Bearer '' @ token @ rest) = token @ rest \<or> token = []"
proof -
  assume token: "list_all (\<lambda>c. \<not> white c) token"
  have "map ascii_lower ''Bearer'' = ''bearer''" "white CHR '' ''" by code_simp+
  with token show ?thesis by (cases token) (auto simp: strip_bearer_def)
qed

lemma example_capability:
  obtains token where "verify_capability example_portal 2000 token = Some example_claims"
    "strip_bearer (''Bearer '' @ token) = token" "token \<noteq> []"
proof -
  let ?payload = "b64_encode (utf8 ''claims'')"
  let ?token = "?payload @ ''.'' @ b64_encode [1]"
  have issued: "issue_capability example_portal [1] 1000 example_portal_input = Some ?token"
    by (simp add: issue_capability_def Let_def example_portal_input_def capability_mac_def example_portal_def)
  have "verify_capability example_portal 2000 ?token = Some example_claims"
    by (rule issued_capability_verifies [OF issued])
      (simp_all add: example_claims_def example_portal_def example_portal_input_def max_time_def)
  moreover have "?payload \<noteq> []" using utf8_inj [of "''claims''" "[]"] by simp
  ultimately show ?thesis using strip_bearer_token [OF no_white] by (blast intro: that)
qed

theorem portal_request_needs_capability_witness:
  "\<exists>token. portal_request_route example_portal (\<lambda>_. Some example_view) 2000 (Some (''Bearer '' @ token)) ''req_1'' =
       PortalRequest example_view \<and>
     buffer_base64url (part (split_at (CHR ''.'') (strip_bearer (''Bearer '' @ token))) 1) = [1]"
proof -
  obtain token where t: "verify_capability example_portal 2000 token = Some example_claims"
    "strip_bearer (''Bearer '' @ token) = token" "token \<noteq> []" by (rule example_capability)
  have "portal_request_route example_portal (\<lambda>_. Some example_view) 2000 (Some (''Bearer '' @ token)) ''req_1'' =
      PortalRequest example_view"
    using t by (simp add: portal_request_route_def del: append.simps)
      (simp add: example_claims_def capability_json_def example_portal_input_def unique_def example_view_def)
  from this portal_request_needs_capability [OF this] show ?thesis
    by (auto simp: example_portal_def simp del: append.simps)
qed

end
