(* ===== verification/Worker.thy ===== *)
theory Worker
  imports Json Bytes Dates
begin

text \<open>
  The background worker and the loggers: the outbox publisher, notifications and webhooks of
  \<^verbatim>\<open>apps/worker/src\<close>, \<^verbatim>\<open>packages/observability/src\<close> and \<^verbatim>\<open>sdk/typescript/src/redacting-logger.ts\<close>. The outbox store, the sinks, DNS, \<open>fetch\<close>,
  \<open>URL\<close>, \<open>isIP\<close>, HMAC, the canonicaliser, \<open>JSON.stringify\<close> and the clock are arguments; what waits for
  something outside is an act on the world, so that the order of those calls is part of the model.
\<close>

subsection \<open>The outbox publisher\<close>

record worker_event =
  we_id :: string
  we_tenantId :: string
  we_type :: string
  we_payload :: "(string \<times> json) list"
  we_occurredAt :: string
  we_publishedAt :: "string option"

record ('e, 's) outbox_store =
  os_claim :: "int \<Rightarrow> ('e, worker_event list, 's) act"
  os_markPublished :: "string \<Rightarrow> string \<Rightarrow> ('e, unit, 's) act"

text \<open>The constructor: \<open>None\<close> where it throws \<open>RangeError\<close>.\<close>

definition new_publisher :: "int option \<Rightarrow> int option" where
  "new_publisher batchSize =
     (let n = (case batchSize of None \<Rightarrow> 100 | Some b \<Rightarrow> b) in if n \<le> 0 \<or> 1000 < n then None else Some n)"

text \<open>The loop, with the number published so far; \<open>now s\<close> is the clock.\<close>

fun publish_all ::
  "(worker_event \<Rightarrow> ('e, unit, 's) act) \<Rightarrow> ('e, 's) outbox_store \<Rightarrow> ('s \<Rightarrow> int) \<Rightarrow> int \<Rightarrow> worker_event list \<Rightarrow>
   ('e, int, 's) act" where
  "publish_all publish st now n [] s = (Inr n, s)"
| "publish_all publish st now n (e # es) s =
     (case publish e s of
        (Inl x, s') \<Rightarrow> (Inl x, s')
      | (Inr _, s') \<Rightarrow>
          (case os_markPublished st (we_id e) (toISOString (now s')) s' of
             (Inl x, s'') \<Rightarrow> (Inl x, s'')
           | (Inr _, s'') \<Rightarrow> publish_all publish st now (n + 1) es s''))"

definition runOnce ::
  "(worker_event \<Rightarrow> ('e, unit, 's) act) \<Rightarrow> ('e, 's) outbox_store \<Rightarrow> ('s \<Rightarrow> int) \<Rightarrow> int \<Rightarrow> ('e, int, 's) act" where
  "runOnce publish st now batchSize = seqM (os_claim st batchSize) (publish_all publish st now 0)"

subsection \<open>Notifications\<close>

definition notified_types :: "string list" where
  "notified_types = [''PrivacyRequestCreated'', ''ExecutionPlanCreated'', ''ExecutionStarted'',
     ''PrivacyRequestCompleted'', ''PrivacyRequestFailed'', ''PrivacyRequestNeedsReview'']"

definition notification_fields :: "string list" where
  "notification_fields = [''requestId'', ''attemptId'', ''planId'', ''planVersion'', ''status'',
     ''affectedCount'', ''failedCount'']"

fun is_text :: "json \<Rightarrow> bool" where
  "is_text (JStr _) = True"
| "is_text _ = False"

fun isSafe :: "json \<Rightarrow> bool" where
  "isSafe (JArr xs) = list_all is_text xs"
| "isSafe (JObj _) = False"
| "isSafe _ = True"

definition sanitizeNotificationPayload :: "(string \<times> json) list \<Rightarrow> (string \<times> json) list" where
  "sanitizeNotificationPayload payload = filter (\<lambda>(k, v). k \<in> set notification_fields \<and> isSafe v) payload"

record notification =
  no_tenantId :: string
  no_kind :: string
  no_requestId :: "string option"
  no_payload :: "(string \<times> json) list"

definition notification_of :: "worker_event \<Rightarrow> notification" where
  "notification_of e = \<lparr>no_tenantId = we_tenantId e, no_kind = we_type e,
     no_requestId = (case map_of (we_payload e) ''requestId'' of Some (JStr r) \<Rightarrow> Some r | _ \<Rightarrow> None),
     no_payload = sanitizeNotificationPayload (we_payload e)\<rparr>"

definition handle_notification ::
  "(notification \<Rightarrow> ('e, unit, 's) act) \<Rightarrow> worker_event \<Rightarrow> ('e, unit, 's) act" where
  "handle_notification send e =
     (if we_type e \<notin> set notified_types then returnM () else send (notification_of e))"

subsection \<open>Where a webhook may go\<close>

datatype webhook_error =
    WebhookHttpsRequired
  | WebhookHostInvalid
  | WebhookPrivateAddress
  | WebhookRedirectRejected
  | WebhookResponseTooLarge
  | WebhookPayloadNotCanonical
  | WebUrlThrows
  | LookupThrows
  | FetchThrows
  | BodyThrows

record web_url =
  wu_href :: string
  wu_protocol :: string
  wu_hostname :: string
  wu_username :: string
  wu_password :: string

record webhook_response =
  wr_status :: int
  wr_location :: "string option"
  wr_body :: "bytes option"

record webhook_options =
  wo_headers :: "string \<rightharpoonup> string"
  wo_timeoutMs :: "int option"
  wo_maxResponseBytes :: "int option"
  wo_allowPrivate :: bool

record 's web =
  wb_url :: "string \<Rightarrow> web_url option"
  wb_resolve :: "string \<Rightarrow> web_url \<Rightarrow> string option"
  wb_isIP :: "string \<Rightarrow> nat"
  wb_lookup :: "string \<Rightarrow> 's \<Rightarrow> string list option \<times> 's"
  wb_fetch :: "web_url \<Rightarrow> bytes \<Rightarrow> (string \<rightharpoonup> string) \<Rightarrow> int \<Rightarrow> 's \<Rightarrow> webhook_response option \<times> 's"

definition ends_with :: "string \<Rightarrow> string \<Rightarrow> bool" where
  "ends_with suffix s \<longleftrightarrow> length suffix \<le> length s \<and> drop (length s - length suffix) s = suffix"

definition starts_with :: "string \<Rightarrow> string \<Rightarrow> bool" where
  "starts_with prefix s \<longleftrightarrow> take (length prefix) s = prefix"

definition isPrivateHost :: "string \<Rightarrow> bool" where
  "isPrivateHost h \<longleftrightarrow> h = ''localhost'' \<or> ends_with ''.localhost'' h \<or>
     h = ''metadata.google.internal'' \<or> h = ''host.docker.internal''"

text \<open>The numbers of a dotted address; comparisons with a missing or unreadable one are false.\<close>

definition octet :: "nat \<Rightarrow> string \<Rightarrow> nat option" where
  "octet i address = (let ws = split_at (CHR ''.'') address in
     if i < length ws then number_from 0 (ws ! i) else None)"

definition octet_in :: "nat \<Rightarrow> nat \<Rightarrow> nat option \<Rightarrow> bool" where
  "octet_in lo hi o1 \<longleftrightarrow> (case o1 of None \<Rightarrow> False | Some n \<Rightarrow> lo \<le> n \<and> n \<le> hi)"

definition private_v4 :: "string \<Rightarrow> bool" where
  "private_v4 address \<longleftrightarrow> (let first = octet 0 address; second = octet 1 address in
     first = Some 10 \<or> first = Some 127 \<or> first = Some 169 \<and> second = Some 254 \<or>
     first = Some 172 \<and> octet_in 16 31 second \<or> first = Some 192 \<and> second = Some 168 \<or>
     (case first of None \<Rightarrow> False | Some n \<Rightarrow> 224 \<le> n))"

definition private_v6 :: "string \<Rightarrow> bool" where
  "private_v6 address \<longleftrightarrow> (let normalized = map ascii_lower address in
     normalized = ''::1'' \<or>
     list_ex (\<lambda>p. starts_with p normalized) [''fc'', ''fd'', ''fe8'', ''fe9'', ''fea'', ''feb'', ''ff''])"

definition isPrivateAddress :: "(string \<Rightarrow> nat) \<Rightarrow> string \<Rightarrow> bool" where
  "isPrivateAddress isIP address \<longleftrightarrow> (if isIP address = 4 then private_v4 address
     else if isIP address = 6 then private_v6 address else True)"

definition assertSafeWebhookUrl ::
  "'s web \<Rightarrow> bool \<Rightarrow> string \<Rightarrow> (webhook_error, web_url, 's) act" where
  "assertSafeWebhookUrl w allowPrivate value s =
     (case wb_url w value of
        None \<Rightarrow> throwM WebhookHostInvalid s
      | Some url \<Rightarrow>
          if wu_protocol url \<noteq> ''https:'' then throwM WebhookHttpsRequired s
          else if wu_hostname url = [] \<or> wu_username url \<noteq> [] \<or> wu_password url \<noteq> []
          then throwM WebhookHostInvalid s
          else if \<not> allowPrivate \<and> isPrivateHost (wu_hostname url) then throwM WebhookPrivateAddress s
          else (case wb_lookup w (wu_hostname url) s of
                  (None, s') \<Rightarrow> throwM LookupThrows s'
                | (Some addresses, s') \<Rightarrow>
                    if \<not> allowPrivate \<and> list_ex (isPrivateAddress (wb_isIP w)) addresses
                    then throwM WebhookPrivateAddress s' else returnM url s'))"

definition request_headers :: "webhook_options \<Rightarrow> string \<rightharpoonup> string" where
  "request_headers opts = [''content-type'' \<mapsto> ''application/json''] ++ wo_headers opts"

definition redirect_statuses :: "int list" where
  "redirect_statuses = [301, 302, 303, 307, 308]"

text \<open>The loop, from redirect number \<open>r\<close> on.\<close>

function post_loop ::
  "'s web \<Rightarrow> webhook_options \<Rightarrow> bytes \<Rightarrow> nat \<Rightarrow> web_url \<Rightarrow> 's \<Rightarrow> (webhook_error + webhook_response) \<times> 's" where
  "post_loop w opts body r url s =
     (if 3 < r then throwM WebhookRedirectRejected s
      else case wb_fetch w url body (request_headers opts)
                  (case wo_timeoutMs opts of None \<Rightarrow> 10000 | Some t \<Rightarrow> t) s of
             (None, s1) \<Rightarrow> throwM FetchThrows s1
           | (Some response, s1) \<Rightarrow>
               if wr_status response \<notin> set redirect_statuses
               then (case wr_body response of
                       None \<Rightarrow> throwM BodyThrows s1
                     | Some bs \<Rightarrow>
                         if (case wo_maxResponseBytes opts of None \<Rightarrow> 1048576 | Some m \<Rightarrow> m) < int (length bs)
                         then throwM WebhookResponseTooLarge s1 else returnM response s1)
               else (case wr_location response of
                       None \<Rightarrow> throwM WebhookRedirectRejected s1
                     | Some location \<Rightarrow>
                         if location = [] \<or> r = 3 then throwM WebhookRedirectRejected s1
                         else (case wb_resolve w location url of
                                 None \<Rightarrow> throwM WebUrlThrows s1
                               | Some next_url \<Rightarrow>
                                   (case assertSafeWebhookUrl w (wo_allowPrivate opts) next_url s1 of
                                      (Inl e, s2) \<Rightarrow> (Inl e, s2)
                                    | (Inr url', s2) \<Rightarrow> post_loop w opts body (r + 1) url' s2))))"
  by pat_completeness auto
termination by (relation "measure (\<lambda>(w, opts, body, r, url, s). 4 - r)") auto

declare post_loop.simps [simp del]

definition postWebhook ::
  "'s web \<Rightarrow> string \<Rightarrow> bytes \<Rightarrow> webhook_options \<Rightarrow> (webhook_error, webhook_response, 's) act" where
  "postWebhook w destination body opts =
     seqM (assertSafeWebhookUrl w (wo_allowPrivate opts) destination) (post_loop w opts body 0)"

subsection \<open>Delivering an event\<close>

record webhook_delivery =
  wd_deliveryId :: string
  wd_destination :: string
  wd_secret :: bytes
  wd_event :: worker_event

definition webhook_payload :: "webhook_delivery \<Rightarrow> json" where
  "webhook_payload d = JObj [(''type'', JStr ''forgetops.webhook-event''), (''version'', JNum 1),
     (''deliveryId'', JStr (wd_deliveryId d)),
     (''event'', JObj [(''id'', JStr (we_id (wd_event d))), (''type'', JStr (we_type (wd_event d))),
        (''occurredAt'', JStr (we_occurredAt (wd_event d))), (''payload'', JObj (we_payload (wd_event d)))])]"

definition signed_delivery :: "webhook_delivery \<Rightarrow> string \<Rightarrow> json" where
  "signed_delivery d timestamp = JObj [(''timestamp'', JStr timestamp), (''deliveryId'', JStr (wd_deliveryId d)),
     (''payload'', webhook_payload d)]"

definition delivery_headers :: "webhook_delivery \<Rightarrow> string \<Rightarrow> bytes \<Rightarrow> string \<rightharpoonup> string" where
  "delivery_headers d timestamp mac = [''x-forgetops-timestamp'' \<mapsto> timestamp,
     ''x-forgetops-delivery-id'' \<mapsto> wd_deliveryId d,
     ''x-forgetops-signature'' \<mapsto> ''hmac-sha256:'' @ b64_encode mac]"

definition deliverWebhook ::
  "'s web \<Rightarrow> (bytes \<Rightarrow> bytes \<Rightarrow> bytes) \<Rightarrow> (json \<Rightarrow> string option) \<Rightarrow> (json \<Rightarrow> string) \<Rightarrow> int \<Rightarrow> webhook_delivery \<Rightarrow>
   int option \<Rightarrow> bool \<Rightarrow> (webhook_error, webhook_response, 's) act" where
  "deliverWebhook w hmac canonicalize stringify now d timeoutMs allowPrivate =
     (let timestamp = toISOString now in
      case canonicalize (signed_delivery d timestamp) of
        None \<Rightarrow> throwM WebhookPayloadNotCanonical
      | Some serialized \<Rightarrow>
          postWebhook w (wd_destination d) (utf8 (stringify (webhook_payload d)))
            \<lparr>wo_headers = delivery_headers d timestamp
               (hmac (wd_secret d) (utf8 ''forgetops.webhook.v1'' @ [0] @ utf8 serialized)),
             wo_timeoutMs = timeoutMs, wo_maxResponseBytes = None, wo_allowPrivate = allowPrivate\<rparr>)"

subsection \<open>The logger\<close>

definition ALLOWED_FIELDS :: "string list" where
  "ALLOWED_FIELDS = [''requestId'', ''tenantId'', ''environmentId'', ''agentId'', ''attemptId'', ''jobId'',
     ''status'', ''action'', ''errorCode'', ''durationMs'', ''count'']"

fun isScalar :: "json \<Rightarrow> bool" where
  "isScalar (JArr _) = False"
| "isScalar (JObj _) = False"
| "isScalar _ = True"

definition sanitizeTelemetry :: "(string \<times> json) list \<Rightarrow> (string \<times> json) list" where
  "sanitizeTelemetry members = filter (\<lambda>(k, v). k \<in> set ALLOWED_FIELDS \<and> isScalar v) members"

definition event_name_head :: "char \<Rightarrow> bool" where
  "event_name_head c \<longleftrightarrow> ascii_lower c \<in> set (''abcdefghijklmnopqrstuvwxyz'' @ digits)"

definition safeEventName :: "string \<Rightarrow> string" where
  "safeEventName v =
     (case v of
        [] \<Rightarrow> ''log_event''
      | c # cs \<Rightarrow>
          if event_name_head c \<and> length cs \<le> 127 \<and> list_all (\<lambda>d. event_name_head d \<or> d \<in> set ''._:-'') cs
          then v else ''log_event'')"

datatype log_level = LogInfo | LogWarn | LogError

fun level_value :: "log_level \<Rightarrow> string" where
  "level_value LogInfo = ''info''"
| "level_value LogWarn = ''warn''"
| "level_value LogError = ''error''"

text \<open>The object written; none of the allowed fields is \<open>timestamp\<close>, \<open>level\<close> or \<open>event\<close>.\<close>

definition log_record :: "int \<Rightarrow> log_level \<Rightarrow> (string \<times> json) list \<Rightarrow> string \<Rightarrow> json" where
  "log_record now level members ev = JObj ([(''timestamp'', JStr (toISOString now)),
     (''level'', JStr (level_value level)), (''event'', JStr (safeEventName ev))] @ sanitizeTelemetry members)"

definition write_log ::
  "(string \<Rightarrow> ('e, unit, 's) act) \<Rightarrow> (json \<Rightarrow> string) \<Rightarrow> int \<Rightarrow> log_level \<Rightarrow> (string \<times> json) list \<Rightarrow> string \<Rightarrow>
   ('e, unit, 's) act" where
  "write_log sink stringify now level members ev = sink (stringify (log_record now level members ev))"

subsection \<open>The logger of the SDK\<close>

definition SAFE_FIELDS :: "string list" where
  "SAFE_FIELDS = [''code'', ''resource'', ''route'', ''statusCode'']"

fun text_or_number :: "json \<Rightarrow> bool" where
  "text_or_number (JStr _) = True"
| "text_or_number (JNum _) = True"
| "text_or_number _ = False"

text \<open>\<open>info\<close> and \<open>error\<close> call \<open>log\<close> with their level; members left out are the empty object.\<close>

definition redacted_record :: "bool \<Rightarrow> string \<Rightarrow> (string \<times> json) list option \<Rightarrow> (string \<times> json) list" where
  "redacted_record isError ev members =
     [(''level'', JStr (if isError then ''error'' else ''info'')), (''event'', JStr ev)] @
     filter (\<lambda>(k, v). k \<in> set SAFE_FIELDS \<and> text_or_number v) (case members of None \<Rightarrow> [] | Some ms \<Rightarrow> ms)"

end
