(* ===== verification/Worker_Properties.thy ===== *)
theory Worker_Properties
  imports Worker
begin

text \<open>
  What the worker promises: the outbox is worked through in order and an event is marked only after
  it was published; a webhook is fetched at most four times, each time at an address that was looked up
  just before and is public; a notification and a log line carry the listed fields only.
\<close>

subsection \<open>The outbox publisher\<close>

datatype 'e publisher_call =
    Published worker_event
  | PublishFailed worker_event 'e
  | Marked string string
  | MarkFailed string string 'e

text \<open>The two acts on a world that also keeps the calls in order, each with how it went.\<close>

definition recording ::
  "'e publisher_call \<Rightarrow> ('e \<Rightarrow> 'e publisher_call) \<Rightarrow> ('e, unit, 's) act \<Rightarrow>
   ('e, unit, 's \<times> 'e publisher_call list) act" where
  "recording done failed m = (\<lambda>(s, l). case m s of
     (Inr u, s') \<Rightarrow> (Inr u, (s', l @ [done])) | (Inl x, s') \<Rightarrow> (Inl x, (s', l @ [failed x])))"

definition recorded_publish ::
  "(worker_event \<Rightarrow> ('e, unit, 's) act) \<Rightarrow> worker_event \<Rightarrow> ('e, unit, 's \<times> 'e publisher_call list) act" where
  "recorded_publish publish e = recording (Published e) (PublishFailed e) (publish e)"

definition recorded_store :: "('e, 's) outbox_store \<Rightarrow> ('e, 's \<times> 'e publisher_call list) outbox_store" where
  "recorded_store st =
     \<lparr>os_claim = (\<lambda>n (s, l). case os_claim st n s of (r, s') \<Rightarrow> (r, (s', l))),
      os_markPublished = (\<lambda>i at. recording (Marked i at) (MarkFailed i at) (os_markPublished st i at))\<rparr>"

lemma recorded_simps [simp]:
  "recorded_publish publish e (s, l) = (case publish e s of
     (Inr u, s') \<Rightarrow> (Inr u, (s', l @ [Published e])) | (Inl x, s') \<Rightarrow> (Inl x, (s', l @ [PublishFailed e x])))"
  "os_markPublished (recorded_store st) i at (s, l) = (case os_markPublished st i at s of
     (Inr u, s') \<Rightarrow> (Inr u, (s', l @ [Marked i at])) | (Inl x, s') \<Rightarrow> (Inl x, (s', l @ [MarkFailed i at x])))"
  "os_claim (recorded_store st) n (s, l) = (case os_claim st n s of (r, s') \<Rightarrow> (r, (s', l)))"
  by (simp_all add: recorded_publish_def recorded_store_def recording_def)

text \<open>The logs of working through the events in order: each is published and then marked before the next one,
and a call that failed is the last one, its error the result of the run.\<close>

fun worked :: "worker_event list \<Rightarrow> 'e publisher_call list \<Rightarrow> 'e option \<Rightarrow> bool" where
  "worked [] l x \<longleftrightarrow> l = [] \<and> x = None"
| "worked (e # es) (PublishFailed d y # l) x \<longleftrightarrow> d = e \<and> l = [] \<and> x = Some y"
| "worked (e # es) (Published d # MarkFailed i at y # l) x \<longleftrightarrow> d = e \<and> i = we_id e \<and> l = [] \<and> x = Some y"
| "worked (e # es) (Published d # Marked i at # l) x \<longleftrightarrow> d = e \<and> i = we_id e \<and> worked es l x"
| "worked _ _ _ = False"

lemma publish_all_worked:
  assumes "publish_all (recorded_publish publish) (recorded_store st) now n es (s, l) = (r, (s', l'))"
  shows "\<exists>t. l' = l @ t \<and>
    (case r of Inr k \<Rightarrow> k = n + int (length es) \<and> worked es t None | Inl x \<Rightarrow> worked es t (Some x))"
  using assms
proof (induction es arbitrary: n s l)
  case (Cons e es)
  obtain a s1 where p: "publish e s = (a, s1)" by (cases "publish e s")
  show ?case
  proof (cases a)
    case (Inl x)
    have "r = Inl x" "l' = l @ [PublishFailed e x]"
      using Cons.prems p Inl by simp_all
    then show ?thesis by simp
  next
    case (Inr u)
    let ?at = "toISOString (now (s1, l @ [Published e]))"
    obtain b s2 where m: "os_markPublished st (we_id e) ?at s1 = (b, s2)" by fastforce
    show ?thesis
    proof (cases b)
      case (Inl x)
      then have "r = Inl x" "l' = l @ [Published e, MarkFailed (we_id e) ?at x]"
        using Cons.prems p Inr m by simp_all
      then show ?thesis by simp
    next
      case (Inr u2)
      then have "publish_all (recorded_publish publish) (recorded_store st) now (n + 1) es
          (s2, l @ [Published e, Marked (we_id e) ?at]) = (r, (s', l'))"
        using Cons.prems p \<open>a = Inr u\<close> m by simp
      from Cons.IH [OF this] obtain t where t: "l' = l @ [Published e, Marked (we_id e) ?at] @ t"
        "case r of Inr k \<Rightarrow> k = n + 1 + int (length es) \<and> worked es t None | Inl x \<Rightarrow> worked es t (Some x)" by auto
      then show ?thesis
        by (intro exI [of _ "Published e # Marked (we_id e) ?at # t"]) (auto split: sum.splits)
    qed
  qed
qed auto

subsection \<open>Webhooks\<close>

text \<open>The addresses a webhook may not have, as networks of 32-bit addresses.\<close>

definition ipv4 :: "nat \<Rightarrow> nat \<Rightarrow> nat \<Rightarrow> nat \<Rightarrow> 32 word" where
  "ipv4 a b c d = word_of_nat (((a * 256 + b) * 256 + c) * 256 + d)"

definition in_network :: "32 word \<Rightarrow> 32 word \<Rightarrow> nat \<Rightarrow> bool" where
  "in_network address network bits \<longleftrightarrow> drop_bit (32 - bits) address = drop_bit (32 - bits) network"

definition refused_networks :: "(32 word \<times> nat) list" where
  "refused_networks = [(ipv4 10 0 0 0, 8), (ipv4 127 0 0 0, 8), (ipv4 169 254 0 0, 16), (ipv4 172 16 0 0, 12),
     (ipv4 192 168 0 0, 16), (ipv4 224 0 0 0, 3)]"

definition dotted :: "string \<Rightarrow> string \<Rightarrow> string \<Rightarrow> string \<Rightarrow> string" where
  "dotted a b c d = a @ ''.'' @ b @ ''.'' @ c @ ''.'' @ d"

lemma split_at_Cons: "d \<notin> set s \<Longrightarrow> split_at d (s @ d # t) = s # split_at d t"
  by (induction s) (auto split: list.splits)

lemma digits_no_dot: "number_from n s = Some m \<Longrightarrow> CHR ''.'' \<notin> set s"
proof (induction s arbitrary: n)
  case (Cons c s)
  have "digit_val CHR ''.'' = None" by code_simp
  with Cons show ?case by (auto split: option.splits)
qed simp

lemma unat_ipv4:
  assumes "a < 256" "b < 256" "c < 256" "d < 256"
  shows "unat (ipv4 a b c d) = ((a * 256 + b) * 256 + c) * 256 + d"
  using assms by (simp only: ipv4_def unat_of_nat) simp

lemma ipv4_prefixes:
  assumes "b < 256" "c < 256" "d < (256::nat)"
  shows "(((a * 256 + b) * 256 + c) * 256 + d) div 2 ^ 24 = a"
    and "(((a * 256 + b) * 256 + c) * 256 + d) div 2 ^ 29 = a div 32"
    and "(((a * 256 + b) * 256 + c) * 256 + d) div 2 ^ 16 = a * 256 + b"
    and "(((a * 256 + b) * 256 + c) * 256 + d) div 2 ^ 20 = a * 16 + b div 16"
proof -
  have 1: "(((a * 256 + b) * 256 + c) * 256 + d) div 256 div 256 = a * 256 + b" using assms by simp
  then show 2: "(((a * 256 + b) * 256 + c) * 256 + d) div 2 ^ 16 = a * 256 + b"
    by (simp flip: div_mult2_eq)
  have split: "n div 2 ^ 24 = n div 2 ^ 16 div 256" "n div 2 ^ 29 = n div 2 ^ 16 div 256 div 32"
    "n div 2 ^ 20 = n div 2 ^ 16 div 16" for n :: nat
    by (simp_all flip: div_mult2_eq)
  show "(((a * 256 + b) * 256 + c) * 256 + d) div 2 ^ 24 = a"
    unfolding split 2 using assms by simp
  show "(((a * 256 + b) * 256 + c) * 256 + d) div 2 ^ 29 = a div 32"
    unfolding split 2 using assms by simp
  show "(((a * 256 + b) * 256 + c) * 256 + d) div 2 ^ 20 = a * 16 + b div 16"
    unfolding split 2 by presburger
qed

lemma digit_pair:
  assumes "b < m" "b' < (m::nat)"
  shows "a * m + b = a' * m + b' \<longleftrightarrow> a = a' \<and> b = b'"
proof
  assume eq: "a * m + b = a' * m + b'"
  have "a = a'" using arg_cong [OF eq, of "\<lambda>n. n div m"] assms by simp
  moreover have "b = b'" using arg_cong [OF eq, of "\<lambda>n. n mod m"] assms by simp
  ultimately show "a = a' \<and> b = b'" by simp
qed simp

lemma in_network_ipv4:
  assumes "a < 256" "b < 256" "c < 256" "d < 256" "a' < 256" "b' < 256"
  shows "in_network (ipv4 a b c d) (ipv4 a' 0 0 0) 8 \<longleftrightarrow> a = a'"
    and "in_network (ipv4 a b c d) (ipv4 a' 0 0 0) 3 \<longleftrightarrow> a div 32 = a' div 32"
    and "in_network (ipv4 a b c d) (ipv4 a' b' 0 0) 16 \<longleftrightarrow> a = a' \<and> b = b'"
    and "in_network (ipv4 a b c d) (ipv4 a' b' 0 0) 12 \<longleftrightarrow> a = a' \<and> b div 16 = b' div 16"
proof -
  have net: "in_network (ipv4 a b c d) (ipv4 a' b'' 0 0) n \<longleftrightarrow>
      (((a * 256 + b) * 256 + c) * 256 + d) div 2 ^ (32 - n) = (((a' * 256 + b'') * 256 + 0) * 256 + 0) div 2 ^ (32 - n)"
    if "b'' < 256" for b'' n
    using assms that by (simp only: in_network_def word_unat_eq_iff unat_drop_bit_eq unat_ipv4)
      (simp add: drop_bit_eq_div)
  have bits: "32 - 8 = (24::nat)" "32 - 3 = (29::nat)" "32 - 16 = (16::nat)" "32 - 12 = (20::nat)" by simp_all
  note prefixes = ipv4_prefixes [OF assms(2,3,4)] ipv4_prefixes [of 0 0 0] ipv4_prefixes [of b' 0 0]
  show "in_network (ipv4 a b c d) (ipv4 a' 0 0 0) 8 \<longleftrightarrow> a = a'"
    by (subst net, simp, unfold bits, simp only: prefixes zero_less_numeral)
  show "in_network (ipv4 a b c d) (ipv4 a' 0 0 0) 3 \<longleftrightarrow> a div 32 = a' div 32"
    by (subst net, simp, unfold bits, simp only: prefixes zero_less_numeral)
  show "in_network (ipv4 a b c d) (ipv4 a' b' 0 0) 16 \<longleftrightarrow> a = a' \<and> b = b'"
    using assms by (subst net, simp, unfold bits, simp only: prefixes zero_less_numeral)
      (rule digit_pair, simp_all)
  show "in_network (ipv4 a b c d) (ipv4 a' b' 0 0) 12 \<longleftrightarrow> a = a' \<and> b div 16 = b' div 16"
    using assms by (subst net, simp, unfold bits, simp only: prefixes zero_less_numeral)
      (rule digit_pair, simp_all)
qed

lemma private_v4_octets:
  assumes "number_from 0 a = Some x" "number_from 0 b = Some y" "number_from 0 c = Some z" "number_from 0 d = Some v"
    and "x < 256" "y < 256" "z < 256" "v < 256"
  shows "private_v4 (dotted a b c d) \<longleftrightarrow> (\<exists>(network, bits) \<in> set refused_networks. in_network (ipv4 x y z v) network bits)"
proof -
  have "split_at (CHR ''.'') (dotted a b c d) = [a, b, c, d]"
    using assms(1-4) [THEN digits_no_dot] by (simp add: dotted_def split_at_Cons split_at_none)
  then have "octet 0 (dotted a b c d) = Some x" "octet 1 (dotted a b c d) = Some y"
    using assms by (simp_all add: octet_def Let_def)
  moreover have "x div 32 = 7 \<longleftrightarrow> 224 \<le> x" "y div 16 = 1 \<longleftrightarrow> 16 \<le> y \<and> y \<le> 31" using assms by auto
  ultimately show ?thesis
    using assms by (simp add: private_v4_def octet_in_def refused_networks_def in_network_ipv4)
qed

text \<open>The networks read off an address: the 32-bit value of a dotted IPv4 address and the 16-bit value of the
first group of an IPv6 address.\<close>

definition v4_value :: "string \<Rightarrow> 32 word option" where
  "v4_value a = (case map (number_from 0) (split_at (CHR ''.'') a) of
     [Some x, Some y, Some z, Some v] \<Rightarrow>
       if x < 256 \<and> y < 256 \<and> z < 256 \<and> v < 256 then Some (ipv4 x y z v) else None
   | _ \<Rightarrow> None)"

fun hex_from :: "nat \<Rightarrow> string \<Rightarrow> nat option" where
  "hex_from n [] = Some n"
| "hex_from n (c # cs) = (case hex_val c of None \<Rightarrow> None | Some v \<Rightarrow> hex_from (16 * n + v) cs)"

definition first_group :: "string \<Rightarrow> nat option" where
  "first_group a = (let g = takeWhile (\<lambda>c. c \<noteq> CHR '':'') (map ascii_lower a) in
     if length g \<le> 4 then hex_from 0 g else None)"

definition refused_groups :: "(nat \<times> nat) list" where
  "refused_groups = [(0xfc00, 7), (0xfe80, 10), (0xff00, 8)]"

definition in_group_network :: "nat \<Rightarrow> nat \<Rightarrow> nat \<Rightarrow> bool" where
  "in_group_network n network bits \<longleftrightarrow> n div 2 ^ (16 - bits) = network div 2 ^ (16 - bits)"

definition outside_v4 :: "string \<Rightarrow> bool" where
  "outside_v4 a \<longleftrightarrow> (case v4_value a of None \<Rightarrow> True
     | Some w \<Rightarrow> list_all (\<lambda>(network, bits). \<not> in_network w network bits) refused_networks)"

definition outside_v6 :: "string \<Rightarrow> bool" where
  "outside_v6 a \<longleftrightarrow> a \<noteq> ''::1'' \<and> (case first_group a of None \<Rightarrow> True
     | Some n \<Rightarrow> list_all (\<lambda>(network, bits). \<not> in_group_network n network bits) refused_groups)"

text \<open>What is required of every address a name resolves to, and of the name.\<close>

definition outside_address :: "(string \<Rightarrow> nat) \<Rightarrow> string \<Rightarrow> bool" where
  "outside_address isIP a \<longleftrightarrow> isIP a = 4 \<and> outside_v4 a \<or> isIP a = 6 \<and> outside_v6 a"

definition outside_host :: "string \<Rightarrow> bool" where
  "outside_host h \<longleftrightarrow> h \<notin> {''localhost'', ''metadata.google.internal'', ''host.docker.internal''} \<and>
     (\<nexists>p. h = p @ ''.localhost'')"

lemma list_of_map_Some4:
  "map f ws = [Some x, Some y, Some z, Some v] \<longleftrightarrow>
   (\<exists>a b c d. ws = [a, b, c, d] \<and> f a = Some x \<and> f b = Some y \<and> f c = Some z \<and> f d = Some v)"
  by (auto simp: map_eq_Cons_conv)

lemma v4_value_Some:
  assumes "v4_value a = Some w"
  obtains p q r t x y z v where "split_at (CHR ''.'') a = [p, q, r, t]" "number_from 0 p = Some x"
    "number_from 0 q = Some y" "number_from 0 r = Some z" "number_from 0 t = Some v"
    "x < 256" "y < 256" "z < 256" "v < 256" "w = ipv4 x y z v"
proof -
  from assms obtain x y z v where "map (number_from 0) (split_at (CHR ''.'') a) = [Some x, Some y, Some z, Some v]"
    "x < 256" "y < 256" "z < 256" "v < 256" "w = ipv4 x y z v"
    unfolding v4_value_def by (auto split: list.splits option.splits if_splits)
  then show thesis unfolding list_of_map_Some4 by (elim exE conjE) (rule that)
qed

lemma private_v4_networks:
  assumes "v4_value a = Some w"
  shows "private_v4 a \<longleftrightarrow> (\<exists>(network, bits) \<in> set refused_networks. in_network w network bits)"
proof -
  from assms obtain p q r t x y z v where parts: "split_at (CHR ''.'') a = [p, q, r, t]" "number_from 0 p = Some x"
    "number_from 0 q = Some y" "x < 256" "y < 256" "z < 256" "v < 256" "w = ipv4 x y z v"
    by (rule v4_value_Some)
  then have "octet 0 a = Some x" "octet 1 a = Some y" by (simp_all add: octet_def)
  moreover have "x div 32 = 7 \<longleftrightarrow> 224 \<le> x" "y div 16 = 1 \<longleftrightarrow> 16 \<le> y \<and> y \<le> 31" using parts by auto
  ultimately show ?thesis
    using parts by (simp add: private_v4_def octet_in_def refused_networks_def in_network_ipv4)
qed

lemma hex_val_lower:
  assumes "hex_val c = Some n" and "ascii_lower c = c"
  shows "n < 16 \<and> c = hex_char n"
proof -
  have "list_all (\<lambda>c. ascii_lower c = c \<longrightarrow> the (hex_val c) < 16 \<and> c = hex_char (the (hex_val c))) (hex_digits @ ''ABCDEF'')"
    by code_simp
  moreover from assms(1) have "c \<in> set (hex_digits @ ''ABCDEF'')" by (auto simp: hex_val_def split: if_splits)
  ultimately show ?thesis using assms unfolding list_all_iff by (metis option.sel)
qed

lemma ascii_lower_idem: "ascii_lower (ascii_lower c) = ascii_lower c"
  by (auto simp: ascii_lower_def Let_def)

lemma hex_from_bound:
  "hex_from m g = Some n \<Longrightarrow> \<forall>c \<in> set g. ascii_lower c = c \<Longrightarrow> n < (m + 1) * 16 ^ length g"
proof (induction g arbitrary: m)
  case (Cons c g)
  then obtain v where v: "hex_val c = Some v" "hex_from (16 * m + v) g = Some n" by (auto split: option.splits)
  with Cons.prems hex_val_lower have "v < 16" by simp
  from Cons.IH [OF v(2)] Cons.prems have "n < (16 * m + v + 1) * 16 ^ length g" by simp
  also have "\<dots> \<le> (16 * (m + 1)) * 16 ^ length g" using \<open>v < 16\<close> by (intro mult_right_mono) simp_all
  finally show ?case by (simp add: algebra_simps)
qed simp

lemma group_prefix:
  assumes "first_group a = Some n" and "4096 \<le> n"
  shows "\<exists>v1 v2 v3 v4. v1 < 16 \<and> v2 < 16 \<and> v3 < 16 \<and> v4 < 16 \<and> n = ((v1 * 16 + v2) * 16 + v3) * 16 + v4 \<and>
    take 3 (map ascii_lower a) = [hex_char v1, hex_char v2, hex_char v3]"
proof -
  let ?l = "map ascii_lower a"
  let ?g = "takeWhile (\<lambda>c. c \<noteq> CHR '':'') ?l"
  from assms(1) have g: "length ?g \<le> 4" "hex_from 0 ?g = Some n"
    by (auto simp: first_group_def Let_def split: if_splits)
  have "\<forall>c \<in> set ?l. ascii_lower c = c" by (auto simp: ascii_lower_idem)
  then have low: "\<forall>c \<in> set ?g. ascii_lower c = c" by (meson set_takeWhileD)
  have "4 \<le> length ?g"
  proof (rule ccontr)
    assume "\<not> 4 \<le> length ?g"
    then have "(16 :: nat) ^ length ?g \<le> 16 ^ 3" by (intro power_increasing) simp_all
    with hex_from_bound [OF g(2) low] assms(2) show False by simp
  qed
  with g(1) have "length ?g = Suc (Suc (Suc (Suc 0)))" by simp
  then obtain c1 c2 c3 c4 where cs: "?g = [c1, c2, c3, c4]" by (auto simp: length_Suc_conv)
  from g(2) cs obtain v1 v2 v3 v4 where v: "hex_val c1 = Some v1" "hex_val c2 = Some v2" "hex_val c3 = Some v3"
    "hex_val c4 = Some v4" "n = ((v1 * 16 + v2) * 16 + v3) * 16 + v4"
    by (auto split: option.splits simp: ac_simps)
  have "ascii_lower c = c" if "c \<in> {c1, c2, c3, c4}" for c using low that unfolding cs by auto
  then have h: "v1 < 16 \<and> c1 = hex_char v1" "v2 < 16 \<and> c2 = hex_char v2" "v3 < 16 \<and> c3 = hex_char v3"
    "v4 < 16 \<and> c4 = hex_char v4" using v(1-4) hex_val_lower by simp_all
  have "?l = [c1, c2, c3, c4] @ dropWhile (\<lambda>c. c \<noteq> CHR '':'') ?l" using cs by (metis takeWhile_dropWhile_id)
  then have "take 3 ?l = [c1, c2, c3]" by (metis append_Cons take_Suc_Cons take_0 numeral_3_eq_3)
  with h v(5) show ?thesis by blast
qed

lemma private_v6_networks:
  assumes "\<not> private_v6 a"
  shows "outside_v6 a"
proof -
  let ?l = "map ascii_lower a"
  have loop: "map ascii_lower ''::1'' = ''::1''" by code_simp
  have prefixes: "take 2 ?l \<noteq> ''fc'' \<and> take 2 ?l \<noteq> ''fd'' \<and> take 2 ?l \<noteq> ''ff'' \<and>
    take 3 ?l \<notin> {''fe8'', ''fe9'', ''fea'', ''feb''}"
    using assms by (simp add: private_v6_def Let_def starts_with_def numeral_2_eq_2 numeral_3_eq_3)
  have digits: "hex_char 15 = CHR ''f''" "hex_char 14 = CHR ''e''" "hex_char 13 = CHR ''d''" "hex_char 12 = CHR ''c''"
    "hex_char 8 = CHR ''8''" "hex_char 9 = CHR ''9''" "hex_char 10 = CHR ''a''" "hex_char 11 = CHR ''b''" by code_simp+
  have "\<not> in_group_network n network bits"
    if n: "first_group a = Some n" and net: "(network, bits) \<in> set refused_groups" for n network bits
  proof
    assume inside: "in_group_network n network bits"
    with net have range: "n div 512 = 126 \<or> n div 64 = 1018 \<or> n div 256 = 255"
      by (auto simp: refused_groups_def in_group_network_def)
    then have "4096 \<le> n" by auto
    from group_prefix [OF n this] obtain v1 v2 v3 v4 where v: "v1 < 16" "v2 < 16" "v3 < 16" "v4 < 16"
      "n = ((v1 * 16 + v2) * 16 + v3) * 16 + v4" and l: "take 3 ?l = [hex_char v1, hex_char v2, hex_char v3]" by blast
    have v: "v1 < 16" "v2 < 16" "v3 < 16" "v4 < 16" "n = 4096 * v1 + 256 * v2 + 16 * v3 + v4" using v by simp_all
    have "take 2 ?l = take 2 (take 3 ?l)" by simp
    then have l2: "take 2 ?l = [hex_char v1, hex_char v2]" unfolding l by simp
    from range have "v1 = 15 \<and> (v2 \<in> {12, 13, 15} \<or> v2 = 14 \<and> v3 \<in> {8, 9, 10, 11})"
    proof (elim disjE)
      assume "n div 512 = 126"
      then have range: "64512 \<le> n" "n < 65024" by auto
      with v have "15 \<le> v1" by linarith
      with v(1) have v1: "v1 = 15" by simp
      from range v have "12 \<le> v2" "v2 \<le> 13" unfolding v1 by - (linarith+)
      with v1 show ?thesis by auto
    next
      assume "n div 64 = 1018"
      then have range: "65152 \<le> n" "n < 65216" by auto
      with v have "15 \<le> v1" by linarith
      with v(1) have v1: "v1 = 15" by simp
      from range v have "14 \<le> v2" "v2 \<le> 14" unfolding v1 by - (linarith+)
      then have v2: "v2 = 14" by simp
      from range v have "8 \<le> v3" "v3 \<le> 11" unfolding v1 v2 by - (linarith+)
      with v1 v2 show ?thesis by auto
    next
      assume "n div 256 = 255"
      then have range: "65280 \<le> n" "n < 65536" by auto
      with v have "15 \<le> v1" by linarith
      with v(1) have v1: "v1 = 15" by simp
      from range v have "15 \<le> v2" unfolding v1 by linarith
      with v1 v(2) show ?thesis by auto
    qed
    with prefixes l l2 digits show False by auto
  qed
  then show ?thesis
    using assms loop by (auto simp: outside_v6_def list_all_iff private_v6_def Let_def split: option.split)
qed

lemma private_address_outside: "\<not> isPrivateAddress isIP a \<Longrightarrow> outside_address isIP a"
  using private_v4_networks [of a] private_v6_networks [of a]
  by (auto simp: isPrivateAddress_def outside_address_def outside_v4_def list_all_iff split: option.split if_splits)

lemma private_host_outside: "\<not> isPrivateHost h \<Longrightarrow> outside_host h"
  by (auto simp: isPrivateHost_def outside_host_def ends_with_def)

datatype web_call = Looked string "string list option" | Fetched web_url

definition traced :: "'s web \<Rightarrow> ('s \<times> web_call list) web" where
  "traced w = \<lparr>wb_url = wb_url w, wb_resolve = wb_resolve w, wb_isIP = wb_isIP w,
     wb_lookup = (\<lambda>h (s, l). case wb_lookup w h s of (a, s') \<Rightarrow> (a, (s', l @ [Looked h a]))),
     wb_fetch = (\<lambda>u body hs t (s, l). case wb_fetch w u body hs t s of (a, s') \<Rightarrow> (a, (s', l @ [Fetched u])))\<rparr>"

text \<open>Every fetch goes to the host just looked up, which is outside the refused
names and networks with all its addresses, unless private ones are allowed.\<close>

definition public_url :: "bool \<Rightarrow> (string \<Rightarrow> nat) \<Rightarrow> web_url \<Rightarrow> string list \<Rightarrow> bool" where
  "public_url allow isIP u addresses \<longleftrightarrow> wu_protocol u = ''https:'' \<and> wu_hostname u \<noteq> [] \<and> wu_username u = [] \<and>
     wu_password u = [] \<and>
     (allow \<or> outside_host (wu_hostname u) \<and> list_all (outside_address isIP) addresses)"

fun public_trace :: "bool \<Rightarrow> (string \<Rightarrow> nat) \<Rightarrow> web_call list \<Rightarrow> bool" where
  "public_trace allow isIP (Looked h (Some addresses) # Fetched u # l) \<longleftrightarrow>
     h = wu_hostname u \<and> public_url allow isIP u addresses \<and> public_trace allow isIP l"
| "public_trace allow isIP [Looked h a] = True"
| "public_trace allow isIP [] = True"
| "public_trace allow isIP _ = False"

definition fetches :: "web_call list \<Rightarrow> nat" where
  "fetches l = length (filter (\<lambda>c. case c of Fetched _ \<Rightarrow> True | _ \<Rightarrow> False) l)"

lemma fetches_simps [simp]:
  "fetches [] = 0" "fetches (Fetched u # l) = Suc (fetches l)" "fetches (Looked h a # l) = fetches l"
  by (simp_all add: fetches_def)

lemma safe_url_traced:
  assumes "assertSafeWebhookUrl (traced w) allow value (s, l) = (r, (s', l'))"
  shows "(\<exists>url addresses. r = Inr url \<and> l' = l @ [Looked (wu_hostname url) (Some addresses)] \<and>
      wb_url w value = Some url \<and> public_url allow (wb_isIP w) url addresses) \<or>
    (\<exists>e t. r = Inl e \<and> l' = l @ t \<and> public_trace allow (wb_isIP w) t \<and> fetches t = 0 \<and> length t \<le> 1)"
proof (cases "wb_url w value")
  case (Some url)
  obtain a s1 where look: "wb_lookup w (wu_hostname url) s = (a, s1)" by fastforce
  show ?thesis
  proof (cases "wu_protocol url = ''https:'' \<and> wu_hostname url \<noteq> [] \<and> wu_username url = [] \<and>
      wu_password url = [] \<and> (allow \<or> \<not> isPrivateHost (wu_hostname url))")
    case True
    have looked: "assertSafeWebhookUrl (traced w) allow value (s, l) =
        (case a of None \<Rightarrow> (Inl LookupThrows, (s1, l @ [Looked (wu_hostname url) a]))
         | Some addresses \<Rightarrow> if \<not> allow \<and> list_ex (isPrivateAddress (wb_isIP w)) addresses
             then (Inl WebhookPrivateAddress, (s1, l @ [Looked (wu_hostname url) a]))
             else (Inr url, (s1, l @ [Looked (wu_hostname url) a])))"
      using Some True look
      by (auto simp: assertSafeWebhookUrl_def traced_def throwM_def returnM_def split: option.split)
    have "public_url allow (wb_isIP w) url addresses" if "allow \<or> \<not> list_ex (isPrivateAddress (wb_isIP w)) addresses" for addresses
      using True that private_address_outside [of "wb_isIP w"] private_host_outside
      by (auto simp: public_url_def list_ex_iff list_all_iff)
    with looked assms Some show ?thesis
      by (auto split: option.splits if_splits intro: exI [of _ "[Looked _ _]"])
  next
    case False
    then have "\<exists>e. r = Inl e \<and> l' = l"
      using assms Some by (auto simp: assertSafeWebhookUrl_def traced_def throwM_def split: if_splits)
    then show ?thesis by (auto intro: exI [of _ "[]"])
  qed
next
  case None
  then show ?thesis using assms by (auto simp: assertSafeWebhookUrl_def traced_def throwM_def intro: exI [of _ "[]"])
qed

definition good_answer :: "webhook_options \<Rightarrow> webhook_error + webhook_response \<Rightarrow> bool" where
  "good_answer opts r \<longleftrightarrow> (case r of Inl _ \<Rightarrow> True | Inr response \<Rightarrow> wr_status response \<notin> set redirect_statuses \<and>
     (\<exists>bs. wr_body response = Some bs \<and>
       int (length bs) \<le> (case wo_maxResponseBytes opts of None \<Rightarrow> 1048576 | Some m \<Rightarrow> m)))"

lemma post_loop_traced:
  assumes "post_loop (traced w) opts body n url (s, l) = (r, (s', l'))"
    and "wo_allowPrivate opts = allow" "n \<le> 3" "public_url allow (wb_isIP w) url addresses"
  shows "\<exists>t. l' = l @ Fetched url # t \<and> public_trace allow (wb_isIP w) t \<and> fetches t + n \<le> 3 \<and> length t + 2 * n \<le> 6 \<and> good_answer opts r"
  using assms
proof (induction "3 - n" arbitrary: n url s l addresses)
  case 0
  then have n: "n = 3" by simp
  obtain a s1 where f: "wb_fetch w url body (request_headers opts)
      (case wo_timeoutMs opts of None \<Rightarrow> 10000 | Some t \<Rightarrow> t) s = (a, s1)" by fastforce
  have "l' = l @ [Fetched url] \<and> good_answer opts r"
    using 0(2) f by (subst (asm) post_loop.simps)
      (auto simp: n traced_def good_answer_def throwM_def returnM_def not_less split: option.splits if_splits)
  then show ?case using n by (intro exI [of _ "[]"]) simp
next
  case (Suc k)
  obtain a s1 where f: "wb_fetch w url body (request_headers opts)
      (case wo_timeoutMs opts of None \<Rightarrow> 10000 | Some t \<Rightarrow> t) s = (a, s1)" by fastforce
  show ?case
  proof (cases "\<exists>response location v. a = Some response \<and> wr_status response \<in> set redirect_statuses \<and>
      wr_location response = Some location \<and> location \<noteq> [] \<and> wb_resolve w location url = Some v")
    case False
    have "l' = l @ [Fetched url] \<and> good_answer opts r"
      using Suc.prems(1) f False Suc.hyps(2) by (subst (asm) post_loop.simps)
        (auto simp: traced_def good_answer_def throwM_def returnM_def not_less split: option.splits if_splits)
    then show ?thesis using Suc.prems(3) by (intro exI [of _ "[]"]) simp
  next
    case True
    then obtain response location v where red: "a = Some response" "wr_status response \<in> set redirect_statuses"
      "wr_location response = Some location" "location \<noteq> []" "wb_resolve w location url = Some v" by blast
    obtain r1 s2 l2 where safe: "assertSafeWebhookUrl (traced w) allow v (s1, l @ [Fetched url]) = (r1, (s2, l2))"
      by (cases "assertSafeWebhookUrl (traced w) allow v (s1, l @ [Fetched url])") auto
    have "n \<noteq> 3" "\<not> 3 < n" using Suc.hyps(2) by simp_all
    then have step: "post_loop (traced w) opts body n url (s, l) =
        (case r1 of Inl e \<Rightarrow> (Inl e, (s2, l2)) | Inr url' \<Rightarrow> post_loop (traced w) opts body (n + 1) url' (s2, l2))"
      using f red safe Suc.prems(2)
      by (subst post_loop.simps) (simp add: traced_def [of w, THEN arg_cong [where f = wb_fetch]]
        traced_def [of w, THEN arg_cong [where f = wb_resolve]] split: sum.split)
    from safe_url_traced [OF safe] show ?thesis
    proof (elim disjE exE conjE)
      fix url' addrs
      assume ok: "r1 = Inr url'" "l2 = (l @ [Fetched url]) @ [Looked (wu_hostname url') (Some addrs)]"
        "public_url allow (wb_isIP w) url' addrs"
      have k: "k = 3 - (n + 1)" "n + 1 \<le> 3" using Suc.hyps(2) by simp_all
      have "post_loop (traced w) opts body (n + 1) url' (s2, l2) = (r, (s', l'))"
        using step Suc.prems(1) ok(1) by simp
      from Suc.hyps(1) [OF k(1) this Suc.prems(2) k(2) ok(3)] obtain t where
        t: "l' = l2 @ Fetched url' # t" "public_trace allow (wb_isIP w) t" "fetches t + (n + 1) \<le> 3" "length t + 2 * (n + 1) \<le> 6" "good_answer opts r"
        by blast
      then show ?thesis using ok
        by (intro exI [of _ "Looked (wu_hostname url') (Some addrs) # Fetched url' # t"]) simp
    next
      fix e t
      assume bad: "r1 = Inl e" "l2 = (l @ [Fetched url]) @ t" "public_trace allow (wb_isIP w) t" "fetches t = 0" "length t \<le> 1"
      then have "l' = l @ Fetched url # t" "good_answer opts r"
        using step Suc.prems(1) by (auto simp: good_answer_def)
      then show ?thesis using bad Suc.prems(3) Suc.hyps(2) by (intro exI [of _ t]) simp
    qed
  qed
qed

subsection \<open>Notifications and log lines\<close>

lemma notification_members:
  assumes "(k, v) \<in> set (no_payload (notification_of e))"
  shows "k \<in> set notification_fields" "isSafe v" "(k, v) \<in> set (we_payload e)"
  using assms by (auto simp: notification_of_def sanitizeNotificationPayload_def)

lemma log_members:
  assumes "log_record now level ms ev = JObj line" "(k, v) \<in> set line"
  shows "isScalar v" "k \<in> set ([''timestamp'', ''level'', ''event''] @ ALLOWED_FIELDS)"
  using assms by (auto simp: log_record_def sanitizeTelemetry_def)

lemma redacted_members:
  assumes "(k, v) \<in> set (redacted_record isError ev ms)"
  shows "text_or_number v" "k \<in> set ([''level'', ''event''] @ SAFE_FIELDS)"
  using assms by (auto simp: redacted_record_def split: if_splits option.splits)

lemma event_name_safe: "safeEventName v = ''log_event'' \<or> safeEventName v = v \<and> length v \<le> 128 \<and> v \<noteq> []"
  by (cases v) (simp_all add: safeEventName_def)

text \<open>Addresses that name this host or a private network and are not refused.\<close>

lemma unspecified_address_accepted:
  "isIP ''0.0.0.0'' = 4 \<Longrightarrow> \<not> isPrivateAddress isIP ''0.0.0.0''"
  "isIP ''100.64.0.1'' = 4 \<Longrightarrow> \<not> isPrivateAddress isIP ''100.64.0.1''"
  "isIP ''::'' = 6 \<Longrightarrow> \<not> isPrivateAddress isIP ''::''"
  "isIP ''::ffff:127.0.0.1'' = 6 \<Longrightarrow> \<not> isPrivateAddress isIP ''::ffff:127.0.0.1''"
proof -
  have "\<not> private_v4 ''0.0.0.0''" "\<not> private_v4 ''100.64.0.1''" "\<not> private_v6 ''::''"
    "\<not> private_v6 ''::ffff:127.0.0.1''" by code_simp+
  then show "isIP ''0.0.0.0'' = 4 \<Longrightarrow> \<not> isPrivateAddress isIP ''0.0.0.0''"
    "isIP ''100.64.0.1'' = 4 \<Longrightarrow> \<not> isPrivateAddress isIP ''100.64.0.1''"
    "isIP ''::'' = 6 \<Longrightarrow> \<not> isPrivateAddress isIP ''::''"
    "isIP ''::ffff:127.0.0.1'' = 6 \<Longrightarrow> \<not> isPrivateAddress isIP ''::ffff:127.0.0.1''"
    by (simp_all add: isPrivateAddress_def)
qed

subsection \<open>Properties\<close>

text \<open>C21. One run of the publisher works through the claimed events in order, publishing each before it marks
it. The first call that fails, of either kind, ends the run with its error, and nothing is published or
marked after it; a run that answers a number has published and marked every claimed event, that many.\<close>

theorem outbox_published_in_order:
  assumes "runOnce (recorded_publish publish) (recorded_store st) now n (s, []) = (r, (s', l))"
  shows "(\<exists>e. r = Inl e \<and> l = [] \<and> os_claim st n s = (Inl e, s')) \<or>
    (\<exists>es s1. os_claim st n s = (Inr es, s1) \<and>
       (case r of Inr k \<Rightarrow> k = int (length es) \<and> worked es l None | Inl x \<Rightarrow> worked es l (Some x)))"
proof (cases "os_claim st n s")
  case (Pair c s1)
  show ?thesis
  proof (cases c)
    case (Inl e)
    then show ?thesis using assms Pair by (simp add: runOnce_def seqM_def)
  next
    case (Inr es)
    then have "publish_all (recorded_publish publish) (recorded_store st) now 0 es (s1, []) = (r, (s', l))"
      using assms Pair by (simp add: runOnce_def seqM_def)
    from publish_all_worked [OF this] Inr Pair show ?thesis by (cases r) auto
  qed
qed

text \<open>C22. Whatever the servers answer, posting a webhook ends: after at most four fetches and four lookups of
names, each fetch to the HTTPS URL, without credentials, whose host was looked up just before. Unless the
caller allows private destinations, the host is not a local or metadata name and none of its addresses is
in 10.0.0.0/8, 127.0.0.0/8, 169.254.0.0/16, 172.16.0.0/12, 192.168.0.0/16, 224.0.0.0/3, \<open>::1\<close>, fc00::/7,
fe80::/10 or ff00::/8. An answer returned is no redirect and no longer than the limit.\<close>

theorem webhook_redirects_end:
  shows "\<exists>r s' l. postWebhook (traced w) destination body opts (s, []) = (r, (s', l)) \<and>
    fetches l \<le> 4 \<and> length l \<le> 8 \<and> public_trace (wo_allowPrivate opts) (wb_isIP w) l \<and> good_answer opts r"
proof -
  obtain r s' l where run: "postWebhook (traced w) destination body opts (s, []) = (r, (s', l))"
    by (cases "postWebhook (traced w) destination body opts (s, [])") auto
  obtain r1 s1 l1 where safe: "assertSafeWebhookUrl (traced w) (wo_allowPrivate opts) destination (s, []) = (r1, (s1, l1))"
    by (cases "assertSafeWebhookUrl (traced w) (wo_allowPrivate opts) destination (s, [])") auto
  have "fetches l \<le> 4 \<and> length l \<le> 8 \<and> public_trace (wo_allowPrivate opts) (wb_isIP w) l \<and> good_answer opts r"
    using safe_url_traced [OF safe]
  proof (elim disjE exE conjE)
    fix url addresses
    assume ok: "r1 = Inr url" "l1 = [] @ [Looked (wu_hostname url) (Some addresses)]"
      "public_url (wo_allowPrivate opts) (wb_isIP w) url addresses"
    then have "post_loop (traced w) opts body 0 url (s1, l1) = (r, (s', l))"
      using run safe by (simp add: postWebhook_def seqM_def)
    from post_loop_traced [OF this refl _ ok(3)] ok show ?thesis by auto
  next
    fix e t
    assume bad: "r1 = Inl e" "l1 = [] @ t" "public_trace (wo_allowPrivate opts) (wb_isIP w) t" "fetches t = 0"
      "length t \<le> 1"
    then have "r = Inl e" "l = t" using run safe by (simp_all add: postWebhook_def seqM_def)
    then show ?thesis using bad by (simp add: good_answer_def)
  qed
  with run show ?thesis by blast
qed

text \<open>For a dotted IPv4 address the test on its text is membership of the 32-bit address in six networks:
10.0.0.0/8, 127.0.0.0/8, 169.254.0.0/16, 172.16.0.0/12, 192.168.0.0/16 and 224.0.0.0/3.\<close>

theorem private_addresses_are_networks:
  assumes "isIP (dotted a b c d) = 4"
    and "number_from 0 a = Some x" "number_from 0 b = Some y" "number_from 0 c = Some z" "number_from 0 d = Some v"
    and "x < 256" "y < 256" "z < 256" "v < 256"
  shows "isPrivateAddress isIP (dotted a b c d) \<longleftrightarrow>
    (\<exists>(network, bits) \<in> set refused_networks. in_network (ipv4 x y z v) network bits)"
  using private_v4_octets [OF assms(2-9)] assms(1) by (simp add: isPrivateAddress_def)

subsection \<open>Witnesses\<close>

definition example_worker_event :: worker_event where
  "example_worker_event = \<lparr>we_id = ''evt_1'', we_tenantId = ''ten_1'', we_type = ''PrivacyRequestCompleted'',
     we_payload = [(''requestId'', JStr ''req_1''), (''email'', JStr ''x'')], we_occurredAt = toISOString 1000,
     we_publishedAt = None\<rparr>"

definition example_store :: "(unit, nat) outbox_store" where
  "example_store = \<lparr>os_claim = (\<lambda>_. returnM [example_worker_event, example_worker_event, example_worker_event]),
     os_markPublished = (\<lambda>_ _ n. (Inr (), n + 1))\<rparr>"

text \<open>The second of three events cannot be published: the first is marked, the third is not reached.\<close>

theorem outbox_published_in_order_witness:
  "\<exists>l. runOnce (recorded_publish (\<lambda>e n. (if n = 1 then Inl () else Inr (), n))) (recorded_store example_store)
     (\<lambda>_. 2000) 100 (0, []) = (Inl (), (1, l)) \<and>
     l = [Published example_worker_event, Marked ''evt_1'' (toISOString 2000), PublishFailed example_worker_event ()] \<and>
     worked [example_worker_event, example_worker_event, example_worker_event] l (Some ())"
proof -
  let ?l = "[Published example_worker_event, Marked ''evt_1'' (toISOString 2000), PublishFailed example_worker_event ()]"
  have "runOnce (recorded_publish (\<lambda>e n. (if n = 1 then Inl () else Inr (), n))) (recorded_store example_store)
      (\<lambda>_. 2000) 100 (0, []) = (Inl (), (1, ?l))"
    by (simp add: runOnce_def seqM_def example_store_def returnM_def)
      (simp add: example_worker_event_def)
  from this outbox_published_in_order [OF this] show ?thesis
    by (simp add: example_store_def returnM_def del: worked.simps)
qed

theorem private_addresses_are_networks_witness:
  "isPrivateAddress (\<lambda>_. 4) (dotted ''172'' ''31'' ''0'' ''9'') \<and>
   (\<exists>(network, bits) \<in> set refused_networks. in_network (ipv4 172 31 0 9) network bits)"
proof -
  have n: "number_from 0 ''172'' = Some 172" "number_from 0 ''31'' = Some 31" "number_from 0 ''0'' = Some 0"
    "number_from 0 ''9'' = Some 9" by code_simp+
  have "private_v4 (dotted ''172'' ''31'' ''0'' ''9'')" by code_simp
  then have "isPrivateAddress (\<lambda>_. 4) (dotted ''172'' ''31'' ''0'' ''9'')" by (simp add: isPrivateAddress_def)
  then show ?thesis using private_addresses_are_networks [OF _ n, of "\<lambda>_. 4"] by simp
qed

end
