(* ===== verification/Sealed_Subject.thy ===== *)
theory Sealed_Subject
  imports Subject_Envelope
begin

text \<open>
  The subject envelope at its two ends: the browser of \<^verbatim>\<open>apps/web/lib/subject-envelope.ts\<close>, which seals
  the identifiers of a subject for an agent's key, and the agent of
  \<^verbatim>\<open>agent/crates/agent-store/src/crypto.rs\<close>, which opens them. WebCrypto and the Rust cryptography
  (X25519, HKDF, AES-GCM, SHA-256), the two JSON writers and the parser are arguments, as are the
  ephemeral key pair and the random salt and iv of a call.
\<close>

subsection \<open>In the browser\<close>

definition SUBJECT_ENVELOPE_ALGORITHM :: string where
  "SUBJECT_ENVELOPE_ALGORITHM = ''X25519-HKDF-SHA256-AES-256-GCM''"

definition HKDF_INFO :: bytes where
  "HKDF_INFO = utf8 ''forgetops.subject-envelope.v1''"

record sealed_envelope =
  sv_version :: int
  sv_algorithm :: string
  sv_requestId :: string
  sv_environmentId :: string
  sv_encryptionKeyId :: string
  sv_ephemeralPublicKey :: string
  sv_salt :: string
  sv_iv :: string
  sv_ciphertext :: string

record sealing_options =
  so_environmentId :: string
  so_requestId :: string
  so_publicKey :: string
  so_encryptionKeyId :: string

text \<open>The errors the module throws by their texts, and what \<open>atob\<close> and WebCrypto throw.\<close>

datatype sealing_error = SealingError string | AtobThrows | WebCryptoThrows

text \<open>WebCrypto: an imported key is \<open>'k\<close>, the private half of the ephemeral pair \<open>'p\<close>.\<close>

record ('k, 'p) web_crypto =
  wc_digest :: "bytes \<Rightarrow> bytes"
  wc_importKey :: "bytes \<Rightarrow> 'k option"
  wc_deriveBits :: "'p \<Rightarrow> 'k \<Rightarrow> bytes option"
  wc_hkdf :: "bytes \<Rightarrow> bytes \<Rightarrow> bytes \<Rightarrow> bytes"
  wc_encrypt :: "bytes \<Rightarrow> bytes \<Rightarrow> bytes \<Rightarrow> bytes \<Rightarrow> bytes"

text \<open>What \<open>generateKey\<close> and \<open>getRandomValues\<close> yield in a call.\<close>

record 'p sealing_random =
  rn_privateKey :: 'p
  rn_publicKey :: bytes
  rn_salt :: bytes
  rn_iv :: bytes

definition identifier_keys :: "string list" where
  "identifier_keys = [''applicationUserId'', ''email'']"

text \<open>A member that is there is a text; one that is not there is \<open>undefined\<close>.\<close>

definition optional_text :: "(string \<times> json) list \<Rightarrow> string \<Rightarrow> bool" where
  "optional_text ms k \<longleftrightarrow> (case map_of ms k of None \<Rightarrow> True | Some (JStr _) \<Rightarrow> True | _ \<Rightarrow> False)"

definition blank_member :: "(string \<times> json) list \<Rightarrow> string \<Rightarrow> bool" where
  "blank_member ms k \<longleftrightarrow> (case map_of ms k of Some (JStr s) \<Rightarrow> trim s = [] | _ \<Rightarrow> True)"

fun validateSubject :: "json \<Rightarrow> string option" where
  "validateSubject (JObj ms) =
     (if list_ex (\<lambda>(k, _). k \<notin> set identifier_keys) ms then Some ''SUBJECT_IDENTIFIER_INVALID''
      else if \<not> optional_text ms ''applicationUserId'' then Some ''SUBJECT_IDENTIFIER_INVALID''
      else if \<not> optional_text ms ''email'' then Some ''SUBJECT_IDENTIFIER_INVALID''
      else if blank_member ms ''applicationUserId'' \<and> blank_member ms ''email''
      then Some ''SUBJECT_IDENTIFIER_REQUIRED'' else None)"
| "validateSubject _ = Some ''SUBJECT_IDENTIFIER_INVALID''"

text \<open>The options are typed as texts; the pattern of the key id is the one the API tests.\<close>

definition validate_sealing_scope :: "sealing_options \<Rightarrow> string option" where
  "validate_sealing_scope o' =
     (if trim (so_environmentId o') = [] \<or> trim (so_requestId o') = [] then Some ''SUBJECT_ENVELOPE_SCOPE_REQUIRED''
      else if \<not> agent_key_text (so_encryptionKeyId o') then Some ''SUBJECT_ENVELOPE_KEY_ID_REQUIRED'' else None)"

definition key_id :: "(bytes \<Rightarrow> bytes) \<Rightarrow> bytes \<Rightarrow> string" where
  "key_id sha publicKey = ''x25519:sha256:'' @ hex_encode (sha publicKey)"

text \<open>
  \<open>atob\<close> of the padded text: a length one above a multiple of four cannot be padded; bits that do not
  fill a byte are dropped. \<open>encodeBase64Url\<close> is \<open>b64_encode\<close>.
\<close>

definition web_decodeBase64Url :: "string \<Rightarrow> sealing_error + bytes" where
  "web_decodeBase64Url value =
     (if \<not> b64_text value then Inl (SealingError ''SUBJECT_ENVELOPE_BASE64_INVALID'')
      else if length value mod 4 = 1 then Inl AtobThrows else Inr (b64_decode value))"

definition envelope_metadata :: "string \<Rightarrow> string \<Rightarrow> string \<Rightarrow> json" where
  "envelope_metadata key environment request = JObj [(''encryptionKeyId'', JStr key),
     (''environmentId'', JStr environment), (''requestId'', JStr request)]"

definition seal ::
  "('k, 'p) web_crypto \<Rightarrow> (json \<Rightarrow> string) \<Rightarrow> 'p sealing_random \<Rightarrow> json \<Rightarrow> sealing_options \<Rightarrow> bytes \<Rightarrow> sealed_envelope" where
  "seal wc stringify rn subject o' secret =
     (let encryptionKey = wc_hkdf wc secret (rn_salt rn) HKDF_INFO;
          metadata = envelope_metadata (so_encryptionKeyId o') (so_environmentId o') (so_requestId o');
          ciphertext = wc_encrypt wc encryptionKey (rn_iv rn) (utf8 (stringify metadata)) (utf8 (stringify subject))
      in \<lparr>sv_version = 1, sv_algorithm = SUBJECT_ENVELOPE_ALGORITHM, sv_requestId = so_requestId o',
          sv_environmentId = so_environmentId o', sv_encryptionKeyId = so_encryptionKeyId o',
          sv_ephemeralPublicKey = b64_encode (rn_publicKey rn), sv_salt = b64_encode (rn_salt rn),
          sv_iv = b64_encode (rn_iv rn), sv_ciphertext = b64_encode ciphertext\<rparr>)"

definition encryptSubject ::
  "('k, 'p) web_crypto option \<Rightarrow> (json \<Rightarrow> string) \<Rightarrow> 'p sealing_random \<Rightarrow> json \<Rightarrow> sealing_options \<Rightarrow>
   sealing_error + sealed_envelope" where
  "encryptSubject provider stringify rn subject o' =
     (case validateSubject subject of
        Some code \<Rightarrow> Inl (SealingError code)
      | None \<Rightarrow> (case validate_sealing_scope o' of
          Some code \<Rightarrow> Inl (SealingError code)
        | None \<Rightarrow> (case provider of
            None \<Rightarrow> Inl (SealingError ''SUBJECT_ENVELOPE_CRYPTO_UNAVAILABLE'')
          | Some wc \<Rightarrow> (case web_decodeBase64Url (so_publicKey o') of
              Inl e \<Rightarrow> Inl e
            | Inr recipient \<Rightarrow>
                if length recipient \<noteq> 32 then Inl (SealingError ''SUBJECT_ENVELOPE_PUBLIC_KEY_INVALID'')
                else if key_id (wc_digest wc) recipient \<noteq> so_encryptionKeyId o'
                then Inl (SealingError ''SUBJECT_ENVELOPE_KEY_ID_MISMATCH'')
                else (case Option.bind (wc_importKey wc recipient) (wc_deriveBits wc (rn_privateKey rn)) of
                        None \<Rightarrow> Inl WebCryptoThrows
                      | Some secret \<Rightarrow> Inr (seal wc stringify rn subject o' secret))))))"

text \<open>The object returned, in the order of its members.\<close>

definition sealed_members :: "sealed_envelope \<Rightarrow> (string \<times> json) list" where
  "sealed_members e = [(''version'', JNum (sv_version e)), (''algorithm'', JStr (sv_algorithm e)),
     (''requestId'', JStr (sv_requestId e)), (''environmentId'', JStr (sv_environmentId e)),
     (''encryptionKeyId'', JStr (sv_encryptionKeyId e)),
     (''ephemeralPublicKey'', JStr (sv_ephemeralPublicKey e)), (''salt'', JStr (sv_salt e)),
     (''iv'', JStr (sv_iv e)), (''ciphertext'', JStr (sv_ciphertext e))]"

subsection \<open>In the agent\<close>

text \<open>The agent has constants of its own; the two ends agree because they are the same.\<close>

definition AGENT_ENVELOPE_ALGORITHM :: string where
  "AGENT_ENVELOPE_ALGORITHM = ''X25519-HKDF-SHA256-AES-256-GCM''"

definition AGENT_HKDF_INFO :: bytes where
  "AGENT_HKDF_INFO = utf8 ''forgetops.subject-envelope.v1''"

lemma same_constants: "AGENT_ENVELOPE_ALGORITHM = SUBJECT_ENVELOPE_ALGORITHM" "AGENT_HKDF_INFO = HKDF_INFO"
  by (simp_all add: AGENT_ENVELOPE_ALGORITHM_def SUBJECT_ENVELOPE_ALGORITHM_def AGENT_HKDF_INFO_def HKDF_INFO_def)

record agent_subject =
  si_applicationUserId :: "string option"
  si_email :: "string option"

text \<open>
  \<open>URL_SAFE_NO_PAD.decode\<close>: no padding, no other characters, no bits that do not fill a byte, so that
  the text is the encoding of the bytes.
\<close>

definition url_safe_decode :: "string \<Rightarrow> bytes option" where
  "url_safe_decode s = (if list_all (\<lambda>c. c \<in> set b64_alphabet) s \<and> b64_encode (b64_decode s) = s
     then Some (b64_decode s) else None)"

definition decode_exact :: "nat \<Rightarrow> string \<Rightarrow> bytes option" where
  "decode_exact n s = Option.bind (url_safe_decode s) (\<lambda>bs. if length bs = n then Some bs else None)"

text \<open>\<open>decrypt key nonce aad message\<close> is \<open>None\<close> where the tag does not fit.\<close>

record agent_crypto =
  ac_sha :: "bytes \<Rightarrow> bytes"
  ac_publicKey :: bytes
  ac_sharedSecret :: "bytes \<Rightarrow> bytes"
  ac_hkdf :: "bytes \<Rightarrow> bytes \<Rightarrow> bytes \<Rightarrow> bytes"
  ac_decrypt :: "bytes \<Rightarrow> bytes \<Rightarrow> bytes \<Rightarrow> bytes \<Rightarrow> bytes option"
  ac_canonicalize :: "json \<Rightarrow> bytes option"
  ac_parse :: "bytes \<Rightarrow> json option"

definition validate_envelope_scope :: "agent_crypto \<Rightarrow> string \<Rightarrow> string \<Rightarrow> sealed_envelope \<Rightarrow> bool" where
  "validate_envelope_scope ac environment request e \<longleftrightarrow> sv_version e = 1 \<and>
     sv_algorithm e = AGENT_ENVELOPE_ALGORITHM \<and> sv_environmentId e = environment \<and>
     sv_requestId e = request \<and> sv_encryptionKeyId e = key_id (ac_sha ac) (ac_publicKey ac)"

definition canonical_aad :: "agent_crypto \<Rightarrow> sealed_envelope \<Rightarrow> bytes option" where
  "canonical_aad ac e =
     ac_canonicalize ac (envelope_metadata (sv_encryptionKeyId e) (sv_environmentId e) (sv_requestId e))"

text \<open>\<open>serde\<close> on \<open>SubjectIdentity\<close>: an object of the two fields, each at most once, a text, \<open>null\<close> or left out;
or an array of the two values.\<close>

fun text_or_null :: "json \<Rightarrow> string option option" where
  "text_or_null JNull = Some None"
| "text_or_null (JStr s) = Some (Some s)"
| "text_or_null _ = None"

definition optional_member :: "(string \<times> json) list \<Rightarrow> string \<Rightarrow> string option option" where
  "optional_member ms k =
     (case map_of ms k of None \<Rightarrow> Some None | Some j \<Rightarrow> text_or_null j)"

fun identity_of_json :: "json \<Rightarrow> agent_subject option" where
  "identity_of_json (JObj ms) =
     (if distinct (map fst ms) \<and> set (map fst ms) \<subseteq> set identifier_keys
      then Option.bind (optional_member ms ''applicationUserId'') (\<lambda>user.
           Option.bind (optional_member ms ''email'') (\<lambda>email.
             Some \<lparr>si_applicationUserId = user, si_email = email\<rparr>))
      else None)"
| "identity_of_json (JArr [user, email]) =
     Option.bind (text_or_null user) (\<lambda>u. Option.bind (text_or_null email) (\<lambda>e.
       Some \<lparr>si_applicationUserId = u, si_email = e\<rparr>))"
| "identity_of_json _ = None"

definition decrypt_subject_envelope ::
  "agent_crypto \<Rightarrow> string \<Rightarrow> string \<Rightarrow> sealed_envelope \<Rightarrow> agent_subject option" where
  "decrypt_subject_envelope ac environment request e =
     (if \<not> validate_envelope_scope ac environment request e then None
      else Option.bind (decode_exact 32 (sv_ephemeralPublicKey e)) (\<lambda>ephemeral.
           Option.bind (decode_exact 32 (sv_salt e)) (\<lambda>salt.
           Option.bind (decode_exact 12 (sv_iv e)) (\<lambda>nonce.
           Option.bind (url_safe_decode (sv_ciphertext e)) (\<lambda>ciphertext.
             if length ciphertext < 16 then None
             else Option.bind (canonical_aad ac e) (\<lambda>aad.
                  Option.bind (ac_decrypt ac (ac_hkdf ac (ac_sharedSecret ac ephemeral) salt AGENT_HKDF_INFO)
                    nonce aad ciphertext) (\<lambda>plaintext.
                  Option.bind (ac_parse ac plaintext) identity_of_json)))))))"

subsection \<open>The two ends agree\<close>

lemma encoded_length: "length (b64_encode bs) mod 4 \<noteq> 1"
  by (induction bs rule: b64_encode.induct) (simp_all add: b64_digits_def)

lemma web_decode_encode [codec]: "bs \<noteq> [] \<Longrightarrow> web_decodeBase64Url (b64_encode bs) = Inr bs"
  using encoded_length [of bs] by (simp add: web_decodeBase64Url_def codec)

lemma encoded_bytes [codec]: "isBase64UrlBytes (Some (JStr (b64_encode bs))) exact least \<longleftrightarrow>
    bs \<noteq> [] \<and> (exact = None \<or> exact = Some (length bs)) \<and> least \<le> length bs"
  by (cases "bs = []") (simp add: b64_text_def, auto simp: encoded_text Let_def)

lemma url_safe_decode_encode [simp]: "url_safe_decode (b64_encode bs) = Some bs"
  using b64_encode_alphabet [of bs] by (auto simp: url_safe_decode_def list_all_iff)

lemma decode_exact_encode [simp]: "decode_exact n (b64_encode bs) = (if length bs = n then Some bs else None)"
  by (simp add: decode_exact_def)

text \<open>
  The documented behaviour of the cryptography the two ends use: they hash and derive keys alike, their
  secrets are the two halves of one X25519 exchange, what AES-GCM encrypted it decrypts under the same key,
  nonce and additional data, and its output carries a 16-byte tag.
\<close>

definition crypto_agrees :: "('k, 'p) web_crypto \<Rightarrow> 'p sealing_random \<Rightarrow> agent_crypto \<Rightarrow> bool" where
  "crypto_agrees wc rn ac \<longleftrightarrow> wc_digest wc = ac_sha ac \<and> wc_hkdf wc = ac_hkdf ac \<and>
     (\<forall>k secret. wc_importKey wc (ac_publicKey ac) = Some k \<and> wc_deriveBits wc (rn_privateKey rn) k = Some secret \<longrightarrow>
        ac_sharedSecret ac (rn_publicKey rn) = secret) \<and>
     (\<forall>key iv aad m. ac_decrypt ac key iv aad (wc_encrypt wc key iv aad m) = Some m \<and>
        16 \<le> length (wc_encrypt wc key iv aad m)) \<and>
     length (rn_publicKey rn) = 32 \<and> length (rn_salt rn) = 32 \<and> length (rn_iv rn) = 12"

text \<open>
  The API and the agent read what the browser writes, and its canonical bytes of the metadata are those of
  \<open>JSON.stringify\<close>, whose members are already in order.
\<close>

definition json_agrees :: "(json \<Rightarrow> string) \<Rightarrow> (string \<Rightarrow> json option) \<Rightarrow> agent_crypto \<Rightarrow> json \<Rightarrow> sealed_envelope \<Rightarrow> bool" where
  "json_agrees stringify parseJson ac subject e \<longleftrightarrow>
     parseJson (stringify (JObj (sealed_members e))) = Some (JObj (sealed_members e)) \<and>
     ac_parse ac (utf8 (stringify subject)) = Some subject \<and>
     (\<forall>key environment request. ac_canonicalize ac (envelope_metadata key environment request) =
        Some (utf8 (stringify (envelope_metadata key environment request))))"

lemma encryptSubject_ok:
  assumes "encryptSubject provider stringify rn subject o' = Inr e"
  obtains wc k secret where "provider = Some wc" "validateSubject subject = None"
    "validate_sealing_scope o' = None" "length (b64_decode (so_publicKey o')) = 32"
    "key_id (wc_digest wc) (b64_decode (so_publicKey o')) = so_encryptionKeyId o'"
    "wc_importKey wc (b64_decode (so_publicKey o')) = Some k" "wc_deriveBits wc (rn_privateKey rn) k = Some secret"
    "e = seal wc stringify rn subject o' secret"
  using assms
  by (auto simp: encryptSubject_def web_decodeBase64Url_def bind_eq_Some_conv
      split: option.splits if_splits sum.splits)

lemma sealed_accepted:
  assumes "crypto_agrees wc rn ac" "json_agrees stringify parseJson ac subject e"
    and e: "e = seal wc stringify rn subject o' secret"
    and "st_ciphertext i = stringify (JObj (sealed_members e))" "st_requestId i = so_requestId o'"
      "st_environmentId i = so_environmentId o'" "st_encryptionKeyId i = so_encryptionKeyId o'"
  shows "validateSerializedEnvelope parseJson i"
proof -
  have "sort_texts (map fst (sealed_members e)) = envelope_keys"
    by (simp add: sealed_members_def) code_simp
  moreover have random: "rn_publicKey rn \<noteq> []" "rn_salt rn \<noteq> []" "rn_iv rn \<noteq> []"
    "length (rn_publicKey rn) = 32" "length (rn_salt rn) = 32" "length (rn_iv rn) = 12"
    using assms(1) by (auto simp: crypto_agrees_def)
  moreover obtain ct where ct: "sv_ciphertext e = b64_encode ct" "16 \<le> length ct"
    using assms(1) by (simp add: e seal_def Let_def crypto_agrees_def)
  moreover from this have "ct \<noteq> []" by auto
  ultimately have "envelope_members_ok i (sealed_members e)"
    using assms(5-7) by (simp add: envelope_members_ok_def sealed_members_def codec del: isBase64UrlBytes.simps)
      (simp add: e seal_def Let_def SUBJECT_ENVELOPE_ALGORITHM_def codec del: isBase64UrlBytes.simps)
  then show ?thesis using assms by (simp add: validateSerializedEnvelope_def json_agrees_def)
qed

lemma valid_subject_identity:
  assumes "validateSubject subject = None" "subject = JObj ms" "distinct (map fst ms)"
  obtains s where "identity_of_json subject = Some s"
    "\<not> ((case si_applicationUserId s of None \<Rightarrow> True | Some u \<Rightarrow> trim u = []) \<and>
        (case si_email s of None \<Rightarrow> True | Some u \<Rightarrow> trim u = []))"
proof -
  have "set (map fst ms) \<subseteq> set identifier_keys" "optional_text ms ''applicationUserId''" "optional_text ms ''email''"
    "\<not> (blank_member ms ''applicationUserId'' \<and> blank_member ms ''email'')"
    using assms(1,2) by (auto simp: list_ex_iff split: if_splits)
  then show ?thesis using that assms(2,3)
    by (auto simp: optional_text_def optional_member_def blank_member_def split: option.splits json.splits)
qed

lemma sealed_opened:
  assumes "crypto_agrees wc rn ac" "json_agrees stringify parseJson ac subject e"
    and "e = seal wc stringify rn subject o' secret"
    and "ac_sharedSecret ac (rn_publicKey rn) = secret"
    and "so_encryptionKeyId o' = key_id (ac_sha ac) (ac_publicKey ac)"
  shows "decrypt_subject_envelope ac (so_environmentId o') (so_requestId o') e = identity_of_json subject"
proof -
  have "\<not> length (wc_encrypt wc key iv aad m) < 16" for key iv aad m
    using assms(1) by (simp add: crypto_agrees_def not_less)
  then show ?thesis
    using assms by (simp add: decrypt_subject_envelope_def validate_envelope_scope_def canonical_aad_def seal_def
        same_constants Let_def crypto_agrees_def json_agrees_def)
qed

text \<open>C23. A subject the browser seals for an agent's key reaches that agent: the API's checks accept the
envelope for its request, environment and key, the agent opens it and reads the identifiers, at least one
of which is not blank, and for any other request or environment it opens nothing.\<close>

theorem sealed_subject_reaches_agent:
  assumes "encryptSubject (Some wc) stringify rn (JObj ms) o' = Inr e" "distinct (map fst ms)"
    and "crypto_agrees wc rn ac" "json_agrees stringify parseJson ac (JObj ms) e"
    and "b64_decode (so_publicKey o') = ac_publicKey ac"
    and "st_ciphertext i = stringify (JObj (sealed_members e))" "st_requestId i = so_requestId o'"
      "st_environmentId i = so_environmentId o'" "st_encryptionKeyId i = so_encryptionKeyId o'"
  shows "validateSerializedEnvelope parseJson i \<and>
    (\<exists>s. decrypt_subject_envelope ac (so_environmentId o') (so_requestId o') e = Some s \<and>
       identity_of_json (JObj ms) = Some s \<and>
       ((\<exists>u. si_applicationUserId s = Some u \<and> trim u \<noteq> []) \<or> (\<exists>u. si_email s = Some u \<and> trim u \<noteq> []))) \<and>
    (\<forall>environment request. (environment, request) \<noteq> (so_environmentId o', so_requestId o') \<longrightarrow>
       decrypt_subject_envelope ac environment request e = None)"
proof -
  from encryptSubject_ok [OF assms(1)] obtain k secret where sealed: "validateSubject (JObj ms) = None"
    "key_id (wc_digest wc) (ac_publicKey ac) = so_encryptionKeyId o'"
    "wc_importKey wc (ac_publicKey ac) = Some k" "wc_deriveBits wc (rn_privateKey rn) k = Some secret"
    "e = seal wc stringify rn (JObj ms) o' secret" unfolding assms(5) by (metis option.inject)
  from assms(3) sealed have shared: "ac_sharedSecret ac (rn_publicKey rn) = secret"
    "so_encryptionKeyId o' = key_id (ac_sha ac) (ac_publicKey ac)" by (auto simp: crypto_agrees_def)
  have "validateSerializedEnvelope parseJson i"
    by (rule sealed_accepted [OF assms(3,4) sealed(5) assms(6-9)])
  moreover have opened: "decrypt_subject_envelope ac (so_environmentId o') (so_requestId o') e =
      identity_of_json (JObj ms)"
    by (rule sealed_opened [OF assms(3,4) sealed(5) shared])
  moreover obtain s where "identity_of_json (JObj ms) = Some s"
    "(\<exists>u. si_applicationUserId s = Some u \<and> trim u \<noteq> []) \<or> (\<exists>u. si_email s = Some u \<and> trim u \<noteq> [])"
    by (rule valid_subject_identity [OF sealed(1) refl assms(2)]) (auto split: option.splits)
  moreover have "decrypt_subject_envelope ac environment request e = None"
    if "(environment, request) \<noteq> (so_environmentId o', so_requestId o')" for environment request
    using that by (auto simp: sealed(5) decrypt_subject_envelope_def validate_envelope_scope_def seal_def Let_def)
  ultimately show ?thesis by auto
qed

text \<open>An exchange with toy cryptography: the tag is sixteen bytes put before the message.\<close>

definition example_crypto :: "(unit, unit) web_crypto" where
  "example_crypto = \<lparr>wc_digest = (\<lambda>_. replicate 32 0), wc_importKey = (\<lambda>_. Some ()), wc_deriveBits = (\<lambda>_ _. Some [7]),
     wc_hkdf = (\<lambda>_ _ _. []), wc_encrypt = (\<lambda>_ _ _ m. replicate 16 1 @ m)\<rparr>"

definition example_random :: "unit sealing_random" where
  "example_random = \<lparr>rn_privateKey = (), rn_publicKey = replicate 32 2, rn_salt = replicate 32 3, rn_iv = replicate 12 4\<rparr>"

definition example_subject :: "(string \<times> json) list" where
  "example_subject = [(''email'', JStr ''a@b'')]"

definition example_options :: sealing_options where
  "example_options = \<lparr>so_environmentId = ''env_1'', so_requestId = ''req_1'', so_publicKey = b64_encode (replicate 32 9),
     so_encryptionKeyId = key_id (\<lambda>_. replicate 32 0) []\<rparr>"

definition example_agent_crypto :: agent_crypto where
  "example_agent_crypto = \<lparr>ac_sha = (\<lambda>_. replicate 32 0), ac_publicKey = replicate 32 9, ac_sharedSecret = (\<lambda>_. [7]),
     ac_hkdf = (\<lambda>_ _ _. []), ac_decrypt = (\<lambda>_ _ _ c. Some (drop 16 c)), ac_canonicalize = (\<lambda>_. Some (utf8 ''{}'')),
     ac_parse = (\<lambda>_. Some (JObj example_subject))\<rparr>"

definition example_envelope_input :: store_subject_envelope_input where
  "example_envelope_input = \<lparr>st_tenantId = ''ten_1'', st_environmentId = ''env_1'', st_requestId = ''req_1'',
     st_ciphertext = ''{}'', st_encryptionKeyId = so_encryptionKeyId example_options, st_expiresAt = []\<rparr>"

lemma example_sealed_subject:
  "encryptSubject (Some example_crypto) (\<lambda>_. ''{}'') example_random (JObj example_subject) example_options =
     Inr (seal example_crypto (\<lambda>_. ''{}'') example_random (JObj example_subject) example_options [7])"
proof -
  have "agent_key_text (so_encryptionKeyId example_options)"
    unfolding example_options_def key_id_def sealing_options.simps by code_simp
  moreover have "trim ''env_1'' \<noteq> []" "trim ''req_1'' \<noteq> []" "trim ''a@b'' \<noteq> []" by code_simp+
  moreover have "web_decodeBase64Url (so_publicKey example_options) = Inr (replicate 32 9)"
    unfolding example_options_def sealing_options.simps by (rule web_decode_encode) simp
  moreover have "so_environmentId example_options = ''env_1''" "so_requestId example_options = ''req_1''"
    "so_encryptionKeyId example_options = key_id (wc_digest example_crypto) (replicate 32 9)"
    by (simp_all add: example_options_def key_id_def example_crypto_def)
  moreover have "validateSubject (JObj example_subject) = None"
    using calculation by (simp add: example_subject_def identifier_keys_def optional_text_def blank_member_def)
  moreover have "Option.bind (wc_importKey example_crypto k) (wc_deriveBits example_crypto p) = Some [7]" for k p
    by (simp add: example_crypto_def)
  ultimately show ?thesis by (simp add: encryptSubject_def validate_sealing_scope_def del: validateSubject.simps)
qed

theorem sealed_subject_reaches_agent_witness:
  "\<exists>e s. encryptSubject (Some example_crypto) (\<lambda>_. ''{}'') example_random (JObj example_subject) example_options = Inr e \<and>
     decrypt_subject_envelope example_agent_crypto ''env_1'' ''req_1'' e = Some s \<and> si_email s = Some ''a@b'' \<and>
     decrypt_subject_envelope example_agent_crypto ''env_1'' ''req_2'' e = None"
proof -
  let ?e = "seal example_crypto (\<lambda>_. ''{}'') example_random (JObj example_subject) example_options [7]"
  let ?parse = "\<lambda>_. Some (JObj (sealed_members ?e))"
  have crypto: "crypto_agrees example_crypto example_random example_agent_crypto"
    by (simp add: crypto_agrees_def example_crypto_def example_random_def example_agent_crypto_def)
  have json: "json_agrees (\<lambda>_. ''{}'') ?parse example_agent_crypto (JObj example_subject) ?e"
    by (simp add: json_agrees_def example_agent_crypto_def)
  have keys: "distinct (map fst example_subject)"
    "b64_decode (so_publicKey example_options) = ac_publicKey example_agent_crypto"
    by (simp_all add: example_subject_def example_options_def example_agent_crypto_def)
  have input: "st_ciphertext example_envelope_input = ''{}''"
    "st_requestId example_envelope_input = so_requestId example_options"
    "st_environmentId example_envelope_input = so_environmentId example_options"
    "st_encryptionKeyId example_envelope_input = so_encryptionKeyId example_options"
    by (simp_all add: example_envelope_input_def example_options_def)
  note reaches = sealed_subject_reaches_agent [OF example_sealed_subject keys(1) crypto json keys(2) input]
  have scope: "so_environmentId example_options = ''env_1''" "so_requestId example_options = ''req_1''"
    by (simp_all add: example_options_def)
  from reaches obtain s where "decrypt_subject_envelope example_agent_crypto ''env_1'' ''req_1'' ?e = Some s"
    "identity_of_json (JObj example_subject) = Some s" unfolding scope by (elim conjE exE)
  moreover from this(2) have "si_email s = Some ''a@b''"
    by (auto simp: example_subject_def identifier_keys_def optional_member_def)
  moreover from reaches have "decrypt_subject_envelope example_agent_crypto ''env_1'' ''req_2'' ?e = None"
    unfolding scope by simp
  ultimately show ?thesis using example_sealed_subject by (intro exI conjI)
qed

end
