(* ===== verification/Spec2Isabelle.thy ===== *)
theory Spec2Isabelle
  imports Privacy_Request_Properties Audit_Chain Adapter_Properties Execution_Policy Idempotency Agent_Gateway_Properties Access_Properties Pairing_Properties Subject_Properties Planning_Properties Identity_Properties Worker_Properties Sealed_Subject
begin

text \<open>
  ForgetOps: the core logic of the privacy-request system, translated from its TypeScript sources.

  \<^bold>\<open>The program.\<close> A tenant's privacy request (export or erasure of one data subject) is an aggregate of the
  control plane that goes through identity verification, planning, approval, authorization and
  execution. The control plane stores it, with an audit chain and an outbox, in PostgreSQL. An agent in the
  customer's network is paired with an environment, binds the sealed subject of a request, receives signed
  jobs over a WebSocket or by polling and asks the customer's application, through the SDK's adapter, to
  discover, export, erase and verify. A separate signer issues execution authorizations and leases. A
  worker publishes the outbox as notifications and webhooks; a portal shows the subject the request.

  \<^bold>\<open>How the code is modelled.\<close> A method that changes state is an action of \<^verbatim>\<open>Prelude\<close>: a function from the
  state to an outcome (\<open>Inl\<close> an error thrown, \<open>Inr\<close> a value) and the state after, so what a throw leaves behind
  is part of the model. A transaction is an action on the record of all tables (\<^verbatim>\<open>Database\<close>) that restores
  it on an error and sees only its tenant's rows. A service that keeps a \<open>Map\<close> in memory is an action on a
  map. Interfaces of the code are records of actions, and the laws both implementations keep are locales
  that are interpreted on them. Where a call waits for something outside and others may run meanwhile, it is
  split there (\<^verbatim>\<open>begin_consume\<close> and \<^verbatim>\<open>finish_consume\<close>), or the others are an argument
  (\<^verbatim>\<open>sendAvailableJob\<close>).

  \<^bold>\<open>Theories, by component.\<close>

  \<^item> \<^verbatim>\<open>Prelude\<close>, \<^verbatim>\<open>Bytes\<close>, \<^verbatim>\<open>Dates\<close>, \<^verbatim>\<open>Json\<close>: actions with simp rules that read an outcome backwards; hex,
    base64url and UTF-8; the calendar behind \<open>toISOString\<close> and \<open>Date.parse\<close>; JSON values and the schema
    combinators for what the sources use of zod.
  \<^item> \<^verbatim>\<open>Privacy_Request\<close>, \<^verbatim>\<open>Privacy_Request_Invariants\<close>, \<^verbatim>\<open>Privacy_Request_Properties\<close>: the aggregate of
    \<^verbatim>\<open>packages/domain/src/privacy-request\<close>, one definition per command, its table of transitions and its
    snapshots. Lemmas: the lifecycle as an abstract machine and the refinement of it by the commands, the
    invariant of attempts, versions counted by events, final states, and that execution needs an approval
    of the attached plan.
  \<^item> \<^verbatim>\<open>Audit_Chain\<close>: \<^verbatim>\<open>packages/domain/src/audit\<close>. Verification accepts exactly the chains that building
    yields, and a change to an accepted chain that is accepted again is a hash collision.
  \<^item> \<^verbatim>\<open>Database\<close>, \<^verbatim>\<open>Request_Store\<close>, \<^verbatim>\<open>Request_Store_Properties\<close>, \<^verbatim>\<open>Idempotency\<close>: \<^verbatim>\<open>packages/database/src\<close>:
    the tables with their constraints, the transactions, the request repository and the idempotency
    records. Saving keeps the chains, refuses a stale version, publishes the pending events and is read
    back; one claim of a key wins and its one response is replayed.
  \<^item> \<^verbatim>\<open>Hierarchy\<close>, \<^verbatim>\<open>Hierarchy_Properties\<close>, \<^verbatim>\<open>Access\<close>, \<^verbatim>\<open>Access_Properties\<close>: tenants, projects and environments in
    memory and on the tables (\<^verbatim>\<open>apps/api/src/hierarchy-store.ts\<close> and \<^verbatim>\<open>repositories/hierarchy-store.ts\<close>), the
    use cases, roles (\<^verbatim>\<open>packages/auth\<close>), the caller's context and the routes. The locale \<^verbatim>\<open>hierarchy_store\<close>
    has both stores as instances; the tables refine the store in memory, and a call reads and changes rows
    of its caller's tenant only.
  \<^item> \<^verbatim>\<open>Pairing\<close>, \<^verbatim>\<open>Pairing_Properties\<close>: tokens, proofs of key possession, both repositories and the routes of
    \<^verbatim>\<open>apps/api/src/modules/agents\<close>. The locale \<^verbatim>\<open>pairing_store\<close> gives that a token pairs once.
  \<^item> \<^verbatim>\<open>Subject_Envelope\<close>, \<^verbatim>\<open>Subject_Properties\<close>, \<^verbatim>\<open>Sealed_Subject\<close>: storing an envelope and binding a subject with
    the resolution of duplicates (\<^verbatim>\<open>subject-envelope-service.ts\<close>); sealing in the browser
    (\<^verbatim>\<open>apps/web/lib/subject-envelope.ts\<close>) and opening in the agent (\<^verbatim>\<open>agent-store/src/crypto.rs\<close>), which are
    shown to agree with each other and with the API's checks.
  \<^item> \<^verbatim>\<open>Planning\<close>, \<^verbatim>\<open>Planning_Properties\<close>: the plan, approval and export-capability services. Plans move to later
    versions only; a current approval is one given by another person for this very plan.
  \<^item> \<^verbatim>\<open>Identity\<close>, \<^verbatim>\<open>Identity_Properties\<close>: subject assertions, magic links and the portal.
  \<^item> \<^verbatim>\<open>Agent_Messages\<close>, \<^verbatim>\<open>Agent_Jobs\<close>, \<^verbatim>\<open>Agent_Gateway\<close> and their properties: the signed messages
    (\<^verbatim>\<open>packages/contracts/src/agent-message.ts\<close>, \<^verbatim>\<open>message-signer.ts\<close>), the job repository, polling and the
    WebSocket as a step function over a connection's state. Accepted sequence numbers increase (locale
    \<^verbatim>\<open>sequence_store\<close>), a lease has one holder, an offered job can be leased, an authenticated message is
    one the agent's key signed, and a socket sends its challenge first and then serves the one agent that
    answered it.
  \<^item> \<^verbatim>\<open>Execution_Policy\<close>: \<^verbatim>\<open>apps/signer\<close>, the lease service and the kill switch. What is signed is backed by the
    policy, a lease has the scope of its authorization and ends at most 90 seconds after it, and an issued
    lease verifies.
  \<^item> \<^verbatim>\<open>Adapter_Signature\<close>, \<^verbatim>\<open>Adapter_Service\<close>, \<^verbatim>\<open>Adapter_Properties\<close>: \<^verbatim>\<open>sdk/typescript\<close>: request signatures, the nonce
    stores in memory and in a file (locale \<^verbatim>\<open>nonce_store\<close>), the routes, and exports as streams of bounded
    frames. Only signed requests act, and a captured one acts once, restarts included.
  \<^item> \<^verbatim>\<open>Worker\<close>, \<^verbatim>\<open>Worker_Properties\<close>: \<^verbatim>\<open>apps/worker\<close>, \<^verbatim>\<open>packages/observability\<close> and the SDK's logger. The outbox is
    worked through in order up to the first call that fails; posting a webhook ends after at most four
    fetches, none to an address in the listed networks unless the caller allows it; notifications and log lines carry the listed fields only.

  \<^bold>\<open>Bounds.\<close> No definition has fuel: loops are recursions on lists, or on the number of redirects left. Texts
  are lists of the 256 characters of HOL, so a text is a list of code units below 256. Numbers in
  JSON are integers, of any size. Dates are milliseconds from 1970 to the end of the year 9999; a property
  that writes and reads a date assumes the clock there.

  \<^bold>\<open>Arguments of the model.\<close> Code outside the repository is an argument: SHA-256, HMAC, Ed25519, X25519, HKDF
  and AES-GCM, the canonicaliser, \<open>JSON.parse\<close> and \<open>JSON.stringify\<close>, \<open>URL\<close>, \<open>isIP\<close>, DNS, \<open>fetch\<close>, \<open>localeCompare\<close>,
  clocks and random bytes, the replay store, the magic-link adapter and the sinks. Where a property needs
  something of them it is a hypothesis (\<^verbatim>\<open>crypto_agrees\<close>, \<^verbatim>\<open>json_agrees\<close>, \<^verbatim>\<open>remembers\<close>) or one of the cases of
  the conclusion (a hash collision).

  \<^bold>\<open>Simplifications.\<close> Transactions are serial, so advisory and row locks have no effect of their own. Of
  the constraints and policies of the migrations those the TypeScript relies on are in \<^verbatim>\<open>Database\<close>; an
  insert that fails names the violated index only where the code looks at it. Texts are ordered by code
  point where PostgreSQL uses its collation. The unique index on the environment and hash of an audit event
  and the reference from a request to its current attempt are left out. A claim that is a number is no date
  (\<open>Date.parse\<close> would read it as text), a timestamp claim of the signer is any text \<open>Date.parse\<close> reads, and a
  torn last line of the nonce file is not modelled. The two store calls of an authentication are one step of the
  WebSocket machine.

  \<^bold>\<open>Not modelled.\<close> The wiring of the applications and re-exports, the database client, the SQL migrations as
  such, React pages, the unused schemas of identifiers, tests and fixtures; and the Rust agent with its
  connectors, except for the opening of an envelope: what an agent sends is arbitrary here.
\<close>

end
